(* ===== verification/Prelude.thy ===== *)
theory Prelude
  imports Main "HOL-Library.AList" "HOL-Library.Char_ord" "HOL-Library.List_Lexorder"
    "HOL-Library.Multiset" "HOL-Library.Word" "HOL-Library.Monad_Syntax"
begin

text \<open>
  Shared vocabulary of the development: the parts of Go's standard library that the operator
  uses on strings and maps, the representation of Go values that have no counterpart in HOL
  (maps, pass-through API values, run-time panics), and the generic lemmas the component
  theories rest on.

  \<^item> A Go \<open>map[string]string\<close> is a \<open>gomap\<close>, an association list. A nil map and
    an empty one are both \<open>[]\<close>. The order of the list is one order in which a
    \<open>range\<close> loop may visit the entries; statements that must not depend on that order
    compare maps by \<open>map_of\<close>.
  \<^item> A call that may panic returns an \<open>option\<close>: \<open>None\<close> is the panic (an index out of
    range, a nil dereference).
  \<^item> Strings are lists of bytes. The case conversions are those of ASCII, the alphabet of
    Kubernetes names and of the setting names the operator handles.
\<close>

named_theorems names \<open>definitions of the names of Kubernetes resources\<close>

named_theorems frame \<open>parts of the state an operation leaves alone\<close>

named_theorems outcome \<open>what an operation returns on each of its branches\<close>

subsection \<open>Strings\<close>

definition lower_char :: "char \<Rightarrow> char" where
  "lower_char c = (if 65 \<le> (of_char c :: nat) \<and> (of_char c :: nat) \<le> 90
                   then char_of ((of_char c :: nat) + 32) else c)"

definition upper_char :: "char \<Rightarrow> char" where
  "upper_char c = (if 97 \<le> (of_char c :: nat) \<and> (of_char c :: nat) \<le> 122
                   then char_of ((of_char c :: nat) - 32) else c)"

definition ToLower :: "string \<Rightarrow> string" where
  "ToLower s = map lower_char s"

definition ToUpper :: "string \<Rightarrow> string" where
  "ToUpper s = map upper_char s"

definition EqualFold :: "string \<Rightarrow> string \<Rightarrow> bool" where
  "EqualFold a b \<longleftrightarrow> ToLower a = ToLower b"

fun digits_of :: "nat \<Rightarrow> string" where
  "digits_of n = (if n < 10 then [char_of (48 + n)]
                  else digits_of (n div 10) @ [char_of (48 + n mod 10)])"

declare digits_of.simps [simp del]

definition Itoa :: "int \<Rightarrow> string" where
  "Itoa i = (if i < 0 then ''-'' @ digits_of (nat (- i)) else digits_of (nat i))"

text \<open>\<open>strings.Split(s, sep)\<close> for a separator of one byte: never empty.\<close>

fun Split :: "char \<Rightarrow> string \<Rightarrow> string list" where
  "Split sep [] = [[]]"
| "Split sep (c # cs) =
     (if c = sep then [] # Split sep cs
      else (case Split sep cs of [] \<Rightarrow> [[c]] | p # ps \<Rightarrow> (c # p) # ps))"

text \<open>\<open>strings.Replace(s, q, "", -1)\<close> for a one-byte \<open>q\<close>.\<close>

definition RemoveAll :: "char \<Rightarrow> string \<Rightarrow> string" where
  "RemoveAll q s = filter (\<lambda>c. c \<noteq> q) s"

text \<open>\<open>strconv.ParseBool\<close>, with the error ignored: anything it does not accept is false.\<close>

definition ParseBool :: "string \<Rightarrow> bool" where
  "ParseBool s \<longleftrightarrow> s \<in> {''1'', ''t'', ''T'', ''TRUE'', ''true'', ''True''}"

definition newline :: string where
  "newline = [CHR 0x0A]"

definition dquote :: string where
  "dquote = [CHR 0x22]"

definition squote :: string where
  "squote = [CHR 0x27]"

text \<open>To evaluate the case conversions on literals.\<close>

lemmas ascii = ToLower_def ToUpper_def lower_char_def upper_char_def char_of_def bit_0

lemma lower_char_idem [simp]: "lower_char (lower_char c) = lower_char c"
  by (auto simp: lower_char_def)

lemma upper_char_idem [simp]: "upper_char (upper_char c) = upper_char c"
  by (auto simp: upper_char_def)

lemma ToLower_idem [simp]: "ToLower (ToLower s) = ToLower s"
  by (simp add: ToLower_def)

lemma ToUpper_idem [simp]: "ToUpper (ToUpper s) = ToUpper s"
  by (simp add: ToUpper_def)

lemma ToLower_Nil [simp]: "ToLower [] = []"
  by (simp add: ToLower_def)

lemma ToLower_eq_Nil [simp]: "ToLower s = [] \<longleftrightarrow> s = []"
  by (simp add: ToLower_def)

lemma EqualFold_refl [simp]: "EqualFold s s"
  by (simp add: EqualFold_def)

lemma EqualFold_sym: "EqualFold a b \<Longrightarrow> EqualFold b a"
  by (simp add: EqualFold_def)

lemma Split_not_Nil [simp]: "Split sep s \<noteq> []"
  by (induction s) (auto split: list.splits)

text \<open>Joining the parts again with the separator gives the string back.\<close>

fun Join :: "char \<Rightarrow> string list \<Rightarrow> string" where
  "Join sep [] = []"
| "Join sep [p] = p"
| "Join sep (p # q # ps) = p @ sep # Join sep (q # ps)"

lemma Join_Cons: "ps \<noteq> [] \<Longrightarrow> Join sep (p # ps) = p @ sep # Join sep ps"
  by (cases ps) auto

lemma Join_hd: "Join sep ((c # p) # ps) = c # Join sep (p # ps)"
  by (cases ps) auto

lemma Join_Split: "Join sep (Split sep s) = s"
proof (induction s)
  case Nil
  show ?case by simp
next
  case (Cons c cs)
  show ?case
  proof (cases "c = sep")
    case True
    with Cons show ?thesis by (simp add: Join_Cons)
  next
    case False
    obtain p ps where "Split sep cs = p # ps"
      by (cases "Split sep cs") auto
    with False Cons show ?thesis by (simp add: Join_hd)
  qed
qed

lemma Split_no_sep: "p \<in> set (Split sep s) \<Longrightarrow> sep \<notin> set p"
  by (induction s arbitrary: p) (auto split: if_splits list.splits)

lemma Split_plain: "sep \<notin> set s \<Longrightarrow> Split sep s = [s]"
  by (induction s) auto

lemma Split_append: "sep \<notin> set a \<Longrightarrow> Split sep (a @ sep # b) = a # Split sep b"
  by (induction a) auto

lemma digits_of_not_Nil [simp]: "digits_of n \<noteq> []"
  by (subst digits_of.simps) simp

subsection \<open>Go maps\<close>

type_synonym gomap = "(string \<times> string) list"

definition gkeys :: "gomap \<Rightarrow> string set" where
  "gkeys m = set (map fst m)"

text \<open>A map lookup \<open>m[k]\<close> that ignores whether the key is there gives the zero value.\<close>

definition gget :: "gomap \<Rightarrow> string \<Rightarrow> string" where
  "gget m k = (case map_of m k of Some v \<Rightarrow> v | None \<Rightarrow> [])"

definition gset :: "string \<Rightarrow> string \<Rightarrow> gomap \<Rightarrow> gomap" where
  "gset k v m = AList.update k v m"

text \<open>\<open>maps.Copy(dst, src)\<close>: every entry of \<open>src\<close> overwrites the one of \<open>dst\<close>.\<close>

fun gcopy :: "gomap \<Rightarrow> gomap \<Rightarrow> gomap" where
  "gcopy dst [] = dst"
| "gcopy dst ((k, v) # src) = gcopy (gset k v dst) src"

text \<open>\<open>delete(m, k)\<close>.\<close>

definition gdelete :: "string \<Rightarrow> gomap \<Rightarrow> gomap" where
  "gdelete k m = filter (\<lambda>e. fst e \<noteq> k) m"

definition gmap_ok :: "gomap \<Rightarrow> bool" where
  "gmap_ok m \<longleftrightarrow> distinct (map fst m)"

text \<open>Two association lists that stand for the same map.\<close>

definition same_map :: "gomap \<Rightarrow> gomap \<Rightarrow> bool" where
  "same_map a b \<longleftrightarrow> (\<forall>k \<in> set (map fst a) \<union> set (map fst b). map_of a k = map_of b k)"

lemma same_map_iff: "same_map a b \<longleftrightarrow> map_of a = map_of b"
proof
  assume s: "same_map a b"
  show "map_of a = map_of b"
  proof
    fix k
    show "map_of a k = map_of b k"
    proof (cases "k \<in> set (map fst a) \<union> set (map fst b)")
      case True
      with s show ?thesis by (simp add: same_map_def)
    next
      case False
      then show ?thesis by (metis UnCI list.set_map map_of_eq_None_iff)
    qed
  qed
qed (simp add: same_map_def)

lemma map_of_gset [simp]: "map_of (gset k v m) = (map_of m)(k \<mapsto> v)"
  by (simp add: gset_def update_conv')

lemma gget_gset [simp]: "gget (gset k v m) k' = (if k' = k then v else gget m k')"
  by (simp add: gget_def)

lemma gmap_ok_gset [simp]: "gmap_ok m \<Longrightarrow> gmap_ok (gset k v m)"
  by (simp add: gmap_ok_def gset_def distinct_update)

lemma gkeys_gset [simp]: "gkeys (gset k v m) = insert k (gkeys m)"
  by (auto simp: gkeys_def gset_def dom_update)

lemma map_of_gcopy:
  "gmap_ok src \<Longrightarrow> map_of (gcopy dst src) = map_of dst ++ map_of src"
proof (induction src arbitrary: dst)
  case Nil
  show ?case by simp
next
  case (Cons e src)
  obtain k v where e: "e = (k, v)" by (cases e)
  with Cons.prems have ok: "gmap_ok src" and k: "map_of src k = None"
    by (auto simp: gmap_ok_def map_of_eq_None_iff)
  from Cons.IH [OF ok] k show ?case
    by (auto simp: e map_add_def fun_eq_iff split: option.splits)
qed

lemma gmap_ok_gcopy [simp]: "gmap_ok dst \<Longrightarrow> gmap_ok (gcopy dst src)"
  by (induction src arbitrary: dst) auto

lemma map_of_gdelete: "map_of (gdelete k m) = (map_of m)(k := None)"
  by (induction m) (auto simp: gdelete_def fun_eq_iff)

lemma gmap_ok_gdelete [simp]: "gmap_ok m \<Longrightarrow> gmap_ok (gdelete k m)"
  by (auto simp: gmap_ok_def gdelete_def distinct_map filter_set inj_on_def)

lemma gkeys_gdelete [simp]: "gkeys (gdelete k m) = gkeys m - {k}"
  by (auto simp: gkeys_def gdelete_def)

lemma gkeys_dom: "gkeys m = dom (map_of m)"
  by (simp add: gkeys_def dom_map_of_conv_image_fst)

text \<open>The sorted keys of a map do not depend on the order of the list.\<close>

lemma sorted_keys_unique:
  assumes "gmap_ok a" "gmap_ok b" "map_of a = map_of b"
  shows "sort (map fst a) = sort (map fst b)"
proof -
  have "set (map fst a) = set (map fst b)"
    using assms(3) gkeys_dom [of a] gkeys_dom [of b] by (simp add: gkeys_def)
  with assms(1,2) have "mset (map fst a) = mset (map fst b)"
    unfolding gmap_ok_def by (rule set_eq_iff_mset_eq_distinct [THEN iffD1])
  then show ?thesis
    by (metis mset_sort properties_for_sort sorted_sort)
qed

subsection \<open>API values the operator only passes on\<close>

text \<open>
  Scheduling rules, probes, resource requirements and the like are copied from the custom
  resource into the objects the operator builds. They are kept as the JSON documents they
  are on the wire.
\<close>

datatype json = JNull | JBool bool | JNum int | JStr string | JArr "json list"
  | JObj "(string \<times> json) list"

subsection \<open>Slices\<close>

text \<open>
  A slice is a list; where the code tells a nil slice from an empty one (\<open>reflect.DeepEqual\<close>,
  \<open>json.Marshal\<close>) it is an optional list, and \<open>elements\<close> is what \<open>len\<close> and \<open>range\<close> see of it.
\<close>

definition elements :: "'a list option \<Rightarrow> 'a list" where
  "elements xs = (case xs of Some ys \<Rightarrow> ys | None \<Rightarrow> [])"

lemma elements_simps [simp]: "elements None = []" "elements (Some xs) = xs"
  by (simp_all add: elements_def)

subsection \<open>Run-time panics\<close>

text \<open>Indexing a slice: out of range is a panic.\<close>

definition index :: "'a list \<Rightarrow> nat \<Rightarrow> 'a option" where
  "index xs i = (if i < length xs then Some (xs ! i) else None)"

lemma index_0 [simp]: "index (x # xs) 0 = Some x" "index [] i = None"
  by (simp_all add: index_def)

lemma index_eq_None [simp]: "index xs i = None \<longleftrightarrow> length xs \<le> i"
  by (auto simp: index_def)

lemma bind_eq_NoneE:
  assumes "Option.bind m f = None"
  obtains "m = None" | x where "m = Some x" "f x = None"
  using assms by (cases m) auto

end
