(* ===== verification/K8s_Types.thy ===== *)
theory K8s_Types
  imports Prelude
begin

text \<open>
  The Kubernetes and controller-runtime data types the operator reads and writes
  (\<open>k8s.io/api\<close>, \<open>k8s.io/apimachinery\<close>, \<open>sigs.k8s.io/controller-runtime\<close>), with the
  fields the operator's code touches. Each record comes with its Go zero value, the value
  of a variable declared as \<open>&T{}\<close> before the client fills it.
\<close>

subsection \<open>Metadata, conditions, results and errors\<close>

record ObjectMeta =
  meta_Name :: string
  meta_GenerateName :: string
  meta_Namespace :: string
  meta_Labels :: gomap
  meta_Annotations :: gomap
  meta_ResourceVersion :: string
  meta_Generation :: int
  meta_Controller :: "string option"

definition zero_ObjectMeta :: ObjectMeta where
  "zero_ObjectMeta = \<lparr>meta_Name = [], meta_GenerateName = [], meta_Namespace = [], meta_Labels = [],
     meta_Annotations = [], meta_ResourceVersion = [], meta_Generation = 0,
     meta_Controller = None\<rparr>"

datatype ConditionStatus = ConditionTrue | ConditionFalse | ConditionUnknown

record Condition =
  cond_Type :: string
  cond_Status :: ConditionStatus
  cond_Reason :: string
  cond_LastTransitionTime :: string
  cond_Message :: string

text \<open>\<open>ctrl.Result\<close>; \<open>RequeueAfter\<close> is a duration in nanoseconds.\<close>

record Result =
  Requeue :: bool
  RequeueAfter :: int

definition zero_Result :: Result where
  "zero_Result = \<lparr>Requeue = False, RequeueAfter = 0\<rparr>"

definition requeue_Result :: Result where
  "requeue_Result = \<lparr>Requeue = True, RequeueAfter = 0\<rparr>"

text \<open>
  A Go \<open>error\<close>: the classes of API errors the code tells apart (\<open>IsNotFound\<close>,
  \<open>IsConflict\<close>), and every other one with its message.
\<close>

datatype error = NotFound string | Conflict string | Errorf string

fun Error :: "error \<Rightarrow> string" where
  "Error (NotFound m) = m"
| "Error (Conflict m) = m"
| "Error (Errorf m) = m"

fun IsNotFound :: "error \<Rightarrow> bool" where
  "IsNotFound (NotFound _) = True"
| "IsNotFound _ = False"

fun IsConflict :: "error \<Rightarrow> bool" where
  "IsConflict (Conflict _) = True"
| "IsConflict _ = False"

lemma not_found_not_conflict: "IsNotFound e \<Longrightarrow> \<not> IsConflict e"
  by (cases e) auto

subsection \<open>Pods\<close>

datatype EnvVarSource = SecretKeyRef string string | ConfigMapKeyRef string string | FieldRef string

record EnvVar =
  env_Name :: string
  env_Value :: string
  env_ValueFrom :: "EnvVarSource option"

text \<open>Items are \<open>KeyToPath\<close> pairs; the default mode is the optional \<open>int32\<close>.\<close>

datatype VolumeSource =
    ConfigMapVolume string "int option" "(string \<times> string) list"
  | SecretVolume string "int option" "(string \<times> string) list"
  | PVCVolume string
  | EmptyDirVolume
  | NoVolumeSource

record Volume =
  vol_Name :: string
  vol_Source :: VolumeSource

record VolumeMount =
  vm_Name :: string
  vm_MountPath :: string
  vm_SubPath :: string
  vm_ReadOnly :: bool

record SecurityContext =
  sc_AllowPrivilegeEscalation :: "bool option"
  sc_CapabilitiesDrop :: "string list"
  sc_RunAsNonRoot :: "bool option"
  sc_SeccompProfile :: "string option"

record Container =
  ctr_Name :: string
  ctr_Image :: string
  ctr_ImagePullPolicy :: string
  ctr_Command :: "string list"
  ctr_Args :: "string list"
  ctr_Env :: "EnvVar list"
  ctr_Ports :: "json list"
  ctr_VolumeMounts :: "VolumeMount list"
  ctr_Resources :: json
  ctr_ReadinessProbe :: "json option"
  ctr_LivenessProbe :: "json option"
  ctr_SecurityContext :: "SecurityContext option"

definition zero_Container :: Container where
  "zero_Container = \<lparr>ctr_Name = [], ctr_Image = [], ctr_ImagePullPolicy = [],
     ctr_Command = [], ctr_Args = [], ctr_Env = [], ctr_Ports = [], ctr_VolumeMounts = [],
     ctr_Resources = JNull, ctr_ReadinessProbe = None, ctr_LivenessProbe = None,
     ctr_SecurityContext = None\<rparr>"

record PodSpec =
  pod_Affinity :: "json option"
  pod_SecurityContext :: "json option"
  pod_NodeSelector :: gomap
  pod_Tolerations :: "json list"
  pod_Volumes :: "Volume list"
  pod_ServiceAccountName :: string
  pod_DeprecatedServiceAccount :: string
  pod_TopologySpreadConstraints :: "json list"
  pod_InitContainers :: "Container list"
  pod_Containers :: "Container list"
  pod_RestartPolicy :: string
  pod_TerminationGracePeriodSeconds :: "int option"
  pod_DNSPolicy :: string
  pod_SchedulerName :: string

definition zero_PodSpec :: PodSpec where
  "zero_PodSpec = \<lparr>pod_Affinity = None, pod_SecurityContext = None, pod_NodeSelector = [],
     pod_Tolerations = [], pod_Volumes = [], pod_ServiceAccountName = [],
     pod_DeprecatedServiceAccount = [], pod_TopologySpreadConstraints = [],
     pod_InitContainers = [], pod_Containers = [], pod_RestartPolicy = [],
     pod_TerminationGracePeriodSeconds = None, pod_DNSPolicy = [], pod_SchedulerName = []\<rparr>"

record PodTemplateSpec =
  tmpl_Labels :: gomap
  tmpl_Annotations :: gomap
  tmpl_Spec :: PodSpec

definition zero_PodTemplateSpec :: PodTemplateSpec where
  "zero_PodTemplateSpec = \<lparr>tmpl_Labels = [], tmpl_Annotations = [], tmpl_Spec = zero_PodSpec\<rparr>"

text \<open>A pod: of the status, whether each of its containers is ready.\<close>

record Pod =
  po_Meta :: ObjectMeta
  po_Spec :: PodSpec
  po_Ready :: "bool list"

definition zero_Pod :: Pod where
  "zero_Pod = \<lparr>po_Meta = zero_ObjectMeta, po_Spec = zero_PodSpec, po_Ready = []\<rparr>"

subsection \<open>Workloads\<close>

record DeploymentStrategy =
  strat_Type :: string
  strat_RollingUpdate :: json

definition zero_DeploymentStrategy :: DeploymentStrategy where
  "zero_DeploymentStrategy = \<lparr>strat_Type = [], strat_RollingUpdate = JNull\<rparr>"

record DeploymentSpec =
  dspec_Replicas :: "int option"
  dspec_Strategy :: DeploymentStrategy
  dspec_Selector :: gomap
  dspec_Template :: PodTemplateSpec

definition zero_DeploymentSpec :: DeploymentSpec where
  "zero_DeploymentSpec = \<lparr>dspec_Replicas = None, dspec_Strategy = zero_DeploymentStrategy,
     dspec_Selector = [], dspec_Template = zero_PodTemplateSpec\<rparr>"

record Deployment =
  dep_Meta :: ObjectMeta
  dep_Spec :: DeploymentSpec
  dep_ReadyReplicas :: int
  dep_UnavailableReplicas :: int
  dep_StatusReplicas :: int

definition zero_Deployment :: Deployment where
  "zero_Deployment = \<lparr>dep_Meta = zero_ObjectMeta, dep_Spec = zero_DeploymentSpec,
     dep_ReadyReplicas = 0, dep_UnavailableReplicas = 0, dep_StatusReplicas = 0\<rparr>"

record Job =
  job_Meta :: ObjectMeta
  job_BackoffLimit :: "int option"
  job_TTLSecondsAfterFinished :: "int option"
  job_Template :: PodTemplateSpec
  job_Active :: int

record CronJob =
  cj_Meta :: ObjectMeta
  cj_Spec :: json

subsection \<open>Configuration, services, storage and ingress\<close>

text \<open>The values of a Secret are byte strings, those of \<open>StringData\<close> Go strings.\<close>

record Secret =
  sec_Meta :: ObjectMeta
  sec_Data :: gomap
  sec_StringData :: gomap

definition zero_Secret :: Secret where
  "zero_Secret = \<lparr>sec_Meta = zero_ObjectMeta, sec_Data = [], sec_StringData = []\<rparr>"

record ConfigMap =
  cm_Meta :: ObjectMeta
  cm_Data :: gomap

definition zero_ConfigMap :: ConfigMap where
  "zero_ConfigMap = \<lparr>cm_Meta = zero_ObjectMeta, cm_Data = []\<rparr>"

record ServicePort =
  sport_Name :: string
  sport_Port :: int
  sport_Protocol :: string
  sport_TargetPort :: int
  sport_NodePort :: int

record ServiceSpec =
  sspec_InternalTrafficPolicy :: "string option"
  sspec_IPFamilies :: "string list"
  sspec_IPFamilyPolicy :: "string option"
  sspec_Ports :: "ServicePort list"
  sspec_Selector :: gomap
  sspec_SessionAffinity :: string
  sspec_Type :: string
  sspec_ClusterIP :: string
  sspec_ClusterIPs :: "string list"
  sspec_PublishNotReadyAddresses :: bool

definition zero_ServiceSpec :: ServiceSpec where
  "zero_ServiceSpec = \<lparr>sspec_InternalTrafficPolicy = None, sspec_IPFamilies = [],
     sspec_IPFamilyPolicy = None, sspec_Ports = [], sspec_Selector = [],
     sspec_SessionAffinity = [], sspec_Type = [], sspec_ClusterIP = [], sspec_ClusterIPs = [],
     sspec_PublishNotReadyAddresses = False\<rparr>"

record Service =
  svc_Meta :: ObjectMeta
  svc_Spec :: ServiceSpec

definition zero_Service :: Service where
  "zero_Service = \<lparr>svc_Meta = zero_ObjectMeta, svc_Spec = zero_ServiceSpec\<rparr>"

record PersistentVolumeClaim =
  pvc_Meta :: ObjectMeta
  pvc_Storage :: string
  pvc_AccessModes :: "string list"
  pvc_StorageClassName :: "string option"

record Ingress =
  ing_Meta :: ObjectMeta
  ing_Spec :: json

definition zero_Ingress :: Ingress where
  "zero_Ingress = \<lparr>ing_Meta = zero_ObjectMeta, ing_Spec = JNull\<rparr>"

record Route =
  rt_Meta :: ObjectMeta
  rt_Spec :: json

subsection \<open>The database workload, disruption budgets, autoscalers and access rights\<close>

record StatefulSetSpec =
  stspec_Replicas :: "int option"
  stspec_Selector :: gomap
  stspec_Template :: PodTemplateSpec
  stspec_VolumeClaimTemplates :: "PersistentVolumeClaim list"

record StatefulSet =
  sts_Meta :: ObjectMeta
  sts_Spec :: StatefulSetSpec
  sts_ReadyReplicas :: int
  sts_StatusReplicas :: int

definition zero_StatefulSet :: StatefulSet where
  "zero_StatefulSet = \<lparr>sts_Meta = zero_ObjectMeta, sts_Spec = \<lparr>stspec_Replicas = None, stspec_Selector = [],
     stspec_Template = zero_PodTemplateSpec, stspec_VolumeClaimTemplates = []\<rparr>,
     sts_ReadyReplicas = 0, sts_StatusReplicas = 0\<rparr>"

text \<open>The selector is a \<open>LabelSelector\<close> as JSON, \<open>JNull\<close> for nil.\<close>

record PodDisruptionBudgetSpec =
  pdbs_MinAvailable :: json
  pdbs_Selector :: json
  pdbs_MaxUnavailable :: json
  pdbs_UnhealthyPodEvictionPolicy :: json

definition zero_PodDisruptionBudgetSpec :: PodDisruptionBudgetSpec where
  "zero_PodDisruptionBudgetSpec = \<lparr>pdbs_MinAvailable = JNull, pdbs_Selector = JNull,
     pdbs_MaxUnavailable = JNull, pdbs_UnhealthyPodEvictionPolicy = JNull\<rparr>"

record PodDisruptionBudget =
  pdb_Meta :: ObjectMeta
  pdb_Spec :: PodDisruptionBudgetSpec

text \<open>A resource metric: the resource and its target average utilisation.\<close>

record HorizontalPodAutoscalerSpec =
  hpas_ScaleTargetRef :: "string \<times> string \<times> string"
  hpas_MinReplicas :: "int option"
  hpas_MaxReplicas :: int
  hpas_Metrics :: "(string \<times> int option) list"

record HorizontalPodAutoscaler =
  hpa_Meta :: ObjectMeta
  hpa_Spec :: HorizontalPodAutoscalerSpec

record ServiceAccount =
  sa_Meta :: ObjectMeta
  sa_ImagePullSecrets :: "string list"

definition zero_ServiceAccount :: ServiceAccount where
  "zero_ServiceAccount = \<lparr>sa_Meta = zero_ObjectMeta, sa_ImagePullSecrets = []\<rparr>"

record PolicyRule =
  rule_APIGroups :: "string list"
  rule_Resources :: "string list"
  rule_Verbs :: "string list"

record Role =
  role_Meta :: ObjectMeta
  role_Rules :: "PolicyRule list"

text \<open>Subjects are pairs of kind and name, the role reference is group, kind and name.\<close>

record RoleBinding =
  rb_Meta :: ObjectMeta
  rb_Subjects :: "(string \<times> string) list"
  rb_RoleRef :: "string \<times> string \<times> string"

subsection \<open>Objects of any kind\<close>

datatype Kind = KSecret | KConfigMap | KDeployment | KService | KPVC | KCronJob | KJob
  | KIngress | KRoute | KStatefulSet | KPDB | KHPA | KServiceAccount | KRole | KRoleBinding
  | KPod

text \<open>\<open>client.Object\<close>: a value of one of the kinds.\<close>

datatype Object =
    SecretObj Secret
  | ConfigMapObj ConfigMap
  | DeploymentObj Deployment
  | ServiceObj Service
  | PVCObj PersistentVolumeClaim
  | CronJobObj CronJob
  | JobObj Job
  | IngressObj Ingress
  | RouteObj Route
  | StatefulSetObj StatefulSet
  | PDBObj PodDisruptionBudget
  | HPAObj HorizontalPodAutoscaler
  | ServiceAccountObj ServiceAccount
  | RoleObj Role
  | RoleBindingObj RoleBinding
  | PodObj Pod

fun obj_Meta :: "Object \<Rightarrow> ObjectMeta" where
  "obj_Meta (SecretObj x) = sec_Meta x"
| "obj_Meta (ConfigMapObj x) = cm_Meta x"
| "obj_Meta (DeploymentObj x) = dep_Meta x"
| "obj_Meta (ServiceObj x) = svc_Meta x"
| "obj_Meta (PVCObj x) = pvc_Meta x"
| "obj_Meta (CronJobObj x) = cj_Meta x"
| "obj_Meta (JobObj x) = job_Meta x"
| "obj_Meta (IngressObj x) = ing_Meta x"
| "obj_Meta (RouteObj x) = rt_Meta x"
| "obj_Meta (StatefulSetObj x) = sts_Meta x"
| "obj_Meta (PDBObj x) = pdb_Meta x"
| "obj_Meta (HPAObj x) = hpa_Meta x"
| "obj_Meta (ServiceAccountObj x) = sa_Meta x"
| "obj_Meta (RoleObj x) = role_Meta x"
| "obj_Meta (RoleBindingObj x) = rb_Meta x"
| "obj_Meta (PodObj x) = po_Meta x"

fun map_Meta :: "(ObjectMeta \<Rightarrow> ObjectMeta) \<Rightarrow> Object \<Rightarrow> Object" where
  "map_Meta f (SecretObj x) = SecretObj (x\<lparr>sec_Meta := f (sec_Meta x)\<rparr>)"
| "map_Meta f (ConfigMapObj x) = ConfigMapObj (x\<lparr>cm_Meta := f (cm_Meta x)\<rparr>)"
| "map_Meta f (DeploymentObj x) = DeploymentObj (x\<lparr>dep_Meta := f (dep_Meta x)\<rparr>)"
| "map_Meta f (ServiceObj x) = ServiceObj (x\<lparr>svc_Meta := f (svc_Meta x)\<rparr>)"
| "map_Meta f (PVCObj x) = PVCObj (x\<lparr>pvc_Meta := f (pvc_Meta x)\<rparr>)"
| "map_Meta f (CronJobObj x) = CronJobObj (x\<lparr>cj_Meta := f (cj_Meta x)\<rparr>)"
| "map_Meta f (JobObj x) = JobObj (x\<lparr>job_Meta := f (job_Meta x)\<rparr>)"
| "map_Meta f (IngressObj x) = IngressObj (x\<lparr>ing_Meta := f (ing_Meta x)\<rparr>)"
| "map_Meta f (RouteObj x) = RouteObj (x\<lparr>rt_Meta := f (rt_Meta x)\<rparr>)"
| "map_Meta f (StatefulSetObj x) = StatefulSetObj (x\<lparr>sts_Meta := f (sts_Meta x)\<rparr>)"
| "map_Meta f (PDBObj x) = PDBObj (x\<lparr>pdb_Meta := f (pdb_Meta x)\<rparr>)"
| "map_Meta f (HPAObj x) = HPAObj (x\<lparr>hpa_Meta := f (hpa_Meta x)\<rparr>)"
| "map_Meta f (ServiceAccountObj x) = ServiceAccountObj (x\<lparr>sa_Meta := f (sa_Meta x)\<rparr>)"
| "map_Meta f (RoleObj x) = RoleObj (x\<lparr>role_Meta := f (role_Meta x)\<rparr>)"
| "map_Meta f (RoleBindingObj x) = RoleBindingObj (x\<lparr>rb_Meta := f (rb_Meta x)\<rparr>)"
| "map_Meta f (PodObj x) = PodObj (x\<lparr>po_Meta := f (po_Meta x)\<rparr>)"

fun obj_Kind :: "Object \<Rightarrow> Kind" where
  "obj_Kind (SecretObj _) = KSecret"
| "obj_Kind (ConfigMapObj _) = KConfigMap"
| "obj_Kind (DeploymentObj _) = KDeployment"
| "obj_Kind (ServiceObj _) = KService"
| "obj_Kind (PVCObj _) = KPVC"
| "obj_Kind (CronJobObj _) = KCronJob"
| "obj_Kind (JobObj _) = KJob"
| "obj_Kind (IngressObj _) = KIngress"
| "obj_Kind (RouteObj _) = KRoute"
| "obj_Kind (StatefulSetObj _) = KStatefulSet"
| "obj_Kind (PDBObj _) = KPDB"
| "obj_Kind (HPAObj _) = KHPA"
| "obj_Kind (ServiceAccountObj _) = KServiceAccount"
| "obj_Kind (RoleObj _) = KRole"
| "obj_Kind (RoleBindingObj _) = KRoleBinding"
| "obj_Kind (PodObj _) = KPod"

abbreviation obj_Name :: "Object \<Rightarrow> string" where
  "obj_Name x \<equiv> meta_Name (obj_Meta x)"

abbreviation obj_Namespace :: "Object \<Rightarrow> string" where
  "obj_Namespace x \<equiv> meta_Namespace (obj_Meta x)"

lemma obj_Meta_map [simp]: "obj_Meta (map_Meta f x) = f (obj_Meta x)"
  by (cases x) auto

lemma obj_Kind_map [simp]: "obj_Kind (map_Meta f x) = obj_Kind x"
  by (cases x) auto

text \<open>\<open>ctrl.SetControllerReference(owner, obj, scheme)\<close> records the owner in the metadata.\<close>

definition set_controller :: "string \<Rightarrow> ObjectMeta \<Rightarrow> ObjectMeta" where
  "set_controller own m = m\<lparr>meta_Controller := Some own\<rparr>"

lemma set_controller_sel [simp]:
  "meta_Name (set_controller own m) = meta_Name m"
  "meta_GenerateName (set_controller own m) = meta_GenerateName m"
  "meta_Namespace (set_controller own m) = meta_Namespace m"
  "meta_Labels (set_controller own m) = meta_Labels m"
  "meta_Annotations (set_controller own m) = meta_Annotations m"
  by (simp_all add: set_controller_def)

end
