(* ===== verification/Pulp_Types.thy ===== *)
theory Pulp_Types
  imports K8s_Types
begin

text \<open>
  The custom resource \<open>Pulp\<close> of \<open>apis/repo-manager.pulpproject.org/v1/pulp_types.go\<close>: one
  record per Go struct, the field \<open>F\<close> of the struct \<open>S\<close> named \<open>S_F\<close> (\<open>Spec_F\<close> and
  \<open>Status_F\<close> for \<open>PulpSpec\<close> and \<open>PulpStatus\<close>), in the order of the source, and its Go
  zero value \<open>zero_S\<close>. A pointer is an \<open>option\<close>, an integer an \<open>int\<close> (the
  operator only compares and prints them), a third-party struct that is only passed on a
  \<open>json\<close> document. \<open>PodLabels\<close>, \<open>DeploymentAnnotations\<close> and \<open>SALabels\<close> keep the difference between a nil map and
  an empty one, since the code writes into such a map when it is not nil. \<open>PulpSpec\<close> is built by two record extensions, following the source
  from its first to its last field.
\<close>

subsection \<open>Component specifications\<close>

record HPA =
  HPA_Enabled :: bool
  HPA_MinReplicas :: "int option"
  HPA_MaxReplicas :: int
  HPA_TargetCPUUtilizationPercentage :: "int option"
  HPA_TargetMemoryUtilizationPercentage :: "int option"

definition zero_HPA :: HPA where
  "zero_HPA = \<lparr>HPA_Enabled = False, HPA_MinReplicas = None, HPA_MaxReplicas = 0,
     HPA_TargetCPUUtilizationPercentage = None,
     HPA_TargetMemoryUtilizationPercentage = None\<rparr>"

record PulpContainer =
  PulpContainer_Image :: string
  PulpContainer_ResourceRequirements :: json
  PulpContainer_EnvVars :: "EnvVar list"

definition zero_PulpContainer :: PulpContainer where
  "zero_PulpContainer = \<lparr>PulpContainer_Image = [],
     PulpContainer_ResourceRequirements = JNull, PulpContainer_EnvVars = []\<rparr>"

record PulpJob =
  PulpJob_PulpContainer :: PulpContainer

definition zero_PulpJob :: PulpJob where
  "zero_PulpJob = \<lparr>PulpJob_PulpContainer = zero_PulpContainer\<rparr>"

record LDAP =
  LDAP_Config :: string
  LDAP_CA :: string

definition zero_LDAP :: LDAP where
  "zero_LDAP = \<lparr>LDAP_Config = [], LDAP_CA = []\<rparr>"

record Telemetry =
  Telemetry_Enabled :: bool
  Telemetry_ExporterOtlpProtocol :: string
  Telemetry_OpenTelemetryCollectorImage :: string
  Telemetry_OpenTelemetryCollectorImageVersion :: string
  Telemetry_ResourceRequirements :: json

definition zero_Telemetry :: Telemetry where
  "zero_Telemetry = \<lparr>Telemetry_Enabled = False, Telemetry_ExporterOtlpProtocol = [],
     Telemetry_OpenTelemetryCollectorImage = [],
     Telemetry_OpenTelemetryCollectorImageVersion = [],
     Telemetry_ResourceRequirements = JNull\<rparr>"

record Api =
  Api_Replicas :: int
  Api_HPA :: "HPA option"
  Api_Affinity :: "json option"
  Api_NodeSelector :: gomap
  Api_Tolerations :: "json list"
  Api_TopologySpreadConstraints :: "json list"
  Api_GunicornTimeout :: int
  Api_GunicornWorkers :: int
  Api_GunicornAccessLogformat :: string
  Api_ResourceRequirements :: json
  Api_ReadinessProbe :: "json option"
  Api_LivenessProbe :: "json option"
  Api_PDB :: "PodDisruptionBudgetSpec option"
  Api_Strategy :: DeploymentStrategy
  Api_InitContainer :: PulpContainer
  Api_EnvVars :: "EnvVar list"
  Api_DeploymentAnnotations :: "gomap option"
  Api_PodLabels :: "gomap option"

definition zero_Api :: Api where
  "zero_Api = \<lparr>Api_Replicas = 0, Api_HPA = None, Api_Affinity = None,
     Api_NodeSelector = [], Api_Tolerations = [], Api_TopologySpreadConstraints = [],
     Api_GunicornTimeout = 0, Api_GunicornWorkers = 0, Api_GunicornAccessLogformat = [],
     Api_ResourceRequirements = JNull, Api_ReadinessProbe = None, Api_LivenessProbe = None,
     Api_PDB = None, Api_Strategy = zero_DeploymentStrategy,
     Api_InitContainer = zero_PulpContainer, Api_EnvVars = [], Api_DeploymentAnnotations = None,
     Api_PodLabels = None\<rparr>"

record Content =
  Content_Replicas :: int
  Content_HPA :: "HPA option"
  Content_ResourceRequirements :: json
  Content_Affinity :: "json option"
  Content_NodeSelector :: gomap
  Content_Tolerations :: "json list"
  Content_TopologySpreadConstraints :: "json list"
  Content_GunicornTimeout :: int
  Content_GunicornWorkers :: int
  Content_GunicornAccessLogformat :: string
  Content_ReadinessProbe :: "json option"
  Content_LivenessProbe :: "json option"
  Content_PDB :: "PodDisruptionBudgetSpec option"
  Content_Strategy :: DeploymentStrategy
  Content_InitContainer :: PulpContainer
  Content_EnvVars :: "EnvVar list"
  Content_DeploymentAnnotations :: "gomap option"
  Content_PodLabels :: "gomap option"

definition zero_Content :: Content where
  "zero_Content = \<lparr>Content_Replicas = 0, Content_HPA = None,
     Content_ResourceRequirements = JNull, Content_Affinity = None, Content_NodeSelector = [],
     Content_Tolerations = [], Content_TopologySpreadConstraints = [],
     Content_GunicornTimeout = 0, Content_GunicornWorkers = 0,
     Content_GunicornAccessLogformat = [], Content_ReadinessProbe = None,
     Content_LivenessProbe = None, Content_PDB = None,
     Content_Strategy = zero_DeploymentStrategy, Content_InitContainer = zero_PulpContainer,
     Content_EnvVars = [], Content_DeploymentAnnotations = None, Content_PodLabels = None\<rparr>"

record Worker =
  Worker_Replicas :: int
  Worker_HPA :: "HPA option"
  Worker_ResourceRequirements :: json
  Worker_Affinity :: "json option"
  Worker_NodeSelector :: gomap
  Worker_Tolerations :: "json list"
  Worker_TopologySpreadConstraints :: "json list"
  Worker_ReadinessProbe :: "json option"
  Worker_LivenessProbe :: "json option"
  Worker_PDB :: "PodDisruptionBudgetSpec option"
  Worker_Strategy :: DeploymentStrategy
  Worker_InitContainer :: PulpContainer
  Worker_EnvVars :: "EnvVar list"
  Worker_DeploymentAnnotations :: "gomap option"
  Worker_PodLabels :: "gomap option"

definition zero_Worker :: Worker where
  "zero_Worker = \<lparr>Worker_Replicas = 0, Worker_HPA = None,
     Worker_ResourceRequirements = JNull, Worker_Affinity = None, Worker_NodeSelector = [],
     Worker_Tolerations = [], Worker_TopologySpreadConstraints = [],
     Worker_ReadinessProbe = None, Worker_LivenessProbe = None, Worker_PDB = None,
     Worker_Strategy = zero_DeploymentStrategy, Worker_InitContainer = zero_PulpContainer,
     Worker_EnvVars = [], Worker_DeploymentAnnotations = None, Worker_PodLabels = None\<rparr>"

record Web =
  Web_Replicas :: int
  Web_HPA :: "HPA option"
  Web_ResourceRequirements :: json
  Web_ReadinessProbe :: "json option"
  Web_LivenessProbe :: "json option"
  Web_NodeSelector :: gomap
  Web_PDB :: "PodDisruptionBudgetSpec option"
  Web_Strategy :: DeploymentStrategy
  Web_ServiceAnnotations :: gomap
  Web_TLSTerminationMechanism :: string
  Web_EnvVars :: "EnvVar list"
  Web_DeploymentAnnotations :: "gomap option"
  Web_PodLabels :: "gomap option"

definition zero_Web :: Web where
  "zero_Web = \<lparr>Web_Replicas = 0, Web_HPA = None, Web_ResourceRequirements = JNull,
     Web_ReadinessProbe = None, Web_LivenessProbe = None, Web_NodeSelector = [], Web_PDB = None,
     Web_Strategy = zero_DeploymentStrategy, Web_ServiceAnnotations = [],
     Web_TLSTerminationMechanism = [], Web_EnvVars = [], Web_DeploymentAnnotations = None,
     Web_PodLabels = None\<rparr>"

record Database =
  Database_ExternalDBSecret :: string
  Database_PostgresVersion :: string
  Database_PostgresPort :: int
  Database_PostgresSSLMode :: string
  Database_PostgresImage :: string
  Database_PostgresExtraArgs :: "string list"
  Database_PostgresDataPath :: string
  Database_PostgresInitdbArgs :: string
  Database_PostgresHostAuthMethod :: string
  Database_ResourceRequirements :: json
  Database_Affinity :: "json option"
  Database_NodeSelector :: gomap
  Database_Tolerations :: "json list"
  Database_PostgresStorageRequirements :: string
  Database_PostgresStorageClass :: "string option"
  Database_PVC :: string
  Database_ReadinessProbe :: "json option"
  Database_LivenessProbe :: "json option"
  Database_PodLabels :: "gomap option"

definition zero_Database :: Database where
  "zero_Database = \<lparr>Database_ExternalDBSecret = [], Database_PostgresVersion = [],
     Database_PostgresPort = 0, Database_PostgresSSLMode = [], Database_PostgresImage = [],
     Database_PostgresExtraArgs = [], Database_PostgresDataPath = [],
     Database_PostgresInitdbArgs = [], Database_PostgresHostAuthMethod = [],
     Database_ResourceRequirements = JNull, Database_Affinity = None, Database_NodeSelector = [],
     Database_Tolerations = [], Database_PostgresStorageRequirements = [],
     Database_PostgresStorageClass = None, Database_PVC = [], Database_ReadinessProbe = None,
     Database_LivenessProbe = None, Database_PodLabels = None\<rparr>"

record Cache =
  Cache_ExternalCacheSecret :: string
  Cache_Enabled :: bool
  Cache_RedisImage :: string
  Cache_RedisStorageClass :: string
  Cache_RedisPort :: int
  Cache_RedisResourceRequirements :: json
  Cache_PVC :: string
  Cache_ReadinessProbe :: "json option"
  Cache_LivenessProbe :: "json option"
  Cache_Affinity :: "json option"
  Cache_Tolerations :: "json list"
  Cache_NodeSelector :: gomap
  Cache_Strategy :: DeploymentStrategy
  Cache_DeploymentAnnotations :: "gomap option"
  Cache_PodLabels :: "gomap option"

definition zero_Cache :: Cache where
  "zero_Cache = \<lparr>Cache_ExternalCacheSecret = [], Cache_Enabled = False,
     Cache_RedisImage = [], Cache_RedisStorageClass = [], Cache_RedisPort = 0,
     Cache_RedisResourceRequirements = JNull, Cache_PVC = [], Cache_ReadinessProbe = None,
     Cache_LivenessProbe = None, Cache_Affinity = None, Cache_Tolerations = [],
     Cache_NodeSelector = [], Cache_Strategy = zero_DeploymentStrategy,
     Cache_DeploymentAnnotations = None, Cache_PodLabels = None\<rparr>"

subsection \<open>The specification and the status of the custom resource\<close>

record PulpSpecAccess =
  Spec_Unmanaged :: bool
  Spec_EnableDebugging :: bool
  Spec_FileStorageSize :: string
  Spec_FileStorageAccessMode :: string
  Spec_FileStorageClass :: string
  Spec_ObjectStorageAzureSecret :: string
  Spec_ObjectStorageGCSSecret :: string
  Spec_ObjectStorageS3Secret :: string
  Spec_PVC :: string
  Spec_DBFieldsEncryptionSecret :: string
  Spec_SigningSecret :: string
  Spec_SigningScripts :: string
  Spec_IngressType :: string
  Spec_IngressAnnotations :: gomap
  Spec_IngressClassName :: string
  Spec_IsNginxIngress :: bool
  Spec_IngressHost :: string
  Spec_IngressTLSSecret :: string
  Spec_RouteHost :: string
  Spec_RouteLabels :: gomap
  Spec_RouteAnnotations :: gomap
  Spec_RouteTLSSecret :: string

record PulpSpecComponents = PulpSpecAccess +
  Spec_NodePort :: int
  Spec_HAProxyTimeout :: string
  Spec_NginxMaxBodySize :: string
  Spec_NginxProxyBodySize :: string
  Spec_NginxProxyReadTimeout :: string
  Spec_NginxProxyConnectTimeout :: string
  Spec_NginxProxySendTimeout :: string
  Spec_ContainerTokenSecret :: string
  Spec_ContainerAuthPublicKey :: string
  Spec_ContainerAuthPrivateKey :: string
  Spec_Image :: string
  Spec_ImageVersion :: string
  Spec_InhibitVersionConstraint :: bool
  Spec_ImagePullPolicy :: string
  Spec_Api :: Api
  Spec_Database :: Database
  Spec_Content :: Content
  Spec_Worker :: Worker
  Spec_Web :: Web
  Spec_Cache :: Cache

record PulpSpec = PulpSpecComponents +
  Spec_CustomPulpSettings :: string
  Spec_ImageWeb :: string
  Spec_ImageWebVersion :: string
  Spec_AdminPasswordSecret :: string
  Spec_ImagePullSecrets :: "string list"
  Spec_SAAnnotations :: gomap
  Spec_SALabels :: "gomap option"
  Spec_SSOSecret :: string
  Spec_TrustedCa :: bool
  Spec_TrustedCaConfigMapKey :: "string option"
  Spec_AdminPasswordJob :: PulpJob
  Spec_MigrationJob :: PulpJob
  Spec_SigningJob :: PulpJob
  Spec_DisableMigrations :: bool
  Spec_PulpSecretKey :: string
  Spec_AllowedContentChecksums :: "string list option"
  Spec_LoadbalancerProtocol :: string
  Spec_LoadbalancerPort :: int
  Spec_Telemetry :: Telemetry
  Spec_LDAP :: LDAP
  Spec_IPv6Disabled :: "bool option"
  Spec_RedirectToObjectStorage :: bool
  Spec_HideGuardedDistributions :: bool

definition zero_PulpSpec :: PulpSpec where
  "zero_PulpSpec = \<lparr>Spec_Unmanaged = False, Spec_EnableDebugging = False,
     Spec_FileStorageSize = [], Spec_FileStorageAccessMode = [], Spec_FileStorageClass = [],
     Spec_ObjectStorageAzureSecret = [], Spec_ObjectStorageGCSSecret = [],
     Spec_ObjectStorageS3Secret = [], Spec_PVC = [], Spec_DBFieldsEncryptionSecret = [],
     Spec_SigningSecret = [], Spec_SigningScripts = [], Spec_IngressType = [],
     Spec_IngressAnnotations = [], Spec_IngressClassName = [], Spec_IsNginxIngress = False,
     Spec_IngressHost = [], Spec_IngressTLSSecret = [], Spec_RouteHost = [],
     Spec_RouteLabels = [], Spec_RouteAnnotations = [], Spec_RouteTLSSecret = [],
     Spec_NodePort = 0, Spec_HAProxyTimeout = [], Spec_NginxMaxBodySize = [],
     Spec_NginxProxyBodySize = [], Spec_NginxProxyReadTimeout = [],
     Spec_NginxProxyConnectTimeout = [], Spec_NginxProxySendTimeout = [],
     Spec_ContainerTokenSecret = [], Spec_ContainerAuthPublicKey = [],
     Spec_ContainerAuthPrivateKey = [], Spec_Image = [], Spec_ImageVersion = [],
     Spec_InhibitVersionConstraint = False, Spec_ImagePullPolicy = [], Spec_Api = zero_Api,
     Spec_Database = zero_Database, Spec_Content = zero_Content, Spec_Worker = zero_Worker,
     Spec_Web = zero_Web, Spec_Cache = zero_Cache, Spec_CustomPulpSettings = [],
     Spec_ImageWeb = [], Spec_ImageWebVersion = [], Spec_AdminPasswordSecret = [],
     Spec_ImagePullSecrets = [], Spec_SAAnnotations = [], Spec_SALabels = None,
     Spec_SSOSecret = [], Spec_TrustedCa = False, Spec_TrustedCaConfigMapKey = None,
     Spec_AdminPasswordJob = zero_PulpJob, Spec_MigrationJob = zero_PulpJob,
     Spec_SigningJob = zero_PulpJob, Spec_DisableMigrations = False, Spec_PulpSecretKey = [],
     Spec_AllowedContentChecksums = None, Spec_LoadbalancerProtocol = [],
     Spec_LoadbalancerPort = 0, Spec_Telemetry = zero_Telemetry, Spec_LDAP = zero_LDAP,
     Spec_IPv6Disabled = None, Spec_RedirectToObjectStorage = False,
     Spec_HideGuardedDistributions = False\<rparr>"

record PulpStatus =
  Status_Conditions :: "Condition list"
  Status_ObjectStorageAzureSecret :: string
  Status_ObjectStorageGCSSecret :: string
  Status_ObjectStorageS3Secret :: string
  Status_DBFieldsEncryptionSecret :: string
  Status_Image :: string
  Status_IngressType :: string
  Status_IngressClassName :: string
  Status_ContainerTokenSecret :: string
  Status_AdminPasswordSecret :: string
  Status_ExternalCacheSecret :: string
  Status_TelemetryEnabled :: bool
  Status_PulpSecretKey :: string
  Status_AllowedContentChecksums :: string
  Status_LastDeploymentUpdate :: string
  Status_ManagedCacheEnabled :: bool
  Status_StorageType :: string
  Status_RedirectToObjectStorage :: bool
  Status_HideGuardedDistributions :: bool

definition zero_PulpStatus :: PulpStatus where
  "zero_PulpStatus = \<lparr>Status_Conditions = [], Status_ObjectStorageAzureSecret = [],
     Status_ObjectStorageGCSSecret = [], Status_ObjectStorageS3Secret = [],
     Status_DBFieldsEncryptionSecret = [], Status_Image = [], Status_IngressType = [],
     Status_IngressClassName = [], Status_ContainerTokenSecret = [],
     Status_AdminPasswordSecret = [], Status_ExternalCacheSecret = [],
     Status_TelemetryEnabled = False, Status_PulpSecretKey = [],
     Status_AllowedContentChecksums = [], Status_LastDeploymentUpdate = [],
     Status_ManagedCacheEnabled = False, Status_StorageType = [],
     Status_RedirectToObjectStorage = False, Status_HideGuardedDistributions = False\<rparr>"

text \<open>The object itself: the metadata, \<open>spec\<close> and \<open>status\<close>.\<close>

record Pulp =
  Pulp_Meta :: ObjectMeta
  Pulp_Spec :: PulpSpec
  Pulp_Status :: PulpStatus

definition zero_Pulp :: Pulp where
  "zero_Pulp = \<lparr>Pulp_Meta = zero_ObjectMeta, Pulp_Spec = zero_PulpSpec,
     Pulp_Status = zero_PulpStatus\<rparr>"

abbreviation Pulp_Name :: "Pulp \<Rightarrow> string" where
  "Pulp_Name p \<equiv> meta_Name (Pulp_Meta p)"

abbreviation Pulp_Namespace :: "Pulp \<Rightarrow> string" where
  "Pulp_Namespace p \<equiv> meta_Namespace (Pulp_Meta p)"

text \<open>Writing into \<open>pulp.Spec\<close> and \<open>pulp.Status\<close>.\<close>

abbreviation upd_Spec :: "(PulpSpec \<Rightarrow> PulpSpec) \<Rightarrow> Pulp \<Rightarrow> Pulp" where
  "upd_Spec f p \<equiv> p\<lparr>Pulp_Spec := f (Pulp_Spec p)\<rparr>"

abbreviation upd_Status :: "(PulpStatus \<Rightarrow> PulpStatus) \<Rightarrow> Pulp \<Rightarrow> Pulp" where
  "upd_Status f p \<equiv> p\<lparr>Pulp_Status := f (Pulp_Status p)\<rparr>"

end
