(* ===== verification/Kube_Client.thy ===== *)
theory Kube_Client
  imports Settings
begin

text \<open>
  What the operator calls but does not contain: the controller-runtime client and the API
  server behind it, the condition helpers of apimachinery, the clock, the random generators,
  and a few library functions. They are the fields of one record \<open>'w Externals\<close>, a parameter
  of every operation that uses them. \<open>'w\<close> is the type of the world outside the process: an
  effectful call takes the world and returns it changed, so nothing is said about what other
  clients of the cluster do meanwhile.

  What the code relies on is stated as the locales \<open>condition_lib\<close>, \<open>pulp_store\<close>,
  \<open>object_store\<close>, \<open>quiet_cluster\<close> and \<open>go_runtime\<close>, documented behaviour of those libraries. \<open>mem_ext\<close> is an in-memory API
  server with these functions; the locales are interpreted on it, so their laws can
  hold together.
\<close>

subsection \<open>The externals\<close>

text \<open>Values that \<open>equality.Semantic.DeepDerivative\<close> is applied to.\<close>

datatype apiValue = VData gomap | VServiceSpec ServiceSpec | VIngressSpec json | VRouteSpec json
  | VStatefulSetSpec StatefulSetSpec | VPDBSpec PodDisruptionBudgetSpec | VPVC PersistentVolumeClaim

text \<open>
  A pod is listed by its name and phase; \<open>x_Exec\<close> takes namespace, pod, container and command,
  and gives what the command wrote to its two outputs.
\<close>

record 'w Externals =
  x_Get :: "Kind \<Rightarrow> string \<Rightarrow> string \<Rightarrow> 'w \<Rightarrow> (error + Object) \<times> 'w"
  x_Create :: "Object \<Rightarrow> 'w \<Rightarrow> error option \<times> 'w"
  x_Update :: "Object \<Rightarrow> 'w \<Rightarrow> (error option \<times> Object) \<times> 'w"
  x_DryRunCreate :: "Object \<Rightarrow> 'w \<Rightarrow> (error option \<times> Object) \<times> 'w"
  x_DryRunUpdate :: "Object \<Rightarrow> 'w \<Rightarrow> (error option \<times> Object) \<times> 'w"
  x_Delete :: "Object \<Rightarrow> 'w \<Rightarrow> error option \<times> 'w"
  x_DeleteAllOf :: "Kind \<Rightarrow> string \<Rightarrow> gomap \<Rightarrow> 'w \<Rightarrow> error option \<times> 'w"
  x_ListJobs :: "string \<Rightarrow> gomap \<Rightarrow> 'w \<Rightarrow> (error + Job list) \<times> 'w"
  x_ListPods :: "string \<Rightarrow> gomap \<Rightarrow> 'w \<Rightarrow> (error + (string \<times> string) list) \<times> 'w"
  x_Exec :: "string \<Rightarrow> string \<Rightarrow> string \<Rightarrow> string list \<Rightarrow> 'w \<Rightarrow> (error + string \<times> string) \<times> 'w"
  x_GetPulp :: "string \<Rightarrow> string \<Rightarrow> 'w \<Rightarrow> (error + Pulp) \<times> 'w"
  x_ListPulps :: "string \<Rightarrow> string \<Rightarrow> 'w \<Rightarrow> (error + Pulp list) \<times> 'w"
  x_StatusUpdate :: "Pulp \<Rightarrow> 'w \<Rightarrow> (error option \<times> Pulp) \<times> 'w"
  x_PatchPulp :: "Pulp \<Rightarrow> Pulp \<Rightarrow> 'w \<Rightarrow> (error option \<times> Pulp) \<times> 'w"
  x_GetConfig :: "'w \<Rightarrow> error option \<times> 'w"
  x_NewDiscoveryClient :: "'w \<Rightarrow> error option \<times> 'w"
  x_ServerResources :: "string \<Rightarrow> 'w \<Rightarrow> error option \<times> 'w"
  x_Now :: "'w \<Rightarrow> string \<times> 'w"
  x_Intn :: "nat \<Rightarrow> 'w \<Rightarrow> nat \<times> 'w"
  x_RandBytes :: "nat \<Rightarrow> 'w \<Rightarrow> string \<times> 'w"
  x_GenKeyPEM :: "'w \<Rightarrow> (string \<times> string) \<times> 'w"
  x_RangeOrder :: "gomap \<Rightarrow> 'w \<Rightarrow> gomap \<times> 'w"
  x_FindStatusCondition :: "Condition list \<Rightarrow> string \<Rightarrow> Condition option"
  x_SetStatusCondition :: "Condition list \<Rightarrow> Condition \<Rightarrow> Condition list"
  x_RemoveStatusCondition :: "Condition list \<Rightarrow> string \<Rightarrow> Condition list"
  x_IsStatusConditionPresentAndEqual :: "Condition list \<Rightarrow> string \<Rightarrow> ConditionStatus \<Rightarrow> bool"
  x_IsStatusConditionFalse :: "Condition list \<Rightarrow> string \<Rightarrow> bool"
  x_Schedule :: "nat \<Rightarrow> 'w \<Rightarrow> nat list \<times> 'w"
  x_Getenv :: "string \<Rightarrow> string"
  x_ReadArmoredKeyRing :: "string \<Rightarrow> error + string list"
  x_ParseQuantity :: "string \<Rightarrow> bool"
  x_QuantityIsZero :: "string \<Rightarrow> bool"
  x_QuantityString :: "string \<Rightarrow> string"
  x_Title :: "string \<Rightarrow> string"
  x_DumpSpec :: "DeploymentSpec \<Rightarrow> string"
  x_DumpMap :: "gomap \<Rightarrow> string"
  x_DeepDerivative :: "apiValue \<Rightarrow> apiValue \<Rightarrow> bool"
  x_DeepEqual :: "gomap \<Rightarrow> gomap \<Rightarrow> bool"

subsection \<open>The state of a reconciliation\<close>

datatype EventType = EventNormal | EventWarning

text \<open>
  The world, the \<open>*pulpv1.Pulp\<close> that the calls share, and the events recorded so far.
\<close>

record 'w St =
  st_world :: 'w
  st_pulp :: Pulp
  st_events :: "(EventType \<times> string \<times> string) list"

text \<open>An external call made from a state.\<close>

definition call :: "('w \<Rightarrow> 'a \<times> 'w) \<Rightarrow> 'w St \<Rightarrow> 'a \<times> 'w St" where
  "call f s = (let (r, w) = f (st_world s) in (r, s\<lparr>st_world := w\<rparr>))"

lemma call_sel [simp]:
  "fst (call f s) = fst (f (st_world s))"
  "st_world (snd (call f s)) = snd (f (st_world s))"
  "st_pulp (snd (call f s)) = st_pulp s"
  "st_events (snd (call f s)) = st_events s"
  by (simp_all add: call_def split_beta)

text \<open>
  What a function keeps of the state, read through the branches of its conditionals (with
  \<open>split del: if_split cong: if_cong\<close>): no case distinction is needed when every branch keeps it.
\<close>

lemmas if_frames = if_distrib [of snd] if_distrib [of st_pulp] if_distrib [of st_events] if_distrib [of Pulp_Spec] if_distrib [of Pulp_Meta]
  if_distrib [of meta_Name] if_distrib [of meta_Namespace]

text \<open>
  Typed \<open>Get\<close>. A \<open>Get\<close> whose error the code ignores leaves the zero value it started from.
\<close>

fun as_Secret :: "error + Object \<Rightarrow> error + Secret" where
  "as_Secret (Inr (SecretObj x)) = Inr x"
| "as_Secret (Inl e) = Inl e"
| "as_Secret _ = Inl (Errorf ''unexpected kind'')"

fun as_ConfigMap :: "error + Object \<Rightarrow> error + ConfigMap" where
  "as_ConfigMap (Inr (ConfigMapObj x)) = Inr x"
| "as_ConfigMap (Inl e) = Inl e"
| "as_ConfigMap _ = Inl (Errorf ''unexpected kind'')"

fun as_Deployment :: "error + Object \<Rightarrow> error + Deployment" where
  "as_Deployment (Inr (DeploymentObj x)) = Inr x"
| "as_Deployment (Inl e) = Inl e"
| "as_Deployment _ = Inl (Errorf ''unexpected kind'')"

fun as_Ingress :: "error + Object \<Rightarrow> error + Ingress" where
  "as_Ingress (Inr (IngressObj x)) = Inr x"
| "as_Ingress (Inl e) = Inl e"
| "as_Ingress _ = Inl (Errorf ''unexpected kind'')"

definition or_zero :: "'a \<Rightarrow> error + 'a \<Rightarrow> 'a" where
  "or_zero z r = (case r of Inl _ \<Rightarrow> z | Inr x \<Rightarrow> x)"

lemma or_zero_simps [simp]: "or_zero z (Inl e) = z" "or_zero z (Inr x) = x"
  by (simp_all add: or_zero_def)

definition err_of :: "error + 'a \<Rightarrow> error option" where
  "err_of r = (case r of Inl e \<Rightarrow> Some e | Inr _ \<Rightarrow> None)"

lemma err_of_simps [simp]: "err_of (Inl e) = Some e" "err_of (Inr x) = None"
  by (simp_all add: err_of_def)

definition Get_Secret :: "'w Externals \<Rightarrow> string \<Rightarrow> string \<Rightarrow> 'w St \<Rightarrow> (error + Secret) \<times> 'w St" where
  "Get_Secret X name ns s = (let (r, s) = call (x_Get X KSecret ns name) s in (as_Secret r, s))"

definition Get_ConfigMap :: "'w Externals \<Rightarrow> string \<Rightarrow> string \<Rightarrow> 'w St \<Rightarrow> (error + ConfigMap) \<times> 'w St" where
  "Get_ConfigMap X name ns s = (let (r, s) = call (x_Get X KConfigMap ns name) s in (as_ConfigMap r, s))"

definition Get_Deployment :: "'w Externals \<Rightarrow> string \<Rightarrow> string \<Rightarrow> 'w St \<Rightarrow> (error + Deployment) \<times> 'w St" where
  "Get_Deployment X name ns s = (let (r, s) = call (x_Get X KDeployment ns name) s in (as_Deployment r, s))"

definition Get_Ingress :: "'w Externals \<Rightarrow> string \<Rightarrow> string \<Rightarrow> 'w St \<Rightarrow> (error + Ingress) \<times> 'w St" where
  "Get_Ingress X name ns s = (let (r, s) = call (x_Get X KIngress ns name) s in (as_Ingress r, s))"

text \<open>\<open>r.Status().Update(ctx, pulp)\<close>: the answer of the server is decoded into \<open>pulp\<close>.\<close>

definition Status_Update :: "'w Externals \<Rightarrow> 'w St \<Rightarrow> error option \<times> 'w St" where
  "Status_Update X s =
    (let ((err, p), w) = x_StatusUpdate X (st_pulp s) (st_world s)
     in (err, s\<lparr>st_world := w, st_pulp := p\<rparr>))"

text \<open>\<open>r.recorder.Event(pulp, type, reason, message)\<close>.\<close>

definition Record_Event :: "EventType \<Rightarrow> string \<Rightarrow> string \<Rightarrow> 'w St \<Rightarrow> 'w St" where
  "Record_Event ty reason message s = s\<lparr>st_events := st_events s @ [(ty, reason, message)]\<rparr>"

definition set_Status :: "(PulpStatus \<Rightarrow> PulpStatus) \<Rightarrow> 'w St \<Rightarrow> 'w St" where
  "set_Status f s = s\<lparr>st_pulp := upd_Status f (st_pulp s)\<rparr>"

lemma Get_frame [frame, simp]:
  "st_pulp (snd (Get_Secret X n ns s)) = st_pulp s"
  "st_events (snd (Get_Secret X n ns s)) = st_events s"
  "st_pulp (snd (Get_ConfigMap X n ns s)) = st_pulp s"
  "st_events (snd (Get_ConfigMap X n ns s)) = st_events s"
  "st_pulp (snd (Get_Deployment X n ns s)) = st_pulp s"
  "st_events (snd (Get_Deployment X n ns s)) = st_events s"
  "st_pulp (snd (Get_Ingress X n ns s)) = st_pulp s"
  "st_events (snd (Get_Ingress X n ns s)) = st_events s"
  by (simp_all add: Get_Secret_def Get_ConfigMap_def Get_Deployment_def Get_Ingress_def split_beta)

lemma set_Status_sel [simp]:
  "Pulp_Spec (st_pulp (set_Status f s)) = Pulp_Spec (st_pulp s)"
  "Pulp_Meta (st_pulp (set_Status f s)) = Pulp_Meta (st_pulp s)"
  "Pulp_Status (st_pulp (set_Status f s)) = f (Pulp_Status (st_pulp s))"
  "st_events (set_Status f s) = st_events s"
  "st_world (set_Status f s) = st_world s"
  by (simp_all add: set_Status_def)

lemma Status_Update_events [frame, simp]: "st_events (snd (Status_Update X s)) = st_events s"
  by (simp add: Status_Update_def split_beta)

lemma Record_Event_sel [simp]:
  "st_pulp (Record_Event a b c s) = st_pulp s"
  "st_world (Record_Event a b c s) = st_world s"
  by (simp_all add: Record_Event_def)

subsection \<open>What the code relies on\<close>

text \<open>\<open>k8s.io/apimachinery/pkg/api/meta\<close>: the condition list as a map from types.\<close>

locale condition_lib =
  fixes X :: "'w Externals"
  assumes find_set_same: "\<exists>c'. x_FindStatusCondition X (x_SetStatusCondition X cs c) (cond_Type c) = Some c' \<and>
        cond_Status c' = cond_Status c \<and> cond_Reason c' = cond_Reason c \<and> cond_Message c' = cond_Message c"
    and find_set_other: "t \<noteq> cond_Type c \<Longrightarrow>
        x_FindStatusCondition X (x_SetStatusCondition X cs c) t = x_FindStatusCondition X cs t"
    and find_remove: "x_FindStatusCondition X (x_RemoveStatusCondition X cs t) t' =
        (if t' = t then None else x_FindStatusCondition X cs t')"
    and present_and_equal: "x_IsStatusConditionPresentAndEqual X cs t st \<longleftrightarrow>
        (\<exists>c. x_FindStatusCondition X cs t = Some c \<and> cond_Status c = st)"
    and is_false: "x_IsStatusConditionFalse X cs t \<longleftrightarrow>
        x_IsStatusConditionPresentAndEqual X cs t ConditionFalse"
begin

lemma set_status_present:
  "x_IsStatusConditionPresentAndEqual X (x_SetStatusCondition X cs c) t st \<longleftrightarrow>
    (if t = cond_Type c then cond_Status c = st else x_IsStatusConditionPresentAndEqual X cs t st)"
proof (cases "t = cond_Type c")
  case True
  obtain c' where "x_FindStatusCondition X (x_SetStatusCondition X cs c) (cond_Type c) = Some c'"
    and "cond_Status c' = cond_Status c"
    using find_set_same by blast
  with True show ?thesis by (auto simp: present_and_equal)
next
  case False
  then show ?thesis by (simp add: present_and_equal find_set_other)
qed

lemma remove_status_present:
  "x_IsStatusConditionPresentAndEqual X (x_RemoveStatusCondition X cs t) t' st \<longleftrightarrow>
    t' \<noteq> t \<and> x_IsStatusConditionPresentAndEqual X cs t' st"
  by (simp add: present_and_equal find_remove)

lemmas condition_simps = set_status_present remove_status_present is_false

end

text \<open>
  The Pulp object on the server. A status update and a merge patch are rejected with an error
  or answered with the object as stored; the status subresource leaves the specification
  alone, and a rejected call leaves the object in memory alone.
\<close>

locale pulp_store =
  fixes X :: "'w Externals"
  assumes status_update_keeps: "x_StatusUpdate X p w = ((err, p'), w') \<Longrightarrow>
        Pulp_Spec p' = Pulp_Spec p \<and> Pulp_Name p' = Pulp_Name p \<and> Pulp_Namespace p' = Pulp_Namespace p
        \<and> Pulp_Status p' = Pulp_Status p"
    and patch_keeps: "x_PatchPulp X p base w = ((err, p'), w') \<Longrightarrow>
        Pulp_Spec p' = Pulp_Spec p \<and> Pulp_Name p' = Pulp_Name p \<and> Pulp_Namespace p' = Pulp_Namespace p
        \<and> Pulp_Status p' = Pulp_Status p"
begin

lemma Status_Update_sel [simp]:
  "Pulp_Spec (st_pulp (snd (Status_Update X s))) = Pulp_Spec (st_pulp s)"
  "Pulp_Name (st_pulp (snd (Status_Update X s))) = Pulp_Name (st_pulp s)"
  "Pulp_Namespace (st_pulp (snd (Status_Update X s))) = Pulp_Namespace (st_pulp s)"
  "Pulp_Status (st_pulp (snd (Status_Update X s))) = Pulp_Status (st_pulp s)"
proof -
  obtain err p w where "x_StatusUpdate X (st_pulp s) (st_world s) = ((err, p), w)"
    by (metis surj_pair)
  from this status_update_keeps [OF this]
  show "Pulp_Spec (st_pulp (snd (Status_Update X s))) = Pulp_Spec (st_pulp s)"
    "Pulp_Name (st_pulp (snd (Status_Update X s))) = Pulp_Name (st_pulp s)"
    "Pulp_Namespace (st_pulp (snd (Status_Update X s))) = Pulp_Namespace (st_pulp s)"
    "Pulp_Status (st_pulp (snd (Status_Update X s))) = Pulp_Status (st_pulp s)"
    by (simp_all add: Status_Update_def)
qed

end

text \<open>Objects: what a successful \<open>Create\<close> stored under its name is there for the next \<open>Get\<close>.\<close>

locale object_store =
  fixes X :: "'w Externals"
  assumes create_then_get: "x_Create X obj w = (None, w') \<Longrightarrow> obj_Name obj \<noteq> [] \<Longrightarrow>
      \<exists>obj'. fst (x_Get X (obj_Kind obj) (obj_Namespace obj) (obj_Name obj) w') = Inr obj'"

text \<open>
  A cluster that nobody else changes while the operator looks: reading has no effect, and
  writing the status of the custom resource or asking for the time changes no other object.
\<close>

locale quiet_cluster =
  fixes X :: "'w Externals"
  assumes get_pure: "snd (x_Get X k ns n w) = w"
    and status_update_get: "fst (x_Get X k ns n (snd (x_StatusUpdate X p w))) = fst (x_Get X k ns n w)"
    and now_get: "fst (x_Get X k ns n (snd (x_Now X w))) = fst (x_Get X k ns n w)"

text \<open>
  Go's run-time and standard library: \<open>rand.Intn(n)\<close> is below \<open>n\<close>, a \<open>range\<close> loop over a
  map visits every entry once in some order, and goroutines that are waited for all run,
  in some order.
\<close>

locale go_runtime =
  fixes X :: "'w Externals"
  assumes intn_less: "0 < n \<Longrightarrow> fst (x_Intn X n w) < n"
    and range_order: "mset (fst (x_RangeOrder X m w)) = mset m"
    and schedule: "mset (fst (x_Schedule X n w)) = mset [0..<n]"
    and rand_bytes: "length (fst (x_RandBytes X n w)) = n"

end
