(* ===== verification/Pod_Utils.thy ===== *)
theory Pod_Utils
  imports CR_Utils
begin

text \<open>
  The helpers of \<open>controllers/utils.go\<close> that shape pods: the autoscaler configuration of a
  component, the environment variables of the user, the signing scripts a secret provides,
  the default security context, the trusted CA bundle, and the test for OpenShift.
\<close>

subsection \<open>Platform\<close>

definition IsOpenShift :: "'w Externals \<Rightarrow> 'w St \<Rightarrow> (bool \<times> error option) \<times> 'w St" where
  "IsOpenShift X s =
    (let (err, s) = call (x_GetConfig X) s in
     if err \<noteq> None then ((False, err), s)
     else
       (let (err, s) = call (x_NewDiscoveryClient X) s in
        if err \<noteq> None then ((False, err), s)
        else
          (let (err, s) = call (x_ServerResources X ''config.openshift.io/v1'') s in
           case err of
             Some e \<Rightarrow> if IsNotFound e then ((False, None), s) else ((False, Some e), s)
           | None \<Rightarrow> ((True, None), s))))"

lemma IsOpenShift_frame [frame, simp]:
  "st_pulp (snd (IsOpenShift X s)) = st_pulp s"
  "st_events (snd (IsOpenShift X s)) = st_events s"
  by (simp_all add: IsOpenShift_def split_beta Let_def if_frames option.case_eq_if split del: if_split cong: if_cong)

subsection \<open>Autoscaling\<close>

text \<open>
  The reflection asks \<open>PulpSpec\<close> for a field named after the type: there is no field
  \<open>Redis\<close>, and \<open>Database\<close> has no \<open>HPA\<close>, so both give nil.
\<close>

fun GetHPAConfig :: "Pulp \<Rightarrow> PulpcoreType \<Rightarrow> HPA option" where
  "GetHPAConfig pulp API = Api_HPA (Spec_Api (Pulp_Spec pulp))"
| "GetHPAConfig pulp CONTENT = Content_HPA (Spec_Content (Pulp_Spec pulp))"
| "GetHPAConfig pulp WORKER = Worker_HPA (Spec_Worker (Pulp_Spec pulp))"
| "GetHPAConfig pulp WEB = Web_HPA (Spec_Web (Pulp_Spec pulp))"
| "GetHPAConfig pulp CACHE = None"
| "GetHPAConfig pulp DATABASE = None"

text \<open>The map literal is built entry by entry, a later equal key replacing an earlier one.\<close>

definition isHPAManagedDeployment :: "string \<Rightarrow> Pulp \<Rightarrow> bool" where
  "isHPAManagedDeployment deploymentName pulp =
    (let components = fold (\<lambda>t m. AList.update (DeploymentName t (Pulp_Name pulp)) (GetHPAConfig pulp t) m)
           [API, CONTENT, WORKER, WEB] []
     in case map_of components deploymentName of
          Some (Some hpaConfig) \<Rightarrow> HPA_Enabled hpaConfig
        | _ \<Rightarrow> False)"

lemma DeploymentName_inject [simp]:
  "DeploymentName t n = DeploymentName t' n' \<longleftrightarrow> t = t' \<and> n = n'"
  by (auto simp: names dest!: append_sep_inject type_string_inject
      intro: type_string_no_dash [THEN notE])

subsection \<open>Environment variables\<close>

definition pulpcoreEnvVars :: "string list" where
  "pulpcoreEnvVars =
    [''PULP_GUNICORN_TIMEOUT'', ''PULP_API_WORKERS'',
     ''PULP_CONTENT_WORKERS'', ''REDIS_SERVICE_HOST'',
     ''REDIS_SERVICE_PORT'', ''REDIS_SERVICE_DB'',
     ''REDIS_SERVICE_PASSWORD'', ''PULP_SIGNING_KEY_FINGERPRINT'',
     ''POSTGRES_SERVICE_HOST'', ''POSTGRES_SERVICE_PORT'']"

definition isPulpcoreEnvVar :: "string \<Rightarrow> bool" where
  "isPulpcoreEnvVar envVar \<longleftrightarrow> envVar \<in> set pulpcoreEnvVars"

text \<open>
  The field the reflection reads: \<open>EnvVars\<close> of a pulpcore component, otherwise
  \<open>PulpContainer.EnvVars\<close> of a job. Any other name panics in the reflection.
\<close>

definition component_env :: "PulpSpec \<Rightarrow> string \<Rightarrow> EnvVar list option" where
  "component_env spec component =
    (if component = ''Api'' then Some (Api_EnvVars (Spec_Api spec))
     else if component = ''Worker'' then Some (Worker_EnvVars (Spec_Worker spec))
     else if component = ''Content'' then Some (Content_EnvVars (Spec_Content spec))
     else if component = ''AdminPasswordJob''
       then Some (PulpContainer_EnvVars (PulpJob_PulpContainer (Spec_AdminPasswordJob spec)))
     else if component = ''MigrationJob''
       then Some (PulpContainer_EnvVars (PulpJob_PulpContainer (Spec_MigrationJob spec)))
     else if component = ''SigningJob''
       then Some (PulpContainer_EnvVars (PulpJob_PulpContainer (Spec_SigningJob spec)))
     else None)"

fun keep_custom :: "EnvVar list \<Rightarrow> EnvVar list \<Rightarrow> EnvVar list" where
  "keep_custom [] envVars = envVars"
| "keep_custom (v # vs) envVars =
     (if isPulpcoreEnvVar (env_Name v) then keep_custom vs envVars
      else keep_custom vs (envVars @ [v]))"

definition SetCustomEnvVars :: "Pulp \<Rightarrow> string \<Rightarrow> EnvVar list option" where
  "SetCustomEnvVars pulp component =
    do { userDefinedVars \<leftarrow> component_env (Pulp_Spec pulp) component;
         Some (keep_custom userDefinedVars []) }"

definition SetPulpcoreCustomEnvVars :: "Pulp \<Rightarrow> PulpcoreType \<Rightarrow> EnvVar list option" where
  "SetPulpcoreCustomEnvVars pulp t = SetCustomEnvVars pulp (PulpcoreType_string t)"

lemma keep_custom_filter:
  "keep_custom vs acc = acc @ filter (\<lambda>v. \<not> isPulpcoreEnvVar (env_Name v)) vs"
  by (induction vs arbitrary: acc) auto

subsection \<open>Signing scripts, security context, IPv6\<close>

definition DeployCollectionSign :: "Secret \<Rightarrow> bool" where
  "DeployCollectionSign secret \<longleftrightarrow> map_of (sec_Data secret) CollectionSigningScriptName \<noteq> None"

definition DeployContainerSign :: "Secret \<Rightarrow> bool" where
  "DeployContainerSign secret \<longleftrightarrow> map_of (sec_Data secret) ContainerSigningScriptName \<noteq> None"

definition DeployAptSign :: "Secret \<Rightarrow> bool" where
  "DeployAptSign secret \<longleftrightarrow> map_of (sec_Data secret) AptSigningScriptName \<noteq> None"

definition DeployRpmSign :: "Secret \<Rightarrow> bool" where
  "DeployRpmSign secret \<longleftrightarrow> map_of (sec_Data secret) RpmSigningScriptName \<noteq> None"

definition SetDefaultSecurityContext :: SecurityContext where
  "SetDefaultSecurityContext =
    \<lparr>sc_AllowPrivilegeEscalation = Some False,
     sc_CapabilitiesDrop = [''ALL''],
     sc_RunAsNonRoot = Some True,
     sc_SeccompProfile = Some ''RuntimeDefault''\<rparr>"

definition Ipv6Disabled :: "Pulp \<Rightarrow> bool" where
  "Ipv6Disabled pulp = (case Spec_IPv6Disabled (Pulp_Spec pulp) of None \<Rightarrow> False | Some b \<Rightarrow> b)"

subsection \<open>The trusted CA bundle\<close>

text \<open>The pointer is dereferenced without a check: nil is a panic.\<close>

definition SplitCAConfigMapNameKey :: "Pulp \<Rightarrow> (string \<times> string) option" where
  "SplitCAConfigMapNameKey pulp =
    do { key \<leftarrow> Spec_TrustedCaConfigMapKey (Pulp_Spec pulp);
         let parts = Split (CHR '':'') key;
         if length parts = 2 then Some (parts ! 0, parts ! 1)
         else do { configMapName \<leftarrow> index parts 0; Some (configMapName, []) } }"

definition SetCAVolumes :: "Pulp \<Rightarrow> Volume list \<Rightarrow> Volume list option" where
  "SetCAVolumes pulp volumes =
    (if \<not> Spec_TrustedCa (Pulp_Spec pulp) then Some volumes
     else do {
       (configMapName, configMapKey) \<leftarrow>
         (if Spec_TrustedCaConfigMapKey (Pulp_Spec pulp) \<noteq> None then SplitCAConfigMapNameKey pulp
          else Some (EmptyCAConfigMapName (Pulp_Name pulp), ''ca-bundle.crt''));
       let items = (if configMapKey \<noteq> [] then [(configMapKey, ''tls-ca-bundle.pem'')] else []);
       Some (volumes @ [\<lparr>vol_Name = ''trusted-ca'',
         vol_Source = ConfigMapVolume configMapName (Some 420) items\<rparr>]) })"

definition SetCAVolumeMounts :: "Pulp \<Rightarrow> VolumeMount list \<Rightarrow> VolumeMount list" where
  "SetCAVolumeMounts pulp volumeMounts =
    (if \<not> Spec_TrustedCa (Pulp_Spec pulp) then volumeMounts
     else volumeMounts @ [\<lparr>vm_Name = ''trusted-ca'',
       vm_MountPath = ''/etc/pki/ca-trust/extracted/pem'', vm_SubPath = [], vm_ReadOnly = True\<rparr>])"

lemma SplitCAConfigMapNameKey_Some:
  "Spec_TrustedCaConfigMapKey (Pulp_Spec pulp) \<noteq> None \<Longrightarrow> SplitCAConfigMapNameKey pulp \<noteq> None"
  by (auto simp: SplitCAConfigMapNameKey_def Let_def index_def)

lemma SetCAVolumes_Some: "SetCAVolumes pulp volumes \<noteq> None"
  using SplitCAConfigMapNameKey_Some [of pulp]
  by (auto simp: SetCAVolumes_def Let_def)

subsection \<open>Properties\<close>

text \<open>
  the name of a workload determines the instance and the component it belongs to, so no
  two Deployments (or disruption budgets) of the instances of one namespace collide.
\<close>

lemma workload_names_never_collide:
  "(DeploymentName t n = DeploymentName t' n' \<longleftrightarrow> t = t' \<and> n = n') \<and>
   (PDBName t n = PDBName t' n' \<longleftrightarrow> t = t' \<and> n = n')"
  using DeploymentName_inject [of t n t' n'] by (simp add: names)

end
