(* ===== verification/Hashing.thy ===== *)
theory Hashing
  imports Pod_Utils
begin

text \<open>
  The hashes the operator keeps as a label to notice changes: FNV-1a over the dump of an
  object (\<open>CalculateHash\<close>), printed in hexadecimal, and the label that stores it. The dump is
  a parameter (\<open>k8s.io/apimachinery/pkg/util/dump\<close>); \<open>hash/fnv\<close> and \<open>encoding/hex\<close> are
  modelled on 32-bit words.
\<close>

unbundle bit_operations_syntax

subsection \<open>FNV-1a and hexadecimal\<close>

definition fnv32a_step :: "32 word \<Rightarrow> char \<Rightarrow> 32 word" where
  "fnv32a_step h b = (h XOR of_nat (of_char b)) * 16777619"

definition fnv32a :: "string \<Rightarrow> 32 word" where
  "fnv32a bs = foldl fnv32a_step 2166136261 bs"

definition hex_digit :: "nat \<Rightarrow> char" where
  "hex_digit n = ''0123456789abcdef'' ! n"

text \<open>\<open>hex.EncodeToString(h.Sum(nil))\<close>: the four bytes of the hash, big-endian.\<close>

definition hex32 :: "32 word \<Rightarrow> string" where
  "hex32 h = map (\<lambda>i. hex_digit (unat (drop_bit (28 - 4 * i) h) mod 16)) [0, 1, 2, 3, 4, 5, 6, 7]"

definition hash_of_dump :: "string \<Rightarrow> string" where
  "hash_of_dump dump = hex32 (fnv32a dump)"

text \<open>\<open>CalculateHash\<close> at the two types it is used at.\<close>

definition CalculateHash_spec :: "'w Externals \<Rightarrow> DeploymentSpec \<Rightarrow> string" where
  "CalculateHash_spec X spec = hash_of_dump (x_DumpSpec X spec)"

definition CalculateHash :: "'w Externals \<Rightarrow> gomap \<Rightarrow> string" where
  "CalculateHash X m = hash_of_dump (x_DumpMap X m)"

subsection \<open>The hash label\<close>

definition OperatorHashLabel :: string where
  "OperatorHashLabel = ''pulp-operator-hash''"

definition SetHashLabel :: "string \<Rightarrow> ObjectMeta \<Rightarrow> ObjectMeta" where
  "SetHashLabel label obj = obj\<lparr>meta_Labels := gset OperatorHashLabel label (meta_Labels obj)\<rparr>"

definition GetCurrentHash :: "ObjectMeta \<Rightarrow> string" where
  "GetCurrentHash obj = gget (meta_Labels obj) OperatorHashLabel"

definition stripDeprecatedServiceAccount :: "DeploymentSpec \<Rightarrow> DeploymentSpec" where
  "stripDeprecatedServiceAccount spec =
    spec\<lparr>dspec_Template := (dspec_Template spec)\<lparr>tmpl_Spec :=
      (tmpl_Spec (dspec_Template spec))\<lparr>pod_DeprecatedServiceAccount := []\<rparr>\<rparr>\<rparr>"

definition CalculateDeploymentHash :: "'w Externals \<Rightarrow> DeploymentSpec \<Rightarrow> string" where
  "CalculateDeploymentHash X spec = CalculateHash_spec X (stripDeprecatedServiceAccount spec)"

text \<open>
  The dry run rewrites the caller's Deployment with what the server would store; its error is
  ignored. The result is the hash and the Deployment as the call leaves it.
\<close>

fun as_dep :: "Deployment \<Rightarrow> Object \<Rightarrow> Deployment" where
  "as_dep d (DeploymentObj d') = d'"
| "as_dep d _ = d"

definition HashFromMutated :: "'w Externals \<Rightarrow> Deployment \<Rightarrow> 'w St \<Rightarrow> (string \<times> Deployment) \<times> 'w St" where
  "HashFromMutated X dep s =
    (let ((_, obj), s) = call (x_DryRunUpdate X (DeploymentObj dep)) s;
         dep = as_dep dep obj;
         spec = (if isHPAManagedDeployment (meta_Name (dep_Meta dep)) (st_pulp s)
                 then (dep_Spec dep)\<lparr>dspec_Replicas := None\<rparr> else dep_Spec dep)
     in ((CalculateDeploymentHash X spec, dep), s))"

subsection \<open>Lemmas\<close>

lemma hex_digit_range: "n < 16 \<Longrightarrow> hex_digit n \<in> set ''0123456789abcdef''"
  unfolding hex_digit_def by (rule nth_mem) simp

lemma length_hex32 [simp]: "length (hex32 h) = 8"
  by (simp add: hex32_def)

lemma set_hex32: "set (hex32 h) \<subseteq> set ''0123456789abcdef''"
proof -
  have "hex_digit (n mod 16) \<in> set ''0123456789abcdef''" for n
    by (rule hex_digit_range) simp
  then show ?thesis unfolding hex32_def by (simp only: list.map set_simps insert_subset) simp
qed

lemma GetCurrentHash_SetHashLabel [simp]: "GetCurrentHash (SetHashLabel h m) = h"
  by (simp add: GetCurrentHash_def SetHashLabel_def)

lemma SetHashLabel_sel [simp]:
  "meta_Name (SetHashLabel h m) = meta_Name m"
  "meta_Namespace (SetHashLabel h m) = meta_Namespace m"
  "meta_Annotations (SetHashLabel h m) = meta_Annotations m"
  by (simp_all add: SetHashLabel_def)

lemma HashFromMutated_frame [frame, simp]:
  "st_pulp (snd (HashFromMutated X dep s)) = st_pulp s"
  "st_events (snd (HashFromMutated X dep s)) = st_events s"
  by (simp_all add: HashFromMutated_def split_beta Let_def)

subsection \<open>Properties\<close>

text \<open>
  a hash is eight hexadecimal digits, a valid label value, whatever is hashed, and the
  label that is written is the one that is read back while every other label stays.
\<close>

lemma hash_label_roundtrip:
  "length (CalculateHash X m) = 8 \<and> set (CalculateHash X m) \<subseteq> set ''0123456789abcdef'' \<and>
   length (CalculateDeploymentHash X spec) = 8 \<and>
   set (CalculateDeploymentHash X spec) \<subseteq> set ''0123456789abcdef'' \<and>
   GetCurrentHash (SetHashLabel h meta) = h \<and>
   map_of (meta_Labels (SetHashLabel h meta)) = (map_of (meta_Labels meta))(OperatorHashLabel \<mapsto> h)"
  using set_hex32
  by (simp add: CalculateHash_def CalculateDeploymentHash_def CalculateHash_spec_def
      hash_of_dump_def SetHashLabel_def GetCurrentHash_def)

text \<open>
  The published test vectors of 32-bit FNV-1a for the empty string, \<open>a\<close> and \<open>foobar\<close>.
\<close>

lemma fnv32a_vectors:
  "hash_of_dump '''' = ''811c9dc5''"
  "hash_of_dump ''a'' = ''e40c292c''"
  "hash_of_dump ''foobar'' = ''bf9cf968''"
  by (simp_all add: hash_of_dump_def hex32_def fnv32a_def fnv32a_step_def hex_digit_def)

end
