(* ===== verification/Mem_Server.thy ===== *)
theory Mem_Server
  imports Kube_Client
begin

text \<open>
  An API server held in memory, with the behaviour the operator's client shows: objects are
  found by kind, namespace and name, a \<open>Create\<close> of an existing name and an \<open>Update\<close> of a
  missing one fail, a dry run changes nothing, the status subresource writes the status of
  the stored custom resource. With it come the documented behaviour of the condition helpers
  and plain choices for the remaining library functions. It satisfies the locales of
  \<open>Kube_Client\<close> and is what the concrete evaluations of the development run against.
\<close>

record mem =
  mem_objs :: "Object list"
  mem_pulps :: "Pulp list"
  mem_clock :: nat
  mem_seed :: nat
  mem_openshift :: bool
  mem_conflict :: bool

definition same_obj :: "Kind \<Rightarrow> string \<Rightarrow> string \<Rightarrow> Object \<Rightarrow> bool" where
  "same_obj k ns n x \<longleftrightarrow> obj_Kind x = k \<and> obj_Namespace x = ns \<and> obj_Name x = n"

definition mem_lookup :: "Kind \<Rightarrow> string \<Rightarrow> string \<Rightarrow> mem \<Rightarrow> Object option" where
  "mem_lookup k ns n w = List.find (same_obj k ns n) (mem_objs w)"

definition mem_get :: "Kind \<Rightarrow> string \<Rightarrow> string \<Rightarrow> mem \<Rightarrow> (error + Object) \<times> mem" where
  "mem_get k ns n w = (case mem_lookup k ns n w of None \<Rightarrow> (Inl (NotFound n), w) | Some x \<Rightarrow> (Inr x, w))"

definition key_of :: "Object \<Rightarrow> Kind \<times> string \<times> string" where
  "key_of x = (obj_Kind x, obj_Namespace x, obj_Name x)"

text \<open>The server merges \<open>stringData\<close> into \<open>data\<close> and does not keep it.\<close>

fun normalise :: "Object \<Rightarrow> Object" where
  "normalise (SecretObj x) = SecretObj (x\<lparr>sec_Data := gcopy (sec_Data x) (sec_StringData x), sec_StringData := []\<rparr>)"
| "normalise x = x"

text \<open>An object without a name gets one from \<open>generateName\<close>.\<close>

definition named :: "mem \<Rightarrow> Object \<Rightarrow> Object" where
  "named w x = (if obj_Name x = []
     then map_Meta (\<lambda>m. m\<lparr>meta_Name := meta_GenerateName m @ digits_of (length (mem_objs w))\<rparr>) x else x)"

definition mem_create :: "Object \<Rightarrow> mem \<Rightarrow> error option \<times> mem" where
  "mem_create x0 w =
    (let x = named w x0 in
     if \<exists>y \<in> set (mem_objs w). key_of y = key_of x then (Some (Errorf ''already exists''), w)
     else (None, w\<lparr>mem_objs := mem_objs w @ [normalise x]\<rparr>))"

definition mem_update :: "Object \<Rightarrow> mem \<Rightarrow> (error option \<times> Object) \<times> mem" where
  "mem_update x w =
    (if mem_conflict w then ((Some (Conflict ''object has been modified''), x), w)
     else if \<exists>y \<in> set (mem_objs w). key_of y = key_of x
     then ((None, x), w\<lparr>mem_objs := map (\<lambda>y. if key_of y = key_of x then normalise x else y) (mem_objs w)\<rparr>)
     else ((Some (NotFound (obj_Name x)), x), w))"

definition mem_delete :: "Object \<Rightarrow> mem \<Rightarrow> error option \<times> mem" where
  "mem_delete x w =
    (if \<exists>y \<in> set (mem_objs w). key_of y = key_of x
     then (None, w\<lparr>mem_objs := filter (\<lambda>y. key_of y \<noteq> key_of x) (mem_objs w)\<rparr>)
     else (Some (NotFound (obj_Name x)), w))"

definition matches :: "gomap \<Rightarrow> gomap \<Rightarrow> bool" where
  "matches sel labels \<longleftrightarrow> (\<forall>(k, v) \<in> set sel. map_of labels k = Some v)"

definition mem_delete_all :: "Kind \<Rightarrow> string \<Rightarrow> gomap \<Rightarrow> mem \<Rightarrow> error option \<times> mem" where
  "mem_delete_all k ns sel w =
    (None, w\<lparr>mem_objs := filter (\<lambda>y. \<not> (obj_Kind y = k \<and> obj_Namespace y = ns
                                     \<and> matches sel (meta_Labels (obj_Meta y)))) (mem_objs w)\<rparr>)"

fun job_of :: "Object \<Rightarrow> Job option" where
  "job_of (JobObj j) = Some j"
| "job_of _ = None"

definition mem_list_jobs :: "string \<Rightarrow> gomap \<Rightarrow> mem \<Rightarrow> (error + Job list) \<times> mem" where
  "mem_list_jobs ns sel w =
    (Inr (List.map_filter job_of
       (filter (\<lambda>y. obj_Namespace y = ns \<and> matches sel (meta_Labels (obj_Meta y))) (mem_objs w))), w)"

definition same_pulp :: "string \<Rightarrow> string \<Rightarrow> Pulp \<Rightarrow> bool" where
  "same_pulp ns n p \<longleftrightarrow> Pulp_Namespace p = ns \<and> Pulp_Name p = n"

definition mem_get_pulp :: "string \<Rightarrow> string \<Rightarrow> mem \<Rightarrow> (error + Pulp) \<times> mem" where
  "mem_get_pulp ns n w =
    (case List.find (same_pulp ns n) (mem_pulps w) of None \<Rightarrow> (Inl (NotFound n), w) | Some p \<Rightarrow> (Inr p, w))"

definition mem_put_pulp :: "(Pulp \<Rightarrow> Pulp) \<Rightarrow> Pulp \<Rightarrow> mem \<Rightarrow> (error option \<times> Pulp) \<times> mem" where
  "mem_put_pulp f p w =
    (if \<exists>q \<in> set (mem_pulps w). same_pulp (Pulp_Namespace p) (Pulp_Name p) q
     then ((None, p), w\<lparr>mem_pulps := map (\<lambda>q. if same_pulp (Pulp_Namespace p) (Pulp_Name p) q then f q else q)
                                        (mem_pulps w)\<rparr>)
     else ((Some (NotFound (Pulp_Name p)), p), w))"

subsection \<open>Conditions\<close>

definition find_condition :: "Condition list \<Rightarrow> string \<Rightarrow> Condition option" where
  "find_condition cs t = List.find (\<lambda>c. cond_Type c = t) cs"

text \<open>An existing condition keeps its transition time when its status stays the same.\<close>

definition merge_condition :: "Condition \<Rightarrow> Condition \<Rightarrow> Condition" where
  "merge_condition old new =
    new\<lparr>cond_LastTransitionTime := (if cond_Status old = cond_Status new
         then cond_LastTransitionTime old else cond_LastTransitionTime new)\<rparr>"

fun set_condition :: "Condition list \<Rightarrow> Condition \<Rightarrow> Condition list" where
  "set_condition [] c = [c]"
| "set_condition (d # ds) c =
     (if cond_Type d = cond_Type c then merge_condition d c # ds else d # set_condition ds c)"

definition remove_condition :: "Condition list \<Rightarrow> string \<Rightarrow> Condition list" where
  "remove_condition cs t = filter (\<lambda>c. cond_Type c \<noteq> t) cs"

definition condition_equal :: "Condition list \<Rightarrow> string \<Rightarrow> ConditionStatus \<Rightarrow> bool" where
  "condition_equal cs t st = (case find_condition cs t of None \<Rightarrow> False | Some c \<Rightarrow> cond_Status c = st)"

lemma find_condition_simps [simp]:
  "find_condition [] t = None"
  "find_condition (c # cs) t = (if cond_Type c = t then Some c else find_condition cs t)"
  by (simp_all add: find_condition_def)

lemma merge_condition_sel [simp]:
  "cond_Type (merge_condition d c) = cond_Type c"
  "cond_Status (merge_condition d c) = cond_Status c"
  "cond_Reason (merge_condition d c) = cond_Reason c"
  "cond_Message (merge_condition d c) = cond_Message c"
  by (simp_all add: merge_condition_def)

lemma find_set_condition:
  "\<exists>c'. find_condition (set_condition cs c) (cond_Type c) = Some c' \<and>
     cond_Status c' = cond_Status c \<and> cond_Reason c' = cond_Reason c \<and> cond_Message c' = cond_Message c"
  by (induction cs) auto

lemma find_set_condition_other:
  "t \<noteq> cond_Type c \<Longrightarrow> find_condition (set_condition cs c) t = find_condition cs t"
  by (induction cs) auto

lemma find_remove_condition:
  "find_condition (remove_condition cs t) t' = (if t' = t then None else find_condition cs t')"
  by (induction cs) (auto simp: remove_condition_def)

subsection \<open>Library functions\<close>

text \<open>Title case of one lower-case word, as the operator uses it.\<close>

fun title :: "string \<Rightarrow> string" where
  "title [] = []"
| "title (c # cs) = upper_char c # ToLower cs"

definition dump_map :: "gomap \<Rightarrow> string" where
  "dump_map m = concat (map (\<lambda>k. k @ '':'' @ gget m k @ '' '') (sort (map fst m)))"

definition dump_spec :: "DeploymentSpec \<Rightarrow> string" where
  "dump_spec d = (case dspec_Replicas d of None \<Rightarrow> ''nil'' | Some n \<Rightarrow> Itoa n) @ '' ''
     @ strat_Type (dspec_Strategy d) @ '' '' @ dump_map (dspec_Selector d)
     @ concat (map ctr_Image (pod_Containers (tmpl_Spec (dspec_Template d))))"

definition mem_ext :: "mem Externals" where
  "mem_ext = \<lparr>
     x_Get = mem_get,
     x_Create = mem_create,
     x_Update = mem_update,
     x_DryRunCreate = (\<lambda>x w. (if \<exists>y \<in> set (mem_objs w). key_of y = key_of x
       then (Some (Errorf ''already exists''), x) else (None, x), w)),
     x_DryRunUpdate = (\<lambda>x w. ((None, x), w)),
     x_Delete = mem_delete,
     x_DeleteAllOf = mem_delete_all,
     x_ListJobs = mem_list_jobs,
     x_ListPods = (\<lambda>ns labels w. (Inr [(''pod-0'', ''Running'')], w)),
     x_Exec = (\<lambda>ns pod container command w. (Inr (''[]'', []), w)),
     x_GetPulp = mem_get_pulp,
     x_ListPulps = (\<lambda>ns n w. (Inr (filter (\<lambda>p. Pulp_Namespace p = ns) (mem_pulps w)), w)),
     x_StatusUpdate = (\<lambda>p w. mem_put_pulp (\<lambda>q. q\<lparr>Pulp_Status := Pulp_Status p\<rparr>) p w),
     x_PatchPulp = (\<lambda>p base w. mem_put_pulp (\<lambda>q. q\<lparr>Pulp_Spec := Pulp_Spec p\<rparr>) p w),
     x_GetConfig = (\<lambda>w. (None, w)),
     x_NewDiscoveryClient = (\<lambda>w. (None, w)),
     x_ServerResources = (\<lambda>gv w. (if mem_openshift w then None else Some (NotFound gv), w)),
     x_Now = (\<lambda>w. (digits_of (mem_clock w), w\<lparr>mem_clock := Suc (mem_clock w)\<rparr>)),
     x_Intn = (\<lambda>n w. (mem_seed w mod n, w\<lparr>mem_seed := 7 * mem_seed w + 3\<rparr>)),
     x_RandBytes = (\<lambda>n w. (replicate n (char_of (mem_seed w mod 256)), w)),
     x_GenKeyPEM = (\<lambda>w. ((''private'', ''public''), w)),
     x_RangeOrder = (\<lambda>m w. (m, w)),
     x_FindStatusCondition = find_condition,
     x_SetStatusCondition = set_condition,
     x_RemoveStatusCondition = remove_condition,
     x_IsStatusConditionPresentAndEqual = condition_equal,
     x_IsStatusConditionFalse = (\<lambda>cs t. condition_equal cs t ConditionFalse),
     x_Schedule = (\<lambda>n w. (rev [0..<n], w)),
     x_Getenv = (\<lambda>v. []),
     x_ReadArmoredKeyRing = (\<lambda>t. if t = [] then Inl (Errorf ''EOF'') else Inr [t]),
     x_ParseQuantity = (\<lambda>q. q \<noteq> []),
     x_QuantityIsZero = (\<lambda>q. q = ''0''),
     x_QuantityString = (\<lambda>q. q),
     x_Title = title,
     x_DumpSpec = dump_spec,
     x_DumpMap = dump_map,
     x_DeepDerivative = (\<lambda>a b. a = b),
     x_DeepEqual = same_map\<rparr>"

lemma mem_put_pulp_keeps: "mem_put_pulp f p w = ((err, p'), w') \<Longrightarrow> p' = p"
  by (auto simp: mem_put_pulp_def split: if_splits)

interpretation mem_conditions: condition_lib mem_ext
proof unfold_locales
  fix cs c
  show "\<exists>c'. x_FindStatusCondition mem_ext (x_SetStatusCondition mem_ext cs c) (cond_Type c) = Some c' \<and>
      cond_Status c' = cond_Status c \<and> cond_Reason c' = cond_Reason c \<and> cond_Message c' = cond_Message c"
    by (simp add: mem_ext_def find_set_condition)
qed (auto simp: mem_ext_def find_set_condition_other find_remove_condition condition_equal_def
    split: option.splits)

interpretation mem_pulps: pulp_store mem_ext
  by unfold_locales (auto simp: mem_ext_def dest!: mem_put_pulp_keeps)

lemma normalise_key [simp]:
  "obj_Kind (normalise x) = obj_Kind x" "obj_Meta (normalise x) = obj_Meta x"
  by (cases x; simp)+

lemma find_append_Some: "P x \<Longrightarrow> \<exists>y. List.find P (xs @ [x]) = Some y"
  by (induction xs) auto

interpretation mem_objects: object_store mem_ext
proof
  fix obj w w'
  assume "x_Create mem_ext obj w = (None, w')" "obj_Name obj \<noteq> []"
  then have "mem_objs w' = mem_objs w @ [normalise obj]"
    by (auto simp: mem_ext_def mem_create_def named_def Let_def split: if_splits)
  moreover obtain y where "List.find (same_obj (obj_Kind obj) (obj_Namespace obj) (obj_Name obj))
      (mem_objs w @ [normalise obj]) = Some y"
    using find_append_Some [of "same_obj (obj_Kind obj) (obj_Namespace obj) (obj_Name obj)"]
    by (metis same_obj_def normalise_key)
  ultimately show "\<exists>obj'. fst (x_Get mem_ext (obj_Kind obj) (obj_Namespace obj) (obj_Name obj) w') = Inr obj'"
    by (simp add: mem_ext_def mem_get_def mem_lookup_def)
qed

interpretation mem_quiet: quiet_cluster mem_ext
  by unfold_locales
     (simp_all add: mem_ext_def mem_get_def mem_lookup_def mem_put_pulp_def split: option.splits)

interpretation mem_runtime: go_runtime mem_ext
  by unfold_locales (auto simp: mem_ext_def)

text \<open>A server that holds one custom resource and nothing else, and the first state on it.\<close>

definition mem_init :: "Pulp \<Rightarrow> Object list \<Rightarrow> mem" where
  "mem_init p objs = \<lparr>mem_objs = objs, mem_pulps = [p], mem_clock = 0, mem_seed = 1,
     mem_openshift = False, mem_conflict = False\<rparr>"

definition mem_state :: "Pulp \<Rightarrow> Object list \<Rightarrow> mem St" where
  "mem_state p objs = \<lparr>st_world = mem_init p objs, st_pulp = p, st_events = []\<rparr>"

end
