(* ===== verification/Reconcile_Object.thy ===== *)
theory Reconcile_Object
  imports Hashing Mem_Server
begin

text \<open>
  Creating and synchronising Kubernetes objects: the status conditions (\<open>UpdateStatus\<close>), the
  \<open>PulpObject\<close> interface with its seven implementations and \<open>ReconcileObject\<close> of
  \<open>controllers/utils.go\<close>, and \<open>createPulpResource\<close> of \<open>controllers/repo_manager/utils.go\<close>.

  The Go interface \<open>PulpObject\<close> is the locale \<open>pulp_object\<close>: an implementation promises that
  it can read the fields of the objects it is meant for and that its comparison leaves the
  custom resource alone. What \<open>ReconcileObject\<close> guarantees is proved once in the locale and
  holds for every implementation by interpretation.
\<close>

subsection \<open>Status conditions\<close>

abbreviation conditions :: "'w St \<Rightarrow> Condition list" where
  "conditions s \<equiv> Status_Conditions (Pulp_Status (st_pulp s))"

definition finished :: string where
  "finished = ''Pulp-Operator-Finished-Execution''"

text \<open>\<open>v1.SetStatusCondition(&pulp.Status.Conditions, ...)\<close> with \<open>LastTransitionTime: metav1.Now()\<close>.\<close>

definition set_condition_now ::
  "'w Externals \<Rightarrow> string \<Rightarrow> ConditionStatus \<Rightarrow> string \<Rightarrow> string \<Rightarrow> 'w St \<Rightarrow> 'w St" where
  "set_condition_now X ctype status reason message s =
    (let (now, s) = call (x_Now X) s
     in set_Status (\<lambda>st. st\<lparr>Status_Conditions := x_SetStatusCondition X (Status_Conditions st)
          \<lparr>cond_Type = ctype, cond_Status = status, cond_Reason = reason,
           cond_LastTransitionTime = now, cond_Message = message\<rparr>\<rparr>) s)"

definition UpdateStatus ::
  "'w Externals \<Rightarrow> ConditionStatus \<Rightarrow> string \<Rightarrow> string \<Rightarrow> string \<Rightarrow> 'w St \<Rightarrow> 'w St" where
  "UpdateStatus X conditionStatus conditionType conditionReason conditionMessage s =
    (let s = (if x_IsStatusConditionPresentAndEqual X (conditions s) finished ConditionTrue
              then set_condition_now X finished ConditionFalse ''OperatorRunning''
                     (Pulp_Name (st_pulp s) @ '' operator tasks running'') s
              else s)
     in if \<not> x_IsStatusConditionPresentAndEqual X (conditions s) conditionType conditionStatus
        then snd (Status_Update X
               (set_condition_now X conditionType conditionStatus conditionReason conditionMessage s))
        else s)"

lemma set_condition_now_sel [simp]:
  "Pulp_Spec (st_pulp (set_condition_now X t st r m s)) = Pulp_Spec (st_pulp s)"
  "Pulp_Meta (st_pulp (set_condition_now X t st r m s)) = Pulp_Meta (st_pulp s)"
  "st_events (set_condition_now X t st r m s) = st_events s"
  by (simp_all add: set_condition_now_def split_beta)

context condition_lib
begin

lemma set_condition_now_present:
  "x_IsStatusConditionPresentAndEqual X (conditions (set_condition_now X t st r m s)) t' st' \<longleftrightarrow>
    (if t' = t then st = st' else x_IsStatusConditionPresentAndEqual X (conditions s) t' st')"
  by (simp add: set_condition_now_def split_beta condition_simps)

end

locale status_server = condition_lib + pulp_store
begin

lemma UpdateStatus_keeps [simp]:
  "Pulp_Spec (st_pulp (UpdateStatus X st t r m s)) = Pulp_Spec (st_pulp s)"
  "Pulp_Name (st_pulp (UpdateStatus X st t r m s)) = Pulp_Name (st_pulp s)"
  "Pulp_Namespace (st_pulp (UpdateStatus X st t r m s)) = Pulp_Namespace (st_pulp s)"
  "st_events (UpdateStatus X st t r m s) = st_events s"
  by (simp_all add: UpdateStatus_def Let_def if_frames split del: if_split cong: if_cong)

lemma UpdateStatus_sets:
  "x_IsStatusConditionPresentAndEqual X (conditions (UpdateStatus X st t r m s)) t st"
  by (simp add: UpdateStatus_def Let_def set_condition_now_present)

lemma UpdateStatus_unfinishes:
  "t \<noteq> finished \<Longrightarrow>
   \<not> x_IsStatusConditionPresentAndEqual X (conditions (UpdateStatus X st t r m s)) finished ConditionTrue"
  by (auto simp: UpdateStatus_def Let_def set_condition_now_present split: if_splits)

lemma UpdateStatus_other:
  "t' \<noteq> t \<Longrightarrow> t' \<noteq> finished \<Longrightarrow>
   x_IsStatusConditionPresentAndEqual X (conditions (UpdateStatus X st t r m s)) t' st' \<longleftrightarrow>
   x_IsStatusConditionPresentAndEqual X (conditions s) t' st'"
  by (auto simp: UpdateStatus_def Let_def set_condition_now_present)

end

subsection \<open>Comparisons\<close>

definition checkSpecModification :: "'w Externals \<Rightarrow> apiValue \<Rightarrow> apiValue \<Rightarrow> bool" where
  "checkSpecModification X expectedField currentField \<longleftrightarrow> \<not> x_DeepDerivative X expectedField currentField"

definition deploymentChanged :: "string \<Rightarrow> string \<Rightarrow> string \<Rightarrow> bool" where
  "deploymentChanged hashFromLabel hashFromExpected hashFromCurrent \<longleftrightarrow>
    hashFromLabel \<noteq> hashFromExpected \<or> hashFromCurrent \<noteq> hashFromExpected"

definition drop_replicas :: "Deployment \<Rightarrow> Deployment" where
  "drop_replicas d = d\<lparr>dep_Spec := (dep_Spec d)\<lparr>dspec_Replicas := None\<rparr>\<rparr>"

definition CheckDeploymentSpec :: "'w Externals \<Rightarrow> Deployment \<Rightarrow> Deployment \<Rightarrow> 'w St \<Rightarrow> bool \<times> 'w St" where
  "CheckDeploymentSpec X expected current s =
    (if isHPAManagedDeployment (meta_Name (dep_Meta expected)) (st_pulp s)
     then (let expectedCopy = drop_replicas expected;
               currentCopy = drop_replicas current;
               hashFromLabel = GetCurrentHash (dep_Meta current);
               ((hashFromExpected, _), s) = HashFromMutated X expectedCopy s;
               hashFromCurrent = CalculateDeploymentHash X (dep_Spec currentCopy)
           in (deploymentChanged hashFromLabel hashFromExpected hashFromCurrent, s))
     else (let hashFromLabel = GetCurrentHash (dep_Meta current);
               ((hashFromExpected, _), s) = HashFromMutated X expected s;
               hashFromCurrent = CalculateDeploymentHash X (dep_Spec current)
           in (deploymentChanged hashFromLabel hashFromExpected hashFromCurrent, s)))"

definition convertSecretDataFormat :: "gomap \<Rightarrow> gomap" where
  "convertSecretDataFormat secret = fold (\<lambda>(k, v). gset k v) secret []"

definition checkPulpServerSecretModification :: "'w Externals \<Rightarrow> gomap \<Rightarrow> gomap \<Rightarrow> bool" where
  "checkPulpServerSecretModification X expected current \<longleftrightarrow>
    CalculateHash X expected \<noteq> CalculateHash X (convertSecretDataFormat current)"

definition metadataAnnotationsDiff :: "'w Externals \<Rightarrow> ObjectMeta \<Rightarrow> ObjectMeta \<Rightarrow> bool" where
  "metadataAnnotationsDiff X current expected \<longleftrightarrow>
    \<not> x_DeepEqual X (meta_Annotations current) (meta_Annotations expected) \<or>
    \<not> x_DeepEqual X (meta_Annotations expected) (meta_Annotations current)"

definition metadataLabelsDiff :: "'w Externals \<Rightarrow> ObjectMeta \<Rightarrow> ObjectMeta \<Rightarrow> bool" where
  "metadataLabelsDiff X current expected \<longleftrightarrow>
    \<not> x_DeepEqual X (meta_Labels current) (meta_Labels expected) \<or>
    \<not> x_DeepEqual X (meta_Labels expected) (meta_Labels current)"

definition checkMetadataModification :: "'w Externals \<Rightarrow> ObjectMeta \<Rightarrow> ObjectMeta \<Rightarrow> bool" where
  "checkMetadataModification X a b \<longleftrightarrow> metadataAnnotationsDiff X a b \<or> metadataLabelsDiff X a b"

fun isRouteOrIngress :: "Object \<Rightarrow> bool" where
  "isRouteOrIngress (RouteObj _) = True"
| "isRouteOrIngress (IngressObj _) = True"
| "isRouteOrIngress _ = False"

subsection \<open>The interface PulpObject\<close>

datatype PulpObject = PulpDeployment | PulpSecret | PulpService | PulpConfigMap | PulpIngress
  | PulpRoute | PulpObjectMetadata

text \<open>The fields a comparison receives, expected first.\<close>

datatype Fields = FDeployment Deployment Deployment | FSecret gomap gomap
  | FValue apiValue apiValue | FMeta ObjectMeta ObjectMeta

text \<open>Reading a field the object does not have is a panic of the reflection.\<close>

fun dep_of :: "Object \<Rightarrow> Deployment option" where
  "dep_of (DeploymentObj x) = Some x"
| "dep_of _ = None"

fun sec_of :: "Object \<Rightarrow> Secret option" where
  "sec_of (SecretObj x) = Some x"
| "sec_of _ = None"

fun cm_of :: "Object \<Rightarrow> ConfigMap option" where
  "cm_of (ConfigMapObj x) = Some x"
| "cm_of _ = None"

fun svc_of :: "Object \<Rightarrow> Service option" where
  "svc_of (ServiceObj x) = Some x"
| "svc_of _ = None"

fun ing_of :: "Object \<Rightarrow> Ingress option" where
  "ing_of (IngressObj x) = Some x"
| "ing_of _ = None"

fun rt_of :: "Object \<Rightarrow> Route option" where
  "rt_of (RouteObj x) = Some x"
| "rt_of _ = None"

fun GetFields :: "PulpObject \<Rightarrow> Object \<Rightarrow> Object \<Rightarrow> Fields option" where
  "GetFields PulpDeployment e c = do { e \<leftarrow> dep_of e; c \<leftarrow> dep_of c; Some (FDeployment e c) }"
| "GetFields PulpSecret e c =
     do { e \<leftarrow> sec_of e; c \<leftarrow> sec_of c; Some (FSecret (sec_StringData e) (sec_Data c)) }"
| "GetFields PulpConfigMap e c =
     do { e \<leftarrow> cm_of e; c \<leftarrow> cm_of c; Some (FValue (VData (cm_Data e)) (VData (cm_Data c))) }"
| "GetFields PulpService e c =
     do { e \<leftarrow> svc_of e; c \<leftarrow> svc_of c;
          Some (FValue (VServiceSpec (svc_Spec e)) (VServiceSpec (svc_Spec c))) }"
| "GetFields PulpIngress e c =
     do { e \<leftarrow> ing_of e; c \<leftarrow> ing_of c;
          Some (FValue (VIngressSpec (ing_Spec e)) (VIngressSpec (ing_Spec c))) }"
| "GetFields PulpRoute e c =
     do { e \<leftarrow> rt_of e; c \<leftarrow> rt_of c; Some (FValue (VRouteSpec (rt_Spec e)) (VRouteSpec (rt_Spec c))) }"
| "GetFields PulpObjectMetadata e c = Some (FMeta (obj_Meta e) (obj_Meta c))"

text \<open>
  \<open>GetModifiedFunc\<close> returns the comparison, here applied to the fields; a comparison that is
  given fields of another type panics in its type assertion.
\<close>

definition check_deployment :: "'w Externals \<Rightarrow> Fields \<Rightarrow> 'w St \<Rightarrow> (bool \<times> 'w St) option" where
  "check_deployment X f s = (case f of FDeployment e c \<Rightarrow> Some (CheckDeploymentSpec X e c s) | _ \<Rightarrow> None)"

definition check_secret :: "'w Externals \<Rightarrow> Fields \<Rightarrow> 'w St \<Rightarrow> (bool \<times> 'w St) option" where
  "check_secret X f s = (case f of FSecret e c \<Rightarrow> Some (checkPulpServerSecretModification X e c, s) | _ \<Rightarrow> None)"

definition check_value :: "'w Externals \<Rightarrow> Fields \<Rightarrow> 'w St \<Rightarrow> (bool \<times> 'w St) option" where
  "check_value X f s = (case f of FValue e c \<Rightarrow> Some (checkSpecModification X e c, s) | _ \<Rightarrow> None)"

definition check_meta :: "'w Externals \<Rightarrow> Fields \<Rightarrow> 'w St \<Rightarrow> (bool \<times> 'w St) option" where
  "check_meta X f s = (case f of FMeta e c \<Rightarrow> Some (checkMetadataModification X e c, s) | _ \<Rightarrow> None)"

fun GetModifiedFunc :: "PulpObject \<Rightarrow> 'w Externals \<Rightarrow> Fields \<Rightarrow> 'w St \<Rightarrow> (bool \<times> 'w St) option" where
  "GetModifiedFunc PulpDeployment = check_deployment"
| "GetModifiedFunc PulpSecret = check_secret"
| "GetModifiedFunc PulpConfigMap = check_value"
| "GetModifiedFunc PulpService = check_value"
| "GetModifiedFunc PulpIngress = check_value"
| "GetModifiedFunc PulpRoute = check_value"
| "GetModifiedFunc PulpObjectMetadata = check_meta"

fun GetFieldAndKind :: "PulpObject \<Rightarrow> string \<times> string" where
  "GetFieldAndKind PulpDeployment = (''Spec'', ''Deployment'')"
| "GetFieldAndKind PulpSecret = (''Data'', ''Secret'')"
| "GetFieldAndKind PulpConfigMap = (''Data'', ''ConfigMap'')"
| "GetFieldAndKind PulpService = (''Spec'', ''Service'')"
| "GetFieldAndKind PulpIngress = (''Spec'', ''Ingress'')"
| "GetFieldAndKind PulpRoute = (''Spec'', ''Route'')"
| "GetFieldAndKind PulpObjectMetadata = (''Metadata'', ''pulp resource'')"

subsection \<open>updateObject and ReconcileObject\<close>

text \<open>The write: the new state and what \<open>updateObject\<close> returns once a modification was found.\<close>

definition updateModified ::
  "'w Externals \<Rightarrow> string \<Rightarrow> string \<Rightarrow> Object \<Rightarrow> Object \<Rightarrow> 'w St \<Rightarrow> (bool \<times> error option) \<times> 'w St" where
  "updateModified X objKind conditionType expectedState currentState s =
    (let objName = obj_Name expectedState;
         s = UpdateStatus X ConditionFalse conditionType (''Updating'' @ objKind)
               (''Reconciling '' @ objName @ '' '' @ objKind) s;
         expectedState = (if isRouteOrIngress expectedState
           then map_Meta (\<lambda>m. m\<lparr>meta_ResourceVersion := meta_ResourceVersion (obj_Meta currentState)\<rparr>) expectedState
           else expectedState);
         ((err, _), s) = call (x_Update X expectedState) s
     in case err of
          Some e \<Rightarrow>
            if \<not> IsConflict e
            then ((False, Some e),
                  UpdateStatus X ConditionFalse conditionType (''ErrorUpdating'' @ objKind)
                    (''Failed to reconcile '' @ objName @ '' '' @ objKind @ '': '' @ Error e) s)
            else ((True, None), s)
        | None \<Rightarrow> ((True, None), s))"

definition updateObject ::
  "'w Externals \<Rightarrow> PulpObject \<Rightarrow> string \<Rightarrow> string \<Rightarrow> Object \<Rightarrow> Object \<Rightarrow> 'w St
    \<Rightarrow> ((bool \<times> error option) \<times> 'w St) option" where
  "updateObject X pulpObject objKind conditionType expectedState currentState s =
    do { fieldsState \<leftarrow> GetFields pulpObject expectedState currentState;
         (modified, s) \<leftarrow> GetModifiedFunc pulpObject X fieldsState s;
         if modified then Some (updateModified X objKind conditionType expectedState currentState s)
         else Some ((False, None), s) }"

definition ReconcileObject ::
  "'w Externals \<Rightarrow> Object \<Rightarrow> Object \<Rightarrow> string \<Rightarrow> PulpObject \<Rightarrow> 'w St
    \<Rightarrow> ((bool \<times> error option) \<times> 'w St) option" where
  "ReconcileObject X expectedState currentState conditionType pulpObject s =
    (if obj_Name expectedState = PulpWebService (Pulp_Name (st_pulp s)) \<and>
        Spec_NodePort (Pulp_Spec (st_pulp s)) = 0
     then Some ((False, None), s)
     else updateObject X pulpObject (snd (GetFieldAndKind pulpObject)) conditionType
            expectedState currentState s)"

definition ReconcileMetadata ::
  "'w Externals \<Rightarrow> Object \<Rightarrow> Object \<Rightarrow> string \<Rightarrow> 'w St \<Rightarrow> ((bool \<times> error option) \<times> 'w St) option" where
  "ReconcileMetadata X expectedState currentState conditionType s =
    updateObject X PulpObjectMetadata (snd (GetFieldAndKind PulpObjectMetadata)) conditionType
      expectedState currentState s"


subsection \<open>Lemmas\<close>

lemma isHPAManagedDeployment_iff:
  "isHPAManagedDeployment (DeploymentName t (Pulp_Name p)) p \<longleftrightarrow>
    (\<exists>h. GetHPAConfig p t = Some h \<and> HPA_Enabled h)"
  by (cases t) (auto simp: isHPAManagedDeployment_def update_conv' split: option.splits)

lemma drop_replicas_update:
  "drop_replicas (d\<lparr>dep_Spec := (dep_Spec d)\<lparr>dspec_Replicas := r\<rparr>\<rparr>) = drop_replicas d"
  by (simp add: drop_replicas_def)

lemma CheckDeploymentSpec_frame [frame, simp]:
  "st_pulp (snd (CheckDeploymentSpec X e c s)) = st_pulp s"
  "st_events (snd (CheckDeploymentSpec X e c s)) = st_events s"
  by (simp_all add: CheckDeploymentSpec_def split_beta Let_def)

lemma convertSecretDataFormat_gcopy: "convertSecretDataFormat m = gcopy [] m"
proof -
  have "fold (\<lambda>(k, v). gset k v) xs acc = gcopy acc xs" for xs acc
    by (induction xs arbitrary: acc) auto
  then show ?thesis by (simp add: convertSecretDataFormat_def)
qed

lemma map_of_convertSecretDataFormat:
  "gmap_ok m \<Longrightarrow> map_of (convertSecretDataFormat m) = map_of m"
  by (simp add: convertSecretDataFormat_gcopy map_of_gcopy)

lemma updateModified_outcome:
  "\<exists>requeue err s'. updateModified X k t e c s = ((requeue, err), s') \<and> requeue = (err = None) \<and>
     (\<forall>x. err = Some x \<longrightarrow> \<not> IsConflict x)"
  by (auto simp: updateModified_def Let_def split_beta split: option.splits)

text \<open>The promise of an implementation of \<open>PulpObject\<close>, for the objects it handles.\<close>

locale pulp_object =
  fixes X :: "'w Externals" and obj :: PulpObject and handles :: "Object \<Rightarrow> bool"
  assumes comparison: "handles e \<Longrightarrow> handles c \<Longrightarrow>
      \<exists>f b s'. GetFields obj e c = Some f \<and> GetModifiedFunc obj X f s = Some (b, s') \<and>
        st_pulp s' = st_pulp s \<and> st_events s' = st_events s"
begin

lemma updateObject_cases:
  assumes "handles e" "handles c"
  obtains (same) s' where "updateObject X obj k t e c s = Some ((False, None), s')"
      "st_pulp s' = st_pulp s" "st_events s' = st_events s"
    | (modified) s' where "updateObject X obj k t e c s = Some (updateModified X k t e c s')"
      "st_pulp s' = st_pulp s" "st_events s' = st_events s"
proof -
  from comparison [OF assms, of s] obtain f b s' where
    "GetFields obj e c = Some f" "GetModifiedFunc obj X f s = Some (b, s')"
    "st_pulp s' = st_pulp s" "st_events s' = st_events s"
    by blast
  then show ?thesis
    using same [of s'] modified [of s'] by (cases b) (auto simp: updateObject_def)
qed

lemma ReconcileObject_outcome:
  assumes "handles e" "handles c"
  shows "\<exists>requeue err s'. ReconcileObject X e c t obj s = Some ((requeue, err), s') \<and>
    \<not> (requeue \<and> err \<noteq> None) \<and> (\<forall>x. err = Some x \<longrightarrow> \<not> IsConflict x) \<and>
    (\<not> requeue \<and> err = None \<longrightarrow> st_pulp s' = st_pulp s \<and> st_events s' = st_events s)"
proof (cases "obj_Name e = PulpWebService (Pulp_Name (st_pulp s)) \<and> Spec_NodePort (Pulp_Spec (st_pulp s)) = 0")
  case True
  then show ?thesis by (auto simp: ReconcileObject_def)
next
  case False
  then have r: "ReconcileObject X e c t obj s = updateObject X obj (snd (GetFieldAndKind obj)) t e c s"
    by (auto simp: ReconcileObject_def)
  show ?thesis
  proof (rule updateObject_cases [OF assms, of "snd (GetFieldAndKind obj)" t s])
    fix s'
    assume "updateObject X obj (snd (GetFieldAndKind obj)) t e c s = Some ((False, None), s')"
      and "st_pulp s' = st_pulp s" "st_events s' = st_events s"
    with r show ?thesis by auto
  next
    fix s'
    assume "updateObject X obj (snd (GetFieldAndKind obj)) t e c s =
      Some (updateModified X (snd (GetFieldAndKind obj)) t e c s')"
    with r updateModified_outcome [of X "snd (GetFieldAndKind obj)" t e c s'] show ?thesis by auto
  qed
qed

end

interpretation deployment: pulp_object X PulpDeployment "\<lambda>x. obj_Kind x = KDeployment" for X
proof
  fix e c :: Object and s :: "'a St"
  assume "obj_Kind e = KDeployment" "obj_Kind c = KDeployment"
  then obtain d d' where "e = DeploymentObj d" "c = DeploymentObj d'"
    by (cases e; cases c; auto)
  then show "\<exists>f b s'. GetFields PulpDeployment e c = Some f \<and>
      GetModifiedFunc PulpDeployment X f s = Some (b, s') \<and> st_pulp s' = st_pulp s \<and> st_events s' = st_events s"
    by (cases "CheckDeploymentSpec X d d' s")
      (auto simp: check_deployment_def dest: arg_cong [where f = "\<lambda>r. st_pulp (snd r)"]
        arg_cong [where f = "\<lambda>r. st_events (snd r)"])
qed

interpretation secret: pulp_object X PulpSecret "\<lambda>x. obj_Kind x = KSecret" for X
  by unfold_locales (auto simp: check_secret_def elim!: obj_Kind.elims)

interpretation config_map: pulp_object X PulpConfigMap "\<lambda>x. obj_Kind x = KConfigMap" for X
  by unfold_locales (auto simp: check_value_def elim!: obj_Kind.elims)

interpretation service: pulp_object X PulpService "\<lambda>x. obj_Kind x = KService" for X
  by unfold_locales (auto simp: check_value_def elim!: obj_Kind.elims)

interpretation ingress: pulp_object X PulpIngress "\<lambda>x. obj_Kind x = KIngress" for X
  by unfold_locales (auto simp: check_value_def elim!: obj_Kind.elims)

interpretation route: pulp_object X PulpRoute "\<lambda>x. obj_Kind x = KRoute" for X
  by unfold_locales (auto simp: check_value_def elim!: obj_Kind.elims)

interpretation metadata: pulp_object X PulpObjectMetadata "\<lambda>x. True" for X
  by unfold_locales (auto simp: check_meta_def)

text \<open>The kind of object each implementation is used with.\<close>

fun handled_kind :: "PulpObject \<Rightarrow> Kind \<Rightarrow> bool" where
  "handled_kind PulpDeployment k = (k = KDeployment)"
| "handled_kind PulpSecret k = (k = KSecret)"
| "handled_kind PulpConfigMap k = (k = KConfigMap)"
| "handled_kind PulpService k = (k = KService)"
| "handled_kind PulpIngress k = (k = KIngress)"
| "handled_kind PulpRoute k = (k = KRoute)"
| "handled_kind PulpObjectMetadata k = True"

lemma kind_outcome:
  assumes "handled_kind obj (obj_Kind e)" "handled_kind obj (obj_Kind c)"
  shows "\<exists>requeue err s'. ReconcileObject X e c t obj s = Some ((requeue, err), s') \<and>
    \<not> (requeue \<and> err \<noteq> None) \<and> (\<forall>x. err = Some x \<longrightarrow> \<not> IsConflict x) \<and>
    (\<not> requeue \<and> err = None \<longrightarrow> st_pulp s' = st_pulp s \<and> st_events s' = st_events s)"
  using assms
  by (cases obj) (simp_all only: handled_kind.simps deployment.ReconcileObject_outcome
      secret.ReconcileObject_outcome config_map.ReconcileObject_outcome service.ReconcileObject_outcome
      ingress.ReconcileObject_outcome route.ReconcileObject_outcome metadata.ReconcileObject_outcome)

subsection \<open>Properties\<close>

text \<open>
  C34: \<open>ReconcileObject\<close>, on objects of the kind the implementation handles, does not panic; it
  never asks for a requeue together with an error, never reports a conflict as an error (a
  conflict is answered with a requeue), and when it finds nothing to do the custom resource
  and the recorded events are as before.
\<close>

theorem ReconcileObject_outcomes:
  assumes "handled_kind obj (obj_Kind e)" "handled_kind obj (obj_Kind c)"
  shows "\<exists>requeue err s'. ReconcileObject X e c t obj s = Some ((requeue, err), s') \<and>
    \<not> (requeue \<and> err \<noteq> None) \<and> (\<forall>x. err = Some x \<longrightarrow> \<not> IsConflict x) \<and>
    (\<not> requeue \<and> err = None \<longrightarrow> st_pulp s' = st_pulp s \<and> st_events s' = st_events s)"
  by (rule kind_outcome [OF assms])

theorem ReconcileObject_outcomes_witness:
  "\<exists>requeue err s'. ReconcileObject mem_ext (SecretObj zero_Secret) (SecretObj zero_Secret) ''Pulp-API-Ready'' PulpSecret
      (mem_state zero_Pulp []) = Some ((requeue, err), s') \<and>
    \<not> (requeue \<and> err \<noteq> None) \<and> (\<forall>x. err = Some x \<longrightarrow> \<not> IsConflict x) \<and>
    (\<not> requeue \<and> err = None \<longrightarrow> st_pulp s' = st_pulp (mem_state zero_Pulp []) \<and> st_events s' = st_events (mem_state zero_Pulp []))"
  by (rule ReconcileObject_outcomes) simp_all

text \<open>
  The replica counts of a Deployment that an autoscaler manages never make the operator
  reconcile it: the comparison gives the same answer, with the same effects, whatever replica
  counts the expected and the current Deployment carry. A Deployment is managed exactly when
  the HPA of its component is enabled.
\<close>

lemma hpa_replicas_ignored:
  assumes "\<exists>h. GetHPAConfig (st_pulp s) t = Some h \<and> HPA_Enabled h"
    and "meta_Name (dep_Meta e) = DeploymentName t (Pulp_Name (st_pulp s))"
  shows "CheckDeploymentSpec X (e\<lparr>dep_Spec := (dep_Spec e)\<lparr>dspec_Replicas := r\<rparr>\<rparr>)
      (c\<lparr>dep_Spec := (dep_Spec c)\<lparr>dspec_Replicas := r'\<rparr>\<rparr>) s = CheckDeploymentSpec X e c s"
proof -
  have "isHPAManagedDeployment (meta_Name (dep_Meta e)) (st_pulp s)"
    using assms by (simp add: isHPAManagedDeployment_iff)
  then show ?thesis by (simp add: CheckDeploymentSpec_def drop_replicas_update)
qed

end
