(* ===== verification/Provision.thy ===== *)
theory Provision
  imports Reconcile_Object Mem_Server
begin

text \<open>
  Provisioning: \<open>createPulpResource\<close> (\<open>controllers/repo_manager/utils.go\<close>), the defaulting of
  fields of the custom resource, the removal of the pulp-web objects, and the requeue test.
\<close>

interpretation mem_status: status_server mem_ext
  by unfold_locales

subsection \<open>Fields of the custom resource by name\<close>

text \<open>
  \<open>reflect.ValueOf(pulp.Spec).FieldByName(f).String()\<close> for the string fields the code names;
  \<open>None\<close> for any other name.
\<close>

definition spec_string :: "PulpSpec \<Rightarrow> string \<Rightarrow> string option" where
  "spec_string s f = map_of
    [(''ObjectStorageAzureSecret'', Spec_ObjectStorageAzureSecret s),
     (''ObjectStorageGCSSecret'', Spec_ObjectStorageGCSSecret s),
     (''ObjectStorageS3Secret'', Spec_ObjectStorageS3Secret s),
     (''SSOSecret'', Spec_SSOSecret s),
     (''AdminPasswordSecret'', Spec_AdminPasswordSecret s),
     (''PulpSecretKey'', Spec_PulpSecretKey s),
     (''SigningScripts'', Spec_SigningScripts s),
     (''SigningSecret'', Spec_SigningSecret s),
     (''DBFieldsEncryptionSecret'', Spec_DBFieldsEncryptionSecret s),
     (''ContainerTokenSecret'', Spec_ContainerTokenSecret s),
     (''IngressType'', Spec_IngressType s),
     (''IngressClassName'', Spec_IngressClassName s)] f"

definition set_spec_string :: "string \<Rightarrow> string \<Rightarrow> PulpSpec \<Rightarrow> PulpSpec" where
  "set_spec_string f v s =
    (if f = ''AdminPasswordSecret'' then s\<lparr>Spec_AdminPasswordSecret := v\<rparr>
     else if f = ''PulpSecretKey'' then s\<lparr>Spec_PulpSecretKey := v\<rparr>
     else if f = ''DBFieldsEncryptionSecret'' then s\<lparr>Spec_DBFieldsEncryptionSecret := v\<rparr>
     else if f = ''ContainerTokenSecret'' then s\<lparr>Spec_ContainerTokenSecret := v\<rparr>
     else s)"

text \<open>
  \<open>UpdateCRField\<close> sets an empty field and patches the custom resource. The field keeps the new
  value in memory also when the patch fails.
\<close>

definition UpdateCRField :: "'w Externals \<Rightarrow> string \<Rightarrow> string \<Rightarrow> 'w St \<Rightarrow> (error option \<times> 'w St) option" where
  "UpdateCRField X fieldName fieldValue s =
    do { field \<leftarrow> spec_string (Pulp_Spec (st_pulp s)) fieldName;
         if length field = 0 then
           (let base = st_pulp s;
                ((err, p), w) = x_PatchPulp X (upd_Spec (set_spec_string fieldName fieldValue) base) base (st_world s)
            in Some (err, s\<lparr>st_pulp := p, st_world := w\<rparr>))
         else Some (None, s) }"

subsection \<open>Requeue, restart, removal of pulp-web\<close>

definition needsRequeue :: "error option \<Rightarrow> Result \<Rightarrow> bool" where
  "needsRequeue err pulpController \<longleftrightarrow> err \<noteq> None \<or> pulpController \<noteq> zero_Result"

definition restartPulpCorePods :: "'w Externals \<Rightarrow> 'w St \<Rightarrow> 'w St" where
  "restartPulpCorePods X s =
    (let (now, s) = call (x_Now X) s
     in snd (Status_Update X (set_Status (\<lambda>st. st\<lparr>Status_LastDeploymentUpdate := now\<rparr>) s)))"

text \<open>\<open>if err := Get(...); err == nil { Delete(...) }\<close>.\<close>

definition delete_if_found :: "'w Externals \<Rightarrow> Kind \<Rightarrow> string \<Rightarrow> string \<Rightarrow> 'w St \<Rightarrow> 'w St" where
  "delete_if_found X k name ns s =
    (let (r, s) = call (x_Get X k ns name) s
     in case r of Inr obj \<Rightarrow> snd (call (x_Delete X obj) s) | Inl _ \<Rightarrow> s)"

definition remove_condition_type :: "'w Externals \<Rightarrow> string \<Rightarrow> 'w St \<Rightarrow> 'w St" where
  "remove_condition_type X t s =
    set_Status (\<lambda>st. st\<lparr>Status_Conditions := x_RemoveStatusCondition X (Status_Conditions st) t\<rparr>) s"

definition RemovePulpWebResources :: "'w Externals \<Rightarrow> 'w St \<Rightarrow> 'w St" where
  "RemovePulpWebResources X s =
    (let pulp = st_pulp s;
         s = delete_if_found X KDeployment (DeploymentName WEB (Pulp_Name pulp)) (Pulp_Namespace pulp) s;
         s = delete_if_found X KService (PulpWebService (Pulp_Name pulp)) (Pulp_Namespace pulp) s
     in remove_condition_type X ''Pulp-Web-Ready'' s)"

subsection \<open>createPulpResource\<close>

record ResourceDefinition =
  rd_Type :: Kind
  rd_Name :: string
  rd_Alias :: string
  rd_ConditionType :: string

text \<open>The kinds of the type switch; \<open>Get\<close> into a nil object panics for any other.\<close>

fun objKind_name :: "Kind \<Rightarrow> string option" where
  "objKind_name KSecret = Some ''Secret''"
| "objKind_name KDeployment = Some ''Deployment''"
| "objKind_name KService = Some ''Service''"
| "objKind_name KPVC = Some ''PVC''"
| "objKind_name KConfigMap = Some ''ConfigMap''"
| "objKind_name KCronJob = Some ''CronJob''"
| "objKind_name KJob = None"
| "objKind_name KIngress = None"
| "objKind_name KRoute = None"
| "objKind_name KStatefulSet = None"
| "objKind_name KPDB = None"
| "objKind_name KHPA = None"
| "objKind_name KServiceAccount = None"
| "objKind_name KRole = None"
| "objKind_name KRoleBinding = None"
| "objKind_name KPod = None"

text \<open>A provisioner builds the object; it may read the cluster and may panic.\<close>

type_synonym 'w provisioner = "'w St \<Rightarrow> (Object \<times> 'w St) option"

definition createPulpResource ::
  "'w Externals \<Rightarrow> ResourceDefinition \<Rightarrow> 'w provisioner \<Rightarrow> 'w St \<Rightarrow> ((bool \<times> error option) \<times> 'w St) option" where
  "createPulpResource X resource createFunc s =
    do { objKind \<leftarrow> objKind_name (rd_Type resource);
         let (r, s) = call (x_Get X (rd_Type resource) (Pulp_Namespace (st_pulp s)) (rd_Name resource)) s;
         case r of
           Inl err \<Rightarrow>
             if IsNotFound err then
               do { (expectedResource, s) \<leftarrow> createFunc s;
                    let s = UpdateStatus X ConditionFalse (rd_ConditionType resource)
                              (''Creating'' @ rd_Alias resource @ objKind)
                              (''Creating '' @ rd_Name resource @ '' '' @ objKind) s;
                    let (err, s) = call (x_Create X expectedResource) s;
                    case err of
                      Some e \<Rightarrow>
                        (let s = UpdateStatus X ConditionFalse (rd_ConditionType resource)
                               (''ErrorCreating'' @ rd_Alias resource @ objKind)
                               (''Failed to create '' @ rd_Name resource @ '' '' @ objKind @ '': '' @ Error e) s
                         in Some ((False, Some e), Record_Event EventWarning ''Failed''
                              (''Failed to create a new '' @ rd_Name resource @ '' '' @ objKind) s))
                    | None \<Rightarrow>
                        Some ((True, None), Record_Event EventNormal ''Created''
                          (rd_Name resource @ '' '' @ objKind @ '' created'') s) }
             else Some ((False, Some err), s)
         | Inr _ \<Rightarrow> Some ((False, None), s) }"

text \<open>The loop that creates a list of resources and stops at the first requeue or error.\<close>

fun createAll ::
  "'w Externals \<Rightarrow> (ResourceDefinition \<times> 'w provisioner) list \<Rightarrow> 'w St \<Rightarrow> ((bool \<times> error option) \<times> 'w St) option" where
  "createAll X [] s = Some ((False, None), s)"
| "createAll X ((resource, f) # rest) s =
    do { ((requeue, err), s) \<leftarrow> createPulpResource X resource f s;
         if err \<noteq> None then Some ((False, err), s)
         else if requeue then Some ((True, None), s)
         else createAll X rest s }"

subsection \<open>Lemmas\<close>

lemma createPulpResource_existing:
  assumes "objKind_name (rd_Type resource) \<noteq> None"
    and "fst (x_Get X (rd_Type resource) (Pulp_Namespace (st_pulp s)) (rd_Name resource) (st_world s)) = Inr obj"
  shows "createPulpResource X resource f s = Some ((False, None),
    s\<lparr>st_world := snd (x_Get X (rd_Type resource) (Pulp_Namespace (st_pulp s)) (rd_Name resource) (st_world s))\<rparr>)"
  using assms by (auto simp: createPulpResource_def call_def split_beta)

lemma createPulpResource_never_both:
  "createPulpResource X resource f s = Some ((requeue, err), s') \<Longrightarrow> \<not> (requeue \<and> err \<noteq> None)"
  by (auto simp: createPulpResource_def Let_def split_beta
      split: sum.splits option.splits if_splits bind_splits)

lemma createAll_never_both:
  "createAll X rs s = Some ((requeue, err), s') \<Longrightarrow> \<not> (requeue \<and> err \<noteq> None)"
proof (induction rs arbitrary: s)
  case (Cons r rs)
  then show ?case
    by (cases r) (auto split: bind_splits if_splits dest: createPulpResource_never_both)
qed simp

context status_server
begin

lemma delete_if_found_frame [simp]:
  "st_pulp (delete_if_found X k n ns s) = st_pulp s"
  "st_events (delete_if_found X k n ns s) = st_events s"
  by (simp_all add: delete_if_found_def split_beta split: sum.splits)

lemma RemovePulpWebResources_keeps [simp]:
  "Pulp_Spec (st_pulp (RemovePulpWebResources X s)) = Pulp_Spec (st_pulp s)"
  "Pulp_Meta (st_pulp (RemovePulpWebResources X s)) = Pulp_Meta (st_pulp s)"
  "Status_IngressType (Pulp_Status (st_pulp (RemovePulpWebResources X s))) = Status_IngressType (Pulp_Status (st_pulp s))"
  "Status_IngressClassName (Pulp_Status (st_pulp (RemovePulpWebResources X s))) = Status_IngressClassName (Pulp_Status (st_pulp s))"
  "\<not> x_IsStatusConditionPresentAndEqual X (conditions (RemovePulpWebResources X s)) ''Pulp-Web-Ready'' st"
  by (simp_all add: RemovePulpWebResources_def remove_condition_type_def Let_def condition_simps)

lemma restartPulpCorePods_keeps [simp]:
  "Pulp_Spec (st_pulp (restartPulpCorePods X s)) = Pulp_Spec (st_pulp s)"
  "Pulp_Name (st_pulp (restartPulpCorePods X s)) = Pulp_Name (st_pulp s)"
  "Pulp_Namespace (st_pulp (restartPulpCorePods X s)) = Pulp_Namespace (st_pulp s)"
  "st_events (restartPulpCorePods X s) = st_events s"
  by (simp_all add: restartPulpCorePods_def split_beta)

end

end
