(* ===== verification/Ingress_Update.thy ===== *)
theory Ingress_Update
  imports Provision
begin

text \<open>
  How Pulp is reached: the tests on \<open>ingress_type\<close>, the URLs derived from it, and what the
  operator removes when \<open>ingress_type\<close> or \<open>ingress_class_name\<close> changes
  (\<open>controllers/repo_manager/utils.go\<close>, \<open>controllers/ocp\<close>).

  The status of the custom resource remembers the type that was deployed. The properties say
  exactly which changes \<open>updateIngressType\<close> carries out, and that it does nothing at all on the
  others.
\<close>

subsection \<open>Tests and URLs\<close>

definition isIngress :: "Pulp \<Rightarrow> bool" where
  "isIngress pulp \<longleftrightarrow> ToLower (Spec_IngressType (Pulp_Spec pulp)) = ''ingress''"

definition isRoute :: "Pulp \<Rightarrow> bool" where
  "isRoute pulp \<longleftrightarrow> ToLower (Spec_IngressType (Pulp_Spec pulp)) = ''route''"

definition isNginxIngress :: "Pulp \<Rightarrow> bool" where
  "isNginxIngress pulp \<longleftrightarrow> isIngress pulp \<and> IsNginxIngressSupported pulp"

definition needsPulpWeb :: "Pulp \<Rightarrow> bool" where
  "needsPulpWeb pulp \<longleftrightarrow> \<not> isRoute pulp \<and> \<not> IsNginxIngressSupported pulp"

definition GetRouteHost :: "Pulp \<Rightarrow> string" where
  "GetRouteHost pulp =
    (if length (Spec_RouteHost (Pulp_Spec pulp)) = 0 then ''example.com''
     else Spec_RouteHost (Pulp_Spec pulp))"

definition getRootURL :: "Pulp \<Rightarrow> string" where
  "getRootURL pulp =
    (if isIngress pulp then
       (let scheme = (if Spec_IngressTLSSecret (Pulp_Spec pulp) = [] then ''http'' else ''https'')
        in scheme @ ''://'' @ Spec_IngressHost (Pulp_Spec pulp))
     else if isRoute pulp then ''https://'' @ GetRouteHost pulp
     else ''http://'' @ PulpWebService (Pulp_Name pulp) @ ''.'' @ Pulp_Namespace pulp
          @ ''.svc.cluster.local:24880'')"

subsection \<open>A change of ingress\_type\<close>

definition set_IngressType :: "'w St \<Rightarrow> 'w St" where
  "set_IngressType s = set_Status (\<lambda>st. st\<lparr>Status_IngressType := Spec_IngressType (Pulp_Spec (st_pulp s))\<rparr>) s"

definition updateIngressType :: "'w Externals \<Rightarrow> 'w St \<Rightarrow> 'w St" where
  "updateIngressType X s =
    (let pulp = st_pulp s;
         current = ToLower (Status_IngressType (Pulp_Status pulp));
         wanted = ToLower (Spec_IngressType (Pulp_Spec pulp))
     in
     if current = ''route'' \<and> \<not> isRoute pulp then
       (let (_, s) = call (x_DeleteAllOf X KRoute (Pulp_Namespace pulp) (CommonLabels pulp)) s;
            s = remove_condition_type X ''Pulp-Route-Ready'' s;
            s = set_IngressType s
        in snd (Status_Update X s))
     else if current = ''ingress'' \<and> wanted \<noteq> ''ingress'' then
       (let (_, s) = call (x_DeleteAllOf X KIngress (Pulp_Namespace pulp) (CommonLabels pulp)) s;
            s = remove_condition_type X ''Pulp-Ingress-Ready'' s;
            s = set_IngressType s;
            s = (if length (Status_IngressClassName (Pulp_Status (st_pulp s))) > 0
                 then set_Status (\<lambda>st. st\<lparr>Status_IngressClassName := []\<rparr>) s else s);
            s = RemovePulpWebResources X s
        in snd (Status_Update X s))
     else if (current = ''nodeport'' \<and> wanted \<noteq> ''nodeport'') \<or>
             (current = ''loadbalancer'' \<and> wanted \<noteq> ''loadbalancer'') then
       (let s = RemovePulpWebResources X s;
            s = set_IngressType s
        in snd (Status_Update X s))
     else s)"

subsection \<open>A change of ingress\_class\_name\<close>

definition DefaultOCPIngressClass :: string where
  "DefaultOCPIngressClass = ''openshift-default''"

text \<open>\<open>pulp_ocp.UpdateIngressClass\<close>; the redirect Ingress is deleted on any answer but not-found.\<close>

definition UpdateIngressClass_ocp :: "'w Externals \<Rightarrow> 'w St \<Rightarrow> 'w St" where
  "UpdateIngressClass_ocp X s =
    (let s = (if Spec_IngressClassName (Pulp_Spec (st_pulp s)) = DefaultOCPIngressClass
              then RemovePulpWebResources X s else s);
         pulp = st_pulp s
     in if Status_IngressClassName (Pulp_Status pulp) = DefaultOCPIngressClass \<and>
           Spec_IngressClassName (Pulp_Spec pulp) \<noteq> DefaultOCPIngressClass
        then (let (r, s) = Get_Ingress X (Pulp_Name pulp @ ''-redirect'') (Pulp_Namespace pulp) s
              in case r of
                   Inl e \<Rightarrow> if IsNotFound e then s else snd (call (x_Delete X (IngressObj zero_Ingress)) s)
                 | Inr ing \<Rightarrow> snd (call (x_Delete X (IngressObj ing)) s))
        else s)"

definition updateIngressClass :: "'w Externals \<Rightarrow> 'w St \<Rightarrow> 'w St" where
  "updateIngressClass X s =
    (let pulp = st_pulp s;
         s = (if isNginxIngress pulp then
                (let s = delete_if_found X KDeployment (DeploymentName WEB (Pulp_Name pulp)) (Pulp_Namespace pulp) s;
                     s = delete_if_found X KService (PulpWebService (Pulp_Name pulp)) (Pulp_Namespace pulp) s
                 in remove_condition_type X ''Pulp-Web-Ready'' s)
              else
                (let (r, s) = Get_Ingress X (Pulp_Name pulp) (Pulp_Namespace pulp) s;
                     s = snd (call (x_Delete X (IngressObj (or_zero zero_Ingress r))) s)
                 in remove_condition_type X ''Pulp-Ingress-Ready'' s));
         s = UpdateIngressClass_ocp X s;
         s = set_Status (\<lambda>st. st\<lparr>Status_IngressClassName := Spec_IngressClassName (Pulp_Spec (st_pulp s))\<rparr>) s
     in snd (Status_Update X s))"

subsection \<open>Lemmas\<close>

text \<open>The types whose removal \<open>updateIngressType\<close> knows how to handle.\<close>

definition removable_type :: "string \<Rightarrow> bool" where
  "removable_type t \<longleftrightarrow> ToLower t \<in> {''route'', ''ingress'', ''nodeport'', ''loadbalancer''}"

lemma updateIngressType_noop:
  assumes "\<not> removable_type (Status_IngressType (Pulp_Status (st_pulp s))) \<or>
    EqualFold (Status_IngressType (Pulp_Status (st_pulp s))) (Spec_IngressType (Pulp_Spec (st_pulp s)))"
  shows "updateIngressType X s = s"
  using assms by (auto simp: updateIngressType_def Let_def removable_type_def EqualFold_def isRoute_def)

context status_server
begin

lemma remove_condition_type_sel [simp]:
  "Pulp_Spec (st_pulp (remove_condition_type X t s)) = Pulp_Spec (st_pulp s)"
  "Pulp_Meta (st_pulp (remove_condition_type X t s)) = Pulp_Meta (st_pulp s)"
  "Status_IngressType (Pulp_Status (st_pulp (remove_condition_type X t s))) = Status_IngressType (Pulp_Status (st_pulp s))"
  "Status_IngressClassName (Pulp_Status (st_pulp (remove_condition_type X t s))) = Status_IngressClassName (Pulp_Status (st_pulp s))"
  by (simp_all add: remove_condition_type_def)

lemma set_IngressType_sel [simp]:
  "Pulp_Spec (st_pulp (set_IngressType s)) = Pulp_Spec (st_pulp s)"
  "Pulp_Meta (st_pulp (set_IngressType s)) = Pulp_Meta (st_pulp s)"
  "Status_IngressType (Pulp_Status (st_pulp (set_IngressType s))) = Spec_IngressType (Pulp_Spec (st_pulp s))"
  "Status_IngressClassName (Pulp_Status (st_pulp (set_IngressType s))) = Status_IngressClassName (Pulp_Status (st_pulp s))"
  by (simp_all add: set_IngressType_def)

lemma updateIngressType_adopts:
  assumes "removable_type (Status_IngressType (Pulp_Status (st_pulp s)))"
    and "\<not> EqualFold (Status_IngressType (Pulp_Status (st_pulp s))) (Spec_IngressType (Pulp_Spec (st_pulp s)))"
  shows "Status_IngressType (Pulp_Status (st_pulp (updateIngressType X s))) = Spec_IngressType (Pulp_Spec (st_pulp s))"
proof -
  let ?c = "ToLower (Status_IngressType (Pulp_Status (st_pulp s)))"
  have ne: "?c \<noteq> ToLower (Spec_IngressType (Pulp_Spec (st_pulp s)))"
    using assms(2) by (simp add: EqualFold_def)
  consider "?c = ''route''" | "?c = ''ingress''" | "?c = ''nodeport''" | "?c = ''loadbalancer''"
    using assms(1) by (auto simp: removable_type_def)
  then show ?thesis
    by cases (use ne in \<open>simp_all add: updateIngressType_def Let_def isRoute_def split_beta\<close>)
qed

lemma updateIngressType_spec [simp]:
  "Pulp_Spec (st_pulp (updateIngressType X s)) = Pulp_Spec (st_pulp s)"
  by (simp add: updateIngressType_def Let_def split_beta if_frames split del: if_split cong: if_cong)

lemma updateIngressClass_adopts:
  "Status_IngressClassName (Pulp_Status (st_pulp (updateIngressClass X s))) =
    Spec_IngressClassName (Pulp_Spec (st_pulp (updateIngressClass X s)))"
  by (simp add: updateIngressClass_def Let_def)

end

subsection \<open>Properties\<close>

text \<open>
  C33: \<open>updateIngressType\<close> adopts the new \<open>ingress_type\<close> exactly when the deployed one is
  route, ingress, nodeport or loadbalancer (in any case) and the new one differs from it by
  more than case: then the status afterwards holds the new type. In every other situation it
  changes nothing, neither the cluster nor the status.
\<close>

theorem updateIngressType_adopts_or_noop:
  assumes "condition_lib X" and "pulp_store X"
  shows "if removable_type (Status_IngressType (Pulp_Status (st_pulp s))) \<and>
       \<not> EqualFold (Status_IngressType (Pulp_Status (st_pulp s))) (Spec_IngressType (Pulp_Spec (st_pulp s)))
    then Status_IngressType (Pulp_Status (st_pulp (updateIngressType X s))) = Spec_IngressType (Pulp_Spec (st_pulp s))
       \<and> Pulp_Spec (st_pulp (updateIngressType X s)) = Pulp_Spec (st_pulp s)
    else updateIngressType X s = s"
proof -
  have "status_server X" using assms by (simp add: status_server_def)
  then show ?thesis
    using status_server.updateIngressType_adopts [of X s] status_server.updateIngressType_spec [of X s]
      updateIngressType_noop [of s X] by simp
qed

definition ex_ingress_pulp :: Pulp where
  "ex_ingress_pulp = zero_Pulp\<lparr>Pulp_Meta := zero_ObjectMeta\<lparr>meta_Name := ''p'', meta_Namespace := ''ns''\<rparr>,
     Pulp_Spec := zero_PulpSpec\<lparr>Spec_IngressType := ''ingress''\<rparr>,
     Pulp_Status := zero_PulpStatus\<lparr>Status_IngressType := ''nodeport''\<rparr>\<rparr>"

theorem updateIngressType_adopts_or_noop_witness:
  "Status_IngressType (Pulp_Status (st_pulp (updateIngressType mem_ext (mem_state ex_ingress_pulp [])))) = ''ingress''"
  using updateIngressType_adopts_or_noop [OF mem_conditions.condition_lib_axioms mem_pulps.pulp_store_axioms,
      of "mem_state ex_ingress_pulp []"]
  by (simp add: mem_state_def ex_ingress_pulp_def removable_type_def EqualFold_def ascii)

end
