(* ===== verification/Prechecks.thy ===== *)
theory Prechecks
  imports Ingress_Update
begin

text \<open>
  \<open>controllers/repo_manager/precheck.go\<close>: the validations of the custom resource that run before
  anything is deployed. Each check answers \<open>None\<close> (go on) or the result the reconciliation
  returns. The properties give the exact condition under which the prechecks let a
  reconciliation continue, and what each of the checks on the specification accepts.
\<close>

subsection \<open>Checks on the specification\<close>

definition checkImageVersion :: "Pulp \<Rightarrow> Result option" where
  "checkImageVersion pulp =
    (if needsPulpWeb pulp \<and> Spec_ImageVersion (Pulp_Spec pulp) \<noteq> Spec_ImageWebVersion (Pulp_Spec pulp) \<and>
        Web_Replicas (Spec_Web (Pulp_Spec pulp)) > 0
     then (if Spec_InhibitVersionConstraint (Pulp_Spec pulp) then None else Some zero_Result)
     else None)"

definition checkIngressDefinition :: "Pulp \<Rightarrow> Result option" where
  "checkIngressDefinition pulp =
    (if isIngress pulp then
       (if length (Spec_IngressClassName (Pulp_Spec pulp)) = 0 then Some zero_Result
        else if length (Spec_IngressHost (Pulp_Spec pulp)) = 0 then Some zero_Result
        else None)
     else None)"

text \<open>One iteration of the loop over the resources; \<open>None\<close> continues with the next.\<close>

fun check_storage :: "Pulp \<Rightarrow> string list \<Rightarrow> Result option" where
  "check_storage pulp [] = None"
| "check_storage pulp (resource # resources) =
    (let (foundMultiStorage, storageType) = MultiStorageConfigured pulp resource in
     if foundMultiStorage then Some zero_Result
     else if resource = CacheResource then check_storage pulp resources
     else if resource = DatabaseResource \<and> Database_ExternalDBSecret (Spec_Database (Pulp_Spec pulp)) \<noteq> []
       then check_storage pulp resources
     else if storageType = [] then Some zero_Result
     else check_storage pulp resources)"

definition checkStorageDefinitions :: "Pulp \<Rightarrow> Result option" where
  "checkStorageDefinitions pulp = check_storage pulp [PulpResource, CacheResource, DatabaseResource]"

definition hasFileStorageDefinition :: "Pulp \<Rightarrow> bool" where
  "hasFileStorageDefinition pulp \<longleftrightarrow>
    length (Spec_FileStorageAccessMode (Pulp_Spec pulp)) > 0 \<or> length (Spec_FileStorageSize (Pulp_Spec pulp)) > 0"

definition checkFileStorage :: "Pulp \<Rightarrow> Result option" where
  "checkFileStorage pulp =
    (if hasFileStorageDefinition pulp \<and> length (Spec_FileStorageClass (Pulp_Spec pulp)) = 0
     then Some zero_Result
     else if length (Spec_FileStorageClass (Pulp_Spec pulp)) > 0 \<and>
        (length (Spec_FileStorageAccessMode (Pulp_Spec pulp)) = 0 \<or> length (Spec_FileStorageSize (Pulp_Spec pulp)) = 0)
     then Some zero_Result
     else None)"

definition checkSigningScripts :: "Pulp \<Rightarrow> Result option" where
  "checkSigningScripts pulp =
    (if length (Spec_SigningScripts (Pulp_Spec pulp)) > 0 \<and> length (Spec_SigningSecret (Pulp_Spec pulp)) = 0
     then Some zero_Result
     else if length (Spec_SigningScripts (Pulp_Spec pulp)) = 0 \<and> length (Spec_SigningSecret (Pulp_Spec pulp)) > 0
     then Some zero_Result
     else None)"

subsection \<open>Checksums\<close>

definition validContentChecksums :: "(string \<times> bool) list" where
  "validContentChecksums =
    [(''md5'', False), (''sha1'', False), (''sha224'', False), (''sha256'', True),
     (''sha384'', False), (''sha512'', False)]"

definition deprecatedContentChecksum :: "(string \<times> bool) list" where
  "deprecatedContentChecksum = [(''md5'', True), (''sha1'', True)]"

definition verifyChecksum :: "string \<Rightarrow> (string \<times> bool) list \<Rightarrow> bool" where
  "verifyChecksum checksum validateFunction \<longleftrightarrow> map_of validateFunction checksum \<noteq> None"

definition requiredContentChecksums :: "string list \<Rightarrow> string list \<times> bool" where
  "requiredContentChecksums cs =
    (let missing = map fst (filter (\<lambda>(checksum, required). required \<and> checksum \<notin> set cs) validContentChecksums)
     in if length missing > 0 then (missing, False) else ([], True))"

text \<open>The loop stops at the first checksum that is not valid; a deprecated one only logs.\<close>

fun check_each :: "string list \<Rightarrow> Result option" where
  "check_each [] = None"
| "check_each (v # vs) =
    (if \<not> verifyChecksum v validContentChecksums then Some zero_Result else check_each vs)"

definition checkAllowedContentChecksums :: "Pulp \<Rightarrow> Result option" where
  "checkAllowedContentChecksums pulp =
    (let cs = elements (Spec_AllowedContentChecksums (Pulp_Spec pulp)) in
     if length cs = 0 then None
     else (case check_each cs of
             Some r \<Rightarrow> Some r
           | None \<Rightarrow> if \<not> snd (requiredContentChecksums cs) then Some zero_Result else None))"

subsection \<open>Checks that ask the cluster\<close>

definition checkRouteNotOCP :: "'w Externals \<Rightarrow> 'w St \<Rightarrow> Result option \<times> 'w St" where
  "checkRouteNotOCP X s =
    (let ((isOpenShift, _), s) = IsOpenShift X s
     in (if \<not> isOpenShift \<and> isRoute (st_pulp s) then Some zero_Result else None, s))"

definition checkCAConfigmap :: "'w Externals \<Rightarrow> 'w St \<Rightarrow> Result option \<times> 'w St" where
  "checkCAConfigmap X s =
    (let ((isOpenShift, _), s) = IsOpenShift X s
     in if isOpenShift then (None, s)
        else (if Spec_TrustedCa (Pulp_Spec (st_pulp s)) \<and> Spec_TrustedCaConfigMapKey (Pulp_Spec (st_pulp s)) = None
              then Some zero_Result else None, s))"

text \<open>Fetch the named secrets one after the other, skipping empty names; the first error stops.\<close>

fun get_secrets :: "'w Externals \<Rightarrow> string \<Rightarrow> string list \<Rightarrow> 'w St \<Rightarrow> error option \<times> 'w St" where
  "get_secrets X ns [] s = (None, s)"
| "get_secrets X ns (name # names) s =
    (if length name \<noteq> 0 then
       (let (r, s) = Get_Secret X name ns s
        in case r of Inl err \<Rightarrow> (Some err, s) | Inr _ \<Rightarrow> get_secrets X ns names s)
     else get_secrets X ns names s)"

definition checkSecretsAvailable :: "'w Externals \<Rightarrow> 'w St \<Rightarrow> error option \<times> 'w St" where
  "checkSecretsAvailable X s =
    (let spec = Pulp_Spec (st_pulp s) in
     get_secrets X (Pulp_Namespace (st_pulp s))
       [Spec_ObjectStorageAzureSecret spec, Spec_ObjectStorageGCSSecret spec,
        Spec_ObjectStorageS3Secret spec, Spec_SSOSecret spec,
        Database_ExternalDBSecret (Spec_Database spec),
        Cache_ExternalCacheSecret (Spec_Cache spec),
        LDAP_Config (Spec_LDAP spec), LDAP_CA (Spec_LDAP spec)] s)"

definition checkSecretsAvailability :: "'w Externals \<Rightarrow> 'w St \<Rightarrow> Result option \<times> 'w St" where
  "checkSecretsAvailability X s =
    (let (err, s) = checkSecretsAvailable X s in (if err \<noteq> None then Some zero_Result else None, s))"

definition checkLDAPCA :: "'w Externals \<Rightarrow> 'w St \<Rightarrow> Result option \<times> 'w St" where
  "checkLDAPCA X s =
    (let ldap = Spec_LDAP (Pulp_Spec (st_pulp s)) in
     if length (LDAP_Config ldap) = 0 then (None, s)
     else
       (let (r, s) = Get_Secret X (LDAP_Config ldap) (Pulp_Namespace (st_pulp s)) s;
            secret = or_zero zero_Secret r;
            caDefined = (map_of (sec_Data secret) ''auth_ldap_ca_file'' \<noteq> None)
        in if \<not> caDefined \<and> length (LDAP_CA ldap) > 0 then (Some zero_Result, s)
           else if \<not> caDefined then (None, s)
           else if length (LDAP_CA ldap) = 0 then (Some zero_Result, s)
           else (None, s)))"

definition initializeStatusCondition :: "'w Externals \<Rightarrow> 'w St \<Rightarrow> (Result \<times> error option) \<times> 'w St" where
  "initializeStatusCondition X s =
    (if x_FindStatusCondition X (conditions s) finished = None then
       (let s = set_condition_now X finished ConditionFalse ''OperatorRunning''
                  (Pulp_Name (st_pulp s) @ '' operator tasks running'') s;
            (err, s) = Status_Update X s
        in if err \<noteq> None then ((zero_Result, err), s) else ((zero_Result, None), s))
     else ((zero_Result, None), s))"

subsection \<open>prechecks\<close>

definition prechecks :: "'w Externals \<Rightarrow> 'w St \<Rightarrow> (Result option \<times> error option) \<times> 'w St" where
  "prechecks X s =
    (let ((reconcile, err), s) = initializeStatusCondition X s in
     if err \<noteq> None then ((Some reconcile, err), s) else
     case checkImageVersion (st_pulp s) of Some r \<Rightarrow> ((Some r, None), s) | None \<Rightarrow>
     case checkIngressDefinition (st_pulp s) of Some r \<Rightarrow> ((Some r, None), s) | None \<Rightarrow>
     case checkStorageDefinitions (st_pulp s) of Some r \<Rightarrow> ((Some r, None), s) | None \<Rightarrow>
     (let (reconcile, s) = checkRouteNotOCP X s in
     if reconcile \<noteq> None then ((reconcile, None), s) else
     (let (reconcile, s) = checkSecretsAvailability X s in
     if reconcile \<noteq> None then ((reconcile, None), s) else
     case checkFileStorage (st_pulp s) of Some r \<Rightarrow> ((Some r, None), s) | None \<Rightarrow>
     case checkAllowedContentChecksums (st_pulp s) of Some r \<Rightarrow> ((Some r, None), s) | None \<Rightarrow>
     (let (reconcile, s) = checkLDAPCA X s in
     if reconcile \<noteq> None then ((reconcile, None), s) else
     case checkSigningScripts (st_pulp s) of Some r \<Rightarrow> ((Some r, None), s) | None \<Rightarrow>
     (let (reconcile, s) = checkCAConfigmap X s in
     if reconcile \<noteq> None then ((reconcile, None), s) else ((None, None), s))))))"

subsection \<open>What the checks accept\<close>

definition storage_valid :: "PulpSpec \<Rightarrow> bool" where
  "storage_valid spec \<longleftrightarrow>
    length (pulp_storage_options spec) = 1 \<and>
    \<not> (Cache_RedisStorageClass (Spec_Cache spec) \<noteq> [] \<and> Cache_PVC (Spec_Cache spec) \<noteq> []) \<and>
    \<not> (Database_PVC (Spec_Database spec) \<noteq> [] \<and> Database_PostgresStorageClass (Spec_Database spec) \<noteq> None) \<and>
    (Database_ExternalDBSecret (Spec_Database spec) = [] \<longrightarrow>
       Database_PVC (Spec_Database spec) \<noteq> [] \<or> Database_PostgresStorageClass (Spec_Database spec) \<noteq> None)"

definition checksums_valid :: "string list \<Rightarrow> bool" where
  "checksums_valid cs \<longleftrightarrow> cs = [] \<or>
    (set cs \<subseteq> {''md5'', ''sha1'', ''sha224'', ''sha256'', ''sha384'', ''sha512''} \<and> ''sha256'' \<in> set cs)"

definition spec_valid :: "PulpSpec \<Rightarrow> bool" where
  "spec_valid spec \<longleftrightarrow>
    (ToLower (Spec_IngressType spec) \<noteq> ''route'' \<and> \<not> Spec_IsNginxIngress spec \<and>
       Spec_ImageVersion spec \<noteq> Spec_ImageWebVersion spec \<and> Web_Replicas (Spec_Web spec) > 0
       \<longrightarrow> Spec_InhibitVersionConstraint spec) \<and>
    (ToLower (Spec_IngressType spec) = ''ingress'' \<longrightarrow>
       Spec_IngressClassName spec \<noteq> [] \<and> Spec_IngressHost spec \<noteq> []) \<and>
    storage_valid spec \<and>
    (Spec_FileStorageClass spec = [] \<longleftrightarrow> Spec_FileStorageAccessMode spec = []) \<and>
    (Spec_FileStorageClass spec = [] \<longleftrightarrow> Spec_FileStorageSize spec = []) \<and>
    checksums_valid (elements (Spec_AllowedContentChecksums spec)) \<and>
    (Spec_SigningScripts spec = [] \<longleftrightarrow> Spec_SigningSecret spec = [])"

text \<open>The checks that ask the cluster, in the order in which they run.\<close>

definition cluster_valid :: "'w Externals \<Rightarrow> 'w St \<Rightarrow> bool" where
  "cluster_valid X s =
    (let (route, s) = checkRouteNotOCP X s;
         (secrets, s) = checkSecretsAvailability X s;
         (ldap, s) = checkLDAPCA X s;
         (ca, s) = checkCAConfigmap X s
     in route = None \<and> secrets = None \<and> ldap = None \<and> ca = None)"

subsection \<open>Lemmas\<close>

declare check_storage.simps [simp del]

lemma MultiStorageConfigured_Database:
  "MultiStorageConfigured pulp DatabaseResource =
    (Database_PVC (Spec_Database (Pulp_Spec pulp)) \<noteq> [] \<and>
       Database_PostgresStorageClass (Spec_Database (Pulp_Spec pulp)) \<noteq> None,
     append_if (Database_PostgresStorageClass (Spec_Database (Pulp_Spec pulp)) \<noteq> None) SCNameType
       (append_if (Database_PVC (Spec_Database (Pulp_Spec pulp)) \<noteq> []) PVCType []))"
  by (simp add: MultiStorageConfigured_def resource_names append_if_def Let_def)

lemma MultiStorageConfigured_Cache:
  "MultiStorageConfigured pulp CacheResource =
    (Cache_RedisStorageClass (Spec_Cache (Pulp_Spec pulp)) \<noteq> [] \<and> Cache_PVC (Spec_Cache (Pulp_Spec pulp)) \<noteq> [],
     snd (MultiStorageConfigured pulp CacheResource))"
  by (simp add: MultiStorageConfigured_def resource_names append_if_def Let_def)

lemma resource_names_distinct [simp]:
  "PulpResource \<noteq> CacheResource" "PulpResource \<noteq> DatabaseResource" "DatabaseResource \<noteq> CacheResource"
  "CacheResource \<noteq> PulpResource" "DatabaseResource \<noteq> PulpResource" "CacheResource \<noteq> DatabaseResource"
  by (simp_all add: resource_names)

lemma check_storage_Pulp:
  "check_storage pulp (PulpResource # rs) = None \<longleftrightarrow>
    length (pulp_storage_options (Pulp_Spec pulp)) = 1 \<and> check_storage pulp rs = None"
  by (cases "pulp_storage_options (Pulp_Spec pulp)")
    (auto simp: check_storage.simps MultiStorageConfigured_Pulp)

lemma check_storage_Cache:
  "check_storage pulp (CacheResource # rs) = None \<longleftrightarrow>
    \<not> (Cache_RedisStorageClass (Spec_Cache (Pulp_Spec pulp)) \<noteq> [] \<and> Cache_PVC (Spec_Cache (Pulp_Spec pulp)) \<noteq> []) \<and>
    check_storage pulp rs = None"
  by (subst check_storage.simps, subst MultiStorageConfigured_Cache) simp

lemma check_storage_Database:
  "check_storage pulp [DatabaseResource] = None \<longleftrightarrow>
    \<not> (Database_PVC (Spec_Database (Pulp_Spec pulp)) \<noteq> [] \<and>
       Database_PostgresStorageClass (Spec_Database (Pulp_Spec pulp)) \<noteq> None) \<and>
    (Database_ExternalDBSecret (Spec_Database (Pulp_Spec pulp)) = [] \<longrightarrow>
       Database_PVC (Spec_Database (Pulp_Spec pulp)) \<noteq> [] \<or>
       Database_PostgresStorageClass (Spec_Database (Pulp_Spec pulp)) \<noteq> None)"
  by (simp add: check_storage.simps MultiStorageConfigured_Database append_if_def)

lemma checkStorageDefinitions_None:
  "checkStorageDefinitions pulp = None \<longleftrightarrow> storage_valid (Pulp_Spec pulp)"
  by (simp only: checkStorageDefinitions_def storage_valid_def check_storage_Pulp check_storage_Cache
      check_storage_Database)

lemma check_each_None:
  "check_each cs = None \<longleftrightarrow> set cs \<subseteq> {''md5'', ''sha1'', ''sha224'', ''sha256'', ''sha384'', ''sha512''}"
proof (induction cs)
  case (Cons v vs)
  have "verifyChecksum v validContentChecksums \<longleftrightarrow>
      v \<in> {''md5'', ''sha1'', ''sha224'', ''sha256'', ''sha384'', ''sha512''}"
    unfolding verifyChecksum_def map_of_eq_None_iff not_not
    by (simp only: validContentChecksums_def list.set image_insert image_empty fst_conv)
  with Cons show ?case by simp
qed simp

lemma check_each_result: "check_each cs = Some r \<Longrightarrow> r = zero_Result"
  by (induction cs) (auto split: if_splits)

lemma requiredContentChecksums_iff: "snd (requiredContentChecksums cs) \<longleftrightarrow> ''sha256'' \<in> set cs"
  by (simp add: requiredContentChecksums_def validContentChecksums_def Let_def)

lemma checkAllowedContentChecksums_None:
  "checkAllowedContentChecksums pulp = None \<longleftrightarrow> checksums_valid (elements (Spec_AllowedContentChecksums (Pulp_Spec pulp)))"
proof (cases "check_each (elements (Spec_AllowedContentChecksums (Pulp_Spec pulp)))")
  case None
  then show ?thesis
    using check_each_None [of "elements (Spec_AllowedContentChecksums (Pulp_Spec pulp))"]
    by (simp add: checkAllowedContentChecksums_def checksums_valid_def requiredContentChecksums_iff Let_def)
next
  case (Some r)
  then have "\<not> set (elements (Spec_AllowedContentChecksums (Pulp_Spec pulp))) \<subseteq>
      {''md5'', ''sha1'', ''sha224'', ''sha256'', ''sha384'', ''sha512''}"
    using check_each_None [of "elements (Spec_AllowedContentChecksums (Pulp_Spec pulp))"] by simp
  moreover from this have "elements (Spec_AllowedContentChecksums (Pulp_Spec pulp)) \<noteq> []" by auto
  ultimately show ?thesis
    using Some by (simp add: checkAllowedContentChecksums_def checksums_valid_def Let_def)
qed

lemma checkImageVersion_None:
  "checkImageVersion pulp = None \<longleftrightarrow>
    (ToLower (Spec_IngressType (Pulp_Spec pulp)) \<noteq> ''route'' \<and> \<not> Spec_IsNginxIngress (Pulp_Spec pulp) \<and>
       Spec_ImageVersion (Pulp_Spec pulp) \<noteq> Spec_ImageWebVersion (Pulp_Spec pulp) \<and>
       Web_Replicas (Spec_Web (Pulp_Spec pulp)) > 0 \<longrightarrow> Spec_InhibitVersionConstraint (Pulp_Spec pulp))"
  by (simp add: checkImageVersion_def needsPulpWeb_def isRoute_def IsNginxIngressSupported_def)

lemma checkIngressDefinition_None:
  "checkIngressDefinition pulp = None \<longleftrightarrow>
    (ToLower (Spec_IngressType (Pulp_Spec pulp)) = ''ingress'' \<longrightarrow>
       Spec_IngressClassName (Pulp_Spec pulp) \<noteq> [] \<and> Spec_IngressHost (Pulp_Spec pulp) \<noteq> [])"
  by (simp add: checkIngressDefinition_def isIngress_def)

lemma checkFileStorage_None:
  "checkFileStorage pulp = None \<longleftrightarrow>
    (Spec_FileStorageClass (Pulp_Spec pulp) = [] \<longleftrightarrow> Spec_FileStorageAccessMode (Pulp_Spec pulp) = []) \<and>
    (Spec_FileStorageClass (Pulp_Spec pulp) = [] \<longleftrightarrow> Spec_FileStorageSize (Pulp_Spec pulp) = [])"
  by (auto simp: checkFileStorage_def hasFileStorageDefinition_def)

lemma checkSigningScripts_None:
  "checkSigningScripts pulp = None \<longleftrightarrow>
    (Spec_SigningScripts (Pulp_Spec pulp) = [] \<longleftrightarrow> Spec_SigningSecret (Pulp_Spec pulp) = [])"
  by (auto simp: checkSigningScripts_def)

lemmas checks_None = checkImageVersion_None checkIngressDefinition_None checkStorageDefinitions_None
  checkFileStorage_None checkAllowedContentChecksums_None checkSigningScripts_None

lemma pure_checks_None:
  "checkImageVersion pulp = None \<and> checkIngressDefinition pulp = None \<and> checkStorageDefinitions pulp = None \<and>
   checkFileStorage pulp = None \<and> checkAllowedContentChecksums pulp = None \<and> checkSigningScripts pulp = None
   \<longleftrightarrow> spec_valid (Pulp_Spec pulp)"
  by (simp only: spec_valid_def checks_None conj_assoc)

lemma get_secrets_frame [simp]:
  "st_pulp (snd (get_secrets X ns names s)) = st_pulp s"
  "st_events (snd (get_secrets X ns names s)) = st_events s"
  by (induction names arbitrary: s) (auto simp: split_beta split: sum.splits)

declare get_secrets.simps [simp del]

lemma cluster_checks_frame [frame, simp]:
  "st_pulp (snd (checkRouteNotOCP X s)) = st_pulp s"
  "st_pulp (snd (checkSecretsAvailability X s)) = st_pulp s"
  "st_pulp (snd (checkLDAPCA X s)) = st_pulp s"
  "st_pulp (snd (checkCAConfigmap X s)) = st_pulp s"
  by (simp_all add: checkRouteNotOCP_def checkSecretsAvailability_def checkSecretsAvailable_def
      checkLDAPCA_def checkCAConfigmap_def split_beta Let_def if_frames split del: if_split cong: if_cong)

text \<open>Every rejection is the empty result, so that the controller waits for the next change.\<close>

lemma check_storage_result: "check_storage pulp rs = Some r \<Longrightarrow> r = zero_Result"
  by (induction rs) (auto simp: check_storage.simps split_beta split: if_splits)

lemma checks_result:
  "checkImageVersion pulp = Some r \<Longrightarrow> r = zero_Result"
  "checkIngressDefinition pulp = Some r \<Longrightarrow> r = zero_Result"
  "checkStorageDefinitions pulp = Some r \<Longrightarrow> r = zero_Result"
  "checkFileStorage pulp = Some r \<Longrightarrow> r = zero_Result"
  "checkAllowedContentChecksums pulp = Some r \<Longrightarrow> r = zero_Result"
  "checkSigningScripts pulp = Some r \<Longrightarrow> r = zero_Result"
  "fst (checkRouteNotOCP X s) = Some r \<Longrightarrow> r = zero_Result"
  "fst (checkSecretsAvailability X s) = Some r \<Longrightarrow> r = zero_Result"
  "fst (checkLDAPCA X s) = Some r \<Longrightarrow> r = zero_Result"
  "fst (checkCAConfigmap X s) = Some r \<Longrightarrow> r = zero_Result"
  by (auto simp: checkImageVersion_def checkIngressDefinition_def checkStorageDefinitions_def
      checkFileStorage_def checkAllowedContentChecksums_def checkSigningScripts_def checkRouteNotOCP_def
      checkSecretsAvailability_def checkLDAPCA_def checkCAConfigmap_def Let_def split_beta
      dest: check_storage_result check_each_result split: if_splits option.splits)

lemma initializeStatusCondition_result:
  "fst (fst (initializeStatusCondition X s)) = zero_Result"
  by (simp add: initializeStatusCondition_def Let_def split_beta)

context pulp_store
begin

lemma initializeStatusCondition_spec:
  "Pulp_Spec (st_pulp (snd (initializeStatusCondition X s))) = Pulp_Spec (st_pulp s)"
  by (simp add: initializeStatusCondition_def Let_def split_beta if_frames split del: if_split cong: if_cong)

end

lemma prechecks_pass:
  assumes "pulp_store X"
  shows "fst (prechecks X s) = (None, None) \<longleftrightarrow>
    snd (fst (initializeStatusCondition X s)) = None \<and>
    spec_valid (Pulp_Spec (st_pulp s)) \<and>
    cluster_valid X (snd (initializeStatusCondition X s))"
proof -
  obtain r err s0 where init: "initializeStatusCondition X s = ((r, err), s0)"
    by (metis surj_pair)
  then have "Pulp_Spec (st_pulp s0) = Pulp_Spec (st_pulp s)"
    using pulp_store.initializeStatusCondition_spec [OF assms, of s] by simp
  then have valid: "spec_valid (Pulp_Spec (st_pulp s)) \<longleftrightarrow>
      checkImageVersion (st_pulp s0) = None \<and> checkIngressDefinition (st_pulp s0) = None \<and>
      checkStorageDefinitions (st_pulp s0) = None \<and> checkFileStorage (st_pulp s0) = None \<and>
      checkAllowedContentChecksums (st_pulp s0) = None \<and> checkSigningScripts (st_pulp s0) = None"
    by (simp only: pure_checks_None)
  show ?thesis
    unfolding valid prechecks_def cluster_valid_def init
    by (auto simp: split_beta Let_def split: option.split)
qed

text \<open>
  A precheck that stops the reconciliation always answers with the empty result, so a
  rejected resource is not requeued; an error is only ever that of the status update.
\<close>

lemma prechecks_rejects:
  "fst (prechecks X s) = (None, None) \<or>
   (\<exists>err. fst (prechecks X s) = (Some zero_Result, err) \<and>
      (err = None \<or> err = snd (fst (initializeStatusCondition X s))))"
proof -
  obtain r err s0 where init: "initializeStatusCondition X s = ((r, err), s0)"
    by (metis surj_pair)
  then have "r = zero_Result" using initializeStatusCondition_result [of X s] by simp
  then show ?thesis
    unfolding prechecks_def init
    by (auto simp: split_beta Let_def checks_result split: option.split)
qed

subsection \<open>Properties\<close>

text \<open>
  C1: the prechecks let the reconciliation continue exactly when the status condition could be
  initialised, the specification is valid (\<open>spec_valid\<close>: one storage for the Pulp pods, at most
  one for the cache, one for a managed database, the fields an Ingress needs, complete
  \<open>file_storage_*\<close> fields, supported checksums including sha256, signing script and secret
  together, matching image versions) and the checks that ask the cluster pass.
\<close>

theorem prechecks_pass_iff:
  assumes "pulp_store X"
  shows "fst (prechecks X s) = (None, None) \<longleftrightarrow>
    snd (fst (initializeStatusCondition X s)) = None \<and>
    spec_valid (Pulp_Spec (st_pulp s)) \<and>
    cluster_valid X (snd (initializeStatusCondition X s))"
  by (rule prechecks_pass [OF assms])

definition ex_valid_pulp :: Pulp where
  "ex_valid_pulp = zero_Pulp\<lparr>Pulp_Meta := zero_ObjectMeta\<lparr>meta_Name := ''p'', meta_Namespace := ''ns''\<rparr>,
     Pulp_Spec := zero_PulpSpec\<lparr>Spec_IngressType := ''nodeport'', Spec_PVC := ''claim'',
       Spec_Database := zero_Database\<lparr>Database_PVC := ''db''\<rparr>\<rparr>\<rparr>"

lemma ex_valid_init:
  "snd (fst (initializeStatusCondition mem_ext (mem_state ex_valid_pulp []))) = None"
  "Pulp_Spec (st_pulp (snd (initializeStatusCondition mem_ext (mem_state ex_valid_pulp [])))) = Pulp_Spec ex_valid_pulp"
  "mem_openshift (st_world (snd (initializeStatusCondition mem_ext (mem_state ex_valid_pulp [])))) = False"
  by (simp_all add: initializeStatusCondition_def set_condition_now_def call_def mem_state_def mem_init_def
      mem_ext_def Status_Update_def set_Status_def mem_put_pulp_def same_pulp_def ex_valid_pulp_def zero_Pulp_def
      zero_PulpStatus_def Let_def zero_ObjectMeta_def)

lemma ex_valid_cluster:
  assumes "Pulp_Spec (st_pulp s) = Pulp_Spec ex_valid_pulp" "mem_openshift (st_world s) = False"
  shows "cluster_valid mem_ext s"
proof -
  have ocp: "IsOpenShift mem_ext s = ((False, None), s)"
    using assms(2) by (simp add: IsOpenShift_def call_def mem_ext_def)
  have spec: "Spec_ObjectStorageAzureSecret (Pulp_Spec (st_pulp s)) = []" "Spec_ObjectStorageGCSSecret (Pulp_Spec (st_pulp s)) = []"
    "Spec_ObjectStorageS3Secret (Pulp_Spec (st_pulp s)) = []" "Spec_SSOSecret (Pulp_Spec (st_pulp s)) = []"
    "Database_ExternalDBSecret (Spec_Database (Pulp_Spec (st_pulp s))) = []"
    "Cache_ExternalCacheSecret (Spec_Cache (Pulp_Spec (st_pulp s))) = []"
    "LDAP_Config (Spec_LDAP (Pulp_Spec (st_pulp s))) = []" "LDAP_CA (Spec_LDAP (Pulp_Spec (st_pulp s))) = []"
    "Spec_TrustedCa (Pulp_Spec (st_pulp s)) = False" "Spec_IngressType (Pulp_Spec (st_pulp s)) = ''nodeport''"
    using assms(1)
    by (simp_all add: ex_valid_pulp_def zero_Pulp_def zero_PulpSpec_def zero_Database_def zero_Cache_def zero_LDAP_def)
  have "checkRouteNotOCP mem_ext s = (None, s)" "checkCAConfigmap mem_ext s = (None, s)" "checkLDAPCA mem_ext s = (None, s)"
    by (simp_all add: checkRouteNotOCP_def checkCAConfigmap_def checkLDAPCA_def ocp spec isRoute_def ascii)
  moreover have "checkSecretsAvailability mem_ext s = (None, s)"
    by (simp add: checkSecretsAvailability_def checkSecretsAvailable_def spec Let_def get_secrets.simps)
  ultimately show ?thesis by (simp add: cluster_valid_def)
qed

lemma ex_valid_spec: "spec_valid (Pulp_Spec ex_valid_pulp)"
  by (simp add: spec_valid_def storage_valid_def pulp_storage_options_def checksums_valid_def ex_valid_pulp_def
      zero_PulpSpec_def zero_Database_def zero_Cache_def zero_Web_def ascii)

theorem prechecks_pass_iff_witness: "fst (prechecks mem_ext (mem_state ex_valid_pulp [])) = (None, None)"
  using prechecks_pass_iff [OF mem_pulps.pulp_store_axioms, of "mem_state ex_valid_pulp []"]
    ex_valid_init ex_valid_spec ex_valid_cluster [OF ex_valid_init(2,3)]
  by (simp add: mem_state_def)

end
