(* ===== verification/Server_Settings.thy ===== *)
theory Server_Settings
  imports Prechecks
begin

text \<open>
  \<open>controllers/repo_manager/secret.go\<close>, \<open>sso.go\<close> and \<open>ldap.go\<close>: the text of \<open>settings.py\<close> kept
  in the pulp-server secret. The Go functions append to one string; here the string is a list
  of chunks, each the text that is appended together with the name of the Python variable it
  assigns (empty for comments and imports), and \<open>settings_text\<close> is the string.
\<close>

type_synonym chunk = "string \<times> string"

definition settings_text :: "chunk list \<Rightarrow> string" where
  "settings_text cs = concat (map snd cs)"

abbreviation keys_of :: "chunk list \<Rightarrow> string list" where
  "keys_of cs \<equiv> map fst cs"

definition dq :: "string \<Rightarrow> string" where "dq t = dquote @ t @ dquote"
definition sq :: "string \<Rightarrow> string" where "sq t = squote @ t @ squote"

text \<open>\<open>name + between + value + "\n"\<close>, and text over several lines.\<close>

definition setting :: "string \<Rightarrow> string \<Rightarrow> string \<Rightarrow> chunk" where
  "setting name between value = (name, name @ between @ value @ newline)"

definition block :: "string list \<Rightarrow> string" where
  "block ls = concat (map (\<lambda>l. l @ newline) ls)"

definition spaces :: "nat \<Rightarrow> string" where
  "spaces n = replicate n CHR '' ''"

definition DotNotEditMessage :: string where
  "DotNotEditMessage = block
    ['''', ''# This file is managed by Pulp operator.'', ''# DO NOT EDIT IT.'', ''#'',
     ''# To modify custom fields, use the custom_pulp_settings from Pulp CR, for example:'',
     ''# spec:'', ''#   custom_pulp_settings: <configmap name>'', '''']"

subsection \<open>Custom and default settings\<close>

definition sortKeys :: "gomap \<Rightarrow> string list" where
  "sortKeys a = sort (map fst a)"

fun custom_loop :: "gomap \<Rightarrow> string list \<Rightarrow> chunk list \<times> string list \<times> gomap \<Rightarrow> chunk list \<times> string list \<times> gomap" where
  "custom_loop data [] acc = acc"
| "custom_loop data (k # ks) (pulpSettings, settings, defaultSettings) =
    custom_loop data ks
      (pulpSettings @ [setting (ToUpper k) '' = '' (gget data k)],
       settings @ [ToUpper k],
       gdelete (ToUpper k) defaultSettings)"

definition default_chunks :: "gomap \<Rightarrow> chunk list" where
  "default_chunks defaultSettings = map (\<lambda>k. setting k '' = '' (gget defaultSettings k)) (sortKeys defaultSettings)"

text \<open>The result is the map of custom keys (the values are empty structs) and the new text.\<close>

definition addCustomPulpSettings ::
  "'w Externals \<Rightarrow> 'w St \<Rightarrow> chunk list \<Rightarrow> (string list \<times> chunk list) \<times> 'w St" where
  "addCustomPulpSettings X s pulpSettings =
    (let pulp = st_pulp s;
         rootUrl = getRootURL pulp;
         defaultSettings = DefaultPulpSettings rootUrl
     in if Spec_CustomPulpSettings (Pulp_Spec pulp) = []
        then (([], pulpSettings @ default_chunks defaultSettings), s)
        else
          (let (r, s) = Get_ConfigMap X (Spec_CustomPulpSettings (Pulp_Spec pulp)) (Pulp_Namespace pulp) s;
               data = cm_Data (or_zero zero_ConfigMap r);
               (pulpSettings, settings, defaultSettings) =
                 custom_loop data (sortKeys data) (pulpSettings, [], defaultSettings)
           in ((settings, pulpSettings @ default_chunks defaultSettings), s)))"

definition debugLogging :: "Pulp \<Rightarrow> chunk list \<Rightarrow> chunk list" where
  "debugLogging pulp pulpSettings =
    (if Spec_EnableDebugging (Pulp_Spec pulp)
     then pulpSettings @ [setting ''LOGGING'' '' = ''
       (''{'' @ sq ''dynaconf_merge'' @ '': True, '' @ sq ''loggers'' @ '': {'' @ sq '''' @ '': {'' @ sq ''handlers''
        @ '': ['' @ sq ''console'' @ ''], '' @ sq ''level'' @ '': '' @ sq ''DEBUG'' @ ''}}}'')]
     else pulpSettings)"

subsection \<open>Database and cache\<close>

definition databases_chunk :: "string \<Rightarrow> string \<Rightarrow> string \<Rightarrow> string \<Rightarrow> string \<Rightarrow> string \<Rightarrow> chunk" where
  "databases_chunk dbHost dbName dbUser dbPass dbPort dbSSLMode = (''DATABASES'', block
    [''DATABASES = {'',
     ''  '' @ sq ''default'' @ '': {'',
     ''    '' @ sq ''HOST'' @ '': '' @ sq dbHost @ '','',
     ''    '' @ sq ''ENGINE'' @ '': '' @ sq ''django.db.backends.postgresql_psycopg2'' @ '','',
     ''    '' @ sq ''NAME'' @ '': '' @ sq dbName @ '','',
     ''    '' @ sq ''USER'' @ '': '' @ sq dbUser @ '','',
     ''    '' @ sq ''PASSWORD'' @ '': '' @ sq dbPass @ '','',
     ''    '' @ sq ''PORT'' @ '': '' @ sq dbPort @ '','',
     ''    '' @ sq ''CONN_MAX_AGE'' @ '': 0,'',
     ''    '' @ sq ''OPTIONS'' @ '': { '' @ sq ''sslmode'' @ '': '' @ sq dbSSLMode @ '' },'',
     ''  }'',
     ''}''])"

definition databaseSettings ::
  "'w Externals \<Rightarrow> string list \<Rightarrow> 'w St \<Rightarrow> chunk list \<Rightarrow> chunk list \<times> 'w St" where
  "databaseSettings X customSettings s pulpSettings =
    (if ''DATABASES'' \<in> set customSettings then (pulpSettings, s)
     else
       (let pulp = st_pulp s in
        if length (Database_ExternalDBSecret (Spec_Database (Pulp_Spec pulp))) = 0 then
          (let (r, s) = RetrieveSecretData X (Pulp_Name pulp @ ''-postgres-configuration'') (Pulp_Namespace pulp) True
                 [''username'', ''password'', ''database'', ''port'', ''sslmode''] s
           in case r of
                Inl _ \<Rightarrow> (pulpSettings, s)
              | Inr pg \<Rightarrow>
                  (pulpSettings @ [databases_chunk (Pulp_Name pulp @ ''-database-svc'') (gget pg ''database'')
                     (gget pg ''username'') (gget pg ''password'') (gget pg ''port'') (gget pg ''sslmode'')], s))
        else
          (let (r, s) = RetrieveSecretData X (Database_ExternalDBSecret (Spec_Database (Pulp_Spec pulp)))
                 (Pulp_Namespace pulp) True
                 [''POSTGRES_HOST'', ''POSTGRES_PORT'', ''POSTGRES_USERNAME'', ''POSTGRES_PASSWORD'',
                  ''POSTGRES_DB_NAME'', ''POSTGRES_SSLMODE''] s
           in case r of
                Inl _ \<Rightarrow> (pulpSettings, s)
              | Inr pg \<Rightarrow>
                  (pulpSettings @ [databases_chunk (gget pg ''POSTGRES_HOST'') (gget pg ''POSTGRES_DB_NAME'')
                     (gget pg ''POSTGRES_USERNAME'') (gget pg ''POSTGRES_PASSWORD'') (gget pg ''POSTGRES_PORT'')
                     (gget pg ''POSTGRES_SSLMODE'')], s))))"

definition cache_chunks :: "string \<Rightarrow> string \<Rightarrow> string \<Rightarrow> string \<Rightarrow> chunk list" where
  "cache_chunks cacheHost cachePort cachePassword cacheDB =
    [setting ''CACHE_ENABLED'' '' = '' ''True'',
     setting ''REDIS_HOST'' '' =  '' (dq cacheHost),
     setting ''REDIS_PORT'' '' =  '' (dq cachePort),
     setting ''REDIS_PASSWORD'' '' = '' (dq cachePassword),
     setting ''REDIS_DB'' '' = '' (dq cacheDB)]"

text \<open>The error of \<open>RetrieveSecretData\<close> is ignored: the values read from the nil map are empty.\<close>

definition cacheSettings :: "'w Externals \<Rightarrow> 'w St \<Rightarrow> chunk list \<Rightarrow> chunk list \<times> 'w St" where
  "cacheSettings X s pulpSettings =
    (let pulp = st_pulp s; cache = Spec_Cache (Pulp_Spec pulp) in
     if \<not> Cache_Enabled cache then (pulpSettings, s)
     else
       (let cachePort = (if Cache_RedisPort cache \<noteq> 0 then Itoa (Cache_RedisPort cache) else Itoa 6379);
            cacheHost = Pulp_Name pulp @ ''-redis-svc.'' @ Pulp_Namespace pulp
        in if length (Cache_ExternalCacheSecret cache) > 0 then
             (let (r, s) = RetrieveSecretData X (Cache_ExternalCacheSecret cache) (Pulp_Namespace pulp) True
                    [''REDIS_HOST'', ''REDIS_PORT'', ''REDIS_PASSWORD'', ''REDIS_DB''] s;
                  config = or_zero [] r
              in (pulpSettings @ cache_chunks (gget config ''REDIS_HOST'') (gget config ''REDIS_PORT'')
                    (gget config ''REDIS_PASSWORD'') (gget config ''REDIS_DB''), s))
           else (pulpSettings @ cache_chunks cacheHost cachePort [] [], s)))"

subsection \<open>Object storage\<close>

definition media_root_chunk :: chunk where
  "media_root_chunk = setting ''MEDIA_ROOT'' '' = '' (dq '''')"

definition staticfiles_line :: string where
  "staticfiles_line = ''    '' @ dq ''staticfiles'' @ '': {'' @ dq ''BACKEND'' @ '': ''
     @ dq ''django.contrib.staticfiles.storage.StaticFilesStorage'' @ ''},''"

definition azure_storages :: "gomap \<Rightarrow> chunk" where
  "azure_storages storageData = (''STORAGES'', block
    [''STORAGES = {'',
     ''    '' @ dq ''default'' @ '': {'',
     ''        '' @ dq ''BACKEND'' @ '': '' @ dq ''storages.backends.azure_storage.AzureStorage'' @ '','',
     ''        '' @ dq ''OPTIONS'' @ '': {'',
     spaces 12 @ dq ''connection_string'' @ '': '' @ sq (gget storageData ''azure-connection-string'') @ '','',
     spaces 12 @ dq ''account_name'' @ '': '' @ sq (gget storageData ''azure-account-name'') @ '','',
     spaces 12 @ dq ''azure_container'' @ '': '' @ sq (gget storageData ''azure-container'') @ '','',
     spaces 12 @ dq ''account_key'' @ '': '' @ sq (gget storageData ''azure-account-key'') @ '','',
     spaces 12 @ dq ''expiration_secs'' @ '': 60,'',
     spaces 12 @ dq ''overwrite_files'' @ '': '' @ sq ''True'' @ '','',
     spaces 12 @ dq ''location'' @ '': '' @ sq (gget storageData ''azure-container-path''),
     ''        },'',
     ''    },'',
     staticfiles_line,
     ''}''])"

definition azureSettings ::
  "'w Externals \<Rightarrow> string list \<Rightarrow> 'w St \<Rightarrow> chunk list \<Rightarrow> (chunk list \<times> 'w St) option" where
  "azureSettings X customSettings s pulpSettings =
    (if ''STORAGES'' \<in> set customSettings then Some (pulpSettings, s)
     else do {
       let pulp = st_pulp s;
       storageType \<leftarrow> index (snd (MultiStorageConfigured pulp ''Pulp'')) 0;
       if storageType \<noteq> AzureObjType then Some (pulpSettings, s)
       else
         (let (r, s) = RetrieveSecretData X (Spec_ObjectStorageAzureSecret (Pulp_Spec pulp)) (Pulp_Namespace pulp) True
                [''azure-account-name'', ''azure-account-key'', ''azure-container'', ''azure-container-path'',
                 ''azure-connection-string''] s
          in case r of
               Inl _ \<Rightarrow> Some (pulpSettings, s)
             | Inr storageData \<Rightarrow>
                 Some (pulpSettings @ [media_root_chunk, azure_storages storageData], s)) })"

text \<open>\<open>fmt.Sprintf("%12s\"name\": ...,\n", "")\<close> when the optional key is set, nothing otherwise.\<close>

definition option_line :: "string \<Rightarrow> string \<Rightarrow> string list" where
  "option_line name shown = [spaces 12 @ dq name @ '': '' @ shown @ '','']"

definition gcs_storages :: "gomap \<Rightarrow> gomap \<Rightarrow> chunk" where
  "gcs_storages storageData optionalKey =
    (let opt = (\<lambda>k name. if length (gget optionalKey k) > 0 then option_line name (gget optionalKey k) else [])
     in (''STORAGES'', block
          ([''STORAGES = {'',
            ''    '' @ dq ''default'' @ '': {'',
            ''        '' @ dq ''BACKEND'' @ '': '' @ dq ''storages.backends.gcloud.GoogleCloudStorage'' @ '','',
            ''        '' @ dq ''OPTIONS'' @ '': {'',
            spaces 12 @ dq ''bucket_name'' @ '': '' @ sq (gget storageData ''gcs-bucket-name'') @ '','']
           @ opt ''gcs-iam-sign-blob'' ''iam_sign_blob''
           @ opt ''gcs-querystring-auth'' ''querystring_auth''
           @ opt ''gcs-file-overwrite'' ''file_overwrite''
           @ [spaces 8 @ ''},'', ''    },'', staticfiles_line, ''}''])))"

definition gcsSettings ::
  "'w Externals \<Rightarrow> string list \<Rightarrow> 'w St \<Rightarrow> chunk list \<Rightarrow> (chunk list \<times> 'w St) option" where
  "gcsSettings X customSettings s pulpSettings =
    (if ''STORAGES'' \<in> set customSettings then Some (pulpSettings, s)
     else do {
       let pulp = st_pulp s;
       storageType \<leftarrow> index (snd (MultiStorageConfigured pulp ''Pulp'')) 0;
       if storageType \<noteq> GCSObjType then Some (pulpSettings, s)
       else
         (let secret = Spec_ObjectStorageGCSSecret (Pulp_Spec pulp);
              (r, s) = RetrieveSecretData X secret (Pulp_Namespace pulp) True [''gcs-bucket-name''] s
          in case r of
               Inl _ \<Rightarrow> Some (pulpSettings, s)
             | Inr storageData \<Rightarrow>
                 (let (r, s) = RetrieveSecretData X secret (Pulp_Namespace pulp) False
                        [''gcs-iam-sign-blob'', ''gcs-querystring-auth'', ''gcs-file-overwrite''] s
                  in Some (pulpSettings @ [media_root_chunk, gcs_storages storageData (or_zero [] r)], s))) })"

definition getAddressingStyle :: "gomap \<Rightarrow> string" where
  "getAddressingStyle optionalKey =
    (case map_of optionalKey ''s3-addressing-style'' of
       Some addressingStyle \<Rightarrow> if length addressingStyle > 0 then addressingStyle else ''path''
     | None \<Rightarrow> ''path'')"

definition s3_storages :: "gomap \<Rightarrow> gomap \<Rightarrow> chunk" where
  "s3_storages storageData optionalKey =
    (let opt = (\<lambda>k name. if length (gget optionalKey k) > 0 then option_line name (dq (gget optionalKey k)) else [])
     in (''STORAGES'', block
          ([''STORAGES = {'',
            ''    '' @ dq ''default'' @ '': {'',
            ''        '' @ dq ''BACKEND'' @ '': '' @ dq ''storages.backends.s3boto3.S3Boto3Storage'' @ '','',
            ''        '' @ dq ''OPTIONS'' @ '': {'',
            spaces 12 @ dq ''signature_version'' @ '': '' @ dq ''s3v4'' @ '','',
            spaces 12 @ dq ''addressing_style'' @ '': '' @ dq (getAddressingStyle optionalKey) @ '','',
            spaces 12 @ dq ''bucket_name'' @ '': '' @ sq (gget storageData ''s3-bucket-name'') @ '','']
           @ opt ''s3-secret-access-key'' ''secret_key''
           @ opt ''s3-access-key-id'' ''access_key''
           @ opt ''s3-endpoint'' ''endpoint_url''
           @ opt ''s3-region'' ''region_name''
           @ [spaces 8 @ ''},'', ''    },'', staticfiles_line, ''}''])))"

definition s3Settings ::
  "'w Externals \<Rightarrow> string list \<Rightarrow> 'w St \<Rightarrow> chunk list \<Rightarrow> (chunk list \<times> 'w St) option" where
  "s3Settings X customSettings s pulpSettings =
    (if ''STORAGES'' \<in> set customSettings then Some (pulpSettings, s)
     else do {
       let pulp = st_pulp s;
       storageType \<leftarrow> index (snd (MultiStorageConfigured pulp ''Pulp'')) 0;
       if storageType \<noteq> S3ObjType then Some (pulpSettings, s)
       else
         (let secret = Spec_ObjectStorageS3Secret (Pulp_Spec pulp);
              (r, s) = RetrieveSecretData X secret (Pulp_Namespace pulp) True [''s3-bucket-name''] s
          in case r of
               Inl _ \<Rightarrow> Some (pulpSettings, s)
             | Inr storageData \<Rightarrow>
                 (let (r, s) = RetrieveSecretData X secret (Pulp_Namespace pulp) False
                        [''s3-endpoint'', ''s3-region'', ''s3-access-key-id'', ''s3-secret-access-key'',
                         ''s3-addressing-style''] s;
                      optionalKey = or_zero [] r
                  in if length (gget optionalKey ''s3-endpoint'') = 0 \<and> length (gget optionalKey ''s3-region'') = 0
                     then Some (pulpSettings, s)
                     else Some (pulpSettings @ [media_root_chunk, s3_storages storageData optionalKey], s))) })"

subsection \<open>Token server, secret key, checksums\<close>

definition tokenSettings :: "string list \<Rightarrow> Pulp \<Rightarrow> chunk list \<Rightarrow> chunk list" where
  "tokenSettings customSettings pulp pulpSettings =
    (if ''TOKEN_SERVER'' \<in> set customSettings then pulpSettings
     else
       (let tokenServer =
          (if isRoute pulp then getRootURL pulp @ ''/token/''
           else if isIngress pulp then
             (if length (Spec_IngressTLSSecret (Pulp_Spec pulp)) > 0 then ''https'' else ''http'')
               @ ''://'' @ Spec_IngressHost (Pulp_Spec pulp) @ ''/token/''
           else ''http://'' @ Pulp_Name pulp @ ''-api-svc.'' @ Pulp_Namespace pulp
               @ ''.svc.cluster.local:24817/token/'')
        in pulpSettings @ [setting ''TOKEN_SERVER'' '' = '' (dq tokenServer)]))"

definition secretKeySettings ::
  "'w Externals \<Rightarrow> string list \<Rightarrow> 'w St \<Rightarrow> chunk list \<Rightarrow> chunk list \<times> 'w St" where
  "secretKeySettings X customSettings s pulpSettings =
    (if ''SECRET_KEY'' \<in> set customSettings then (pulpSettings, s)
     else
       (let pulp = st_pulp s;
            (r, s) = RetrieveSecretData X (Spec_PulpSecretKey (Pulp_Spec pulp)) (Pulp_Namespace pulp) True
              [''secret_key''] s
        in case r of
             Inl _ \<Rightarrow> (pulpSettings, s)
           | Inr secretKey \<Rightarrow>
               (pulpSettings @ [setting ''SECRET_KEY'' '' = '' (dq (gget secretKey ''secret_key''))], s)))"

text \<open>\<open>json.Marshal\<close> of a slice of ASCII strings.\<close>

definition json_char :: "char \<Rightarrow> string" where
  "json_char c =
    (let n = of_char c :: nat in
     if c = CHR 0x22 \<or> c = CHR 0x5C then [CHR 0x5C, c]
     else if c = CHR 0x08 then [CHR 0x5C, CHR ''b'']
     else if c = CHR 0x0C then [CHR 0x5C, CHR ''f'']
     else if c = CHR 0x0A then [CHR 0x5C, CHR ''n'']
     else if c = CHR 0x0D then [CHR 0x5C, CHR ''r'']
     else if c = CHR 0x09 then [CHR 0x5C, CHR ''t'']
     else if n < 32 \<or> c = CHR ''<'' \<or> c = CHR ''>'' \<or> c = CHR ''&''
     then CHR 0x5C # ''u00'' @ [hex_digit (n div 16), hex_digit (n mod 16)]
     else [c])"

fun json_join :: "string list \<Rightarrow> string" where
  "json_join [] = []"
| "json_join [x] = dq (concat (map json_char x))"
| "json_join (x # y # ys) = dq (concat (map json_char x)) @ '','' @ json_join (y # ys)"

definition json_strings :: "string list \<Rightarrow> string" where
  "json_strings xs = ''['' @ json_join xs @ '']''"

text \<open>\<open>fmt.Sprintln\<close> puts a space between its arguments.\<close>

definition allowedContentChecksumsSettings :: "string list \<Rightarrow> Pulp \<Rightarrow> chunk list \<Rightarrow> chunk list" where
  "allowedContentChecksumsSettings customSettings pulp pulpSettings =
    (if ''ALLOWED_CONTENT_CHECKSUMS'' \<in> set customSettings then pulpSettings
     else if length (elements (Spec_AllowedContentChecksums (Pulp_Spec pulp))) = 0 then pulpSettings
     else pulpSettings @ [setting ''ALLOWED_CONTENT_CHECKSUMS'' '' =  ''
            (json_strings (elements (Spec_AllowedContentChecksums (Pulp_Spec pulp))))])"

subsection \<open>Single sign-on and LDAP\<close>

definition sso_required :: "string list" where
  "sso_required = [''social_auth_keycloak_key'', ''social_auth_keycloak_secret'', ''social_auth_keycloak_public_key'',
     ''keycloak_host'', ''keycloak_protocol'', ''keycloak_port'', ''keycloak_realm'']"

definition sso_optional :: "string list" where
  "sso_optional = [''keycloak_admin_role'', ''keycloak_group_token_claim'', ''keycloak_role_token_claim'',
     ''keycloak_host_loopback'']"

definition ssoConfig ::
  "'w Externals \<Rightarrow> 'w St \<Rightarrow> chunk list \<Rightarrow> (error option \<times> chunk list) \<times> 'w St" where
  "ssoConfig X s pulpSettings =
    (let pulp = st_pulp s;
         name = Spec_SSOSecret (Pulp_Spec pulp)
     in if length name = 0 then ((None, pulpSettings), s)
        else
          (let (r, s) = Get_Secret X name (Pulp_Namespace pulp) s in
           case r of
             Inl err \<Rightarrow> ((Some err, pulpSettings), s)
           | Inr secret \<Rightarrow>
               if sec_Data secret = []
               then ((Some (Errorf (''cannot read the data for secret '' @ name)), pulpSettings), s)
               else
                 (let (r, s) = RetrieveSecretData X name (Pulp_Namespace pulp) True sso_required s in
                  case r of
                    Inl err \<Rightarrow> ((Some err, pulpSettings), s)
                  | Inr settings \<Rightarrow>
                      (let (r, s) = RetrieveSecretData X name (Pulp_Namespace pulp) False sso_optional s in
                       case r of
                         Inl err \<Rightarrow> ((Some err, pulpSettings), s)
                       | Inr optionalSettings \<Rightarrow>
                           (let settings = gcopy settings optionalSettings
                            in ((None, pulpSettings @ map (\<lambda>key. setting (ToUpper key) '' = '' (dq (gget settings key)))
                                        (sortKeys settings)), s))))))"

definition ldap_key :: "string \<Rightarrow> bool" where
  "ldap_key k \<longleftrightarrow> ToUpper (take 10 k) = ''AUTH_LDAP_'' \<and> CHR 0x0A \<notin> set (drop 10 k)"

definition ldap_plain :: "string list" where
  "ldap_plain = [''AUTH_LDAP_CACHE_TIMEOUT'', ''AUTH_LDAP_GROUP_SEARCH'', ''AUTH_LDAP_USER_SEARCH'',
     ''AUTH_LDAP_GROUP_TYPE'', ''AUTH_LDAP_GLOBAL_OPTIONS'', ''AUTH_LDAP_CONNECTION_OPTIONS'']"

definition ldap_bool :: "string list" where
  "ldap_bool = [''AUTH_LDAP_MIRROR_GROUPS'', ''AUTH_LDAP_ALWAYS_UPDATE_USER'', ''AUTH_LDAP_FIND_GROUP_PERMS'',
     ''AUTH_LDAP_START_TLS'']"

definition ldap_value :: "'w Externals \<Rightarrow> string \<Rightarrow> string \<Rightarrow> string" where
  "ldap_value X k configValue =
    (if ToUpper k \<in> set ldap_plain then configValue
     else if ToUpper k \<in> set ldap_bool then x_Title X configValue
     else dq configValue)"

definition ldap_header :: "chunk list" where
  "ldap_header =
    [([], block ['''', ''#### LDAP SETTINGS ####'', ''import ldap'', ''from django_auth_ldap.config import *'', '''']),
     (''AUTHENTICATION_BACKENDS'', block
       [''AUTHENTICATION_BACKENDS = ['',
        ''  '' @ dq ''django_auth_ldap.backend.LDAPBackend'' @ '','',
        ''  '' @ dq ''django.contrib.auth.backends.ModelBackend'' @ '','',
        ''  '' @ dq ''pulpcore.backends.ObjectRolePermissionBackend'' @ '','',
        '']''])]"

definition ldapSettings :: "'w Externals \<Rightarrow> 'w St \<Rightarrow> chunk list \<Rightarrow> chunk list \<times> 'w St" where
  "ldapSettings X s pulpSettings =
    (let pulp = st_pulp s;
         config = LDAP_Config (Spec_LDAP (Pulp_Spec pulp))
     in if length config = 0 then (pulpSettings, s)
        else
          (let (r, s) = Get_Secret X config (Pulp_Namespace pulp) s in
           case r of
             Inl _ \<Rightarrow> (pulpSettings, s)
           | Inr secret \<Rightarrow>
               (pulpSettings @ ldap_header
                 @ map (\<lambda>k. setting (ToUpper k) '' = '' (ldap_value X k (gget (sec_Data secret) k)))
                     (filter ldap_key (sortKeys (sec_Data secret)))
                 @ [([], block [''#### END OF LDAP SETTINGS ####'', ''''])], s)))"

subsection \<open>Settings that need a migration, and the secret\<close>

text \<open>The \<open>return\<close> on a setting that is false ends the loop, not only its iteration.\<close>

fun migration_loop :: "'w Externals \<Rightarrow> string list \<Rightarrow> PulpSpec \<Rightarrow> gomap \<Rightarrow> chunk list \<Rightarrow> chunk list" where
  "migration_loop X customSettings spec [] pulpSettings = pulpSettings"
| "migration_loop X customSettings spec ((operatorFieldName, pulpFieldName) # rest) pulpSettings =
    (if pulpFieldName \<in> set customSettings then migration_loop X customSettings spec rest pulpSettings
     else if \<not> spec_bool spec operatorFieldName then pulpSettings
     else migration_loop X customSettings spec rest
            (pulpSettings @ [setting pulpFieldName '' = '' (x_Title X ''true'')]))"

definition needsMigrationSetting ::
  "'w Externals \<Rightarrow> string list \<Rightarrow> 'w St \<Rightarrow> chunk list \<Rightarrow> chunk list \<times> 'w St" where
  "needsMigrationSetting X customSettings s pulpSettings =
    (let (order, s) = call (x_RangeOrder X MigrationSettingsList) s
     in (migration_loop X customSettings (Pulp_Spec (st_pulp s)) order pulpSettings, s))"

definition pulp_settings :: "'w Externals \<Rightarrow> 'w St \<Rightarrow> (chunk list \<times> 'w St) option" where
  "pulp_settings X s =
    do { let cs = [([], DotNotEditMessage)];
         let ((customSettings, cs), s) = addCustomPulpSettings X s cs;
         let cs = debugLogging (st_pulp s) cs;
         let (cs, s) = databaseSettings X customSettings s cs;
         let (cs, s) = cacheSettings X s cs;
         (cs, s) \<leftarrow> azureSettings X customSettings s cs;
         (cs, s) \<leftarrow> gcsSettings X customSettings s cs;
         (cs, s) \<leftarrow> s3Settings X customSettings s cs;
         let ((_, cs), s) = ssoConfig X s cs;
         let cs = tokenSettings customSettings (st_pulp s) cs;
         let (cs, s) = secretKeySettings X customSettings s cs;
         let cs = allowedContentChecksumsSettings customSettings (st_pulp s) cs;
         let (cs, s) = ldapSettings X s cs;
         let (cs, s) = needsMigrationSetting X customSettings s cs;
         Some (cs, s) }"

definition pulpServerSecret :: "'w Externals \<Rightarrow> 'w provisioner" where
  "pulpServerSecret X s =
    do { (cs, s) \<leftarrow> pulp_settings X s;
         let pulp = st_pulp s;
         Some (SecretObj \<lparr>
             sec_Meta = set_controller (Pulp_Name pulp) (zero_ObjectMeta\<lparr>
               meta_Name := PulpServerSecret (Pulp_Name pulp),
               meta_Namespace := Pulp_Namespace pulp,
               meta_Labels := CommonLabels pulp\<rparr>),
             sec_Data = [],
             sec_StringData = [(''settings.py'', settings_text cs)]\<rparr>, s) }"

subsection \<open>What each part assigns\<close>

text \<open>The assignments to one variable, in their order; Python keeps the last.\<close>

definition by_key :: "string \<Rightarrow> chunk list \<Rightarrow> chunk list" where
  "by_key k cs = filter (\<lambda>c. fst c = k) cs"

lemma by_key_simps [simp]:
  "by_key k [] = []"
  "by_key k (cs @ ds) = by_key k cs @ by_key k ds"
  "by_key k (c # cs) = (if k = fst c then c # by_key k cs else by_key k cs)"
  by (auto simp: by_key_def)

lemma by_key_absent: "k \<notin> set (keys_of cs) \<Longrightarrow> by_key k cs = []"
  by (auto simp: by_key_def filter_empty_conv)

lemma length_by_key: "length (by_key k cs) = length (filter (\<lambda>x. x = k) (keys_of cs))"
  by (simp add: by_key_def filter_map comp_def)

lemma setting_key [simp]: "fst (setting name b v) = name"
  by (simp add: setting_def)

lemma by_key_map_settings:
  "by_key k (map (\<lambda>n. setting (f n) b (v n)) ns) = map (\<lambda>n. setting (f n) b (v n)) (filter (\<lambda>n. f n = k) ns)"
  by (induction ns) auto

lemma custom_loop_eq:
  "custom_loop data ks (cs, names, defaults) =
    (cs @ map (\<lambda>k. setting (ToUpper k) '' = '' (gget data k)) ks, names @ map ToUpper ks,
     fold gdelete (map ToUpper ks) defaults)"
  by (induction ks arbitrary: cs names defaults) auto

lemma map_of_fold_gdelete: "map_of (fold gdelete ks m) k = (if k \<in> set ks then None else map_of m k)"
  by (induction ks arbitrary: m) (auto simp: map_of_gdelete)

lemma gmap_ok_fold_gdelete: "gmap_ok m \<Longrightarrow> gmap_ok (fold gdelete ks m)"
  by (induction ks arbitrary: m) auto

lemma set_sortKeys [simp]: "set (sortKeys m) = gkeys m"
  by (simp add: sortKeys_def gkeys_def)

lemma distinct_sortKeys: "gmap_ok m \<Longrightarrow> distinct (sortKeys m)"
  by (simp add: sortKeys_def gmap_ok_def)

lemma filter_eq_distinct: "distinct xs \<Longrightarrow> filter (\<lambda>x. x = k) xs = (if k \<in> set xs then [k] else [])"
  by (induction xs) auto

lemma by_key_default_chunks:
  assumes "gmap_ok m"
  shows "by_key k (default_chunks m) = (case map_of m k of Some v \<Rightarrow> [setting k '' = '' v] | None \<Rightarrow> [])"
proof -
  have "by_key k (default_chunks m) = map (\<lambda>n. setting n '' = '' (gget m n)) (filter (\<lambda>n. n = k) (sortKeys m))"
    by (simp add: default_chunks_def by_key_map_settings)
  then show ?thesis
    using distinct_sortKeys [OF assms]
    by (auto simp: filter_eq_distinct gkeys_dom gget_def split: option.splits)
qed

lemma DefaultPulpSettings_ok: "gmap_ok (DefaultPulpSettings u)"
  by (simp add: gmap_ok_def DefaultPulpSettings_def)

text \<open>The entries of the custom settings ConfigMap, as the code reads them.\<close>

definition custom_data :: "'w Externals \<Rightarrow> 'w St \<Rightarrow> gomap" where
  "custom_data X s =
    (let pulp = st_pulp s; name = Spec_CustomPulpSettings (Pulp_Spec pulp)
     in if name = [] then []
        else cm_Data (or_zero zero_ConfigMap (fst (Get_ConfigMap X name (Pulp_Namespace pulp) s))))"

definition custom_keys :: "'w Externals \<Rightarrow> 'w St \<Rightarrow> string list" where
  "custom_keys X s = map ToUpper (sortKeys (custom_data X s))"

definition custom_chunks :: "'w Externals \<Rightarrow> 'w St \<Rightarrow> string \<Rightarrow> chunk list" where
  "custom_chunks X s k = map (\<lambda>u. setting k '' = '' (gget (custom_data X s) u))
     (filter (\<lambda>u. ToUpper u = k) (sortKeys (custom_data X s)))"

lemma sortKeys_Nil [simp]: "sortKeys [] = []"
  by (simp add: sortKeys_def)

lemma addCustomPulpSettings_eq:
  "addCustomPulpSettings X s cs =
    ((custom_keys X s, cs @ map (\<lambda>u. setting (ToUpper u) '' = '' (gget (custom_data X s) u)) (sortKeys (custom_data X s))
       @ default_chunks (fold gdelete (custom_keys X s) (DefaultPulpSettings (getRootURL (st_pulp s))))),
     snd (addCustomPulpSettings X s cs))"
  by (simp add: addCustomPulpSettings_def custom_data_def custom_keys_def custom_loop_eq Let_def split_beta)

lemma addCustomPulpSettings_frame [simp]:
  "st_pulp (snd (addCustomPulpSettings X s cs)) = st_pulp s"
  by (simp add: addCustomPulpSettings_def Let_def split_beta)

lemma addCustomPulpSettings_by_key:
  "by_key k (snd (fst (addCustomPulpSettings X s cs))) = by_key k cs @
    (if k \<in> set (custom_keys X s) then custom_chunks X s k
     else case map_of (DefaultPulpSettings (getRootURL (st_pulp s))) k of
            Some v \<Rightarrow> [setting k '' = '' v] | None \<Rightarrow> [])"
proof -
  have eq: "by_key k (map (\<lambda>u. setting (ToUpper u) '' = '' (gget (custom_data X s) u)) (sortKeys (custom_data X s)))
      = custom_chunks X s k"
    by (simp add: by_key_map_settings custom_chunks_def)
  have none: "k \<notin> set (custom_keys X s) \<Longrightarrow> custom_chunks X s k = []"
    by (auto simp: custom_chunks_def custom_keys_def filter_empty_conv)
  show ?thesis
    using none
    by (subst addCustomPulpSettings_eq)
       (simp add: eq by_key_default_chunks gmap_ok_fold_gdelete DefaultPulpSettings_ok map_of_fold_gdelete)
qed

lemma debugLogging_by_key: "k \<noteq> ''LOGGING'' \<Longrightarrow> by_key k (debugLogging p cs) = by_key k cs"
  by (simp add: debugLogging_def)

lemma databases_chunk_key [simp]: "fst (databases_chunk a b c d e f) = ''DATABASES''"
  by (simp add: databases_chunk_def)

lemma databaseSettings_by_key:
  "k \<noteq> ''DATABASES'' \<or> k \<in> set custom \<Longrightarrow> by_key k (fst (databaseSettings X custom s cs)) = by_key k cs"
  by (auto simp: databaseSettings_def Let_def split_beta split: sum.splits)

lemma databaseSettings_frame [simp]: "st_pulp (snd (databaseSettings X custom s cs)) = st_pulp s"
  unfolding databaseSettings_def Let_def split_beta
  by (split if_split sum.split | simp only: snd_conv RetrieveSecretData_frame simp_thms)+

definition cache_keys :: "string list" where
  "cache_keys = [''CACHE_ENABLED'', ''REDIS_HOST'', ''REDIS_PORT'', ''REDIS_PASSWORD'', ''REDIS_DB'']"

lemma cache_chunks_by_key: "k \<notin> set cache_keys \<Longrightarrow> by_key k (cache_chunks h p w d) = []"
  by (rule by_key_absent) (simp add: cache_chunks_def cache_keys_def)

lemma cacheSettings_by_key: "k \<notin> set cache_keys \<Longrightarrow> by_key k (fst (cacheSettings X s cs)) = by_key k cs"
  by (simp add: cacheSettings_def cache_chunks_by_key Let_def split_beta)

lemma cacheSettings_frame [simp]: "st_pulp (snd (cacheSettings X s cs)) = st_pulp s"
  by (simp add: cacheSettings_def Let_def split_beta if_frames split del: if_split cong: if_cong)

text \<open>
  The three object storages: they differ in the type they wait for, and share what they
  assign, when they panic and what they keep.
\<close>

definition storage_step ::
  "string \<Rightarrow> ('w Externals \<Rightarrow> string list \<Rightarrow> 'w St \<Rightarrow> chunk list \<Rightarrow> (chunk list \<times> 'w St) option) \<Rightarrow> bool" where
  "storage_step ty f \<longleftrightarrow> (\<forall>X custom s cs.
     (f X custom s cs = None \<longleftrightarrow> ''STORAGES'' \<notin> set custom \<and> pulp_storage_options (Pulp_Spec (st_pulp s)) = []) \<and>
     (\<forall>cs' s'. f X custom s cs = Some (cs', s') \<longrightarrow>
        st_pulp s' = st_pulp s \<and>
        (\<exists>added. cs' = cs @ added \<and>
          (added = [] \<or> ''STORAGES'' \<notin> set custom \<and> hd (pulp_storage_options (Pulp_Spec (st_pulp s))) = ty
             \<and> keys_of added = [''MEDIA_ROOT'', ''STORAGES'']))))"

lemma index_0_eq: "index xs 0 = (if xs = [] then None else Some (hd xs))"
  by (cases xs) auto

lemma snd_MultiStorage: "snd (MultiStorageConfigured p ''Pulp'') = pulp_storage_options (Pulp_Spec p)"
  using GetStorageType_eq [of p] by (simp add: GetStorageType_def)

lemma storages_key [simp]:
  "fst (azure_storages d) = ''STORAGES''" "fst (gcs_storages d e) = ''STORAGES''"
  "fst (s3_storages d e) = ''STORAGES''" "fst media_root_chunk = ''MEDIA_ROOT''"
  by (simp_all add: azure_storages_def gcs_storages_def s3_storages_def media_root_chunk_def)

lemmas storage_step_simps = snd_MultiStorage index_0_eq split_beta Let_def

lemma azureSettings_step: "storage_step AzureObjType azureSettings"
  unfolding storage_step_def azureSettings_def
  by (auto simp: storage_step_simps split: sum.splits if_splits)

lemma gcsSettings_step: "storage_step GCSObjType gcsSettings"
  unfolding storage_step_def gcsSettings_def
  by (auto simp: storage_step_simps split: sum.splits if_splits)

lemma s3Settings_step: "storage_step S3ObjType s3Settings"
  unfolding storage_step_def s3Settings_def
  by (auto simp: storage_step_simps split: sum.splits if_splits)

lemma storage_step_added:
  assumes "storage_step ty f" "f X custom s cs = Some (cs', s')"
  shows "\<exists>added. cs' = cs @ added \<and>
     (added = [] \<or> ''STORAGES'' \<notin> set custom \<and> hd (pulp_storage_options (Pulp_Spec (st_pulp s))) = ty
        \<and> keys_of added = [''MEDIA_ROOT'', ''STORAGES''])"
  using assms(2)
  by (rule assms(1) [unfolded storage_step_def, THEN spec, THEN spec, THEN spec, THEN spec, THEN conjunct2,
        THEN spec, THEN spec, THEN mp, THEN conjunct2])

lemma storage_step_by_key:
  assumes "storage_step ty f" "f X custom s cs = Some (cs', s')"
    and k: "k \<notin> set [''MEDIA_ROOT'', ''STORAGES''] \<or> ''STORAGES'' \<in> set custom"
  shows "by_key k cs' = by_key k cs"
proof -
  from storage_step_added [OF assms(1,2)] obtain added where cs': "cs' = cs @ added"
    and added: "added = [] \<or> ''STORAGES'' \<notin> set custom \<and> hd (pulp_storage_options (Pulp_Spec (st_pulp s))) = ty
        \<and> keys_of added = [''MEDIA_ROOT'', ''STORAGES'']"
    by (elim exE conjE)
  from added have "by_key k added = []"
  proof (elim disjE conjE)
    assume "''STORAGES'' \<notin> set custom" and *: "keys_of added = [''MEDIA_ROOT'', ''STORAGES'']"
    with k have "k \<notin> set (keys_of added)" by (simp only: simp_thms if_False if_True)
    then show ?thesis by (rule by_key_absent)
  qed simp
  with cs' show ?thesis by simp
qed

lemma storage_step_frame:
  "storage_step ty f \<Longrightarrow> f X custom s cs = Some (cs', s') \<Longrightarrow> st_pulp s' = st_pulp s"
  unfolding storage_step_def by blast

lemma storage_step_None:
  "storage_step ty f \<Longrightarrow> f X custom s cs = None \<longleftrightarrow>
    ''STORAGES'' \<notin> set custom \<and> pulp_storage_options (Pulp_Spec (st_pulp s)) = []"
  unfolding storage_step_def by blast

definition sso_keys :: "string list" where
  "sso_keys = map ToUpper (sso_required @ sso_optional)"

lemma gkeys_gcopy: "gkeys (gcopy a b) = gkeys a \<union> gkeys b"
proof (induction b arbitrary: a)
  case (Cons e b)
  then show ?case by (cases e) (auto simp: gkeys_def gset_def dom_update)
qed (simp add: gkeys_def)

lemma retrieve_keys_subset: "retrieve_keys req n data keys acc = Inr m \<Longrightarrow> gkeys m \<subseteq> gkeys acc \<union> set keys"
  by (induction keys arbitrary: acc) (fastforce split: option.splits if_splits)+

lemma gkeys_Nil [simp]: "gkeys [] = {}"
  by (simp add: gkeys_def)

lemma RetrieveSecretData_keys:
  "fst (RetrieveSecretData X n ns req keys s) = Inr m \<Longrightarrow> gkeys m \<subseteq> set keys"
  by (auto simp: RetrieveSecretData_def split_beta dest!: retrieve_keys_subset split: sum.splits)

lemma ssoConfig_frame [simp]: "st_pulp (snd (ssoConfig X s cs)) = st_pulp s"
  unfolding ssoConfig_def Let_def split_beta
  by (split if_split sum.split | simp only: snd_conv RetrieveSecretData_frame Get_frame simp_thms | rule allI impI conjI)+

lemma ssoConfig_added:
  obtains m where "gkeys m \<subseteq> set (sso_required @ sso_optional)"
    "snd (fst (ssoConfig X s cs)) = cs @ map (\<lambda>key. setting (ToUpper key) '' = '' (dq (gget m key))) (sortKeys m)"
proof (cases "snd (fst (ssoConfig X s cs)) = cs")
  case True
  with that [of "[]"] show ?thesis by (simp add: gkeys_def)
next
  case False
  then obtain a b n ns s1 s2 where a: "fst (RetrieveSecretData X n ns True sso_required s1) = Inr a"
    and b: "fst (RetrieveSecretData X n ns False sso_optional s2) = Inr b"
    and eq: "snd (fst (ssoConfig X s cs)) = cs @ map (\<lambda>key. setting (ToUpper key) '' = '' (dq (gget (gcopy a b) key)))
        (sortKeys (gcopy a b))"
    by (auto simp: ssoConfig_def Let_def split_beta split: if_splits sum.splits)
  from RetrieveSecretData_keys [OF a] RetrieveSecretData_keys [OF b] eq
  show ?thesis by (intro that [of "gcopy a b"]) (auto simp: gkeys_gcopy)
qed

lemma ssoConfig_by_key:
  assumes "k \<notin> set sso_keys"
  shows "by_key k (snd (fst (ssoConfig X s cs))) = by_key k cs"
proof -
  obtain m where m: "gkeys m \<subseteq> set (sso_required @ sso_optional)"
    and eq: "snd (fst (ssoConfig X s cs)) = cs @ map (\<lambda>key. setting (ToUpper key) '' = '' (dq (gget m key))) (sortKeys m)"
    by (rule ssoConfig_added)
  have "by_key k (map (\<lambda>key. setting (ToUpper key) '' = '' (dq (gget m key))) (sortKeys m)) = []"
    using m assms by (intro by_key_absent) (auto simp: sso_keys_def)
  then show ?thesis by (simp add: eq)
qed

lemma tokenSettings_by_key:
  "k \<noteq> ''TOKEN_SERVER'' \<or> k \<in> set custom \<Longrightarrow> by_key k (tokenSettings custom p cs) = by_key k cs"
  unfolding tokenSettings_def Let_def by auto

lemma secretKeySettings_by_key:
  "k \<noteq> ''SECRET_KEY'' \<or> k \<in> set custom \<Longrightarrow> by_key k (fst (secretKeySettings X custom s cs)) = by_key k cs"
  by (auto simp: secretKeySettings_def Let_def split_beta split: sum.splits)

lemma secretKeySettings_frame [simp]: "st_pulp (snd (secretKeySettings X custom s cs)) = st_pulp s"
  by (simp add: secretKeySettings_def Let_def split_beta split: sum.splits)

lemma allowedContentChecksumsSettings_by_key:
  "k \<noteq> ''ALLOWED_CONTENT_CHECKSUMS'' \<or> k \<in> set custom \<Longrightarrow>
    by_key k (allowedContentChecksumsSettings custom p cs) = by_key k cs"
  by (auto simp: allowedContentChecksumsSettings_def)

lemma ldap_key_prefix: "ldap_key k \<Longrightarrow> take 10 (ToUpper k) = ''AUTH_LDAP_''"
  by (simp add: ldap_key_def ToUpper_def take_map)

lemma ldapSettings_by_key:
  assumes "k \<noteq> []" "k \<noteq> ''AUTHENTICATION_BACKENDS''" "take 10 k \<noteq> ''AUTH_LDAP_''"
  shows "by_key k (fst (ldapSettings X s cs)) = by_key k cs"
proof -
  have "by_key k (map (\<lambda>u. setting (ToUpper u) '' = '' (v u)) (filter ldap_key us)) = []" for v us
    using assms(3) by (intro by_key_absent) (auto dest: ldap_key_prefix)
  moreover have "by_key k ldap_header = []"
    using assms(1,2) by (intro by_key_absent) (auto simp: ldap_header_def)
  ultimately show ?thesis
    using assms(1) by (auto simp: ldapSettings_def Let_def split_beta split: sum.splits)
qed

lemma ldapSettings_frame [simp]: "st_pulp (snd (ldapSettings X s cs)) = st_pulp s"
  by (simp add: ldapSettings_def Let_def split_beta split: sum.splits)

lemma migration_loop_by_key:
  "k \<notin> set (map snd order) \<or> k \<in> set custom \<Longrightarrow> by_key k (migration_loop X custom spec order cs) = by_key k cs"
proof (induction order arbitrary: cs)
  case (Cons e order)
  then show ?case by (cases e) auto
qed simp

context go_runtime
begin

lemma needsMigrationSetting_by_key:
  assumes "k \<notin> {''REDIRECT_TO_OBJECT_STORAGE'', ''HIDE_GUARDED_DISTRIBUTIONS''} \<or> k \<in> set custom"
  shows "by_key k (fst (needsMigrationSetting X custom s cs)) = by_key k cs"
proof -
  let ?order = "fst (x_RangeOrder X MigrationSettingsList (st_world s))"
  have "set ?order = set MigrationSettingsList"
    using range_order by (metis mset_eq_setD)
  then have "set (map snd ?order) = {''REDIRECT_TO_OBJECT_STORAGE'', ''HIDE_GUARDED_DISTRIBUTIONS''}"
    by (simp only: set_map MigrationSettingsList_def list.set image_insert image_empty snd_conv)
  with assms have "k \<notin> set (map snd ?order) \<or> k \<in> set custom" by simp
  then show ?thesis
    by (simp add: needsMigrationSetting_def split_beta migration_loop_by_key)
qed

end

subsection \<open>The whole file\<close>

text \<open>Variables that are assigned whether or not the custom settings hold them.\<close>

definition always_assigned :: "string \<Rightarrow> bool" where
  "always_assigned k \<longleftrightarrow>
    k \<in> set ([] # ''LOGGING'' # ''MEDIA_ROOT'' # ''AUTHENTICATION_BACKENDS'' # cache_keys @ sso_keys)
    \<or> take 10 k = ''AUTH_LDAP_''"

text \<open>The states between the parts that may panic.\<close>

definition before_storage :: "'w Externals \<Rightarrow> 'w St \<Rightarrow> chunk list \<times> 'w St" where
  "before_storage X s =
    (let ((custom, cs), s) = addCustomPulpSettings X s [([], DotNotEditMessage)];
         (cs, s) = databaseSettings X custom s (debugLogging (st_pulp s) cs)
     in cacheSettings X s cs)"

definition after_storage :: "'w Externals \<Rightarrow> string list \<Rightarrow> chunk list \<times> 'w St \<Rightarrow> chunk list \<times> 'w St" where
  "after_storage X custom = (\<lambda>(cs, s).
    (let ((_, cs), s) = ssoConfig X s cs;
         (cs, s) = secretKeySettings X custom s (tokenSettings custom (st_pulp s) cs);
         (cs, s) = ldapSettings X s (allowedContentChecksumsSettings custom (st_pulp s) cs)
     in needsMigrationSetting X custom s cs))"

definition storage_part ::
  "'w Externals \<Rightarrow> string list \<Rightarrow> chunk list \<times> 'w St \<Rightarrow> (chunk list \<times> 'w St) option" where
  "storage_part X custom = (\<lambda>(cs, s).
    do { (cs, s) \<leftarrow> azureSettings X custom s cs;
         (cs, s) \<leftarrow> gcsSettings X custom s cs;
         s3Settings X custom s cs })"

lemma pulp_settings_split:
  "pulp_settings X s = map_option (after_storage X (custom_keys X s))
     (storage_part X (custom_keys X s) (before_storage X s))"
proof -
  have custom: "fst (fst (addCustomPulpSettings X s cs)) = custom_keys X s" for cs
    by (subst addCustomPulpSettings_eq) simp
  show ?thesis
    unfolding pulp_settings_def before_storage_def storage_part_def Let_def split_beta custom
    by (simp add: after_storage_def split_beta Let_def map_conv_bind_option comp_def case_prod_beta)
qed

lemma before_storage_frame [simp]: "st_pulp (snd (before_storage X s)) = st_pulp s"
  by (simp add: before_storage_def split_beta Let_def)

text \<open>Every part that takes the storage type from the first configured one.\<close>

lemmas storage_steps = azureSettings_step gcsSettings_step s3Settings_step

lemma storage_part_None:
  "storage_part X custom (cs, s) = None \<longleftrightarrow>
    ''STORAGES'' \<notin> set custom \<and> pulp_storage_options (Pulp_Spec (st_pulp s)) = []"
  by (auto simp: storage_part_def storage_steps [THEN storage_step_None]
      dest!: storage_steps [THEN storage_step_frame] split: bind_splits)

lemma storage_part_frame:
  "storage_part X custom (cs, s) = Some (cs', s') \<Longrightarrow> st_pulp s' = st_pulp s"
  by (auto simp: storage_part_def dest!: storage_steps [THEN storage_step_frame] split: bind_splits)

lemma storage_part_by_key:
  assumes "storage_part X custom (cs, s) = Some (cs', s')"
    and "k \<notin> set [''MEDIA_ROOT'', ''STORAGES''] \<or> ''STORAGES'' \<in> set custom"
  shows "by_key k cs' = by_key k cs"
proof -
  obtain cs1 s1 cs2 s2 where steps: "azureSettings X custom s cs = Some (cs1, s1)"
    "gcsSettings X custom s1 cs1 = Some (cs2, s2)" "s3Settings X custom s2 cs2 = Some (cs', s')"
    using assms(1) by (auto simp: storage_part_def split: bind_splits)
  show ?thesis
    using storage_step_by_key [OF azureSettings_step steps(1) assms(2)]
      storage_step_by_key [OF gcsSettings_step steps(2) assms(2)]
      storage_step_by_key [OF s3Settings_step steps(3) assms(2)] by simp
qed

lemma before_storage_by_key:
  assumes "k \<notin> set ([] # ''LOGGING'' # cache_keys)" "k \<noteq> ''DATABASES'' \<or> k \<in> set (custom_keys X s)"
  shows "by_key k (fst (before_storage X s)) =
    (if k \<in> set (custom_keys X s) then custom_chunks X s k
     else case map_of (DefaultPulpSettings (getRootURL (st_pulp s))) k of
            Some v \<Rightarrow> [setting k '' = '' v] | None \<Rightarrow> [])"
proof -
  have "fst (fst (addCustomPulpSettings X s cs)) = custom_keys X s" for cs
    by (subst addCustomPulpSettings_eq) simp
  with assms show ?thesis
    by (simp add: before_storage_def split_beta Let_def cacheSettings_by_key databaseSettings_by_key
        debugLogging_by_key addCustomPulpSettings_by_key)
qed

lemma pulp_settings_None:
  "pulp_settings X s = None \<longleftrightarrow>
    ''STORAGES'' \<notin> set (custom_keys X s) \<and> pulp_storage_options (Pulp_Spec (st_pulp s)) = []"
  using storage_part_None [of X "custom_keys X s" "fst (before_storage X s)" "snd (before_storage X s)"]
  by (simp add: pulp_settings_split)

lemma after_storage_by_key:
  assumes "go_runtime X" "\<not> always_assigned k"
    and "k \<notin> {''TOKEN_SERVER'', ''SECRET_KEY'', ''ALLOWED_CONTENT_CHECKSUMS'', ''REDIRECT_TO_OBJECT_STORAGE'',
          ''HIDE_GUARDED_DISTRIBUTIONS''} \<or> k \<in> set custom"
  shows "by_key k (fst (after_storage X custom (cs, s))) = by_key k cs"
proof -
  have sso: "k \<notin> set sso_keys" and ldap: "k \<noteq> []" "k \<noteq> ''AUTHENTICATION_BACKENDS''" "take 10 k \<noteq> ''AUTH_LDAP_''"
    using assms(2) by (simp_all add: always_assigned_def)
  have mig: "k \<notin> {''REDIRECT_TO_OBJECT_STORAGE'', ''HIDE_GUARDED_DISTRIBUTIONS''} \<or> k \<in> set custom"
    and tok: "k \<noteq> ''TOKEN_SERVER'' \<or> k \<in> set custom" and key: "k \<noteq> ''SECRET_KEY'' \<or> k \<in> set custom"
    and sums: "k \<noteq> ''ALLOWED_CONTENT_CHECKSUMS'' \<or> k \<in> set custom"
    using assms(3)
    by (cases "k \<in> set custom"; simp only: insert_iff empty_iff simp_thms de_Morgan_disj)+
  show ?thesis
    by (simp add: after_storage_def split_beta Let_def go_runtime.needsMigrationSetting_by_key [OF assms(1) mig]
        ldapSettings_by_key [OF ldap] allowedContentChecksumsSettings_by_key [OF sums]
        secretKeySettings_by_key [OF key] tokenSettings_by_key [OF tok] ssoConfig_by_key [OF sso])
qed

text \<open>
  C7: A variable the user sets in the custom settings ConfigMap is assigned in settings.py by
  exactly the user's entries. This holds for every variable but those of logging, the media
  root, the cache, single sign-on and LDAP, which the operator assigns after the user's entries
  without looking at the custom settings.
\<close>

theorem user_settings_win:
  assumes "go_runtime X" "pulp_settings X s = Some (cs, s')"
    and "k \<in> set (custom_keys X s)" "\<not> always_assigned k"
  shows "by_key k cs = custom_chunks X s k"
proof -
  let ?c = "custom_keys X s"
  obtain cs1 s1 where mid: "storage_part X ?c (before_storage X s) = Some (cs1, s1)"
    and cs: "after_storage X ?c (cs1, s1) = (cs, s')"
    using assms(2) by (auto simp: pulp_settings_split)
  have "by_key k cs = by_key k cs1"
    using after_storage_by_key [OF assms(1,4), of ?c cs1 s1] assms(3) by (simp add: cs)
  also have "by_key k cs1 = by_key k (fst (before_storage X s))"
  proof (rule storage_part_by_key)
    show "storage_part X ?c (fst (before_storage X s), snd (before_storage X s)) = Some (cs1, s1)"
      using mid by simp
    show "k \<notin> set [''MEDIA_ROOT'', ''STORAGES''] \<or> ''STORAGES'' \<in> set ?c"
      using assms(3,4) by (cases "k = ''STORAGES''") (simp_all add: always_assigned_def)
  qed
  also have "\<dots> = custom_chunks X s k"
    using assms(3,4) by (subst before_storage_by_key) (simp_all add: always_assigned_def)
  finally show ?thesis .
qed

definition ex_settings_cm :: ConfigMap where
  "ex_settings_cm = \<lparr>cm_Meta = zero_ObjectMeta\<lparr>meta_Name := ''custom'', meta_Namespace := ''ns''\<rparr>,
     cm_Data = [(''secret_key'', ''1'')]\<rparr>"

definition ex_settings_pulp :: Pulp where
  "ex_settings_pulp = zero_Pulp\<lparr>
     Pulp_Meta := zero_ObjectMeta\<lparr>meta_Name := ''p'', meta_Namespace := ''ns''\<rparr>,
     Pulp_Spec := zero_PulpSpec\<lparr>Spec_CustomPulpSettings := ''custom'', Spec_PVC := ''claim''\<rparr>\<rparr>"

definition ex_settings_state :: "mem St" where
  "ex_settings_state = mem_state ex_settings_pulp [ConfigMapObj ex_settings_cm]"

lemma ex_settings_keys: "custom_keys mem_ext ex_settings_state = [''SECRET_KEY'']"
  by (simp add: custom_keys_def custom_data_def ex_settings_state_def mem_state_def mem_init_def Let_def
      ex_settings_pulp_def zero_Pulp_def zero_PulpSpec_def zero_ObjectMeta_def Get_ConfigMap_def call_def
      mem_ext_def mem_get_def mem_lookup_def same_obj_def ex_settings_cm_def sortKeys_def ascii)

lemma ex_settings_Some:
  "\<exists>cs s. pulp_settings mem_ext ex_settings_state = Some (cs, s)"
proof -
  have "pulp_storage_options (Pulp_Spec (st_pulp ex_settings_state)) \<noteq> []"
    by (simp add: pulp_storage_options_def ex_settings_state_def mem_state_def ex_settings_pulp_def)
  with pulp_settings_None [of mem_ext ex_settings_state] show ?thesis
    by (cases "pulp_settings mem_ext ex_settings_state") auto
qed

theorem user_settings_win_witness:
  "\<exists>cs s. pulp_settings mem_ext ex_settings_state = Some (cs, s) \<and>
     by_key ''SECRET_KEY'' cs = custom_chunks mem_ext ex_settings_state ''SECRET_KEY''"
proof -
  obtain cs s where cs: "pulp_settings mem_ext ex_settings_state = Some (cs, s)"
    using ex_settings_Some by blast
  have "by_key ''SECRET_KEY'' cs = custom_chunks mem_ext ex_settings_state ''SECRET_KEY''"
    using mem_runtime.go_runtime_axioms cs
    by (rule user_settings_win)
       (simp_all add: ex_settings_keys always_assigned_def cache_keys_def sso_keys_def sso_required_def
         sso_optional_def ascii)
  with cs show ?thesis by blast
qed

lemma storage_part_added:
  assumes "storage_part X custom (cs, s) = Some (cs', s')"
  obtains added where "cs' = cs @ added" "added = [] \<or> keys_of added = [''MEDIA_ROOT'', ''STORAGES'']"
proof -
  let ?o = "hd (pulp_storage_options (Pulp_Spec (st_pulp s)))"
  obtain cs1 s1 cs2 s2 where steps: "azureSettings X custom s cs = Some (cs1, s1)"
    "gcsSettings X custom s1 cs1 = Some (cs2, s2)" "s3Settings X custom s2 cs2 = Some (cs', s')"
    using assms by (auto simp: storage_part_def split: bind_splits)
  have frame: "st_pulp s1 = st_pulp s" "st_pulp s2 = st_pulp s"
    using storage_step_frame [OF azureSettings_step steps(1)] storage_step_frame [OF gcsSettings_step steps(2)]
    by simp_all
  obtain a b c where "cs1 = cs @ a" "cs2 = cs1 @ b" "cs' = cs2 @ c"
    and a: "a = [] \<or> ?o = AzureObjType \<and> keys_of a = [''MEDIA_ROOT'', ''STORAGES'']"
    and b: "b = [] \<or> ?o = GCSObjType \<and> keys_of b = [''MEDIA_ROOT'', ''STORAGES'']"
    and c: "c = [] \<or> ?o = S3ObjType \<and> keys_of c = [''MEDIA_ROOT'', ''STORAGES'']"
    using storage_step_added [OF azureSettings_step steps(1)] storage_step_added [OF gcsSettings_step steps(2)]
      storage_step_added [OF s3Settings_step steps(3)]
    unfolding frame by (elim exE conjE) (simp only: simp_thms, metis)
  then have cs': "cs' = cs @ a @ b @ c" by simp
  have types: "AzureObjType \<noteq> GCSObjType" "AzureObjType \<noteq> S3ObjType" "GCSObjType \<noteq> S3ObjType"
    by (simp_all add: storage_types)
  from a b c types show ?thesis
    by (elim disjE conjE) (simp_all add: that [OF cs'])
qed

lemma DefaultPulpSettings_no_STORAGES: "map_of (DefaultPulpSettings u) ''STORAGES'' = None"
  by (simp add: DefaultPulpSettings_def)

text \<open>
  When the user does not set STORAGES, settings.py assigns it at most once, whatever
  storages are configured.
\<close>

lemma storages_assigned_at_most_once:
  assumes "go_runtime X" "pulp_settings X s = Some (cs, s')" "''STORAGES'' \<notin> set (custom_keys X s)"
  shows "length (by_key ''STORAGES'' cs) \<le> 1"
proof -
  let ?c = "custom_keys X s"
  have free: "\<not> always_assigned ''STORAGES''"
    by (simp add: always_assigned_def cache_keys_def sso_keys_def sso_required_def sso_optional_def ascii)
  have early: "''STORAGES'' \<notin> set ([] # ''LOGGING'' # cache_keys)"
    by (simp add: cache_keys_def)
  obtain cs1 s1 where mid: "storage_part X ?c (fst (before_storage X s), snd (before_storage X s)) = Some (cs1, s1)"
    and cs: "after_storage X ?c (cs1, s1) = (cs, s')"
    using assms(2) by (auto simp: pulp_settings_split)
  from mid obtain added where cs1: "cs1 = fst (before_storage X s) @ added"
    and added: "added = [] \<or> keys_of added = [''MEDIA_ROOT'', ''STORAGES'']"
    by (rule storage_part_added)
  have "by_key ''STORAGES'' cs = by_key ''STORAGES'' cs1"
    using after_storage_by_key [OF assms(1) free, of ?c cs1 s1] by (simp add: cs)
  also have "\<dots> = by_key ''STORAGES'' added"
    unfolding cs1 by_key_simps
    using before_storage_by_key [OF early, of X s] assms(3) by (simp add: DefaultPulpSettings_no_STORAGES)
  finally show ?thesis using added by (elim disjE) (simp_all add: length_by_key del: by_key_simps)
qed

lemma sortKeys_unique: "gmap_ok a \<Longrightarrow> gmap_ok b \<Longrightarrow> map_of a = map_of b \<Longrightarrow> sortKeys a = sortKeys b"
  unfolding sortKeys_def by (rule sorted_keys_unique)

lemma gget_unique: "map_of a = map_of b \<Longrightarrow> gget a = gget b"
  by (simp add: gget_def fun_eq_iff)

text \<open>
  The text of the custom and of the default settings does not depend on the order in which
  a map is stored or visited, so an unchanged ConfigMap never looks like a changed secret.
\<close>

lemma custom_settings_order_irrelevant:
  assumes "gmap_ok a" "gmap_ok b" "map_of a = map_of b"
  shows "custom_loop a (sortKeys a) acc = custom_loop b (sortKeys b) acc \<and> default_chunks a = default_chunks b"
  using sortKeys_unique [OF assms] gget_unique [OF assms(3)]
  by (cases acc) (simp add: custom_loop_eq default_chunks_def)



end
