(* ===== verification/Secrets.thy ===== *)
theory Secrets
  imports Server_Settings
begin

text \<open>
  The secrets of an instance (\<open>createSecrets\<close> of \<open>controllers/repo_manager/secret.go\<close> with the
  generators of \<open>utils.go\<close>), its storage claim (\<open>pvc.go\<close>), the trusted CA ConfigMap
  (\<open>configmap.go\<close>) and the OpenShift extras of \<open>controllers/ocp/utils.go\<close>. The random numbers
  come from the externals; the lemmas bound what the generators return and show that what
  was created once is found the next time.
\<close>

type_synonym 'w outcome = "((Result option \<times> error option) \<times> 'w St) option"

subsection \<open>Generators\<close>

definition pwd_chars :: string where
  "pwd_chars = ''0123456789abcdefghijklmnopqrstuvwxyzABCDEFGHIJKLMNOPQRSTUVWXYZ''"

definition django_chars :: string where
  "django_chars = ''abcdefghijklmnopqrstuvwxyz0123456789!@#$%^&*(-_=+)''"

text \<open>\<open>pwd[i] = chars[rand.Intn(len(chars))]\<close> for every position in turn.\<close>

fun random_chars :: "'w Externals \<Rightarrow> string \<Rightarrow> nat \<Rightarrow> 'w St \<Rightarrow> (string \<times> 'w St) option" where
  "random_chars X chars 0 s = Some ([], s)"
| "random_chars X chars (Suc n) s =
    do { let (i, s) = call (x_Intn X (length chars)) s;
         c \<leftarrow> index chars i;
         (cs, s) \<leftarrow> random_chars X chars n s;
         Some (c # cs, s) }"

definition createPwd :: "'w Externals \<Rightarrow> nat \<Rightarrow> 'w St \<Rightarrow> (string \<times> 'w St) option" where
  "createPwd X pwdSize s = random_chars X pwd_chars pwdSize s"

definition djangoKey :: "'w Externals \<Rightarrow> 'w St \<Rightarrow> (string \<times> 'w St) option" where
  "djangoKey X s = random_chars X django_chars 50 s"

text \<open>\<open>base64.StdEncoding\<close>, with padding.\<close>

definition b64_chars :: string where
  "b64_chars = ''ABCDEFGHIJKLMNOPQRSTUVWXYZabcdefghijklmnopqrstuvwxyz0123456789+/''"

definition b64_digit :: "nat \<Rightarrow> char" where
  "b64_digit n = b64_chars ! (n mod 64)"

fun EncodeToString :: "string \<Rightarrow> string" where
  "EncodeToString [] = []"
| "EncodeToString [a] =
    (let n = of_char a * 65536 in [b64_digit (n div 262144), b64_digit (n div 4096), CHR ''='', CHR ''=''])"
| "EncodeToString [a, b] =
    (let n = of_char a * 65536 + of_char b * 256
     in [b64_digit (n div 262144), b64_digit (n div 4096), b64_digit (n div 64), CHR ''=''])"
| "EncodeToString (a # b # c # rest) =
    (let n = of_char a * 65536 + of_char b * 256 + of_char c
     in [b64_digit (n div 262144), b64_digit (n div 4096), b64_digit (n div 64), b64_digit n]
        @ EncodeToString rest)"

definition createFernetKey :: "'w Externals \<Rightarrow> 'w St \<Rightarrow> string \<times> 'w St" where
  "createFernetKey X s = (let (key, s) = call (x_RandBytes X 32) s in (EncodeToString key, s))"

text \<open>The two PEM blocks of a fresh P-256 key.\<close>

definition genTokenAuthKey :: "'w Externals \<Rightarrow> 'w St \<Rightarrow> (string \<times> string) \<times> 'w St" where
  "genTokenAuthKey X s = call (x_GenKeyPEM X) s"

subsection \<open>The secrets\<close>

definition secret_meta :: "string \<Rightarrow> Pulp \<Rightarrow> ObjectMeta" where
  "secret_meta name pulp = zero_ObjectMeta\<lparr>meta_Name := name, meta_Namespace := Pulp_Namespace pulp,
     meta_Labels := CommonLabels pulp\<rparr>"

definition pulpDBFieldsEncryptionSecret :: "'w Externals \<Rightarrow> 'w provisioner" where
  "pulpDBFieldsEncryptionSecret X s =
    (let pulp = st_pulp s; (key, s) = createFernetKey X s
     in Some (SecretObj \<lparr>
          sec_Meta = secret_meta (Spec_DBFieldsEncryptionSecret (Pulp_Spec pulp)) pulp,
          sec_Data = [], sec_StringData = [(''database_fields.symmetric.key'', key)]\<rparr>, s))"

definition pulpAdminPasswordSecret :: "'w Externals \<Rightarrow> 'w provisioner" where
  "pulpAdminPasswordSecret X s =
    do { let pulp = st_pulp s;
         (pwd, s) \<leftarrow> createPwd X 32 s;
         Some (SecretObj \<lparr>
           sec_Meta = set_controller (Pulp_Name pulp) (secret_meta (Spec_AdminPasswordSecret (Pulp_Spec pulp)) pulp),
           sec_Data = [], sec_StringData = [(''password'', pwd)]\<rparr>, s) }"

definition pulpDjangoKeySecret :: "'w Externals \<Rightarrow> 'w provisioner" where
  "pulpDjangoKeySecret X s =
    do { let pulp = st_pulp s;
         (key, s) \<leftarrow> djangoKey X s;
         Some (SecretObj \<lparr>
           sec_Meta = set_controller (Pulp_Name pulp) (secret_meta (Spec_PulpSecretKey (Pulp_Spec pulp)) pulp),
           sec_Data = [], sec_StringData = [(''secret_key'', key)]\<rparr>, s) }"

definition pulpContainerAuth :: "'w Externals \<Rightarrow> 'w provisioner" where
  "pulpContainerAuth X s =
    (let pulp = st_pulp s; ((privKey, pubKey), s) = genTokenAuthKey X s
     in Some (SecretObj \<lparr>
          sec_Meta = secret_meta (Spec_ContainerTokenSecret (Pulp_Spec pulp)) pulp,
          sec_Data = [],
          sec_StringData = [(''container_auth_private_key.pem'', privKey),
                            (''container_auth_public_key.pem'', pubKey)]\<rparr>, s))"

text \<open>The names \<open>createSecrets\<close> computes; an admin secret name of one character is ignored.\<close>

definition adminSecretName :: "Pulp \<Rightarrow> string" where
  "adminSecretName pulp =
    (if length (Spec_AdminPasswordSecret (Pulp_Spec pulp)) > 1 then Spec_AdminPasswordSecret (Pulp_Spec pulp)
     else DefaultAdminPassword (Pulp_Name pulp))"

definition or_default :: "string \<Rightarrow> string \<Rightarrow> string" where
  "or_default v d = (if length v > 0 then v else d)"

definition secret_resources ::
  "'w Externals \<Rightarrow> Pulp \<Rightarrow> string \<Rightarrow> string \<Rightarrow> string \<Rightarrow> string \<Rightarrow> (ResourceDefinition \<times> 'w provisioner) list" where
  "secret_resources X pulp adminName django dbFields token =
    (let rd = (\<lambda>name alias. \<lparr>rd_Type = KSecret, rd_Name = name, rd_Alias = alias, rd_ConditionType = ''Pulp-API-Ready''\<rparr>)
     in [(rd django ''PulpSecretKey'', pulpDjangoKeySecret X),
         (rd (PulpServerSecret (Pulp_Name pulp)) ''Server'', pulpServerSecret X),
         (rd dbFields ''DBFieldsEncryptionSecret'', pulpDBFieldsEncryptionSecret X),
         (rd adminName ''AdminPassword'', pulpAdminPasswordSecret X),
         (rd token ''ContainerTokenSecret'', pulpContainerAuth X)])"

text \<open>The last part: bring the server secret up to date and restart the pods when it changed.\<close>

definition reconcileServerSecret :: "'w Externals \<Rightarrow> 'w St \<Rightarrow> 'w outcome" where
  "reconcileServerSecret X s =
    do { let (r, s) = Get_Secret X (PulpServerSecret (Pulp_Name (st_pulp s))) (Pulp_Namespace (st_pulp s)) s;
         let serverSecret = or_zero zero_Secret r;
         (expectedServerSecret, s) \<leftarrow> pulpServerSecret X s;
         ((requeue, err), s) \<leftarrow> ReconcileObject X expectedServerSecret (SecretObj serverSecret) ''Pulp-API-Ready'' PulpSecret s;
         if err \<noteq> None \<or> requeue
         then Some ((Some \<lparr>Requeue = requeue, RequeueAfter = 0\<rparr>, err), restartPulpCorePods X s)
         else Some ((None, None), s) }"

definition createSecrets :: "'w Externals \<Rightarrow> 'w St \<Rightarrow> 'w outcome" where
  "createSecrets X s =
    do { let adminName = adminSecretName (st_pulp s);
         (err, s) \<leftarrow> UpdateCRField X ''AdminPasswordSecret'' adminName s;
         if err \<noteq> None then Some ((Some zero_Result, err), s) else
    do { let django = or_default (Spec_PulpSecretKey (Pulp_Spec (st_pulp s))) (DefaultDjangoSecretKey (Pulp_Name (st_pulp s)));
         (err, s) \<leftarrow> UpdateCRField X ''PulpSecretKey'' django s;
         if err \<noteq> None then Some ((Some zero_Result, err), s) else
    do { let dbFields = or_default (Spec_DBFieldsEncryptionSecret (Pulp_Spec (st_pulp s)))
               (DefaultDBFieldsEncryptionSecret (Pulp_Name (st_pulp s)));
         (err, s) \<leftarrow> UpdateCRField X ''DBFieldsEncryptionSecret'' dbFields s;
         if err \<noteq> None then Some ((Some zero_Result, err), s) else
    do { let token = or_default (Spec_ContainerTokenSecret (Pulp_Spec (st_pulp s)))
               (DefaultContainerTokenSecret (Pulp_Name (st_pulp s)));
         (err, s) \<leftarrow> UpdateCRField X ''ContainerTokenSecret'' token s;
         if err \<noteq> None then Some ((Some zero_Result, err), s) else
    do { ((requeue, err), s) \<leftarrow> createAll X (secret_resources X (st_pulp s) adminName django dbFields token) s;
         if err \<noteq> None then Some ((Some zero_Result, err), s)
         else if requeue then Some ((Some requeue_Result, None), s)
         else reconcileServerSecret X s }}}}}"

subsection \<open>Storage claim, trusted CA, OpenShift\<close>

definition storageClassProvided :: "Pulp \<Rightarrow> bool option" where
  "storageClassProvided pulp =
    do { storageType \<leftarrow> index (snd (MultiStorageConfigured pulp ''Pulp'')) 0;
         Some (storageType = SCNameType) }"

text \<open>\<open>resource.MustParse\<close> panics on a string that is not a quantity.\<close>

definition fileStoragePVC :: "'w Externals \<Rightarrow> 'w provisioner" where
  "fileStoragePVC X s =
    (let pulp = st_pulp s in
     if \<not> x_ParseQuantity X (Spec_FileStorageSize (Pulp_Spec pulp)) then None
     else Some (PVCObj \<lparr>
       pvc_Meta = set_controller (Pulp_Name pulp) (zero_ObjectMeta\<lparr>
         meta_Name := DefaultPulpFileStorage (Pulp_Name pulp),
         meta_Namespace := Pulp_Namespace pulp,
         meta_Labels := gset ''app.kubernetes.io/component'' ''storage'' (CommonLabels pulp)\<rparr>),
       pvc_Storage = Spec_FileStorageSize (Pulp_Spec pulp),
       pvc_AccessModes = [Spec_FileStorageAccessMode (Pulp_Spec pulp)],
       pvc_StorageClassName = Some (Spec_FileStorageClass (Pulp_Spec pulp))\<rparr>, s))"

definition pulpFileStorage :: "'w Externals \<Rightarrow> 'w St \<Rightarrow> 'w outcome" where
  "pulpFileStorage X s =
    do { provided \<leftarrow> storageClassProvided (st_pulp s);
         if \<not> provided then Some ((None, None), s) else
    do { ((requeue, err), s) \<leftarrow> createPulpResource X
           \<lparr>rd_Type = KPVC, rd_Name = DefaultPulpFileStorage (Pulp_Name (st_pulp s)), rd_Alias = ''FileStorage'',
            rd_ConditionType = ''Pulp-API-Ready''\<rparr> (fileStoragePVC X) s;
         if err \<noteq> None then Some ((Some zero_Result, err), s)
         else if requeue then Some ((Some requeue_Result, None), s)
         else Some ((None, None), s) }}"

definition caConfigMapChanged :: "'w Externals \<Rightarrow> ConfigMap \<Rightarrow> 'w St \<Rightarrow> bool \<times> 'w St" where
  "caConfigMapChanged X cm s =
    (let calculatedHash = CalculateHash X (cm_Data cm) in
     if GetCurrentHash (cm_Meta cm) = calculatedHash then (False, s)
     else (True, snd (call (x_Update X (ConfigMapObj (cm\<lparr>cm_Meta := SetHashLabel calculatedHash (cm_Meta cm)\<rparr>))) s)))"

definition configMapTasks :: "'w Externals \<Rightarrow> 'w St \<Rightarrow> 'w outcome" where
  "configMapTasks X s =
    do { (needsPulpcoreRestart, s) \<leftarrow>
           (if Spec_TrustedCaConfigMapKey (Pulp_Spec (st_pulp s)) \<noteq> None then
              do { (caConfigMapName, _) \<leftarrow> SplitCAConfigMapNameKey (st_pulp s);
                   let (r, s) = Get_ConfigMap X caConfigMapName (Pulp_Namespace (st_pulp s)) s;
                   Some (caConfigMapChanged X (or_zero zero_ConfigMap r) s) }
            else Some (False, s));
         if needsPulpcoreRestart then Some ((Some requeue_Result, None), restartPulpCorePods X s)
         else Some ((None, None), s) }"

definition CreateRHOperatorPullSecret :: "'w Externals \<Rightarrow> 'w St \<Rightarrow> error option \<times> 'w St" where
  "CreateRHOperatorPullSecret X s =
    (let pulp = st_pulp s;
         secretName = RedHatOperatorPullSecret (Pulp_Name pulp);
         (r, s) = Get_Secret X secretName (Pulp_Namespace pulp) s
     in case r of
          Inl err \<Rightarrow>
            if IsNotFound err
            then (None, snd (call (x_Create X (SecretObj \<lparr>sec_Meta = secret_meta secretName pulp, sec_Data = [],
                    sec_StringData = [(''operator'', ''pulp'')]\<rparr>)) s))
            else (Some err, s)
        | Inr _ \<Rightarrow> (None, s))"

definition CreateEmptyConfigMap :: "'w Externals \<Rightarrow> 'w St \<Rightarrow> (Result \<times> error option) \<times> 'w St" where
  "CreateEmptyConfigMap X s =
    (let pulp = st_pulp s;
         configMapName = EmptyCAConfigMapName (Pulp_Name pulp);
         (r, s) = Get_ConfigMap X configMapName (Pulp_Namespace pulp) s;
         labels = gset ''config.openshift.io/inject-trusted-cabundle'' ''true'' (CommonLabels pulp);
         expected_cm = \<lparr>cm_Meta = set_controller (Pulp_Name pulp) ((secret_meta configMapName pulp)\<lparr>meta_Labels := labels\<rparr>),
           cm_Data = []\<rparr>
     in case r of
          Inl err \<Rightarrow>
            if IsNotFound err
            then (let (err, s) = call (x_Create X (ConfigMapObj expected_cm)) s
                  in if err \<noteq> None then ((zero_Result, err), s) else ((requeue_Result, None), s))
            else ((zero_Result, Some err), s)
        | Inr _ \<Rightarrow> ((zero_Result, None), s))"

subsection \<open>Lemmas\<close>

context go_runtime
begin

lemma random_chars_Some:
  assumes "chars \<noteq> []"
  shows "\<exists>p s'. random_chars X chars n s = Some (p, s') \<and> length p = n \<and> set p \<subseteq> set chars \<and> st_pulp s' = st_pulp s"
proof (induction n arbitrary: s)
  case (Suc n)
  let ?r = "call (x_Intn X (length chars)) s"
  have "fst ?r < length chars"
    using assms intn_less [of "length chars" "st_world s"] by simp
  moreover obtain p s' where "random_chars X chars n (snd ?r) = Some (p, s')" "length p = n"
    "set p \<subseteq> set chars" "st_pulp s' = st_pulp (snd ?r)"
    using Suc by blast
  ultimately show ?case by (simp add: index_def split_beta)
qed simp

lemma createPwd_Some:
  "\<exists>p s'. createPwd X n s = Some (p, s') \<and> length p = n \<and> set p \<subseteq> set pwd_chars \<and> st_pulp s' = st_pulp s"
  unfolding createPwd_def by (rule random_chars_Some) (simp add: pwd_chars_def)

lemma djangoKey_Some:
  "\<exists>p s'. djangoKey X s = Some (p, s') \<and> length p = 50 \<and> set p \<subseteq> set django_chars \<and> st_pulp s' = st_pulp s"
  unfolding djangoKey_def by (rule random_chars_Some) (simp add: django_chars_def)

end

lemma length_EncodeToString: "length (EncodeToString bs) = 4 * ((length bs + 2) div 3)"
proof (induction bs rule: EncodeToString.induct)
  case (4 a b c rest)
  have "(length (a # b # c # rest) + 2) div 3 = (length rest + 2) div 3 + 1"
    using div_add_self2 [of 3 "length rest + 2"] by (simp add: algebra_simps)
  with 4 show ?case by (simp add: Let_def)
qed (simp_all add: Let_def)

lemma random_chars_frame: "random_chars X chars n s = Some (p, s') \<Longrightarrow> st_pulp s' = st_pulp s"
proof (induction n arbitrary: s p s')
  case (Suc n)
  then show ?case by (auto simp: split_beta split: bind_splits prod.splits)
qed simp

lemma pulp_settings_frame:
  assumes "pulp_settings X s = Some (cs, s')"
  shows "st_pulp s' = st_pulp s"
proof -
  obtain cs1 s1 where mid: "storage_part X (custom_keys X s) (fst (before_storage X s), snd (before_storage X s)) = Some (cs1, s1)"
    and "after_storage X (custom_keys X s) (cs1, s1) = (cs, s')"
    using assms by (auto simp: pulp_settings_split)
  then have "s' = snd (after_storage X (custom_keys X s) (cs1, s1))" by simp
  then have "st_pulp s' = st_pulp s1"
    by (simp add: after_storage_def split_beta Let_def needsMigrationSetting_def)
  with storage_part_frame [OF mid] show ?thesis by simp
qed

text \<open>
  What a provisioner promises: an object of the kind and name it was asked for, in the
  namespace of the instance, and an untouched custom resource.
\<close>

definition provides :: "ResourceDefinition \<Rightarrow> 'w St \<Rightarrow> (Object \<times> 'w St) option \<Rightarrow> bool" where
  "provides rd s r = (case r of None \<Rightarrow> True | Some (obj, s') \<Rightarrow>
     obj_Kind obj = rd_Type rd \<and> obj_Name obj = rd_Name rd \<and> obj_Namespace obj = Pulp_Namespace (st_pulp s) \<and>
     st_pulp s' = st_pulp s)"

lemma secret_meta_sel [simp]:
  "meta_Name (secret_meta n p) = n" "meta_Namespace (secret_meta n p) = Pulp_Namespace p"
  "meta_Labels (secret_meta n p) = CommonLabels p"
  by (simp_all add: secret_meta_def)

lemma pulpServerSecret_provides:
  "rd_Type rd = KSecret \<Longrightarrow> rd_Name rd = PulpServerSecret (Pulp_Name (st_pulp s)) \<Longrightarrow> provides rd s (pulpServerSecret X s)"
  by (auto simp: provides_def pulpServerSecret_def Let_def zero_ObjectMeta_def
      split: option.split bind_splits dest: pulp_settings_frame)

lemma secret_provides:
  "rd_Type rd = KSecret \<Longrightarrow> rd_Name rd = Spec_PulpSecretKey (Pulp_Spec (st_pulp s)) \<Longrightarrow>
     provides rd s (pulpDjangoKeySecret X s)"
  "rd_Type rd = KSecret \<Longrightarrow> rd_Name rd = Spec_DBFieldsEncryptionSecret (Pulp_Spec (st_pulp s)) \<Longrightarrow>
     provides rd s (pulpDBFieldsEncryptionSecret X s)"
  "rd_Type rd = KSecret \<Longrightarrow> rd_Name rd = Spec_AdminPasswordSecret (Pulp_Spec (st_pulp s)) \<Longrightarrow>
     provides rd s (pulpAdminPasswordSecret X s)"
  "rd_Type rd = KSecret \<Longrightarrow> rd_Name rd = Spec_ContainerTokenSecret (Pulp_Spec (st_pulp s)) \<Longrightarrow>
     provides rd s (pulpContainerAuth X s)"
  by (auto simp: provides_def pulpDjangoKeySecret_def djangoKey_def pulpDBFieldsEncryptionSecret_def
      createFernetKey_def pulpAdminPasswordSecret_def createPwd_def pulpContainerAuth_def genTokenAuthKey_def
      Let_def split_beta split: option.split bind_splits prod.splits dest: random_chars_frame)

lemma fileStoragePVC_provides:
  "rd_Type rd = KPVC \<Longrightarrow> rd_Name rd = DefaultPulpFileStorage (Pulp_Name (st_pulp s)) \<Longrightarrow>
    provides rd s (fileStoragePVC X s)"
  by (simp add: provides_def fileStoragePVC_def Let_def)

locale cluster = status_server + object_store + go_runtime
begin

text \<open>A resource that was created is found the next time: the second call does nothing.\<close>

lemma createPulpResource_created:
  assumes prov: "\<And>s. st_pulp s = st_pulp s0 \<Longrightarrow> provides rd s (f s)" and name: "rd_Name rd \<noteq> []"
    and run: "createPulpResource X rd f s0 = Some ((True, None), s1)"
  shows "\<exists>s2. createPulpResource X rd f s1 = Some ((False, None), s2)"
proof -
  let ?s = "snd (call (x_Get X (rd_Type rd) (Pulp_Namespace (st_pulp s0)) (rd_Name rd)) s0)"
  obtain k obj s' where k: "objKind_name (rd_Type rd) = Some k" and obj: "f ?s = Some (obj, s')"
    and create: "fst (call (x_Create X obj) (UpdateStatus X ConditionFalse (rd_ConditionType rd)
        (''Creating'' @ rd_Alias rd @ k) (''Creating '' @ rd_Name rd @ '' '' @ k) s')) = None"
    and s1: "s1 = Record_Event EventNormal ''Created'' (rd_Name rd @ '' '' @ k @ '' created'')
        (snd (call (x_Create X obj) (UpdateStatus X ConditionFalse (rd_ConditionType rd)
        (''Creating'' @ rd_Alias rd @ k) (''Creating '' @ rd_Name rd @ '' '' @ k) s')))"
    using run by (auto simp: createPulpResource_def Let_def split_beta
        split: bind_splits sum.splits if_splits option.splits)
  let ?u = "UpdateStatus X ConditionFalse (rd_ConditionType rd)
        (''Creating'' @ rd_Alias rd @ k) (''Creating '' @ rd_Name rd @ '' '' @ k) s'"
  have obj': "obj_Kind obj = rd_Type rd" "obj_Name obj = rd_Name rd"
      "obj_Namespace obj = Pulp_Namespace (st_pulp s0)" "st_pulp s' = st_pulp s0"
    using prov [of ?s] obj by (simp_all add: provides_def)
  have ns: "Pulp_Namespace (st_pulp s1) = Pulp_Namespace (st_pulp s0)"
    using obj'(4) by (simp add: s1)
  have "x_Create X obj (st_world ?u) = (None, st_world s1)"
    using create by (simp add: s1 prod_eq_iff)
  from create_then_get [OF this] name obj' obtain o' where
    "fst (x_Get X (rd_Type rd) (Pulp_Namespace (st_pulp s0)) (rd_Name rd) (st_world s1)) = Inr o'"
    by auto
  then show ?thesis
    using createPulpResource_existing [of rd X s1 o' f] k by (simp add: ns)
qed

end

interpretation mem_cluster: cluster mem_ext
  by unfold_locales

subsection \<open>Properties\<close>




definition ex_secret_pulp :: Pulp where
  "ex_secret_pulp = zero_Pulp\<lparr>
     Pulp_Meta := zero_ObjectMeta\<lparr>meta_Name := ''p'', meta_Namespace := ''ns''\<rparr>,
     Pulp_Spec := zero_PulpSpec\<lparr>Spec_AdminPasswordSecret := ''adm'', Spec_PulpSecretKey := ''key'',
       Spec_DBFieldsEncryptionSecret := ''db'', Spec_ContainerTokenSecret := ''tok''\<rparr>\<rparr>"

definition ex_token_resource :: ResourceDefinition where
  "ex_token_resource = \<lparr>rd_Type = KSecret, rd_Name = ''tok'', rd_Alias = ''ContainerTokenSecret'',
     rd_ConditionType = ''Pulp-API-Ready''\<rparr>"

lemma ex_token_created:
  "\<exists>s1. createPulpResource mem_ext ex_token_resource (pulpContainerAuth mem_ext) (mem_state ex_secret_pulp []) =
     Some ((True, None), s1)"
  by (simp add: createPulpResource_def ex_token_resource_def pulpContainerAuth_def genTokenAuthKey_def mem_state_def
      mem_init_def call_def Let_def mem_ext_def mem_get_def mem_lookup_def ex_secret_pulp_def zero_ObjectMeta_def
      zero_Pulp_def zero_PulpStatus_def UpdateStatus_def set_condition_now_def set_Status_def Status_Update_def
      condition_equal_def mem_put_pulp_def same_pulp_def mem_create_def named_def secret_meta_def)


text \<open>
  An admin secret name of one character is created under that name and looked up under the
  default one; for every longer name the two agree.
\<close>

lemma admin_secret_name_agrees_iff:
  assumes "go_runtime X" "Spec_AdminPasswordSecret (Pulp_Spec (st_pulp s)) \<noteq> []"
  shows "\<exists>obj s'. pulpAdminPasswordSecret X s = Some (obj, s') \<and>
    (obj_Name obj = adminSecretName (st_pulp s) \<longleftrightarrow> length (Spec_AdminPasswordSecret (Pulp_Spec (st_pulp s))) \<noteq> 1)"
proof -
  let ?a = "Spec_AdminPasswordSecret (Pulp_Spec (st_pulp s))"
  obtain p s' where p: "createPwd X 32 s = Some (p, s')"
    using go_runtime.createPwd_Some [OF assms(1)] by blast
  have "?a = adminSecretName (st_pulp s) \<longleftrightarrow> length ?a \<noteq> 1"
    using assms(2) by (cases ?a) (auto simp: adminSecretName_def names)
  with p show ?thesis by (simp add: pulpAdminPasswordSecret_def Let_def)
qed

text \<open>
  C37: Provisioning the file storage panics exactly when no storage is configured, or when the
  claim is still missing and its size is not a quantity: the checks only ask for a size.
\<close>

theorem pulpFileStorage_panics_iff:
  "pulpFileStorage X s = None \<longleftrightarrow>
    pulp_storage_options (Pulp_Spec (st_pulp s)) = [] \<or>
    (hd (pulp_storage_options (Pulp_Spec (st_pulp s))) = SCNameType \<and>
     (\<exists>e. fst (x_Get X KPVC (Pulp_Namespace (st_pulp s)) (DefaultPulpFileStorage (Pulp_Name (st_pulp s))) (st_world s)) = Inl e
        \<and> IsNotFound e) \<and>
     \<not> x_ParseQuantity X (Spec_FileStorageSize (Pulp_Spec (st_pulp s))))"
  by (auto simp: pulpFileStorage_def storageClassProvided_def snd_MultiStorage index_0_eq createPulpResource_def
      fileStoragePVC_def Let_def split_beta split: sum.splits if_splits option.splits)

lemma zero_ConfigMap_changed: "fst (caConfigMapChanged X zero_ConfigMap s)"
proof -
  have "CalculateHash X [] \<noteq> []"
    by (metis CalculateHash_def hash_of_dump_def length_hex32 list.size(3) zero_neq_numeral)
  then show ?thesis
    by (auto simp: caConfigMapChanged_def Let_def zero_ConfigMap_def GetCurrentHash_def zero_ObjectMeta_def gget_def)
qed

text \<open>
  A trusted CA ConfigMap that cannot be read counts as changed: the pods are restarted and
  another reconciliation is asked for, every time.
\<close>

lemma missing_ca_bundle_restarts:
  assumes "SplitCAConfigMapNameKey (st_pulp s) = Some (name, key)"
    and "fst (Get_ConfigMap X name (Pulp_Namespace (st_pulp s)) s) = Inl e"
  shows "\<exists>s'. configMapTasks X s = Some ((Some requeue_Result, None), restartPulpCorePods X s')"
proof -
  have "Spec_TrustedCaConfigMapKey (Pulp_Spec (st_pulp s)) \<noteq> None"
    using assms(1) by (auto simp: SplitCAConfigMapNameKey_def split: bind_splits)
  with assms zero_ConfigMap_changed [of X "snd (Get_ConfigMap X name (Pulp_Namespace (st_pulp s)) s)"]
  show ?thesis by (auto simp: configMapTasks_def split_beta Let_def)
qed

end
