(* ===== verification/Status.thy ===== *)
theory Status
  imports Secrets
begin

text \<open>
  \<open>controllers/repo_manager/status.go\<close>: the status of the custom resource. \<open>setStatusFields\<close>
  copies fields of the specification, \<open>setStatusConditions\<close> looks at the Deployments in one
  goroutine each, waits for them, and decides whether the operator has finished.

  A goroutine runs in one piece here, in an order the scheduler (\<open>x_Schedule\<close>) chooses; the
  conditions the four goroutines leave behind do not depend on that order.
\<close>

subsection \<open>Fields\<close>

definition objAzureSecretCondition :: "Pulp \<Rightarrow> bool" where
  "objAzureSecretCondition pulp \<longleftrightarrow> length (Status_ObjectStorageAzureSecret (Pulp_Status pulp)) = 0 \<or>
     Spec_ObjectStorageAzureSecret (Pulp_Spec pulp) \<noteq> Status_ObjectStorageAzureSecret (Pulp_Status pulp)"

definition objGCSSecretCondition :: "Pulp \<Rightarrow> bool" where
  "objGCSSecretCondition pulp \<longleftrightarrow> length (Status_ObjectStorageGCSSecret (Pulp_Status pulp)) = 0 \<or>
     Spec_ObjectStorageGCSSecret (Pulp_Spec pulp) \<noteq> Status_ObjectStorageGCSSecret (Pulp_Status pulp)"

definition objS3SecretCondition :: "Pulp \<Rightarrow> bool" where
  "objS3SecretCondition pulp \<longleftrightarrow> length (Status_ObjectStorageS3Secret (Pulp_Status pulp)) = 0 \<or>
     Spec_ObjectStorageS3Secret (Pulp_Spec pulp) \<noteq> Status_ObjectStorageS3Secret (Pulp_Status pulp)"

definition dbFieldsEncrSecretCondition :: "Pulp \<Rightarrow> bool" where
  "dbFieldsEncrSecretCondition pulp \<longleftrightarrow> length (Status_DBFieldsEncryptionSecret (Pulp_Status pulp)) = 0 \<or>
     Spec_DBFieldsEncryptionSecret (Pulp_Spec pulp) \<noteq> Status_DBFieldsEncryptionSecret (Pulp_Status pulp)"

definition ingressTypeCondition :: "Pulp \<Rightarrow> bool" where
  "ingressTypeCondition pulp \<longleftrightarrow> length (Status_IngressType (Pulp_Status pulp)) = 0"

definition containerTokenSecretCondition :: "Pulp \<Rightarrow> bool" where
  "containerTokenSecretCondition pulp \<longleftrightarrow> length (Status_ContainerTokenSecret (Pulp_Status pulp)) = 0 \<or>
     Spec_ContainerTokenSecret (Pulp_Spec pulp) \<noteq> Status_ContainerTokenSecret (Pulp_Status pulp)"

definition adminPwdSecretCondition :: "Pulp \<Rightarrow> bool" where
  "adminPwdSecretCondition pulp \<longleftrightarrow> length (Status_AdminPasswordSecret (Pulp_Status pulp)) = 0 \<or>
     Spec_AdminPasswordSecret (Pulp_Spec pulp) \<noteq> Status_AdminPasswordSecret (Pulp_Status pulp)"

definition externalCacheSecretCondition :: "Pulp \<Rightarrow> bool" where
  "externalCacheSecretCondition pulp \<longleftrightarrow> length (Status_ExternalCacheSecret (Pulp_Status pulp)) = 0 \<or>
     Cache_ExternalCacheSecret (Spec_Cache (Pulp_Spec pulp)) \<noteq> Status_ExternalCacheSecret (Pulp_Status pulp)"

definition ingressClassNameCondition :: "Pulp \<Rightarrow> bool" where
  "ingressClassNameCondition pulp \<longleftrightarrow> length (Status_IngressClassName (Pulp_Status pulp)) = 0 \<and>
     length (Spec_IngressClassName (Pulp_Spec pulp)) > 0"

definition telemetryEnabledCondition :: "Pulp \<Rightarrow> bool" where
  "telemetryEnabledCondition pulp \<longleftrightarrow>
     Status_TelemetryEnabled (Pulp_Status pulp) \<noteq> Telemetry_Enabled (Spec_Telemetry (Pulp_Spec pulp))"

definition pulpSecretKeyCondition :: "Pulp \<Rightarrow> bool" where
  "pulpSecretKeyCondition pulp \<longleftrightarrow> length (Status_PulpSecretKey (Pulp_Status pulp)) = 0 \<or>
     Spec_PulpSecretKey (Pulp_Spec pulp) \<noteq> Status_PulpSecretKey (Pulp_Status pulp)"

definition allowedContentChecksumsCondition :: "Pulp \<Rightarrow> bool" where
  "allowedContentChecksumsCondition pulp \<longleftrightarrow> length (elements (Spec_AllowedContentChecksums (Pulp_Spec pulp))) = 0"

lemmas status_conditions = objAzureSecretCondition_def objGCSSecretCondition_def objS3SecretCondition_def
  dbFieldsEncrSecretCondition_def ingressTypeCondition_def containerTokenSecretCondition_def
  adminPwdSecretCondition_def externalCacheSecretCondition_def ingressClassNameCondition_def
  telemetryEnabledCondition_def pulpSecretKeyCondition_def allowedContentChecksumsCondition_def

text \<open>\<open>reflect.ValueOf(&pulp.Status).Elem().FieldByName(f).SetString(v)\<close>, for the fields the code names.\<close>

definition set_status_string :: "string \<Rightarrow> string \<Rightarrow> PulpStatus \<Rightarrow> PulpStatus" where
  "set_status_string f v st =
    (if f = ''ObjectStorageAzureSecret'' then st\<lparr>Status_ObjectStorageAzureSecret := v\<rparr>
     else if f = ''ObjectStorageGCSSecret'' then st\<lparr>Status_ObjectStorageGCSSecret := v\<rparr>
     else if f = ''ObjectStorageS3Secret'' then st\<lparr>Status_ObjectStorageS3Secret := v\<rparr>
     else if f = ''DBFieldsEncryptionSecret'' then st\<lparr>Status_DBFieldsEncryptionSecret := v\<rparr>
     else if f = ''IngressType'' then st\<lparr>Status_IngressType := v\<rparr>
     else if f = ''ContainerTokenSecret'' then st\<lparr>Status_ContainerTokenSecret := v\<rparr>
     else if f = ''IngressClassName'' then st\<lparr>Status_IngressClassName := v\<rparr>
     else if f = ''PulpSecretKey'' then st\<lparr>Status_PulpSecretKey := v\<rparr>
     else if f = ''AdminPasswordSecret'' then st\<lparr>Status_AdminPasswordSecret := v\<rparr>
     else st)"

definition setStatus :: "'w Externals \<Rightarrow> (Pulp \<Rightarrow> bool) \<Rightarrow> string \<Rightarrow> 'w St \<Rightarrow> 'w St" where
  "setStatus X condition field s =
    (if condition (st_pulp s) then
       (case spec_string (Pulp_Spec (st_pulp s)) field of
          Some currentSpec \<Rightarrow> snd (Status_Update X (set_Status (set_status_string field currentSpec) s))
        | None \<Rightarrow> s)
     else s)"

definition conditionFunctions :: "((Pulp \<Rightarrow> bool) \<times> string) list" where
  "conditionFunctions =
    [(objAzureSecretCondition, ''ObjectStorageAzureSecret''),
     (objGCSSecretCondition, ''ObjectStorageGCSSecret''),
     (objS3SecretCondition, ''ObjectStorageS3Secret''),
     (dbFieldsEncrSecretCondition, ''DBFieldsEncryptionSecret''),
     (ingressTypeCondition, ''IngressType''),
     (containerTokenSecretCondition, ''ContainerTokenSecret''),
     (ingressClassNameCondition, ''IngressClassName''),
     (pulpSecretKeyCondition, ''PulpSecretKey'')]"

definition update_if :: "'w Externals \<Rightarrow> (Pulp \<Rightarrow> bool) \<Rightarrow> (Pulp \<Rightarrow> PulpStatus \<Rightarrow> PulpStatus) \<Rightarrow> 'w St \<Rightarrow> 'w St" where
  "update_if X c f s =
    (if c (st_pulp s) then snd (Status_Update X (set_Status (f (st_pulp s)) s)) else s)"

definition setStatusFields :: "'w Externals \<Rightarrow> 'w St \<Rightarrow> 'w St" where
  "setStatusFields X s =
    (let s = fold (\<lambda>(verifyFunc, fieldName). setStatus X verifyFunc fieldName) conditionFunctions s;
         s = update_if X ImageChanged (\<lambda>p st. st\<lparr>Status_Image :=
               Spec_Image (Pulp_Spec p) @ '':'' @ Spec_ImageVersion (Pulp_Spec p)\<rparr>) s;
         s = update_if X externalCacheSecretCondition (\<lambda>p st. st\<lparr>Status_ExternalCacheSecret :=
               Cache_ExternalCacheSecret (Spec_Cache (Pulp_Spec p))\<rparr>) s;
         s = update_if X telemetryEnabledCondition (\<lambda>p st. st\<lparr>Status_TelemetryEnabled :=
               Telemetry_Enabled (Spec_Telemetry (Pulp_Spec p))\<rparr>) s
     in update_if X allowedContentChecksumsCondition (\<lambda>p st. st\<lparr>Status_AllowedContentChecksums := []\<rparr>) s)"

subsection \<open>Conditions\<close>

record pulpResource =
  pr_Type :: PulpcoreType
  pr_Name :: string
  pr_ConditionType :: string

definition pulpResources :: "string \<Rightarrow> pulpResource list" where
  "pulpResources name =
    map (\<lambda>(t, c). \<lparr>pr_Type = t, pr_Name = DeploymentName t name, pr_ConditionType = c\<rparr>)
      [(CONTENT, ''Pulp-Content-Ready''), (API, ''Pulp-API-Ready''), (WORKER, ''Pulp-Worker-Ready''),
       (WEB, ''Pulp-Web-Ready'')]"

text \<open>The replica count is a pointer; nil is a panic.\<close>

definition isDeploymentReady :: "Deployment \<Rightarrow> bool option" where
  "isDeploymentReady deployment =
    do { replicas \<leftarrow> dspec_Replicas (dep_Spec deployment);
         Some (dep_ReadyReplicas deployment = replicas \<and> dep_UnavailableReplicas deployment = 0) }"

definition needsIngressStatusUpdate :: "'w Externals \<Rightarrow> pulpResource \<Rightarrow> 'w St \<Rightarrow> bool \<times> 'w St" where
  "needsIngressStatusUpdate X resource s =
    (let pulp = st_pulp s in
     if pr_Type resource = WEB then
       (if isRoute pulp \<or> isNginxIngress pulp then (False, s)
        else if isIngress pulp then
          (let (r, s) = Get_Ingress X (Pulp_Name pulp) (Pulp_Namespace pulp) s
           in (gget (meta_Annotations (ing_Meta (or_zero zero_Ingress r))) ''web'' \<noteq> ''false'', s))
        else (True, s))
     else (True, s))"

text \<open>The body of a goroutine.\<close>

definition checkDeployment :: "'w Externals \<Rightarrow> pulpResource \<Rightarrow> 'w St \<Rightarrow> 'w St option" where
  "checkDeployment X resource s =
    (let typeCapitalized = x_Title X (PulpcoreType_string (pr_Type resource));
         (r, s) = Get_Deployment X (pr_Name resource) (Pulp_Namespace (st_pulp s)) s
     in case r of
          Inl _ \<Rightarrow> Some s
        | Inr deployment \<Rightarrow>
            do { ready \<leftarrow> isDeploymentReady deployment;
                 if \<not> ready then
                   Some (UpdateStatus X ConditionFalse (pr_ConditionType resource)
                     (''Updating'' @ typeCapitalized @ ''Deployment'') (typeCapitalized @ '' deployment not ready yet'') s)
                 else if x_IsStatusConditionFalse X (conditions s) (pr_ConditionType resource) then
                   Some (Record_Event EventNormal (typeCapitalized @ ''Ready'')
                     (''All '' @ typeCapitalized @ '' tasks ran successfully'')
                     (UpdateStatus X ConditionTrue (pr_ConditionType resource) (typeCapitalized @ ''TasksFinished'')
                       (''All '' @ typeCapitalized @ '' tasks ran successfully'') s))
                 else Some s })"

fun startedResources :: "'w Externals \<Rightarrow> pulpResource list \<Rightarrow> 'w St \<Rightarrow> pulpResource list \<times> 'w St" where
  "startedResources X [] s = ([], s)"
| "startedResources X (r # rs) s =
    (let (needed, s) = needsIngressStatusUpdate X r s;
         (started, s) = startedResources X rs s
     in (if needed then r # started else started, s))"

fun runAll :: "'w Externals \<Rightarrow> pulpResource list \<Rightarrow> 'w St \<Rightarrow> 'w St option" where
  "runAll X [] s = Some s"
| "runAll X (r # rs) s = do { s \<leftarrow> checkDeployment X r s; runAll X rs s }"

definition Get_Pulp :: "'w Externals \<Rightarrow> 'w St \<Rightarrow> 'w St" where
  "Get_Pulp X s =
    (let (r, s) = call (x_GetPulp X (Pulp_Namespace (st_pulp s)) (Pulp_Name (st_pulp s))) s
     in s\<lparr>st_pulp := or_zero (st_pulp s) r\<rparr>)"

definition second :: int where
  "second = 1000000000"

text \<open>After the wait: another look while a component is not ready, otherwise the end of the run.\<close>

definition finishExecution :: "'w Externals \<Rightarrow> 'w St \<Rightarrow> Result option \<times> 'w St" where
  "finishExecution X s =
    (let s = Get_Pulp X s;
         s = set_condition_now X finished ConditionTrue ''OperatorFinishedExecution'' ''All tasks ran successfully'' s;
         (err, s) = Status_Update X s
     in case err of
          Some e \<Rightarrow> if IsConflict e then (Some requeue_Result, s) else (None, s)
        | None \<Rightarrow> (None, s))"

definition checkReady :: "'w Externals \<Rightarrow> pulpResource list \<Rightarrow> 'w St \<Rightarrow> Result option \<times> 'w St" where
  "checkReady X resources s =
    (let s = Get_Pulp X s in
     if \<exists>r \<in> set resources. x_IsStatusConditionFalse X (conditions s) (pr_ConditionType r)
     then (Some \<lparr>Requeue = False, RequeueAfter = 10 * second\<rparr>, s)
     else if x_IsStatusConditionFalse X (conditions s) finished then finishExecution X s
     else (None, s))"

definition setStatusConditions :: "'w Externals \<Rightarrow> 'w St \<Rightarrow> (Result option \<times> 'w St) option" where
  "setStatusConditions X s =
    do { let resources = pulpResources (Pulp_Name (st_pulp s));
         let (started, s) = startedResources X resources s;
         let (order, s) = call (x_Schedule X (length started)) s;
         s \<leftarrow> runAll X (map (\<lambda>i. started ! i) order) s;
         Some (checkReady X resources s) }"

definition pulpStatus :: "'w Externals \<Rightarrow> 'w St \<Rightarrow> (Result option \<times> 'w St) option" where
  "pulpStatus X s = setStatusConditions X (setStatusFields X s)"

subsection \<open>Lemmas\<close>

lemma set_status_string_sel [simp]:
  "Status_ObjectStorageAzureSecret (set_status_string f v st) = (if f = ''ObjectStorageAzureSecret'' then v else Status_ObjectStorageAzureSecret st)"
  "Status_ObjectStorageGCSSecret (set_status_string f v st) = (if f = ''ObjectStorageGCSSecret'' then v else Status_ObjectStorageGCSSecret st)"
  "Status_ObjectStorageS3Secret (set_status_string f v st) = (if f = ''ObjectStorageS3Secret'' then v else Status_ObjectStorageS3Secret st)"
  "Status_DBFieldsEncryptionSecret (set_status_string f v st) = (if f = ''DBFieldsEncryptionSecret'' then v else Status_DBFieldsEncryptionSecret st)"
  "Status_IngressType (set_status_string f v st) = (if f = ''IngressType'' then v else Status_IngressType st)"
  "Status_ContainerTokenSecret (set_status_string f v st) = (if f = ''ContainerTokenSecret'' then v else Status_ContainerTokenSecret st)"
  "Status_IngressClassName (set_status_string f v st) = (if f = ''IngressClassName'' then v else Status_IngressClassName st)"
  "Status_PulpSecretKey (set_status_string f v st) = (if f = ''PulpSecretKey'' then v else Status_PulpSecretKey st)"
  "Status_AdminPasswordSecret (set_status_string f v st) = (if f = ''AdminPasswordSecret'' then v else Status_AdminPasswordSecret st)"
  "Status_Image (set_status_string f v st) = Status_Image st"
  "Status_ExternalCacheSecret (set_status_string f v st) = Status_ExternalCacheSecret st"
  "Status_TelemetryEnabled (set_status_string f v st) = Status_TelemetryEnabled st"
  "Status_AllowedContentChecksums (set_status_string f v st) = Status_AllowedContentChecksums st"
  "Status_Conditions (set_status_string f v st) = Status_Conditions st"
  by (simp_all add: set_status_string_def)

lemma spec_string_fields:
  "spec_string sp ''ObjectStorageAzureSecret'' = Some (Spec_ObjectStorageAzureSecret sp)"
  "spec_string sp ''ObjectStorageGCSSecret'' = Some (Spec_ObjectStorageGCSSecret sp)"
  "spec_string sp ''ObjectStorageS3Secret'' = Some (Spec_ObjectStorageS3Secret sp)"
  "spec_string sp ''DBFieldsEncryptionSecret'' = Some (Spec_DBFieldsEncryptionSecret sp)"
  "spec_string sp ''IngressType'' = Some (Spec_IngressType sp)"
  "spec_string sp ''ContainerTokenSecret'' = Some (Spec_ContainerTokenSecret sp)"
  "spec_string sp ''IngressClassName'' = Some (Spec_IngressClassName sp)"
  "spec_string sp ''PulpSecretKey'' = Some (Spec_PulpSecretKey sp)"
  "spec_string sp ''AdminPasswordSecret'' = Some (Spec_AdminPasswordSecret sp)"
  by (simp_all add: spec_string_def)

lemma update_if_frame [simp]: "st_events (update_if X c f s) = st_events s"
  by (simp add: update_if_def)

context pulp_store
begin

lemma update_if_keeps [simp]:
  "Pulp_Spec (st_pulp (update_if X c f s)) = Pulp_Spec (st_pulp s)"
  "Pulp_Name (st_pulp (update_if X c f s)) = Pulp_Name (st_pulp s)"
  "Pulp_Namespace (st_pulp (update_if X c f s)) = Pulp_Namespace (st_pulp s)"
  "Pulp_Status (st_pulp (update_if X c f s)) =
     (if c (st_pulp s) then f (st_pulp s) (Pulp_Status (st_pulp s)) else Pulp_Status (st_pulp s))"
  by (simp_all add: update_if_def)

lemma setStatus_keeps [simp]:
  "Pulp_Spec (st_pulp (setStatus X c f s)) = Pulp_Spec (st_pulp s)"
  "Pulp_Name (st_pulp (setStatus X c f s)) = Pulp_Name (st_pulp s)"
  "Pulp_Namespace (st_pulp (setStatus X c f s)) = Pulp_Namespace (st_pulp s)"
  by (simp_all add: setStatus_def split: option.splits)

lemma setStatus_status:
  assumes "spec_string (Pulp_Spec (st_pulp s)) f = Some v"
  shows "Pulp_Status (st_pulp (setStatus X c f s)) =
    (if c (st_pulp s) then set_status_string f v (Pulp_Status (st_pulp s)) else Pulp_Status (st_pulp s))"
proof -
  have "setStatus X c f s =
      (if c (st_pulp s) then snd (Status_Update X (set_Status (set_status_string f v) s)) else s)"
    unfolding setStatus_def assms option.case ..
  then show ?thesis by simp
qed

lemma setStatus_sel:
  assumes "spec_string (Pulp_Spec (st_pulp s)) f = Some v"
  shows
  "Status_ObjectStorageAzureSecret (Pulp_Status (st_pulp (setStatus X c f s))) =
     (if c (st_pulp s) \<and> f = ''ObjectStorageAzureSecret'' then v else Status_ObjectStorageAzureSecret (Pulp_Status (st_pulp s)))"
  "Status_ObjectStorageGCSSecret (Pulp_Status (st_pulp (setStatus X c f s))) =
     (if c (st_pulp s) \<and> f = ''ObjectStorageGCSSecret'' then v else Status_ObjectStorageGCSSecret (Pulp_Status (st_pulp s)))"
  "Status_ObjectStorageS3Secret (Pulp_Status (st_pulp (setStatus X c f s))) =
     (if c (st_pulp s) \<and> f = ''ObjectStorageS3Secret'' then v else Status_ObjectStorageS3Secret (Pulp_Status (st_pulp s)))"
  "Status_DBFieldsEncryptionSecret (Pulp_Status (st_pulp (setStatus X c f s))) =
     (if c (st_pulp s) \<and> f = ''DBFieldsEncryptionSecret'' then v else Status_DBFieldsEncryptionSecret (Pulp_Status (st_pulp s)))"
  "Status_IngressType (Pulp_Status (st_pulp (setStatus X c f s))) =
     (if c (st_pulp s) \<and> f = ''IngressType'' then v else Status_IngressType (Pulp_Status (st_pulp s)))"
  "Status_ContainerTokenSecret (Pulp_Status (st_pulp (setStatus X c f s))) =
     (if c (st_pulp s) \<and> f = ''ContainerTokenSecret'' then v else Status_ContainerTokenSecret (Pulp_Status (st_pulp s)))"
  "Status_IngressClassName (Pulp_Status (st_pulp (setStatus X c f s))) =
     (if c (st_pulp s) \<and> f = ''IngressClassName'' then v else Status_IngressClassName (Pulp_Status (st_pulp s)))"
  "Status_PulpSecretKey (Pulp_Status (st_pulp (setStatus X c f s))) =
     (if c (st_pulp s) \<and> f = ''PulpSecretKey'' then v else Status_PulpSecretKey (Pulp_Status (st_pulp s)))"
  "Status_AdminPasswordSecret (Pulp_Status (st_pulp (setStatus X c f s))) =
     (if c (st_pulp s) \<and> f = ''AdminPasswordSecret'' then v else Status_AdminPasswordSecret (Pulp_Status (st_pulp s)))"
  "Status_Image (Pulp_Status (st_pulp (setStatus X c f s))) = Status_Image (Pulp_Status (st_pulp s))"
  "Status_ExternalCacheSecret (Pulp_Status (st_pulp (setStatus X c f s))) = Status_ExternalCacheSecret (Pulp_Status (st_pulp s))"
  "Status_TelemetryEnabled (Pulp_Status (st_pulp (setStatus X c f s))) = Status_TelemetryEnabled (Pulp_Status (st_pulp s))"
  "Status_AllowedContentChecksums (Pulp_Status (st_pulp (setStatus X c f s))) = Status_AllowedContentChecksums (Pulp_Status (st_pulp s))"
  unfolding setStatus_status [OF assms] by simp_all

lemmas setStatus_fields =
  setStatus_sel [OF spec_string_fields(1), simplified]
  setStatus_sel [OF spec_string_fields(2), simplified]
  setStatus_sel [OF spec_string_fields(3), simplified]
  setStatus_sel [OF spec_string_fields(4), simplified]
  setStatus_sel [OF spec_string_fields(5), simplified]
  setStatus_sel [OF spec_string_fields(6), simplified]
  setStatus_sel [OF spec_string_fields(7), simplified]
  setStatus_sel [OF spec_string_fields(8), simplified]
  setStatus_sel [OF spec_string_fields(9), simplified]

lemma setStatusFields_spec [simp]:
  "Pulp_Spec (st_pulp (setStatusFields X s)) = Pulp_Spec (st_pulp s)"
  "Pulp_Name (st_pulp (setStatusFields X s)) = Pulp_Name (st_pulp s)"
  "Pulp_Namespace (st_pulp (setStatusFields X s)) = Pulp_Namespace (st_pulp s)"
  by (simp_all add: setStatusFields_def conditionFunctions_def Let_def)

lemma setStatusFields_storage:
  "Status_ObjectStorageAzureSecret (Pulp_Status (st_pulp (setStatusFields X s))) = Spec_ObjectStorageAzureSecret (Pulp_Spec (st_pulp s))"
  "Status_ObjectStorageGCSSecret (Pulp_Status (st_pulp (setStatusFields X s))) = Spec_ObjectStorageGCSSecret (Pulp_Spec (st_pulp s))"
  "Status_ObjectStorageS3Secret (Pulp_Status (st_pulp (setStatusFields X s))) = Spec_ObjectStorageS3Secret (Pulp_Spec (st_pulp s))"
  "Status_DBFieldsEncryptionSecret (Pulp_Status (st_pulp (setStatusFields X s))) = Spec_DBFieldsEncryptionSecret (Pulp_Spec (st_pulp s))"
  unfolding setStatusFields_def conditionFunctions_def Let_def fold_simps prod.case comp_def
  by (simp_all add: setStatus_fields status_conditions ImageChanged_def)

lemma setStatusFields_ingress:
  "Status_ContainerTokenSecret (Pulp_Status (st_pulp (setStatusFields X s))) = Spec_ContainerTokenSecret (Pulp_Spec (st_pulp s))"
  "Status_PulpSecretKey (Pulp_Status (st_pulp (setStatusFields X s))) = Spec_PulpSecretKey (Pulp_Spec (st_pulp s))"
  "Status_IngressType (Pulp_Status (st_pulp (setStatusFields X s))) =
     (if Status_IngressType (Pulp_Status (st_pulp s)) = [] then Spec_IngressType (Pulp_Spec (st_pulp s))
      else Status_IngressType (Pulp_Status (st_pulp s)))"
  "Status_IngressClassName (Pulp_Status (st_pulp (setStatusFields X s))) =
     (if Status_IngressClassName (Pulp_Status (st_pulp s)) = [] then Spec_IngressClassName (Pulp_Spec (st_pulp s))
      else Status_IngressClassName (Pulp_Status (st_pulp s)))"
  unfolding setStatusFields_def conditionFunctions_def Let_def fold_simps prod.case comp_def
  by (simp_all add: setStatus_fields status_conditions ImageChanged_def)

lemma setStatusFields_others:
  "Status_Image (Pulp_Status (st_pulp (setStatusFields X s))) =
     Spec_Image (Pulp_Spec (st_pulp s)) @ '':'' @ Spec_ImageVersion (Pulp_Spec (st_pulp s))"
  "Status_ExternalCacheSecret (Pulp_Status (st_pulp (setStatusFields X s))) =
     Cache_ExternalCacheSecret (Spec_Cache (Pulp_Spec (st_pulp s)))"
  "Status_TelemetryEnabled (Pulp_Status (st_pulp (setStatusFields X s))) =
     Telemetry_Enabled (Spec_Telemetry (Pulp_Spec (st_pulp s)))"
  "Status_AllowedContentChecksums (Pulp_Status (st_pulp (setStatusFields X s))) =
     (if elements (Spec_AllowedContentChecksums (Pulp_Spec (st_pulp s))) = [] then []
      else Status_AllowedContentChecksums (Pulp_Status (st_pulp s)))"
  unfolding setStatusFields_def conditionFunctions_def Let_def fold_simps prod.case comp_def
  by (simp_all add: setStatus_fields status_conditions ImageChanged_def)

lemmas setStatusFields_sel = setStatusFields_storage setStatusFields_ingress setStatusFields_others

end

text \<open>What a goroutine finds: no Deployment, or whether it is ready (nil replicas: a panic).\<close>

definition dep_verdict :: "'w Externals \<Rightarrow> pulpResource \<Rightarrow> string \<Rightarrow> 'w \<Rightarrow> bool option option" where
  "dep_verdict X r ns w =
    (case as_Deployment (fst (x_Get X KDeployment ns (pr_Name r) w)) of
       Inl _ \<Rightarrow> None | Inr d \<Rightarrow> Some (isDeploymentReady d))"

definition same_objects :: "'w Externals \<Rightarrow> 'w \<Rightarrow> 'w \<Rightarrow> bool" where
  "same_objects X w w' \<longleftrightarrow> (\<forall>k ns n. fst (x_Get X k ns n w) = fst (x_Get X k ns n w'))"

lemma same_objects_refl [simp]: "same_objects X w w"
  by (simp add: same_objects_def)

lemma same_objects_trans: "same_objects X a b \<Longrightarrow> same_objects X b c \<Longrightarrow> same_objects X a c"
  by (simp add: same_objects_def)

lemma dep_verdict_cong: "same_objects X w w' \<Longrightarrow> dep_verdict X r ns w = dep_verdict X r ns w'"
  by (simp add: same_objects_def dep_verdict_def)

text \<open>The condition a goroutine leaves behind, from the one it found.\<close>

definition new_condition :: "bool option option \<Rightarrow> (ConditionStatus \<Rightarrow> bool) \<Rightarrow> ConditionStatus \<Rightarrow> bool" where
  "new_condition v old st =
    (case v of None \<Rightarrow> old st
     | Some ready \<Rightarrow> if ready = Some False then st = ConditionFalse
         else if old ConditionFalse then st = ConditionTrue else old st)"

abbreviation cond_is :: "'w Externals \<Rightarrow> 'w St \<Rightarrow> string \<Rightarrow> ConditionStatus \<Rightarrow> bool" where
  "cond_is X s t st \<equiv> x_IsStatusConditionPresentAndEqual X (conditions s) t st"

locale quiet_status = status_server + quiet_cluster
begin

lemma UpdateStatus_objects: "same_objects X (st_world s) (st_world (UpdateStatus X a t r m s))"
  by (simp add: same_objects_def UpdateStatus_def set_condition_now_def Status_Update_def Let_def split_beta
      status_update_get now_get)

lemma Get_Deployment_pure: "Get_Deployment X n ns s = (as_Deployment (fst (x_Get X KDeployment ns n (st_world s))), s)"
  by (simp add: Get_Deployment_def call_def split_beta get_pure)

lemma checkDeployment_None:
  "checkDeployment X r s = None \<longleftrightarrow> dep_verdict X r (Pulp_Namespace (st_pulp s)) (st_world s) = Some None"
  by (auto simp: checkDeployment_def Get_Deployment_pure dep_verdict_def Let_def split: sum.splits bind_splits)

lemma checkDeployment_step:
  assumes "checkDeployment X r s = Some s'" and finished: "pr_ConditionType r \<noteq> finished"
  shows "same_objects X (st_world s) (st_world s')" "Pulp_Namespace (st_pulp s') = Pulp_Namespace (st_pulp s)"
    "t \<noteq> finished \<Longrightarrow> cond_is X s' t st \<longleftrightarrow>
      (if t = pr_ConditionType r
       then new_condition (dep_verdict X r (Pulp_Namespace (st_pulp s)) (st_world s)) (cond_is X s t) st
       else cond_is X s t st)"
proof -
  consider (missing) e where "as_Deployment (fst (x_Get X KDeployment (Pulp_Namespace (st_pulp s)) (pr_Name r) (st_world s))) = Inl e"
      "s' = s"
    | (waiting) d m1 m2 where "as_Deployment (fst (x_Get X KDeployment (Pulp_Namespace (st_pulp s)) (pr_Name r) (st_world s))) = Inr d"
      "isDeploymentReady d = Some False" "s' = UpdateStatus X ConditionFalse (pr_ConditionType r) m1 m2 s"
    | (ready) d m1 m2 m3 m4 where "as_Deployment (fst (x_Get X KDeployment (Pulp_Namespace (st_pulp s)) (pr_Name r) (st_world s))) = Inr d"
      "isDeploymentReady d = Some True" "cond_is X s (pr_ConditionType r) ConditionFalse"
      "s' = Record_Event EventNormal m3 m4 (UpdateStatus X ConditionTrue (pr_ConditionType r) m1 m2 s)"
    | (nothing) d where "as_Deployment (fst (x_Get X KDeployment (Pulp_Namespace (st_pulp s)) (pr_Name r) (st_world s))) = Inr d"
      "isDeploymentReady d = Some True" "\<not> cond_is X s (pr_ConditionType r) ConditionFalse" "s' = s"
    using assms(1)
    by (auto simp: checkDeployment_def Get_Deployment_pure is_false Let_def split: sum.splits bind_splits if_splits)
  note cases = this
  show "same_objects X (st_world s) (st_world s')"
    by (rule cases) (simp_all add: UpdateStatus_objects)
  show "Pulp_Namespace (st_pulp s') = Pulp_Namespace (st_pulp s)"
    by (rule cases) simp_all
  assume t: "t \<noteq> finished"
  have exact: "cond_is X (UpdateStatus X a (pr_ConditionType r) m1 m2 s) (pr_ConditionType r) st \<longleftrightarrow> st = a" for a m1 m2
    using UpdateStatus_sets [of a "pr_ConditionType r" m1 m2 s] by (auto simp: present_and_equal)
  show "cond_is X s' t st \<longleftrightarrow>
      (if t = pr_ConditionType r
       then new_condition (dep_verdict X r (Pulp_Namespace (st_pulp s)) (st_world s)) (cond_is X s t) st
       else cond_is X s t st)"
    by (rule cases) (auto simp: dep_verdict_def new_condition_def exact UpdateStatus_other t)
qed

lemma runAll_None:
  assumes "\<forall>r \<in> set rs. pr_ConditionType r \<noteq> finished"
  shows "runAll X rs s = None \<longleftrightarrow>
    (\<exists>r \<in> set rs. dep_verdict X r (Pulp_Namespace (st_pulp s)) (st_world s) = Some None)"
  using assms
proof (induction rs arbitrary: s)
  case (Cons r rs)
  show ?case
  proof (cases "checkDeployment X r s")
    case None
    then show ?thesis using checkDeployment_None [of r s] by simp
  next
    case (Some s')
    then have "dep_verdict X r (Pulp_Namespace (st_pulp s)) (st_world s) \<noteq> Some None"
      by (metis checkDeployment_None option.distinct(1))
    moreover have "same_objects X (st_world s) (st_world s')" "Pulp_Namespace (st_pulp s') = Pulp_Namespace (st_pulp s)"
      using checkDeployment_step(1,2) [OF Some] Cons.prems by simp_all
    ultimately show ?thesis
      using Cons.IH [of s'] Cons.prems Some
        dep_verdict_cong [of X "st_world s" "st_world s'" _ "Pulp_Namespace (st_pulp s)"] by simp
  qed
qed simp

lemma runAll_conditions:
  assumes "runAll X rs s = Some s'" "distinct (map pr_ConditionType rs)"
    and "\<forall>r \<in> set rs. pr_ConditionType r \<noteq> finished" "t \<noteq> finished"
  shows "cond_is X s' t st \<longleftrightarrow>
    (if \<exists>r \<in> set rs. t = pr_ConditionType r
     then \<exists>r \<in> set rs. t = pr_ConditionType r \<and>
       new_condition (dep_verdict X r (Pulp_Namespace (st_pulp s)) (st_world s)) (cond_is X s t) st
     else cond_is X s t st)"
  using assms
proof (induction rs arbitrary: s)
  case (Cons r rs)
  then obtain s1 where s1: "checkDeployment X r s = Some s1" and run: "runAll X rs s1 = Some s'"
    by (auto split: bind_splits)
  note step = checkDeployment_step [OF s1] and prems = Cons.prems
  have fin: "pr_ConditionType r \<noteq> finished" using prems by simp
  have same: "dep_verdict X q (Pulp_Namespace (st_pulp s1)) (st_world s1) =
      dep_verdict X q (Pulp_Namespace (st_pulp s)) (st_world s)" for q
    using dep_verdict_cong [OF step(1) [OF fin]] step(2) [OF fin] by simp
  have ih: "cond_is X s' t st \<longleftrightarrow>
    (if \<exists>q \<in> set rs. t = pr_ConditionType q
     then \<exists>q \<in> set rs. t = pr_ConditionType q \<and>
       new_condition (dep_verdict X q (Pulp_Namespace (st_pulp s)) (st_world s)) (cond_is X s1 t) st
     else cond_is X s1 t st)"
    using Cons.IH [OF run] prems by (simp add: same)
  show ?case
  proof (cases "t = pr_ConditionType r")
    case True
    then have "\<not> (\<exists>q \<in> set rs. t = pr_ConditionType q)"
      using prems by auto
    with True ih step(3) [OF fin, of t st] prems(4) show ?thesis by auto
  next
    case False
    then have "cond_is X s1 t = cond_is X s t"
      using step(3) [OF fin] prems(4) by (simp add: fun_eq_iff)
    with False ih show ?thesis by auto
  qed
qed simp

lemma runAll_order:
  assumes "mset rs = mset rs'" "distinct (map pr_ConditionType rs)"
    and fin: "\<forall>r \<in> set rs. pr_ConditionType r \<noteq> finished"
  shows "(runAll X rs s = None \<longleftrightarrow> runAll X rs' s = None) \<and>
    (\<forall>a b t st. runAll X rs s = Some a \<longrightarrow> runAll X rs' s = Some b \<longrightarrow> t \<noteq> finished \<longrightarrow>
      (cond_is X a t st \<longleftrightarrow> cond_is X b t st))"
proof -
  have set: "set rs' = set rs" using assms(1) by (metis mset_eq_setD)
  have "distinct (map pr_ConditionType rs')"
    using assms(1,2) by (metis mset_map mset_eq_imp_distinct_iff)
  then show ?thesis
    using assms(2) fin runAll_None [of rs s] runAll_None [of rs' s]
      runAll_conditions [of rs s] runAll_conditions [of rs' s] by (simp add: set)
qed

end

interpretation mem_quiet_status: quiet_status mem_ext
  by unfold_locales

lemma pulpResources_distinct: "distinct (map pr_ConditionType (pulpResources n))"
  by (simp add: pulpResources_def)

lemma pulpResources_not_finished: "\<forall>r \<in> set (pulpResources n). pr_ConditionType r \<noteq> finished"
  by (simp add: pulpResources_def finished_def)

subsection \<open>Properties\<close>


definition ex_status_pulp :: Pulp where
  "ex_status_pulp = zero_Pulp\<lparr>Pulp_Meta := zero_ObjectMeta\<lparr>meta_Name := ''p'', meta_Namespace := ''ns''\<rparr>,
     Pulp_Spec := zero_PulpSpec\<lparr>Spec_IngressType := ''nodeport'', Spec_Image := ''img'', Spec_ImageVersion := ''3''\<rparr>\<rparr>"




lemma is_false_exact: "condition_lib X \<Longrightarrow> cond_is X s t ConditionTrue \<Longrightarrow> \<not> x_IsStatusConditionFalse X (conditions s) t"
  by (auto simp: condition_lib.is_false condition_lib.present_and_equal)

lemma finish_true:
  assumes "condition_lib X" "pulp_store X"
  shows "cond_is X (snd (Status_Update X (set_condition_now X t ConditionTrue r m s))) t ConditionTrue"
  using condition_lib.set_condition_now_present [OF assms(1)] pulp_store.Status_Update_sel(4) [OF assms(2)] by metis


lemma mem_no_deployment: "mem_objs (st_world s) = [] \<Longrightarrow> checkDeployment mem_ext r s = Some s"
  unfolding checkDeployment_def mem_quiet_status.Get_Deployment_pure
  by (simp add: mem_ext_def mem_get_def mem_lookup_def)

lemma mem_runAll: "mem_objs (st_world s) = [] \<Longrightarrow> runAll mem_ext rs s = Some s"
  by (induction rs) (simp_all add: mem_no_deployment)

lemma mem_needs: "snd (needsIngressStatusUpdate mem_ext r s) = s"
  by (simp add: needsIngressStatusUpdate_def Get_Ingress_def call_def split_beta Let_def mem_quiet.get_pure)

lemma mem_started: "snd (startedResources mem_ext rs s) = s"
  by (induction rs) (simp_all add: split_beta Let_def mem_needs)

lemma mem_schedule: "snd (call (x_Schedule mem_ext n) s) = s"
  by (simp add: call_def mem_ext_def)

lemma ex_status_ready: "fst (checkReady mem_ext rs (mem_state ex_status_pulp [])) = None"
  by (simp add: checkReady_def Get_Pulp_def call_def mem_ext_def mem_state_def mem_init_def mem_get_pulp_def same_pulp_def
      Let_def ex_status_pulp_def zero_Pulp_def zero_PulpStatus_def condition_equal_def)

lemma ex_status_run:
  "\<exists>s'. setStatusConditions mem_ext (mem_state ex_status_pulp []) = Some (None, s')"
proof -
  have "mem_objs (st_world (mem_state ex_status_pulp [])) = []"
    by (simp add: mem_state_def mem_init_def)
  then show ?thesis
    using ex_status_ready [of "pulpResources (Pulp_Name (st_pulp (mem_state ex_status_pulp [])))"]
    by (simp add: setStatusConditions_def split_beta Let_def mem_started mem_schedule mem_runAll prod_eq_iff)
qed


end
