(* ===== verification/Jobs.thy ===== *)
theory Jobs
  imports Status
begin

text \<open>
  \<open>controllers/repo_manager/job.go\<close> and the migration part of \<open>utils.go\<close>: the Jobs that reset the
  admin password, migrate the database, update the checksums and register the signing
  scripts, and the tests that decide when one of them is needed. \<open>encoding/json\<close> is modelled
  for arrays of strings, the only values the code passes to it.
\<close>

subsection \<open>JSON arrays of strings\<close>

definition unhex :: "char \<Rightarrow> nat option" where
  "unhex c =
    (let n = of_char c in
     if 48 \<le> n \<and> n \<le> 57 then Some (n - 48)
     else if 97 \<le> n \<and> n \<le> 102 then Some (n - 87)
     else if 65 \<le> n \<and> n \<le> 70 then Some (n - 55)
     else None)"

definition unescape :: "char \<Rightarrow> char option" where
  "unescape e =
    (if e = CHR 0x22 \<or> e = CHR 0x5C \<or> e = CHR ''/'' then Some e
     else if e = CHR ''b'' then Some (CHR 0x08)
     else if e = CHR ''f'' then Some (CHR 0x0C)
     else if e = CHR ''n'' then Some (CHR 0x0A)
     else if e = CHR ''r'' then Some (CHR 0x0D)
     else if e = CHR ''t'' then Some (CHR 0x09)
     else None)"

text \<open>The rest of a string after its opening quote: the decoded text and what follows it.\<close>

fun json_string :: "string \<Rightarrow> (string \<times> string) option" where
  "json_string [] = None"
| "json_string (c # cs) =
    (if c = CHR 0x22 then Some ([], cs)
     else if c = CHR 0x5C then
       (case cs of
          [] \<Rightarrow> None
        | e # cs' \<Rightarrow>
            if e = CHR ''u'' then
              (case cs' of
                 a # b # x # y # cs'' \<Rightarrow>
                   do { hi \<leftarrow> unhex x; lo \<leftarrow> unhex y;
                        if a = CHR ''0'' \<and> b = CHR ''0'' then
                          do { (t, rest) \<leftarrow> json_string cs''; Some (char_of (16 * hi + lo) # t, rest) }
                        else None }
               | _ \<Rightarrow> None)
            else
              do { d \<leftarrow> unescape e; (t, rest) \<leftarrow> json_string cs'; Some (d # t, rest) })
     else if (of_char c :: nat) < 32 then None
     else do { (t, rest) \<leftarrow> json_string cs; Some (c # t, rest) })"

declare json_string.simps [simp del]

text \<open>The elements after an opening bracket; the fuel is the length of the input.\<close>

fun json_elements :: "nat \<Rightarrow> string \<Rightarrow> string list option" where
  "json_elements 0 cs = None"
| "json_elements (Suc n) cs =
    (case cs of
       q # cs \<Rightarrow>
         if q = CHR 0x22 then
           do { (t, rest) \<leftarrow> json_string cs;
                if rest = '']'' then Some [t]
                else (case rest of
                        c # rest' \<Rightarrow> if c = CHR '','' then do { ts \<leftarrow> json_elements n rest'; Some (t # ts) } else None
                      | [] \<Rightarrow> None) }
         else None
     | [] \<Rightarrow> None)"

text \<open>
  \<open>json.Marshal\<close> of a slice and \<open>json.Unmarshal\<close> into a nil one, for the compact form that
  \<open>Marshal\<close> writes; a text that does not parse leaves the slice nil.
\<close>

definition Marshal :: "string list option \<Rightarrow> string" where
  "Marshal xs = (case xs of None \<Rightarrow> ''null'' | Some ys \<Rightarrow> json_strings ys)"

definition Unmarshal :: "string \<Rightarrow> string list option" where
  "Unmarshal t =
    (if t = ''[]'' then Some []
     else case t of
       c # cs \<Rightarrow> if c = CHR ''['' then json_elements (length t) cs else None
     | [] \<Rightarrow> None)"

subsection \<open>Common parts of the Jobs\<close>

definition GetPostgresEnvVars :: "Pulp \<Rightarrow> EnvVar list" where
  "GetPostgresEnvVars pulp =
    (let db = Spec_Database (Pulp_Spec pulp) in
     if length (Database_ExternalDBSecret db) = 0 then
       (let containerPort = (if Database_PostgresPort db = 0 then 5432 else Database_PostgresPort db)
        in [\<lparr>env_Name = ''POSTGRES_SERVICE_HOST'', env_Value = Pulp_Name pulp @ ''-database-svc'', env_ValueFrom = None\<rparr>,
            \<lparr>env_Name = ''POSTGRES_SERVICE_PORT'', env_Value = Itoa containerPort, env_ValueFrom = None\<rparr>])
     else
       [\<lparr>env_Name = ''POSTGRES_SERVICE_HOST'', env_Value = [],
         env_ValueFrom = Some (SecretKeyRef (Database_ExternalDBSecret db) ''POSTGRES_HOST'')\<rparr>,
        \<lparr>env_Name = ''POSTGRES_SERVICE_PORT'', env_Value = [],
         env_ValueFrom = Some (SecretKeyRef (Database_ExternalDBSecret db) ''POSTGRES_PORT'')\<rparr>])"

definition GetAdminSecretName :: "Pulp \<Rightarrow> string" where
  "GetAdminSecretName pulp = Spec_AdminPasswordSecret (Pulp_Spec pulp)"

definition GetDBFieldsEncryptionSecret :: "Pulp \<Rightarrow> string" where
  "GetDBFieldsEncryptionSecret pulp = Spec_DBFieldsEncryptionSecret (Pulp_Spec pulp)"

definition pulp_image :: "Pulp \<Rightarrow> string" where
  "pulp_image pulp = Spec_Image (Pulp_Spec pulp) @ '':'' @ Spec_ImageVersion (Pulp_Spec pulp)"

definition jobLabels :: "Pulp \<Rightarrow> gomap" where
  "jobLabels pulp = CommonLabels pulp"

definition pulpcoreVolumes :: "Pulp \<Rightarrow> string \<Rightarrow> Volume list" where
  "pulpcoreVolumes pulp adminSecret =
    (let volumes =
       [\<lparr>vol_Name = Pulp_Name pulp @ ''-server'',
         vol_Source = SecretVolume (PulpServerSecret (Pulp_Name pulp)) None [(''settings.py'', ''settings.py'')]\<rparr>,
        \<lparr>vol_Name = Pulp_Name pulp @ ''-db-fields-encryption'',
         vol_Source = SecretVolume (GetDBFieldsEncryptionSecret pulp) None
           [(''database_fields.symmetric.key'', ''database_fields.symmetric.key'')]\<rparr>]
     in if length adminSecret > 0
        then volumes @ [\<lparr>vol_Name = adminSecret,
               vol_Source = SecretVolume adminSecret None [(''password'', ''admin-password'')]\<rparr>]
        else volumes)"

definition pulpcoreVolumeMounts :: "Pulp \<Rightarrow> VolumeMount list" where
  "pulpcoreVolumeMounts pulp =
    [\<lparr>vm_Name = Pulp_Name pulp @ ''-server'', vm_MountPath = ''/etc/pulp/settings.py'',
      vm_SubPath = ''settings.py'', vm_ReadOnly = True\<rparr>,
     \<lparr>vm_Name = Pulp_Name pulp @ ''-db-fields-encryption'',
      vm_MountPath = ''/etc/pulp/keys/database_fields.symmetric.key'',
      vm_SubPath = ''database_fields.symmetric.key'', vm_ReadOnly = True\<rparr>]"

record pulpJobConfig =
  jc_name :: string
  jc_namespace :: string
  jc_saName :: string
  jc_labels :: gomap
  jc_backoffLimit :: "int option"
  jc_ttlSecondsAfterFinished :: "int option"
  jc_containers :: "Container list"
  jc_volumes :: "Volume list"

definition commonJob :: "'w Externals \<Rightarrow> pulpJobConfig \<Rightarrow> 'w St \<Rightarrow> Job \<times> 'w St" where
  "commonJob X jobConfig s =
    (let ((isOpenShift, _), s) = IsOpenShift X s;
         securityContext = (if \<not> isOpenShift then JObj [(''runAsUser'', JNum 700), (''fsGroup'', JNum 700)] else JObj [])
     in (\<lparr>job_Meta = zero_ObjectMeta\<lparr>meta_GenerateName := jc_name jobConfig, meta_Namespace := jc_namespace jobConfig,
            meta_Labels := jc_labels jobConfig\<rparr>,
          job_BackoffLimit = jc_backoffLimit jobConfig,
          job_TTLSecondsAfterFinished = jc_ttlSecondsAfterFinished jobConfig,
          job_Template = zero_PodTemplateSpec\<lparr>tmpl_Labels := jc_labels jobConfig,
            tmpl_Spec := zero_PodSpec\<lparr>pod_RestartPolicy := ''Never'', pod_Containers := jc_containers jobConfig,
              pod_Volumes := jc_volumes jobConfig, pod_ServiceAccountName := jc_saName jobConfig,
              pod_SecurityContext := Some securityContext\<rparr>\<rparr>,
          job_Active = 0\<rparr>, s))"

definition component_label :: string where
  "component_label = ''app.kubernetes.io/component''"

text \<open>The Jobs differ in name, component label, lifetime, containers and volumes.\<close>

definition job_config ::
  "Pulp \<Rightarrow> string \<Rightarrow> string \<Rightarrow> int \<Rightarrow> Container list \<Rightarrow> Volume list \<Rightarrow> pulpJobConfig" where
  "job_config pulp name component ttl containers volumes =
    \<lparr>jc_name = name, jc_namespace = Pulp_Namespace pulp, jc_saName = PulpServiceAccount (Pulp_Name pulp),
     jc_labels = gset component_label component (jobLabels pulp), jc_backoffLimit = Some 2,
     jc_ttlSecondsAfterFinished = Some ttl, jc_containers = containers, jc_volumes = volumes\<rparr>"

definition own_job :: "Pulp \<Rightarrow> Job \<Rightarrow> Object" where
  "own_job pulp job = JobObj (job\<lparr>job_Meta := set_controller (Pulp_Name pulp) (job_Meta job)\<rparr>)"

text \<open>Text of a raw string literal: its lines, the later ones indented as in the source.\<close>

definition raw :: "string \<Rightarrow> string list \<Rightarrow> string" where
  "raw indent ls = hd ls @ concat (map (\<lambda>l. newline @ indent @ l) (tl ls))"

definition tabs3 :: string where
  "tabs3 = [CHR 0x09, CHR 0x09, CHR 0x09]"

subsection \<open>Containers\<close>

definition resetAdminPasswordContainer :: "Pulp \<Rightarrow> Container option" where
  "resetAdminPasswordContainer pulp =
    do { custom \<leftarrow> SetCustomEnvVars pulp ''AdminPasswordJob'';
         Some (zero_Container\<lparr>
           ctr_Name := ''reset-admin-password'',
           ctr_Image := pulp_image pulp,
           ctr_Env := GetPostgresEnvVars pulp @ custom,
           ctr_Command := [''/bin/sh''],
           ctr_Args := [''-c'', raw tabs3
             [''/usr/bin/wait_on_postgres.py'',
              ''/usr/bin/wait_on_database_migrations.sh'',
              ''ADMIN_PASSWORD_FILE=/etc/pulp/pulp-admin-password'',
              ''if [[ -f '' @ dq ''$ADMIN_PASSWORD_FILE'' @ '' ]]; then'',
              ''  echo '' @ dq ''pulp admin can be initialized.'',
              ''  PULP_ADMIN_PASSWORD=$(cat $ADMIN_PASSWORD_FILE)'',
              ''fi'',
              ''if [ -n '' @ dq ''${PULP_ADMIN_PASSWORD}'' @ '' ]; then'',
              ''  /usr/local/bin/pulpcore-manager reset-admin-password --password '' @ dq ''${PULP_ADMIN_PASSWORD}'',
              ''fi'']],
           ctr_Resources := PulpContainer_ResourceRequirements (PulpJob_PulpContainer (Spec_AdminPasswordJob (Pulp_Spec pulp))),
           ctr_VolumeMounts := pulpcoreVolumeMounts pulp @
             [\<lparr>vm_Name = GetAdminSecretName pulp, vm_MountPath = ''/etc/pulp/pulp-admin-password'',
               vm_SubPath = ''admin-password'', vm_ReadOnly = True\<rparr>],
           ctr_SecurityContext := Some SetDefaultSecurityContext\<rparr>) }"

definition migrationContainer :: "Pulp \<Rightarrow> Container option" where
  "migrationContainer pulp =
    do { custom \<leftarrow> SetCustomEnvVars pulp ''MigrationJob'';
         Some (zero_Container\<lparr>
           ctr_Name := ''migration'',
           ctr_Image := pulp_image pulp,
           ctr_ImagePullPolicy := Spec_ImagePullPolicy (Pulp_Spec pulp),
           ctr_Env := GetPostgresEnvVars pulp @ custom,
           ctr_Command := [''/bin/sh''],
           ctr_Args := [''-c'', raw [] [''/usr/bin/wait_on_postgres.py'', ''/usr/local/bin/pulpcore-manager migrate --noinput'']],
           ctr_Resources := PulpContainer_ResourceRequirements (PulpJob_PulpContainer (Spec_MigrationJob (Pulp_Spec pulp))),
           ctr_VolumeMounts := pulpcoreVolumeMounts pulp,
           ctr_SecurityContext := Some SetDefaultSecurityContext\<rparr>) }"

definition contentChecksumsContainer :: "Pulp \<Rightarrow> Container option" where
  "contentChecksumsContainer pulp =
    do { custom \<leftarrow> SetCustomEnvVars pulp (PulpcoreType_string API);
         Some (zero_Container\<lparr>
           ctr_Name := ''update-checksum'',
           ctr_Image := pulp_image pulp,
           ctr_ImagePullPolicy := Spec_ImagePullPolicy (Pulp_Spec pulp),
           ctr_Env := GetPostgresEnvVars pulp @ custom,
           ctr_Command := [''/bin/sh''],
           ctr_Args := [''-c'', raw tabs3
             [''/usr/bin/wait_on_postgres.py'', ''/usr/bin/wait_on_database_migrations.sh'',
              ''pulpcore-manager handle-artifact-checksums'']],
           ctr_Resources := PulpContainer_ResourceRequirements (PulpJob_PulpContainer (Spec_MigrationJob (Pulp_Spec pulp))),
           ctr_VolumeMounts := pulpcoreVolumeMounts pulp,
           ctr_SecurityContext := Some SetDefaultSecurityContext\<rparr>) }"

definition signingScriptContainerImage :: "Pulp \<Rightarrow> string" where
  "signingScriptContainerImage pulp =
    (let img = PulpContainer_Image (PulpJob_PulpContainer (Spec_SigningJob (Pulp_Spec pulp)))
     in if length img = 0 then pulp_image pulp else img)"

definition initContainer :: "Pulp \<Rightarrow> json \<Rightarrow> string \<Rightarrow> Container option" where
  "initContainer pulp resources img =
    do { custom \<leftarrow> SetCustomEnvVars pulp ''SigningJob'';
         Some (zero_Container\<lparr>
           ctr_Name := ''init-container'',
           ctr_Image := img,
           ctr_ImagePullPolicy := Spec_ImagePullPolicy (Pulp_Spec pulp),
           ctr_Env := GetPostgresEnvVars pulp @ custom,
           ctr_Command := [''/bin/sh''],
           ctr_Args := [''-c'', raw [] [''/usr/bin/wait_on_postgres.py'', ''/usr/bin/wait_on_database_migrations.sh'']],
           ctr_VolumeMounts := pulpcoreVolumeMounts pulp,
           ctr_Resources := resources,
           ctr_SecurityContext := Some SetDefaultSecurityContext\<rparr>) }"

text \<open>
  The fingerprint of the first key of the armored key ring, in upper-case hexadecimal; an
  empty ring is an index out of range.
\<close>

definition hex_bytes :: "string \<Rightarrow> string" where
  "hex_bytes bs = concat (map (\<lambda>c. [hex_digit (of_char c div 16), hex_digit (of_char c mod 16)]) bs)"

definition GetSigningKeyFingerprint ::
  "'w Externals \<Rightarrow> string \<Rightarrow> string \<Rightarrow> 'w St \<Rightarrow> ((string \<times> error option) \<times> 'w St) option" where
  "GetSigningKeyFingerprint X secretName secretNamespace s =
    (let (r, s) = RetrieveSecretData X secretName secretNamespace True [''signing_service.gpg''] s in
     case r of
       Inl err \<Rightarrow> Some (([], Some err), s)
     | Inr secretData \<Rightarrow>
         (case x_ReadArmoredKeyRing X (gget secretData ''signing_service.gpg'') of
            Inl err \<Rightarrow> Some (([], Some (Errorf (''Read Key Ring Error! '' @ Error err))), s)
          | Inr keyring \<Rightarrow> do { key \<leftarrow> index keyring 0; Some ((ToUpper (hex_bytes key), None), s) }))"

definition SigningScriptPath :: string where
  "SigningScriptPath = ''/var/lib/pulp/scripts/''"

text \<open>The scripts a secret provides, in the order in which the code asks for them.\<close>

definition script_names :: "Secret \<Rightarrow> string list" where
  "script_names secret =
    append_if (DeployRpmSign secret) RpmSigningScriptName
      (append_if (DeployAptSign secret) AptSigningScriptName
        (append_if (DeployContainerSign secret) ContainerSigningScriptName
          (append_if (DeployCollectionSign secret) CollectionSigningScriptName [])))"

definition manager :: "string \<Rightarrow> string" where
  "manager args = ''/usr/local/bin/pulpcore-manager '' @ args @ newline"

definition signing_args :: "Secret \<Rightarrow> string \<Rightarrow> string" where
  "signing_args scriptsSecret fingerprint =
    (let add = (\<lambda>service script class. manager (''add-signing-service '' @ service @ '' '' @ SigningScriptPath @ script
           @ '' '' @ fingerprint @ class));
         remove = (\<lambda>service class. manager (''remove-signing-service '' @ service @ class))
     in ''gpg --batch --import /etc/pulp/keys/signing_service.gpg'' @ newline
        @ ''echo '' @ dq ''${PULP_SIGNING_KEY_FINGERPRINT}:6'' @ '' | gpg --import-ownertrust'' @ newline
        @ (if DeployCollectionSign scriptsSecret
           then remove ''collection-signing-service'' [] @ add ''collection-signing-service'' CollectionSigningScriptName []
           else [])
        @ (if DeployContainerSign scriptsSecret
           then remove ''container-signing-service'' '' --class container:ManifestSigningService''
             @ add ''container-signing-service'' ContainerSigningScriptName '' --class container:ManifestSigningService ''
           else [])
        @ (if DeployAptSign scriptsSecret
           then remove ''apt-signing-service'' '' --class deb:AptReleaseSigningService''
             @ add ''apt-signing-service'' AptSigningScriptName '' --class deb:AptReleaseSigningService ''
           else [])
        @ (if DeployRpmSign scriptsSecret
           then remove ''rpm-signing-service'' '' --class rpm:RpmPackageSigningService''
             @ remove ''rpm-signing-service'' '' --class core:AsciiArmoredDetachedSigningService''
             @ add ''rpm-signing-service'' RpmSigningScriptName '' --class core:AsciiArmoredDetachedSigningService ''
           else []))"

definition plain_env :: "string \<Rightarrow> string \<Rightarrow> EnvVar" where
  "plain_env name value = \<lparr>env_Name = name, env_Value = value, env_ValueFrom = None\<rparr>"

definition signing_mounts :: "Pulp \<Rightarrow> Secret \<Rightarrow> VolumeMount list" where
  "signing_mounts pulp scriptsSecret =
    [\<lparr>vm_Name = ''gpg-keys'', vm_MountPath = ''/etc/pulp/keys/signing_service.gpg'',
      vm_SubPath = ''signing_service.gpg'', vm_ReadOnly = True\<rparr>,
     \<lparr>vm_Name = ''ephemeral-gpg'', vm_MountPath = ''/var/lib/pulp/.gnupg'', vm_SubPath = [], vm_ReadOnly = False\<rparr>]
    @ map (\<lambda>script. \<lparr>vm_Name = Pulp_Name pulp @ ''-signing-scripts'', vm_MountPath = SigningScriptPath @ script,
        vm_SubPath = script, vm_ReadOnly = True\<rparr>) (script_names scriptsSecret)"

definition signing_env :: "Secret \<Rightarrow> string \<Rightarrow> EnvVar list" where
  "signing_env scriptsSecret fingerprint =
    [plain_env ''PULP_SIGNING_KEY_FINGERPRINT'' fingerprint, plain_env ''HOME'' ''/var/lib/pulp'']
    @ (if DeployCollectionSign scriptsSecret then [plain_env ''COLLECTION_SIGNING_SERVICE'' ''collection-signing-service''] else [])
    @ (if DeployContainerSign scriptsSecret then [plain_env ''CONTAINER_SIGNING_SERVICE'' ''container-signing-service''] else [])
    @ (if DeployAptSign scriptsSecret then [plain_env ''APT_SIGNING_SERVICE'' ''apt-signing-service''] else [])
    @ (if DeployRpmSign scriptsSecret then [plain_env ''RPM_SIGNING_SERVICE'' ''rpm-signing-service''] else [])"

definition signingScriptContainer :: "'w Externals \<Rightarrow> Secret \<Rightarrow> 'w St \<Rightarrow> (Container \<times> 'w St) option" where
  "signingScriptContainer X scriptsSecret s =
    do { let pulp = st_pulp s;
         ((fingerprint, _), s) \<leftarrow> GetSigningKeyFingerprint X (Spec_SigningSecret (Pulp_Spec pulp)) (Pulp_Namespace pulp) s;
         custom \<leftarrow> SetCustomEnvVars pulp ''SigningJob'';
         Some (zero_Container\<lparr>
           ctr_Name := ''signing-metadata'',
           ctr_Image := signingScriptContainerImage pulp,
           ctr_ImagePullPolicy := Spec_ImagePullPolicy (Pulp_Spec pulp),
           ctr_Env := GetPostgresEnvVars pulp @ custom @ signing_env scriptsSecret fingerprint,
           ctr_Command := [''/bin/sh'', ''-c''],
           ctr_Args := [signing_args scriptsSecret fingerprint],
           ctr_Resources := PulpContainer_ResourceRequirements (PulpJob_PulpContainer (Spec_SigningJob (Pulp_Spec pulp))),
           ctr_VolumeMounts := pulpcoreVolumeMounts pulp @ signing_mounts pulp scriptsSecret,
           ctr_SecurityContext := Some SetDefaultSecurityContext\<rparr>, s) }"

definition signingScriptJobVolumes :: "Pulp \<Rightarrow> Secret \<Rightarrow> Volume list" where
  "signingScriptJobVolumes pulp secret =
    pulpcoreVolumes pulp []
    @ [\<lparr>vol_Name = Pulp_Name pulp @ ''-signing-scripts'',
        vol_Source = SecretVolume (Spec_SigningScripts (Pulp_Spec pulp)) (Some 493)
          (map (\<lambda>script. (script, script)) (script_names secret))\<rparr>,
       \<lparr>vol_Name = ''gpg-keys'', vol_Source = SecretVolume (Spec_SigningSecret (Pulp_Spec pulp)) None
          [(''signing_service.gpg'', ''signing_service.gpg'')]\<rparr>,
       \<lparr>vol_Name = ''ephemeral-gpg'', vol_Source = EmptyDirVolume\<rparr>]"

subsection \<open>The Jobs\<close>

text \<open>\<open>if err := r.Get(...); err != nil { log }\<close>: the zero secret after an error.\<close>

definition get_secret_or_zero :: "'w Externals \<Rightarrow> string \<Rightarrow> 'w St \<Rightarrow> Secret \<times> 'w St" where
  "get_secret_or_zero X name s =
    (let (r, s) = Get_Secret X name (Pulp_Namespace (st_pulp s)) s in (or_zero zero_Secret r, s))"

definition update_hash_label :: "'w Externals \<Rightarrow> Secret \<Rightarrow> 'w St \<Rightarrow> 'w St" where
  "update_hash_label X secret s =
    snd (call (x_Update X (SecretObj (secret\<lparr>sec_Meta := SetHashLabel (CalculateHash X (sec_Data secret)) (sec_Meta secret)\<rparr>))) s)"

definition updateAdminPasswordJob :: "'w Externals \<Rightarrow> 'w St \<Rightarrow> 'w St option" where
  "updateAdminPasswordJob X s =
    (let pulp = st_pulp s;
         (adminSecret, s) = get_secret_or_zero X (GetAdminSecretName pulp) s;
         calculatedHash = CalculateHash X (sec_Data adminSecret);
         currentHash = GetCurrentHash (sec_Meta adminSecret)
     in if Status_AdminPasswordSecret (Pulp_Status pulp) = Spec_AdminPasswordSecret (Pulp_Spec pulp) \<and>
           currentHash = calculatedHash
        then Some s
        else do {
          container \<leftarrow> resetAdminPasswordContainer pulp;
          let (job, s) = commonJob X (job_config pulp (ResetAdminPwdJob (Pulp_Name pulp)) ''reset-admin-password'' 3600
                [container] (pulpcoreVolumes pulp (GetAdminSecretName pulp))) s;
          let (_, s) = call (x_Create X (own_job pulp job)) s;
          let s = update_hash_label X adminSecret s;
          Some (setStatus X adminPwdSecretCondition ''AdminPasswordSecret'' s) })"

definition migrationJob :: "'w Externals \<Rightarrow> 'w St \<Rightarrow> 'w St option" where
  "migrationJob X s =
    do { let pulp = st_pulp s;
         container \<leftarrow> migrationContainer pulp;
         let (job, s) = commonJob X (job_config pulp (MigrationJob (Pulp_Name pulp)) ''migration'' 3600
               [container] (pulpcoreVolumes pulp [])) s;
         Some (snd (call (x_Create X (own_job pulp job)) s)) }"

definition contentChecksumsModified :: "Pulp \<Rightarrow> bool" where
  "contentChecksumsModified pulp \<longleftrightarrow>
    Spec_AllowedContentChecksums (Pulp_Spec pulp) \<noteq> Unmarshal (Status_AllowedContentChecksums (Pulp_Status pulp))"

definition updateContentChecksumsJob :: "'w Externals \<Rightarrow> 'w St \<Rightarrow> 'w St option" where
  "updateContentChecksumsJob X s =
    (if \<not> contentChecksumsModified (st_pulp s) then Some s
     else do {
       let pulp = st_pulp s;
       container \<leftarrow> contentChecksumsContainer pulp;
       let (job, s) = commonJob X (job_config pulp (UpdateChecksumsJob (Pulp_Name pulp)) ''allowed-content-checksums'' 60
             [container] (pulpcoreVolumes pulp [])) s;
       let (_, s) = call (x_Create X (own_job pulp job)) s;
       Some (snd (Status_Update X (set_Status
         (\<lambda>st. st\<lparr>Status_AllowedContentChecksums := Marshal (Spec_AllowedContentChecksums (Pulp_Spec pulp))\<rparr>) s))) })"

definition signingScriptJob :: "'w Externals \<Rightarrow> 'w St \<Rightarrow> 'w St option" where
  "signingScriptJob X s =
    do { let pulp = st_pulp s;
         let (secret, s) = get_secret_or_zero X (Spec_SigningScripts (Pulp_Spec pulp)) s;
         (container, s) \<leftarrow> signingScriptContainer X secret s;
         let (job, s) = commonJob X (job_config pulp (SigningScriptJob (Pulp_Name pulp)) ''signing-script'' 360
               [container] (signingScriptJobVolumes pulp secret)) s;
         init \<leftarrow> initContainer pulp
           (PulpContainer_ResourceRequirements (PulpJob_PulpContainer (Spec_SigningJob (Pulp_Spec pulp))))
           (signingScriptContainerImage pulp);
         let job = job\<lparr>job_Template := (job_Template job)\<lparr>tmpl_Spec :=
               (tmpl_Spec (job_Template job))\<lparr>pod_InitContainers := [init]\<rparr>\<rparr>\<rparr>;
         let (_, s) = call (x_Create X (own_job pulp job)) s;
         Some (update_hash_label X secret s) }"

subsection \<open>When a Job is needed\<close>

text \<open>The error of the list is ignored; the list is then empty.\<close>

definition getMigrationJobs :: "'w Externals \<Rightarrow> 'w St \<Rightarrow> Job list \<times> 'w St" where
  "getMigrationJobs X s =
    (let (r, s) = call (x_ListJobs X (Pulp_Namespace (st_pulp s)) (jobLabels (st_pulp s))) s
     in (or_zero [] r, s))"

definition jobImageEqualsCurrent :: "Job \<Rightarrow> Pulp \<Rightarrow> bool option" where
  "jobImageEqualsCurrent job pulp =
    do { container \<leftarrow> index (pod_Containers (tmpl_Spec (job_Template job))) 0;
         Some (ctr_Image container = pulp_image pulp) }"

fun hasActiveJob :: "Job list \<Rightarrow> Pulp \<Rightarrow> bool option" where
  "hasActiveJob [] pulp = Some False"
| "hasActiveJob (job # jobs) pulp =
    do { found \<leftarrow> jobImageEqualsCurrent job pulp; if found then Some True else hasActiveJob jobs pulp }"

definition migrationDone :: "'w Externals \<Rightarrow> 'w St \<Rightarrow> (bool \<times> 'w St) option" where
  "migrationDone X s =
    (let (jobList, s) = getMigrationJobs X s in do { b \<leftarrow> hasActiveJob jobList (st_pulp s); Some (b, s) })"

definition hasActiveJobRunning :: "'w Externals \<Rightarrow> 'w St \<Rightarrow> bool \<times> 'w St" where
  "hasActiveJobRunning X s =
    (let (jobList, s) = getMigrationJobs X s in (\<exists>job \<in> set jobList. job_Active job > 0, s))"

definition record_setting :: "'w Externals \<Rightarrow> string \<Rightarrow> 'w St \<Rightarrow> 'w St" where
  "record_setting X field s =
    snd (Status_Update X (set_Status (set_status_bool field (spec_bool (Pulp_Spec (st_pulp s)) field)) s))"

definition needsMigration :: "'w Externals \<Rightarrow> 'w St \<Rightarrow> (bool \<times> 'w St) option" where
  "needsMigration X s =
    (if Spec_DisableMigrations (Pulp_Spec (st_pulp s)) then Some (False, s)
     else do {
       storageChanged \<leftarrow> StorageTypeChanged (st_pulp s);
       if storageChanged then
         do { storageType \<leftarrow> index (GetStorageType (st_pulp s)) 0;
              Some (True, snd (Status_Update X (set_Status (\<lambda>st. st\<lparr>Status_StorageType := storageType\<rparr>) s))) }
       else do {
         let (settingsChanged, s) = SettingNeedsMigrationChanged X s;
         let (run, s) =
           (if length settingsChanged > 0 then
              (let s = fold (record_setting X) settingsChanged s;
                   (active, s) = hasActiveJobRunning X s
               in (\<not> active, s))
            else (False, s));
         if run then Some (True, s)
         else if ImageChanged (st_pulp s) then
           do { (found, s) \<leftarrow> migrationDone X s; Some (\<not> found, s) }
         else Some (False, s) } })"

definition runMigration :: "'w Externals \<Rightarrow> 'w St \<Rightarrow> 'w St option" where
  "runMigration X s =
    do { (needed, s) \<leftarrow> needsMigration X s;
         if \<not> needed then Some s else migrationJob X s }"

definition secretModified :: "'w Externals \<Rightarrow> string \<Rightarrow> 'w St \<Rightarrow> bool \<times> 'w St" where
  "secretModified X secretName s =
    (let (secret, s) = get_secret_or_zero X secretName s
     in (GetCurrentHash (sec_Meta secret) \<noteq> CalculateHash X (sec_Data secret), s))"

definition runSigningScriptJob :: "'w Externals \<Rightarrow> 'w St \<Rightarrow> 'w St option" where
  "runSigningScriptJob X s =
    (if length (Spec_SigningScripts (Pulp_Spec (st_pulp s))) = 0 then Some s
     else
       (let (modified, s) = secretModified X (Spec_SigningScripts (Pulp_Spec (st_pulp s))) s
        in if \<not> modified then Some s else signingScriptJob X s))"

definition runSigningSecretTasks :: "'w Externals \<Rightarrow> 'w St \<Rightarrow> Result option \<times> 'w St" where
  "runSigningSecretTasks X s =
    (let secretName = Spec_SigningSecret (Pulp_Spec (st_pulp s)) in
     if length secretName = 0 then (None, s)
     else
       (let (modified, s) = secretModified X secretName s in
        if \<not> modified then (None, s)
        else
          (let s = restartPulpCorePods X s;
               (secret, s) = get_secret_or_zero X secretName s
           in (Some requeue_Result, update_hash_label X secret s))))"

text \<open>Events: a CronJob update is handled only when its status did not change.\<close>

definition ignoreCronjobStatus :: "json \<Rightarrow> json \<Rightarrow> bool" where
  "ignoreCronjobStatus oldStatus newStatus \<longleftrightarrow> oldStatus = newStatus"

text \<open>The requests for a changed object, of which only the name and the namespace are read.\<close>

definition findPulpDependentObjects :: "'w Externals \<Rightarrow> ObjectMeta \<Rightarrow> 'w \<Rightarrow> (string \<times> string) list \<times> 'w" where
  "findPulpDependentObjects X obj w =
    (let (r, w) = x_ListPulps X (meta_Namespace obj) (meta_Name obj) w
     in (case r of
           Inl _ \<Rightarrow> []
         | Inr [] \<Rightarrow> []
         | Inr (p # _) \<Rightarrow> [(Pulp_Namespace p, Pulp_Name p)], w))"

subsection \<open>Lemmas on JSON\<close>

lemma unhex_hex_digit: "n < 16 \<Longrightarrow> unhex (hex_digit n) = Some n"
proof -
  have "list_all (\<lambda>n. unhex (hex_digit n) = Some n) [0..<16]"
    by (simp add: upt_conv_Cons unhex_def hex_digit_def Let_def)
  then show "n < 16 \<Longrightarrow> ?thesis" by (simp add: list_all_iff)
qed

lemma json_string_hex:
  "n < 256 \<Longrightarrow> json_string (CHR 0x5C # ''u00'' @ [hex_digit (n div 16), hex_digit (n mod 16)] @ cs) =
    map_option (\<lambda>(t, rest). (char_of n # t, rest)) (json_string cs)"
proof -
  assume "n < 256"
  then have "unhex (hex_digit (n div 16)) = Some (n div 16)" "unhex (hex_digit (n mod 16)) = Some (n mod 16)"
    by (simp_all add: unhex_hex_digit)
  then show ?thesis
    by (subst json_string.simps) (auto split: bind_splits option.splits)
qed

lemma json_string_escape:
  "unescape e = Some d \<Longrightarrow> e \<noteq> CHR ''u'' \<Longrightarrow> json_string (CHR 0x5C # e # cs) =
    map_option (\<lambda>(t, rest). (d # t, rest)) (json_string cs)"
  by (subst json_string.simps) (auto split: bind_splits)

lemma json_string_plain:
  "c \<noteq> CHR 0x22 \<Longrightarrow> c \<noteq> CHR 0x5C \<Longrightarrow> \<not> (of_char c :: nat) < 32 \<Longrightarrow> json_string (c # cs) =
    map_option (\<lambda>(t, rest). (c # t, rest)) (json_string cs)"
  by (subst json_string.simps) (auto split: bind_splits)

lemma json_string_json_char:
  "json_string (json_char c @ cs) = map_option (\<lambda>(t, rest). (c # t, rest)) (json_string cs)"
proof (cases "c = CHR 0x22 \<or> c = CHR 0x5C \<or> c = CHR 0x08 \<or> c = CHR 0x0C \<or> c = CHR 0x0A \<or> c = CHR 0x0D \<or> c = CHR 0x09")
  case True
  then show ?thesis
    by (elim disjE) (simp_all add: json_char_def json_string_escape unescape_def Let_def)
next
  case special: False
  show ?thesis
  proof (cases "(of_char c :: nat) < 32 \<or> c = CHR ''<'' \<or> c = CHR ''>'' \<or> c = CHR ''&''")
    case True
    with special have "json_char c = CHR 0x5C # ''u00'' @ [hex_digit (of_char c div 16), hex_digit (of_char c mod 16)]"
      unfolding json_char_def Let_def by simp
    with json_string_hex [OF nat_of_char_less_256, of c cs] show ?thesis by simp
  next
    case False
    with special have "json_char c = [c]"
      unfolding json_char_def Let_def by simp
    with special False json_string_plain [of c cs] show ?thesis by simp
  qed
qed

lemma json_string_body: "json_string (concat (map json_char x) @ CHR 0x22 # rest) = Some (x, rest)"
proof (induction x)
  case Nil
  show ?case by (simp add: json_string.simps)
next
  case (Cons c x)
  then show ?case by (simp add: json_string_json_char)
qed

lemma json_elements_join:
  "xs \<noteq> [] \<Longrightarrow> length xs \<le> n \<Longrightarrow> json_elements n (json_join xs @ '']'') = Some xs"
proof (induction xs arbitrary: n rule: json_join.induct)
  case (2 x)
  then obtain m where "n = Suc m" by (cases n) auto
  then show ?case by (simp add: dq_def dquote_def json_string_body)
next
  case (3 x y ys)
  then obtain m where n: "n = Suc m" and m: "length (y # ys) \<le> m" by (cases n) auto
  have "json_elements m (json_join (y # ys) @ '']'') = Some (y # ys)"
    using 3(1) m by simp
  then show ?case by (simp add: n dq_def dquote_def json_string_body)
qed simp

lemma length_json_join: "length xs \<le> length (json_join xs)"
  by (induction xs rule: json_join.induct) (auto simp: dq_def dquote_def)

lemma Unmarshal_Marshal: "Unmarshal (Marshal xs) = xs"
proof (cases "elements xs = []")
  case False
  then obtain ys where xs: "xs = Some ys" "ys \<noteq> []" by (cases xs) auto
  then have "json_elements (length (json_strings ys)) (json_join ys @ '']'') = Some ys"
    using length_json_join [of ys] by (intro json_elements_join) (simp_all add: json_strings_def)
  moreover have "json_join ys \<noteq> []" using length_json_join [of ys] xs(2) by (cases ys) auto
  ultimately show ?thesis using xs by (simp add: Unmarshal_def Marshal_def json_strings_def append_eq_Cons_conv)
qed (cases xs; simp add: Marshal_def Unmarshal_def json_strings_def)

subsection \<open>Lemmas on Jobs\<close>

lemma commonJob_frame [simp]:
  "st_pulp (snd (commonJob X c s)) = st_pulp s"
  "st_events (snd (commonJob X c s)) = st_events s"
  by (simp_all add: commonJob_def split_beta Let_def)

lemma commonJob_job [simp]:
  "pod_Containers (tmpl_Spec (job_Template (fst (commonJob X c s)))) = jc_containers c"
  "pod_Volumes (tmpl_Spec (job_Template (fst (commonJob X c s)))) = jc_volumes c"
  "meta_Labels (job_Meta (fst (commonJob X c s))) = jc_labels c"
  by (simp_all add: commonJob_def split_beta Let_def)

lemma getMigrationJobs_frame [simp]: "st_pulp (snd (getMigrationJobs X s)) = st_pulp s"
  by (simp add: getMigrationJobs_def split_beta)

lemma hasActiveJobRunning_frame [simp]: "st_pulp (snd (hasActiveJobRunning X s)) = st_pulp s"
  by (simp add: hasActiveJobRunning_def split_beta)

lemma migrationDone_frame: "migrationDone X s = Some (b, s') \<Longrightarrow> st_pulp s' = st_pulp s"
  by (auto simp: migrationDone_def split_beta split: bind_splits)

lemma hasActiveJob_Some:
  assumes "\<forall>job \<in> set jobs. pod_Containers (tmpl_Spec (job_Template job)) \<noteq> []"
  shows "hasActiveJob jobs pulp =
    Some (\<exists>job \<in> set jobs. ctr_Image (hd (pod_Containers (tmpl_Spec (job_Template job)))) = pulp_image pulp)"
  using assms by (induction jobs) (auto simp: jobImageEqualsCurrent_def index_0_eq)

lemma set_status_bool_sel [simp]:
  "status_bool (set_status_bool f b st) ''RedirectToObjectStorage'' =
    (if f = ''RedirectToObjectStorage'' then b else status_bool st ''RedirectToObjectStorage'')"
  "status_bool (set_status_bool f b st) ''HideGuardedDistributions'' =
    (if f = ''RedirectToObjectStorage'' then status_bool st ''HideGuardedDistributions'' else b)"
  "Status_StorageType (set_status_bool f b st) = Status_StorageType st"
  "Status_Image (set_status_bool f b st) = Status_Image st"
  by (simp_all add: set_status_bool_def status_bool_def)

lemma set_status_bool_other:
  assumes "f \<in> {''RedirectToObjectStorage'', ''HideGuardedDistributions''}"
    and "g \<in> {''RedirectToObjectStorage'', ''HideGuardedDistributions''}"
  shows "status_bool (set_status_bool g b st) f = (if f = g then b else status_bool st f)"
  using assms by (elim insertE emptyE) simp_all

context pulp_store
begin

lemma record_setting_sel [simp]:
  "Pulp_Spec (st_pulp (record_setting X f s)) = Pulp_Spec (st_pulp s)"
  "Pulp_Name (st_pulp (record_setting X f s)) = Pulp_Name (st_pulp s)"
  "Pulp_Namespace (st_pulp (record_setting X f s)) = Pulp_Namespace (st_pulp s)"
  "Pulp_Status (st_pulp (record_setting X f s)) =
     set_status_bool f (spec_bool (Pulp_Spec (st_pulp s)) f) (Pulp_Status (st_pulp s))"
  by (simp_all add: record_setting_def)

lemma record_settings_spec [simp]:
  "Pulp_Spec (st_pulp (fold (record_setting X) fs s)) = Pulp_Spec (st_pulp s)"
  "Status_StorageType (Pulp_Status (st_pulp (fold (record_setting X) fs s))) = Status_StorageType (Pulp_Status (st_pulp s))"
  by (induction fs arbitrary: s) simp_all

abbreviation recorded :: "'w St \<Rightarrow> string \<Rightarrow> bool" where
  "recorded s f \<equiv> status_bool (Pulp_Status (st_pulp s)) f = spec_bool (Pulp_Spec (st_pulp s)) f"

lemma record_settings_recorded:
  assumes "set fs \<subseteq> {''RedirectToObjectStorage'', ''HideGuardedDistributions''}"
    and "f \<in> {''RedirectToObjectStorage'', ''HideGuardedDistributions''}"
  shows "recorded s f \<or> f \<in> set fs \<Longrightarrow> recorded (fold (record_setting X) fs s) f"
  using assms(1)
proof (induction fs arbitrary: s)
  case (Cons g fs)
  have g: "g \<in> {''RedirectToObjectStorage'', ''HideGuardedDistributions''}"
    and fs: "set fs \<subseteq> {''RedirectToObjectStorage'', ''HideGuardedDistributions''}"
    using Cons.prems(2) by (simp_all only: list.set insert_subset)
  have step: "recorded (record_setting X g s) f \<longleftrightarrow> f = g \<or> recorded s f"
    unfolding record_setting_sel set_status_bool_other [OF assms(2) g] by simp
  show ?case
    unfolding fold.simps comp_def
    by (rule Cons.IH [OF _ fs]) (use Cons.prems(1) in \<open>simp only: step list.set insert_iff; blast\<close>)
qed simp

lemma updateContentChecksumsJob_recorded:
  assumes "updateContentChecksumsJob X s = Some s'"
  shows "\<not> contentChecksumsModified (st_pulp s')"
proof (cases "contentChecksumsModified (st_pulp s)")
  case True
  with assms show ?thesis
    by (auto simp: updateContentChecksumsJob_def Let_def split_beta contentChecksumsModified_def Unmarshal_Marshal
        split: bind_splits)
next
  case False
  with assms show ?thesis by (simp add: updateContentChecksumsJob_def)
qed

end

lemma StorageTypeChanged_Some:
  "StorageTypeChanged p = Some b \<longleftrightarrow> pulp_storage_options (Pulp_Spec p) \<noteq> [] \<and>
    b = (Status_StorageType (Pulp_Status p) \<noteq> hd (pulp_storage_options (Pulp_Spec p)))"
  by (auto simp: StorageTypeChanged_def GetStorageType_eq index_0_eq)

locale migrating = pulp_store + go_runtime
begin

lemma settingsChanged_set:
  "set (fst (SettingNeedsMigrationChanged X s)) =
    {f \<in> {''RedirectToObjectStorage'', ''HideGuardedDistributions''}. \<not> recorded s f}"
proof -
  have "set (map fst (fst (x_RangeOrder X MigrationSettingsList (st_world s)))) = set (map fst MigrationSettingsList)"
    using range_order by (metis mset_eq_setD set_map)
  then have "set (map fst (fst (x_RangeOrder X MigrationSettingsList (st_world s)))) =
      {''RedirectToObjectStorage'', ''HideGuardedDistributions''}"
    by (simp only: MigrationSettingsList_def list.map fst_conv list.set)
  then show ?thesis
    unfolding SettingNeedsMigrationChanged_def Let_def split_beta fst_conv set_filter call_sel by auto
qed

lemma SettingNeedsMigrationChanged_frame [simp]: "st_pulp (snd (SettingNeedsMigrationChanged X s)) = st_pulp s"
  by (simp add: SettingNeedsMigrationChanged_def split_beta Let_def)

end

interpretation mem_migrating: migrating mem_ext
  by unfold_locales

lemma pulpcoreVolumes_mounts: "set (map vm_Name (pulpcoreVolumeMounts p)) \<subseteq> set (map vol_Name (pulpcoreVolumes p a))"
  by (simp add: pulpcoreVolumeMounts_def pulpcoreVolumes_def Let_def)

lemma pulpcoreVolumes_admin: "a \<noteq> [] \<Longrightarrow> a \<in> set (map vol_Name (pulpcoreVolumes p a))"
  by (simp add: pulpcoreVolumes_def Let_def)

lemma signing_volume_names:
  "set (map vol_Name (signingScriptJobVolumes p sec)) = set (map vol_Name (pulpcoreVolumes p [])) \<union>
     {Pulp_Name p @ ''-signing-scripts'', ''gpg-keys'', ''ephemeral-gpg''}"
  unfolding signingScriptJobVolumes_def map_append set_append by simp

lemma signing_mount_names:
  "set (map vm_Name (signing_mounts p sec)) \<subseteq> {Pulp_Name p @ ''-signing-scripts'', ''gpg-keys'', ''ephemeral-gpg''}"
  unfolding signing_mounts_def map_append set_append by auto

lemma signingScriptContainer_Some:
  "signingScriptContainer X sec s = Some (c, s') \<Longrightarrow>
    ctr_VolumeMounts c = pulpcoreVolumeMounts (st_pulp s) @ signing_mounts (st_pulp s) sec"
  by (auto simp: signingScriptContainer_def Let_def split: bind_splits)

lemma custom_vars:
  "SetCustomEnvVars p part = Some vs \<Longrightarrow> v \<in> set vs \<Longrightarrow> \<not> isPulpcoreEnvVar (env_Name v)"
  by (auto simp: SetCustomEnvVars_def keep_custom_filter split: bind_splits)

lemma postgres_env_once:
  assumes "SetCustomEnvVars p part = Some vs" "isPulpcoreEnvVar n"
  shows "filter (\<lambda>v. env_Name v = n) (GetPostgresEnvVars p @ vs) = filter (\<lambda>v. env_Name v = n) (GetPostgresEnvVars p)"
  using custom_vars [OF assms(1)] assms(2) by (auto simp: filter_empty_conv)

subsection \<open>Properties\<close>

text \<open>
  Every volume that a container of a Job mounts is a volume of its pod: for the migration, the
  checksum and the signing Job always, for the password Job when the secret has a name.
\<close>

lemma job_mounts_have_volumes:
  "(migrationContainer p = Some c \<longrightarrow>
      set (map vm_Name (ctr_VolumeMounts c)) \<subseteq> set (map vol_Name (pulpcoreVolumes p []))) \<and>
   (contentChecksumsContainer p = Some c \<longrightarrow>
      set (map vm_Name (ctr_VolumeMounts c)) \<subseteq> set (map vol_Name (pulpcoreVolumes p []))) \<and>
   (resetAdminPasswordContainer p = Some c \<and> GetAdminSecretName p \<noteq> [] \<longrightarrow>
      set (map vm_Name (ctr_VolumeMounts c)) \<subseteq> set (map vol_Name (pulpcoreVolumes p (GetAdminSecretName p)))) \<and>
   (signingScriptContainer X sec s = Some (c, s') \<longrightarrow>
      set (map vm_Name (ctr_VolumeMounts c)) \<subseteq> set (map vol_Name (signingScriptJobVolumes (st_pulp s) sec)))"
proof (intro conjI impI)
  assume "migrationContainer p = Some c"
  then have "ctr_VolumeMounts c = pulpcoreVolumeMounts p"
    by (auto simp: migrationContainer_def split: bind_splits)
  then show "set (map vm_Name (ctr_VolumeMounts c)) \<subseteq> set (map vol_Name (pulpcoreVolumes p []))"
    by (simp only: pulpcoreVolumes_mounts)
next
  assume "contentChecksumsContainer p = Some c"
  then have "ctr_VolumeMounts c = pulpcoreVolumeMounts p"
    by (auto simp: contentChecksumsContainer_def split: bind_splits)
  then show "set (map vm_Name (ctr_VolumeMounts c)) \<subseteq> set (map vol_Name (pulpcoreVolumes p []))"
    by (simp only: pulpcoreVolumes_mounts)
next
  assume *: "resetAdminPasswordContainer p = Some c \<and> GetAdminSecretName p \<noteq> []"
  then have "set (map vm_Name (ctr_VolumeMounts c)) = insert (GetAdminSecretName p) (set (map vm_Name (pulpcoreVolumeMounts p)))"
    by (auto simp: resetAdminPasswordContainer_def split: bind_splits)
  then show "set (map vm_Name (ctr_VolumeMounts c)) \<subseteq> set (map vol_Name (pulpcoreVolumes p (GetAdminSecretName p)))"
    using pulpcoreVolumes_mounts [of p "GetAdminSecretName p"] pulpcoreVolumes_admin [OF conjunct2 [OF *], of p]
    by (simp only: insert_subset simp_thms)
next
  assume c: "signingScriptContainer X sec s = Some (c, s')"
  show "set (map vm_Name (ctr_VolumeMounts c)) \<subseteq> set (map vol_Name (signingScriptJobVolumes (st_pulp s) sec))"
    unfolding signingScriptContainer_Some [OF c] signing_volume_names map_append set_append
    by (rule Un_mono [OF pulpcoreVolumes_mounts signing_mount_names])
qed

text \<open>
  Users cannot redirect a Job to another database: in the environment of the migration, the
  checksum and the password container the variables of the database are the operator's only.
\<close>

lemma job_database_env:
  assumes "migrationContainer p = Some c \<or> contentChecksumsContainer p = Some c \<or> resetAdminPasswordContainer p = Some c"
    and "n \<in> {''POSTGRES_SERVICE_HOST'', ''POSTGRES_SERVICE_PORT''}"
  shows "filter (\<lambda>v. env_Name v = n) (ctr_Env c) = filter (\<lambda>v. env_Name v = n) (GetPostgresEnvVars p) \<and>
    length (filter (\<lambda>v. env_Name v = n) (ctr_Env c)) = 1"
proof -
  obtain part vs where "SetCustomEnvVars p part = Some vs" "ctr_Env c = GetPostgresEnvVars p @ vs"
    using assms(1)
    by (auto simp: migrationContainer_def contentChecksumsContainer_def resetAdminPasswordContainer_def split: bind_splits)
  moreover have "isPulpcoreEnvVar n"
    using assms(2) by (elim insertE emptyE) (simp_all add: isPulpcoreEnvVar_def pulpcoreEnvVars_def)
  moreover have "length (filter (\<lambda>v. env_Name v = n) (GetPostgresEnvVars p)) = 1"
    using assms(2) by (elim insertE emptyE) (simp_all add: GetPostgresEnvVars_def Let_def)
  ultimately show ?thesis using postgres_env_once by metis
qed

text \<open>
  C38: An empty list of checksums that is written out (\<open>allowed_content_checksums: []\<close>) is never
  up to date: \<open>setStatusFields\<close> clears the status, where only a list that is left out compares
  equal, so the checksum Job is started again in every reconciliation.
\<close>

theorem empty_checksum_list_never_settles:
  assumes "pulp_store X" "elements (Spec_AllowedContentChecksums (Pulp_Spec (st_pulp s))) = []"
  shows "contentChecksumsModified (st_pulp (setStatusFields X s)) \<longleftrightarrow>
    Spec_AllowedContentChecksums (Pulp_Spec (st_pulp s)) = Some []"
  using assms(2) pulp_store.setStatusFields_sel [OF assms(1), of s] pulp_store.setStatusFields_spec [OF assms(1), of s]
  by (cases "Spec_AllowedContentChecksums (Pulp_Spec (st_pulp s))")
     (simp_all add: contentChecksumsModified_def Unmarshal_def)

definition ex_empty_checksums_pulp :: Pulp where
  "ex_empty_checksums_pulp = upd_Spec (\<lambda>sp. sp\<lparr>Spec_AllowedContentChecksums := Some []\<rparr>) ex_status_pulp"

theorem empty_checksum_list_never_settles_witness:
  "contentChecksumsModified (st_pulp (setStatusFields mem_ext (mem_state ex_empty_checksums_pulp [])))"
  using empty_checksum_list_never_settles [OF mem_pulps.pulp_store_axioms, of "mem_state ex_empty_checksums_pulp []"]
  by (simp add: ex_empty_checksums_pulp_def mem_state_def)

lemma needsMigration_recorded:
  assumes mig: "migrating X" and run: "needsMigration X s = Some (b, s')"
    and enabled: "\<not> Spec_DisableMigrations (Pulp_Spec (st_pulp s))"
  shows "StorageTypeChanged (st_pulp s') = Some False \<and>
    (StorageTypeChanged (st_pulp s) = Some False \<longrightarrow> fst (SettingNeedsMigrationChanged X s') = [])"
proof -
  note store = mig [THEN migrating.axioms(1)]
  let ?changed = "fst (SettingNeedsMigrationChanged X s)"
  let ?A = "{''RedirectToObjectStorage'', ''HideGuardedDistributions''}"
  obtain c where c: "StorageTypeChanged (st_pulp s) = Some c"
    using run enabled by (auto simp: needsMigration_def split: bind_splits)
  show ?thesis
  proof (cases c)
    case True
    then show ?thesis
      using run enabled c pulp_store.Status_Update_sel [OF store]
      by (auto simp: needsMigration_def StorageTypeChanged_Some GetStorageType_eq index_0_eq split: bind_splits)
  next
    case False
    let ?s0 = "snd (SettingNeedsMigrationChanged X s)"
    define s1 where "s1 = fold (record_setting X) ?changed ?s0"
    have s0: "st_pulp ?s0 = st_pulp s" by (rule migrating.SettingNeedsMigrationChanged_frame [OF mig])
    have changed: "set ?changed = {f \<in> ?A. status_bool (Pulp_Status (st_pulp s)) f \<noteq> spec_bool (Pulp_Spec (st_pulp s)) f}"
      by (rule migrating.settingsChanged_set [OF mig])
    have s': "st_pulp s' = st_pulp s1"
      using run enabled c False
      by (auto simp: needsMigration_def s1_def Let_def split_beta split: bind_splits if_splits dest: migrationDone_frame)
    have s1: "Pulp_Spec (st_pulp s1) = Pulp_Spec (st_pulp s)"
      "Status_StorageType (Pulp_Status (st_pulp s1)) = Status_StorageType (Pulp_Status (st_pulp s))"
      by (simp_all add: s1_def pulp_store.record_settings_spec [OF store] s0)
    have rec: "status_bool (Pulp_Status (st_pulp s')) f = spec_bool (Pulp_Spec (st_pulp s')) f" if "f \<in> ?A" for f
      unfolding s' s1_def
    proof (rule pulp_store.record_settings_recorded [OF store _ that])
      show "set ?changed \<subseteq> ?A" unfolding changed by (rule Collect_restrict)
      show "status_bool (Pulp_Status (st_pulp ?s0)) f = spec_bool (Pulp_Spec (st_pulp ?s0)) f \<or> f \<in> set ?changed"
        unfolding changed s0 mem_Collect_eq using that by argo
    qed
    have "f \<notin> set (fst (SettingNeedsMigrationChanged X s'))" for f
      unfolding migrating.settingsChanged_set [OF mig] mem_Collect_eq using rec [of f] by argo
    then have "fst (SettingNeedsMigrationChanged X s') = []"
      by (metis list.set_intros(1) neq_Nil_conv)
    with c False s' s1 show ?thesis by (simp add: StorageTypeChanged_Some)
  qed
qed


definition ex_migrating_pulp :: Pulp where
  "ex_migrating_pulp = upd_Spec (\<lambda>sp. sp\<lparr>Spec_PVC := ''claim''\<rparr>) ex_status_pulp"


lemma zero_Secret_modified: "GetCurrentHash (sec_Meta zero_Secret) \<noteq> CalculateHash X (sec_Data zero_Secret)"
proof -
  have "CalculateHash X [] \<noteq> []"
    by (metis CalculateHash_def hash_of_dump_def length_hex32 list.size(3) zero_neq_numeral)
  then show ?thesis
    by (auto simp: zero_Secret_def GetCurrentHash_def zero_ObjectMeta_def gget_def)
qed

text \<open>
  A signing secret that cannot be read counts as modified: the pods are restarted and another
  reconciliation is asked for, every time.
\<close>

lemma missing_signing_secret_restarts:
  assumes "Spec_SigningSecret (Pulp_Spec (st_pulp s)) \<noteq> []"
    and "fst (Get_Secret X (Spec_SigningSecret (Pulp_Spec (st_pulp s))) (Pulp_Namespace (st_pulp s)) s) = Inl e"
  shows "\<exists>s1 sec. runSigningSecretTasks X s = (Some requeue_Result, update_hash_label X sec s1) \<and>
    (\<exists>s0. s1 = snd (get_secret_or_zero X (Spec_SigningSecret (Pulp_Spec (st_pulp s))) (restartPulpCorePods X s0)))"
  using assms zero_Secret_modified [of X]
  by (auto simp: runSigningSecretTasks_def secretModified_def get_secret_or_zero_def split_beta Let_def)

end
