(* ===== verification/Deployment_Builder.thy ===== *)
theory Deployment_Builder
  imports Jobs
begin

text \<open>
  \<open>controllers/deployment.go\<close>, \<open>controllers/telemetry.go\<close>, \<open>controllers/ocp/deployment.go\<close> and
  \<open>controllers/repo_manager/deployment.go\<close>: the Deployments of the API, content and worker
  components. The builder is a record that the setters fill one after the other; a setter that
  indexes an empty list of storages, or whose reflection asks for a field the component does
  not have, panics.
\<close>

subsection \<open>The builder\<close>

record CommonDeployment =
  cd_replicas :: "int option"
  cd_podLabels :: gomap
  cd_podSelectorLabels :: gomap
  cd_deploymentLabels :: gomap
  cd_affinity :: "json option"
  cd_strategy :: DeploymentStrategy
  cd_podSecurityContext :: "json option"
  cd_nodeSelector :: gomap
  cd_toleration :: "json list"
  cd_topologySpreadConstraint :: "json list"
  cd_envVars :: "EnvVar list"
  cd_volumes :: "Volume list"
  cd_volumeMounts :: "VolumeMount list"
  cd_resourceRequirements :: json
  cd_readinessProbe :: "json option"
  cd_livenessProbe :: "json option"
  cd_image :: string
  cd_containers :: "Container list"
  cd_podAnnotations :: gomap
  cd_deploymentAnnotations :: gomap
  cd_restartPolicy :: string
  cd_terminationPeriod :: "int option"
  cd_dnsPolicy :: string
  cd_schedulerName :: string
  cd_initContainerEnvVars :: "EnvVar list"
  cd_initContainerResourceRequirements :: json
  cd_initContainerVolumeMounts :: "VolumeMount list"
  cd_initContainerImage :: string
  cd_initContainers :: "Container list"

definition zero_CommonDeployment :: CommonDeployment where
  "zero_CommonDeployment = \<lparr>cd_replicas = None, cd_podLabels = [], cd_podSelectorLabels = [],
     cd_deploymentLabels = [], cd_affinity = None, cd_strategy = zero_DeploymentStrategy,
     cd_podSecurityContext = None, cd_nodeSelector = [], cd_toleration = [],
     cd_topologySpreadConstraint = [], cd_envVars = [], cd_volumes = [], cd_volumeMounts = [],
     cd_resourceRequirements = JNull, cd_readinessProbe = None, cd_livenessProbe = None,
     cd_image = [], cd_containers = [], cd_podAnnotations = [], cd_deploymentAnnotations = [],
     cd_restartPolicy = [], cd_terminationPeriod = None, cd_dnsPolicy = [], cd_schedulerName = [],
     cd_initContainerEnvVars = [], cd_initContainerResourceRequirements = JNull,
     cd_initContainerVolumeMounts = [], cd_initContainerImage = [], cd_initContainers = []\<rparr>"

text \<open>
  What the reflection reads of the component named after the type. The other types lack some
  of the fields: the reflection panics on them.
\<close>

record Component =
  cp_Replicas :: int
  cp_Affinity :: "json option"
  cp_Strategy :: DeploymentStrategy
  cp_NodeSelector :: gomap
  cp_Tolerations :: "json list"
  cp_TopologySpreadConstraints :: "json list"
  cp_ResourceRequirements :: json
  cp_ReadinessProbe :: "json option"
  cp_LivenessProbe :: "json option"
  cp_InitContainer :: PulpContainer
  cp_DeploymentAnnotations :: "gomap option"

fun component_of :: "PulpSpec \<Rightarrow> PulpcoreType \<Rightarrow> Component option" where
  "component_of spec API = (let a = Spec_Api spec in Some
    \<lparr>cp_Replicas = Api_Replicas a, cp_Affinity = Api_Affinity a, cp_Strategy = Api_Strategy a,
     cp_NodeSelector = Api_NodeSelector a, cp_Tolerations = Api_Tolerations a,
     cp_TopologySpreadConstraints = Api_TopologySpreadConstraints a,
     cp_ResourceRequirements = Api_ResourceRequirements a, cp_ReadinessProbe = Api_ReadinessProbe a,
     cp_LivenessProbe = Api_LivenessProbe a, cp_InitContainer = Api_InitContainer a,
     cp_DeploymentAnnotations = Api_DeploymentAnnotations a\<rparr>)"
| "component_of spec CONTENT = (let c = Spec_Content spec in Some
    \<lparr>cp_Replicas = Content_Replicas c, cp_Affinity = Content_Affinity c, cp_Strategy = Content_Strategy c,
     cp_NodeSelector = Content_NodeSelector c, cp_Tolerations = Content_Tolerations c,
     cp_TopologySpreadConstraints = Content_TopologySpreadConstraints c,
     cp_ResourceRequirements = Content_ResourceRequirements c, cp_ReadinessProbe = Content_ReadinessProbe c,
     cp_LivenessProbe = Content_LivenessProbe c, cp_InitContainer = Content_InitContainer c,
     cp_DeploymentAnnotations = Content_DeploymentAnnotations c\<rparr>)"
| "component_of spec WORKER = (let w = Spec_Worker spec in Some
    \<lparr>cp_Replicas = Worker_Replicas w, cp_Affinity = Worker_Affinity w, cp_Strategy = Worker_Strategy w,
     cp_NodeSelector = Worker_NodeSelector w, cp_Tolerations = Worker_Tolerations w,
     cp_TopologySpreadConstraints = Worker_TopologySpreadConstraints w,
     cp_ResourceRequirements = Worker_ResourceRequirements w, cp_ReadinessProbe = Worker_ReadinessProbe w,
     cp_LivenessProbe = Worker_LivenessProbe w, cp_InitContainer = Worker_InitContainer w,
     cp_DeploymentAnnotations = Worker_DeploymentAnnotations w\<rparr>)"
| "component_of spec _ = None"

text \<open>\<open>GunicornWorkers\<close>, \<open>GunicornTimeout\<close> and \<open>GunicornAccessLogformat\<close>.\<close>

fun gunicorn_of :: "PulpSpec \<Rightarrow> PulpcoreType \<Rightarrow> (int \<times> int \<times> string) option" where
  "gunicorn_of spec API = (let a = Spec_Api spec in
     Some (Api_GunicornWorkers a, Api_GunicornTimeout a, Api_GunicornAccessLogformat a))"
| "gunicorn_of spec CONTENT = (let c = Spec_Content spec in
     Some (Content_GunicornWorkers c, Content_GunicornTimeout c, Content_GunicornAccessLogformat c))"
| "gunicorn_of spec _ = None"

fun set_DeploymentAnnotations :: "PulpcoreType \<Rightarrow> gomap option \<Rightarrow> PulpSpec \<Rightarrow> PulpSpec" where
  "set_DeploymentAnnotations API v s = s\<lparr>Spec_Api := (Spec_Api s)\<lparr>Api_DeploymentAnnotations := v\<rparr>\<rparr>"
| "set_DeploymentAnnotations CONTENT v s = s\<lparr>Spec_Content := (Spec_Content s)\<lparr>Content_DeploymentAnnotations := v\<rparr>\<rparr>"
| "set_DeploymentAnnotations WORKER v s = s\<lparr>Spec_Worker := (Spec_Worker s)\<lparr>Worker_DeploymentAnnotations := v\<rparr>\<rparr>"
| "set_DeploymentAnnotations _ v s = s"

subsection \<open>Replicas, labels, annotations and scheduling\<close>

fun getHPAConfigForDeployment :: "Pulp \<Rightarrow> PulpcoreType \<Rightarrow> HPA option" where
  "getHPAConfigForDeployment pulp API = Api_HPA (Spec_Api (Pulp_Spec pulp))"
| "getHPAConfigForDeployment pulp CONTENT = Content_HPA (Spec_Content (Pulp_Spec pulp))"
| "getHPAConfigForDeployment pulp WORKER = Worker_HPA (Spec_Worker (Pulp_Spec pulp))"
| "getHPAConfigForDeployment pulp WEB = Web_HPA (Spec_Web (Pulp_Spec pulp))"
| "getHPAConfigForDeployment pulp CACHE = None"
| "getHPAConfigForDeployment pulp DATABASE = None"

definition setReplicas :: "Pulp \<Rightarrow> PulpcoreType \<Rightarrow> CommonDeployment \<Rightarrow> CommonDeployment option" where
  "setReplicas pulp t d =
    (case getHPAConfigForDeployment pulp t of
       Some hpaConfig \<Rightarrow>
         if HPA_Enabled hpaConfig then Some (d\<lparr>cd_replicas := None\<rparr>)
         else do { c \<leftarrow> component_of (Pulp_Spec pulp) t; Some (d\<lparr>cd_replicas := Some (cp_Replicas c)\<rparr>) }
     | None \<Rightarrow> do { c \<leftarrow> component_of (Pulp_Spec pulp) t; Some (d\<lparr>cd_replicas := Some (cp_Replicas c)\<rparr>) })"

definition setLabels :: "PulpcoreType \<Rightarrow> CommonDeployment \<Rightarrow> 'w St \<Rightarrow> CommonDeployment \<times> 'w St" where
  "setLabels t d s =
    (let (podLabels, p) = PulpcorePodLabels (st_pulp s) t;
         s = s\<lparr>st_pulp := p\<rparr>
     in (d\<lparr>cd_podLabels := podLabels, cd_podSelectorLabels := PulpcoreLabels (st_pulp s) t,
           cd_deploymentLabels := PulpcoreLabels (st_pulp s) t\<rparr>, s))"

definition setAffinity :: "Pulp \<Rightarrow> PulpcoreType \<Rightarrow> CommonDeployment \<Rightarrow> CommonDeployment option" where
  "setAffinity pulp t d =
    do { c \<leftarrow> component_of (Pulp_Spec pulp) t;
         Some (d\<lparr>cd_affinity := (case cp_Affinity c of None \<Rightarrow> Some (JObj []) | Some a \<Rightarrow> Some a)\<rparr>) }"

definition setStrategy :: "Pulp \<Rightarrow> PulpcoreType \<Rightarrow> CommonDeployment \<Rightarrow> CommonDeployment option" where
  "setStrategy pulp t d =
    do { c \<leftarrow> component_of (Pulp_Spec pulp) t;
         let strategy = cp_Strategy c;
         Some (d\<lparr>cd_strategy := (if strat_Type strategy = [] then strategy\<lparr>strat_Type := ''RollingUpdate''\<rparr> else strategy)\<rparr>) }"

definition setPodSecurityContext :: "CommonDeployment \<Rightarrow> CommonDeployment" where
  "setPodSecurityContext d = d\<lparr>cd_podSecurityContext := Some (JObj [(''runAsUser'', JNum 700), (''fsGroup'', JNum 700)])\<rparr>"

definition setNodeSelector :: "Pulp \<Rightarrow> PulpcoreType \<Rightarrow> CommonDeployment \<Rightarrow> CommonDeployment option" where
  "setNodeSelector pulp t d =
    do { c \<leftarrow> component_of (Pulp_Spec pulp) t; Some (d\<lparr>cd_nodeSelector := cp_NodeSelector c\<rparr>) }"

definition setTolerations :: "Pulp \<Rightarrow> PulpcoreType \<Rightarrow> CommonDeployment \<Rightarrow> CommonDeployment option" where
  "setTolerations pulp t d =
    do { c \<leftarrow> component_of (Pulp_Spec pulp) t; Some (d\<lparr>cd_toleration := cp_Tolerations c\<rparr>) }"

definition setTopologySpreadConstraints :: "Pulp \<Rightarrow> PulpcoreType \<Rightarrow> CommonDeployment \<Rightarrow> CommonDeployment option" where
  "setTopologySpreadConstraints pulp t d =
    do { c \<leftarrow> component_of (Pulp_Spec pulp) t; Some (d\<lparr>cd_topologySpreadConstraint := cp_TopologySpreadConstraints c\<rparr>) }"

text \<open>The annotations of the user are the map of the custom resource itself, which is written to.\<close>

definition setAnnotations :: "PulpcoreType \<Rightarrow> CommonDeployment \<Rightarrow> 'w St \<Rightarrow> (CommonDeployment \<times> 'w St) option" where
  "setAnnotations t d s =
    do { let pulp = st_pulp s;
         c \<leftarrow> component_of (Pulp_Spec pulp) t;
         let podAnnotations = [(''kubectl.kubernetes.io/default-container'', ToLower (PulpcoreType_string t))];
         let podAnnotations = (if Status_LastDeploymentUpdate (Pulp_Status pulp) \<noteq> []
               then gset ''repo-manager.pulpproject.org/restartedAt'' (Status_LastDeploymentUpdate (Pulp_Status pulp)) podAnnotations
               else podAnnotations);
         let annotations = gset ''ignore-check.kube-linter.io/no-node-affinity'' ''Do not check node affinity''
               (gset ''email'' ''pulp-dev@redhat.com''
                 (case cp_DeploymentAnnotations c of None \<Rightarrow> [] | Some m \<Rightarrow> m));
         let s = (if cp_DeploymentAnnotations c \<noteq> None
               then s\<lparr>st_pulp := upd_Spec (set_DeploymentAnnotations t (Some annotations)) pulp\<rparr> else s);
         Some (d\<lparr>cd_podAnnotations := podAnnotations, cd_deploymentAnnotations := annotations\<rparr>, s) }"

subsection \<open>Environment variables\<close>

definition secret_env :: "string \<Rightarrow> string \<Rightarrow> string \<Rightarrow> EnvVar" where
  "secret_env name secret key = \<lparr>env_Name = name, env_Value = [], env_ValueFrom = Some (SecretKeyRef secret key)\<rparr>"

definition default_logformat :: "PulpcoreType \<Rightarrow> string" where
  "default_logformat t =
    (if t = CONTENT
     then ''%a %t '' @ dq ''%r'' @ '' %s %b '' @ dq ''%{Referer}i'' @ '' '' @ dq ''%{User-Agent}i''
     else ''pulp [%({correlation-id}o)s]: %(h)s %(l)s %(u)s %(t)s '' @ dq ''%(r)s'' @ '' %(s)s %(b)s ''
       @ dq ''%(f)s'' @ '' '' @ dq ''%(a)s'')"

definition gunicorn_env :: "Pulp \<Rightarrow> PulpcoreType \<Rightarrow> EnvVar list option" where
  "gunicorn_env pulp t =
    (if t = WORKER then Some []
     else do {
       (gunicornWorkers, gunicornTimeout, logformat) \<leftarrow> gunicorn_of (Pulp_Spec pulp) t;
       let gunicornWorkers = (if Itoa gunicornWorkers = ''0'' then ''2'' else Itoa gunicornWorkers);
       let gunicornTimeout = (if Itoa gunicornTimeout = ''0'' then ''90'' else Itoa gunicornTimeout);
       let logformat = (if logformat = [] then default_logformat t else logformat);
       Some [plain_env ''PULP_GUNICORN_TIMEOUT'' gunicornTimeout,
             plain_env (''PULP_'' @ ToUpper (PulpcoreType_string t) @ ''_WORKERS'') gunicornWorkers,
             plain_env ''PULP_GUNICORN_ACCESS_LOGFORMAT'' logformat] })"

definition redis_env :: "Pulp \<Rightarrow> EnvVar list" where
  "redis_env pulp =
    (let cache = Spec_Cache (Pulp_Spec pulp) in
     if \<not> Cache_Enabled cache then []
     else if length (Cache_ExternalCacheSecret cache) = 0 then
       [plain_env ''REDIS_SERVICE_HOST'' (Pulp_Name pulp @ ''-redis-svc.'' @ Pulp_Namespace pulp),
        plain_env ''REDIS_SERVICE_PORT'' (if Cache_RedisPort cache = 0 then Itoa 6379 else Itoa (Cache_RedisPort cache))]
     else
       [secret_env ''REDIS_SERVICE_HOST'' (Cache_ExternalCacheSecret cache) ''REDIS_HOST'',
        secret_env ''REDIS_SERVICE_PORT'' (Cache_ExternalCacheSecret cache) ''REDIS_PORT'',
        secret_env ''REDIS_SERVICE_DB'' (Cache_ExternalCacheSecret cache) ''REDIS_DB'',
        secret_env ''REDIS_SERVICE_PASSWORD'' (Cache_ExternalCacheSecret cache) ''REDIS_PASSWORD''])"

definition signing_key_env :: "'w Externals \<Rightarrow> 'w St \<Rightarrow> (EnvVar list \<times> 'w St) option" where
  "signing_key_env X s =
    (let pulp = st_pulp s in
     if Spec_SigningSecret (Pulp_Spec pulp) \<noteq> [] then
       do { ((signingKeyFingerprint, _), s) \<leftarrow>
              GetSigningKeyFingerprint X (Spec_SigningSecret (Pulp_Spec pulp)) (Pulp_Namespace pulp) s;
            Some ([plain_env ''PULP_SIGNING_KEY_FINGERPRINT'' signingKeyFingerprint,
                   plain_env ''HOME'' ''/var/lib/pulp''], s) }
     else Some ([], s))"

definition setEnvVars :: "'w Externals \<Rightarrow> PulpcoreType \<Rightarrow> CommonDeployment \<Rightarrow> 'w St \<Rightarrow> (CommonDeployment \<times> 'w St) option" where
  "setEnvVars X t d s =
    do { let pulp = st_pulp s;
         envVars \<leftarrow> SetPulpcoreCustomEnvVars pulp t;
         gunicornEnvVars \<leftarrow> gunicorn_env pulp t;
         (signingKeyEnvVars, s) \<leftarrow> signing_key_env X s;
         Some (d\<lparr>cd_envVars := envVars @ gunicornEnvVars @ GetPostgresEnvVars pulp @ redis_env pulp @ signingKeyEnvVars\<rparr>, s) }"

definition setInitContainerEnvVars :: "Pulp \<Rightarrow> PulpcoreType \<Rightarrow> CommonDeployment \<Rightarrow> CommonDeployment option" where
  "setInitContainerEnvVars pulp t d =
    do { custom \<leftarrow> SetPulpcoreCustomEnvVars pulp t;
         Some (d\<lparr>cd_initContainerEnvVars := GetPostgresEnvVars pulp @ custom\<rparr>) }"

subsection \<open>Volumes and their mount points\<close>

definition empty_dir :: "string \<Rightarrow> Volume" where
  "empty_dir name = \<lparr>vol_Name = name, vol_Source = EmptyDirVolume\<rparr>"

definition claim_volume :: "string \<Rightarrow> Volume" where
  "claim_volume claim = \<lparr>vol_Name = ''file-storage'', vol_Source = PVCVolume claim\<rparr>"

definition mount :: "string \<Rightarrow> string \<Rightarrow> string \<Rightarrow> bool \<Rightarrow> VolumeMount" where
  "mount name path sub ro = \<lparr>vm_Name = name, vm_MountPath = path, vm_SubPath = sub, vm_ReadOnly = ro\<rparr>"

definition signingMetadataVolumes ::
  "'w Externals \<Rightarrow> string list \<Rightarrow> Volume list \<Rightarrow> 'w St \<Rightarrow> (Volume list \<times> 'w St) option" where
  "signingMetadataVolumes X storageType volumes s =
    (let pulp = st_pulp s in
     if Spec_SigningSecret (Pulp_Spec pulp) \<noteq> [] then
       do { storage \<leftarrow> index storageType 0;
            let volumes = (if storage \<noteq> SCNameType \<and> storage \<noteq> PVCType
                  then volumes @ [empty_dir ''ephemeral-gpg''] else volumes);
            let (secret, s) = get_secret_or_zero X (Spec_SigningScripts (Pulp_Spec pulp)) s;
            let secretItems = map (\<lambda>script. (script, script)) (script_names secret);
            Some (volumes @
              [\<lparr>vol_Name = ''gpg-keys'', vol_Source = SecretVolume (Spec_SigningSecret (Pulp_Spec pulp)) None
                  [(''signing_service.gpg'', ''signing_service.gpg'')]\<rparr>,
               \<lparr>vol_Name = Pulp_Name pulp @ ''-signing-scripts'',
                vol_Source = SecretVolume (Spec_SigningScripts (Pulp_Spec pulp)) (Some 493) secretItems\<rparr>], s) }
     else Some (volumes, s))"

definition worker_volumes :: "Pulp \<Rightarrow> Volume list" where
  "worker_volumes pulp =
    empty_dir (Pulp_Name pulp @ ''-ansible-tmp'') #
    (if Ipv6Disabled pulp
     then [\<lparr>vol_Name = Pulp_Name pulp @ ''-worker-probe'',
            vol_Source = ConfigMapVolume (Pulp_Name pulp @ ''-worker-probe'') (Some 493)
              [(''wait_on_postgres.py'', ''wait_on_postgres.py'')]\<rparr>]
     else [])"

definition storage_volumes :: "Pulp \<Rightarrow> string \<Rightarrow> Volume list" where
  "storage_volumes pulp storage =
    (if storage = SCNameType then [claim_volume (DefaultPulpFileStorage (Pulp_Name pulp))]
     else if storage = PVCType then [claim_volume (Spec_PVC (Pulp_Spec pulp))]
     else [])"

definition container_auth_volume :: "Pulp \<Rightarrow> Volume" where
  "container_auth_volume pulp =
    \<lparr>vol_Name = Pulp_Name pulp @ ''-container-auth-certs'',
     vol_Source = SecretVolume (Spec_ContainerTokenSecret (Pulp_Spec pulp)) None
       [(''container_auth_public_key.pem'', Spec_ContainerAuthPublicKey (Pulp_Spec pulp)),
        (''container_auth_private_key.pem'', Spec_ContainerAuthPrivateKey (Pulp_Spec pulp))]\<rparr>"

definition setVolumes :: "'w Externals \<Rightarrow> PulpcoreType \<Rightarrow> CommonDeployment \<Rightarrow> 'w St \<Rightarrow> (CommonDeployment \<times> 'w St) option" where
  "setVolumes X t d s =
    do { let pulp = st_pulp s;
         let volumes =
           [\<lparr>vol_Name = Pulp_Name pulp @ ''-server'',
             vol_Source = SecretVolume (PulpServerSecret (Pulp_Name pulp)) None [(''settings.py'', ''settings.py'')]\<rparr>,
            \<lparr>vol_Name = Pulp_Name pulp @ ''-db-fields-encryption'',
             vol_Source = SecretVolume (GetDBFieldsEncryptionSecret pulp) None
               [(''database_fields.symmetric.key'', ''database_fields.symmetric.key'')]\<rparr>];
         let volumes = (if t = WORKER then volumes @ worker_volumes pulp else volumes);
         let volumes = (if t = API
               then volumes @ [\<lparr>vol_Name = GetAdminSecretName pulp,
                 vol_Source = SecretVolume (GetAdminSecretName pulp) None [(''password'', ''admin-password'')]\<rparr>]
               else volumes);
         let storageType = GetStorageType pulp;
         storage \<leftarrow> index storageType 0;
         (volumes, s) \<leftarrow> signingMetadataVolumes X storageType (volumes @ storage_volumes pulp storage) s;
         let volumes = (if t = API then volumes @ [container_auth_volume pulp] else volumes);
         volumes \<leftarrow> SetCAVolumes pulp volumes;
         Some (d\<lparr>cd_volumes := volumes\<rparr>, s) }"

definition base_mounts :: "Pulp \<Rightarrow> VolumeMount list" where
  "base_mounts pulp =
    [mount (Pulp_Name pulp @ ''-server'') ''/etc/pulp/settings.py'' ''settings.py'' True,
     mount (Pulp_Name pulp @ ''-db-fields-encryption'') ''/etc/pulp/keys/database_fields.symmetric.key''
       ''database_fields.symmetric.key'' True]"

definition storage_mounts :: "string \<Rightarrow> VolumeMount list" where
  "storage_mounts storage =
    (if storage = SCNameType \<or> storage = PVCType then [mount ''file-storage'' ''/var/lib/pulp'' [] False] else [])"

text \<open>
  The scripts are read back from the volume of that name; a volume of another kind there is a
  nil dereference.
\<close>

definition script_mounts :: "Pulp \<Rightarrow> Volume list \<Rightarrow> VolumeMount list option" where
  "script_mounts pulp volumes =
    (case List.find (\<lambda>v. vol_Name v = Pulp_Name pulp @ ''-signing-scripts'') volumes of
       None \<Rightarrow> Some []
     | Some v \<Rightarrow>
         (case vol_Source v of
            SecretVolume _ _ items \<Rightarrow>
              Some (map (\<lambda>(key, _). mount (Pulp_Name pulp @ ''-signing-scripts'') (SigningScriptPath @ key) key True) items)
          | _ \<Rightarrow> None))"

definition setVolumeMounts :: "Pulp \<Rightarrow> PulpcoreType \<Rightarrow> CommonDeployment \<Rightarrow> CommonDeployment option" where
  "setVolumeMounts pulp t d =
    do { let volumeMounts = base_mounts pulp;
         let volumeMounts = (if t = WORKER
               then volumeMounts @ [mount (Pulp_Name pulp @ ''-ansible-tmp'') ''/.ansible/tmp'' [] False]
                 @ (if Ipv6Disabled pulp
                    then [mount (Pulp_Name pulp @ ''-worker-probe'') ''/usr/bin/wait_on_postgres.py'' ''wait_on_postgres.py'' False]
                    else [])
               else volumeMounts);
         let volumeMounts = (if t = API
               then volumeMounts @ [mount (GetAdminSecretName pulp) ''/etc/pulp/pulp-admin-password'' ''admin-password'' True]
               else volumeMounts);
         storage \<leftarrow> index (GetStorageType pulp) 0;
         let volumeMounts = volumeMounts @ storage_mounts storage;
         signing \<leftarrow> (if Spec_SigningSecret (Pulp_Spec pulp) \<noteq> [] then
               do { scripts \<leftarrow> script_mounts pulp (cd_volumes d);
                    Some ((if storage \<noteq> SCNameType \<and> storage \<noteq> PVCType
                           then [mount ''ephemeral-gpg'' ''/var/lib/pulp/.gnupg'' [] False] else []) @ scripts) }
             else Some []);
         let volumeMounts = volumeMounts @ signing;
         let volumeMounts = (if t = API \<and> Spec_ContainerTokenSecret (Pulp_Spec pulp) \<noteq> []
               then volumeMounts @
                 [mount (Pulp_Name pulp @ ''-container-auth-certs'') ''/etc/pulp/keys/container_auth_private_key.pem''
                    ''container_auth_private_key.pem'' True,
                  mount (Pulp_Name pulp @ ''-container-auth-certs'') ''/etc/pulp/keys/container_auth_public_key.pem''
                    ''container_auth_public_key.pem'' True]
               else volumeMounts);
         Some (d\<lparr>cd_volumeMounts := SetCAVolumeMounts pulp volumeMounts\<rparr>) }"

definition setInitContainerVolumeMounts :: "Pulp \<Rightarrow> CommonDeployment \<Rightarrow> CommonDeployment option" where
  "setInitContainerVolumeMounts pulp d =
    do { storage \<leftarrow> index (GetStorageType pulp) 0;
         Some (d\<lparr>cd_initContainerVolumeMounts := base_mounts pulp @ storage_mounts storage\<rparr>) }"

definition setLDAPConfigs :: "'w Externals \<Rightarrow> CommonDeployment \<Rightarrow> 'w St \<Rightarrow> CommonDeployment \<times> 'w St" where
  "setLDAPConfigs X d s =
    (let ldap = Spec_LDAP (Pulp_Spec (st_pulp s)) in
     if length (LDAP_CA ldap) = 0 then (d, s)
     else
       (let (secret, s) = get_secret_or_zero X (LDAP_Config ldap) s;
            mountPoint = gget (sec_Data secret) ''auth_ldap_ca_file''
        in (d\<lparr>cd_volumes := cd_volumes d @ [\<lparr>vol_Name = ''ldap-cert'',
                vol_Source = SecretVolume (LDAP_CA ldap) None [(''ca.crt'', ''ca.crt'')]\<rparr>],
              cd_volumeMounts := cd_volumeMounts d @ [mount ''ldap-cert'' mountPoint ''ca.crt'' True]\<rparr>, s)))"

subsection \<open>Probes, images and resources\<close>

definition exec_probe :: "string list \<Rightarrow> json" where
  "exec_probe command = JObj
    [(''exec'', JObj [(''command'', JArr (map JStr command))]), (''failureThreshold'', JNum 1),
     (''initialDelaySeconds'', JNum 3), (''periodSeconds'', JNum 10), (''successThreshold'', JNum 1),
     (''timeoutSeconds'', JNum 10)]"

definition setReadinessProbe :: "'w Externals \<Rightarrow> PulpcoreType \<Rightarrow> CommonDeployment \<Rightarrow> 'w St \<Rightarrow> (CommonDeployment \<times> 'w St) option" where
  "setReadinessProbe X t d s =
    do { c \<leftarrow> component_of (Pulp_Spec (st_pulp s)) t;
         case cp_ReadinessProbe c of
           Some probe \<Rightarrow> Some (d\<lparr>cd_readinessProbe := Some probe\<rparr>, s)
         | None \<Rightarrow>
             if t = API then
               (let (root, s) = GetAPIRoot X s
                in Some (d\<lparr>cd_readinessProbe := Some (exec_probe [''/usr/bin/readyz.py'', root @ ''api/v3/status/''])\<rparr>, s))
             else if t = CONTENT then
               (let (prefix, s) = GetContentPathPrefix X s
                in Some (d\<lparr>cd_readinessProbe := Some (exec_probe [''/usr/bin/readyz.py'', prefix])\<rparr>, s))
             else if t = WORKER then
               Some (d\<lparr>cd_readinessProbe := Some (exec_probe [''/usr/bin/wait_on_postgres.py''])\<rparr>, s)
             else Some (d\<lparr>cd_readinessProbe := None\<rparr>, s) }"

definition setLivenessProbe :: "'w Externals \<Rightarrow> PulpcoreType \<Rightarrow> CommonDeployment \<Rightarrow> 'w St \<Rightarrow> (CommonDeployment \<times> 'w St) option" where
  "setLivenessProbe X t d s =
    do { c \<leftarrow> component_of (Pulp_Spec (st_pulp s)) t;
         if t = API \<and> cp_LivenessProbe c = None then
           (let (root, s) = GetAPIRoot X s
            in Some (d\<lparr>cd_livenessProbe := Some (JObj
                 [(''failureThreshold'', JNum 10),
                  (''httpGet'', JObj [(''path'', JStr (root @ ''api/v3/status/'')), (''port'', JNum 24817),
                                     (''scheme'', JStr ''HTTP'')]),
                  (''initialDelaySeconds'', JNum 3), (''periodSeconds'', JNum 20), (''successThreshold'', JNum 1),
                  (''timeoutSeconds'', JNum 10)])\<rparr>, s))
         else Some (d\<lparr>cd_livenessProbe := cp_LivenessProbe c\<rparr>, s) }"

definition setResourceRequirements :: "Pulp \<Rightarrow> PulpcoreType \<Rightarrow> CommonDeployment \<Rightarrow> CommonDeployment option" where
  "setResourceRequirements pulp t d =
    do { c \<leftarrow> component_of (Pulp_Spec pulp) t; Some (d\<lparr>cd_resourceRequirements := cp_ResourceRequirements c\<rparr>) }"

definition setInitContainerResourceRequirements :: "Pulp \<Rightarrow> PulpcoreType \<Rightarrow> CommonDeployment \<Rightarrow> CommonDeployment option" where
  "setInitContainerResourceRequirements pulp t d =
    do { c \<leftarrow> component_of (Pulp_Spec pulp) t;
         Some (d\<lparr>cd_initContainerResourceRequirements := PulpContainer_ResourceRequirements (cp_InitContainer c)\<rparr>) }"

definition setImage :: "'w Externals \<Rightarrow> Pulp \<Rightarrow> CommonDeployment \<Rightarrow> CommonDeployment" where
  "setImage X pulp d =
    (let img = x_Getenv X ''RELATED_IMAGE_PULP'';
         img = (if length (Spec_Image (Pulp_Spec pulp)) > 0 \<and> length (Spec_ImageVersion (Pulp_Spec pulp)) > 0
                then Spec_Image (Pulp_Spec pulp) @ '':'' @ Spec_ImageVersion (Pulp_Spec pulp)
                else if img = [] then ''quay.io/pulp/pulp-minimal:stable'' else img)
     in d\<lparr>cd_image := img\<rparr>)"

definition setInitContainerImage :: "Pulp \<Rightarrow> PulpcoreType \<Rightarrow> CommonDeployment \<Rightarrow> CommonDeployment option" where
  "setInitContainerImage pulp t d =
    do { c \<leftarrow> component_of (Pulp_Spec pulp) t;
         let img = PulpContainer_Image (cp_InitContainer c);
         Some (d\<lparr>cd_initContainerImage := (if length img = 0 then cd_image d else img)\<rparr>) }"

definition setRestartPolicy :: "CommonDeployment \<Rightarrow> CommonDeployment" where
  "setRestartPolicy d = d\<lparr>cd_restartPolicy := ''Always''\<rparr>"

definition setTerminationPeriod :: "CommonDeployment \<Rightarrow> CommonDeployment" where
  "setTerminationPeriod d = d\<lparr>cd_terminationPeriod := Some 30\<rparr>"

definition setDnsPolicy :: "CommonDeployment \<Rightarrow> CommonDeployment" where
  "setDnsPolicy d = d\<lparr>cd_dnsPolicy := ''ClusterFirst''\<rparr>"

definition setSchedulerName :: "CommonDeployment \<Rightarrow> CommonDeployment" where
  "setSchedulerName d = d\<lparr>cd_schedulerName := ''default-scheduler''\<rparr>"

subsection \<open>Containers\<close>

definition gpg_resources :: json where
  "gpg_resources =
    (let amount = JObj [(''cpu'', JStr ''50m''), (''memory'', JStr ''128Mi'')]
     in JObj [(''requests'', amount), (''limits'', amount)])"

definition setGpgInitContainer :: "'w Externals \<Rightarrow> 'w St \<Rightarrow> (Container \<times> 'w St) option" where
  "setGpgInitContainer X s =
    do { let pulp = st_pulp s;
         storage \<leftarrow> index (GetStorageType pulp) 0;
         let volumeMounts = mount ''gpg-keys'' ''/etc/pulp/keys/signing_service.gpg'' ''signing_service.gpg'' True #
           (if storage = SCNameType \<or> storage = PVCType then [mount ''file-storage'' ''/var/lib/pulp'' [] False]
            else [mount ''ephemeral-gpg'' ''/var/lib/pulp/.gnupg'' [] False]);
         ((signingKeyFingerprint, _), s) \<leftarrow>
           GetSigningKeyFingerprint X (Spec_SigningSecret (Pulp_Spec pulp)) (Pulp_Namespace pulp) s;
         Some (zero_Container\<lparr>
           ctr_Name := ''gpg-config'',
           ctr_Image := signingScriptContainerImage pulp,
           ctr_ImagePullPolicy := Spec_ImagePullPolicy (Pulp_Spec pulp),
           ctr_Env := [plain_env ''PULP_SIGNING_KEY_FINGERPRINT'' signingKeyFingerprint, plain_env ''HOME'' ''/var/lib/pulp''],
           ctr_Command := [''/bin/sh'', ''-c''],
           ctr_Args := [block [''gpg --batch --import /etc/pulp/keys/signing_service.gpg'',
             ''echo '' @ dq ''${PULP_SIGNING_KEY_FINGERPRINT}:6'' @ '' | gpg --import-ownertrust'']],
           ctr_Resources := gpg_resources,
           ctr_VolumeMounts := volumeMounts,
           ctr_SecurityContext := Some SetDefaultSecurityContext\<rparr>, s) }"

definition setInitContainers :: "'w Externals \<Rightarrow> PulpcoreType \<Rightarrow> CommonDeployment \<Rightarrow> 'w St \<Rightarrow> (CommonDeployment \<times> 'w St) option" where
  "setInitContainers X t d s =
    do { let pulp = st_pulp s;
         let wait = [''/usr/bin/wait_on_postgres.py'', ''/usr/bin/wait_on_database_migrations.sh''];
         let script = (if t = API then ''mkdir -p /var/lib/pulp/{media,assets,tmp}'' # wait else wait);
         let initContainers = [zero_Container\<lparr>
           ctr_Name := ''init-container'',
           ctr_Image := cd_initContainerImage d,
           ctr_ImagePullPolicy := Spec_ImagePullPolicy (Pulp_Spec pulp),
           ctr_Env := cd_initContainerEnvVars d,
           ctr_Command := [''/bin/sh''],
           ctr_Args := [''-c'', raw [] script],
           ctr_VolumeMounts := cd_initContainerVolumeMounts d,
           ctr_Resources := cd_initContainerResourceRequirements d,
           ctr_SecurityContext := Some SetDefaultSecurityContext\<rparr>];
         if length (Spec_SigningSecret (Pulp_Spec pulp)) > 0 then
           do { (gpg, s) \<leftarrow> setGpgInitContainer X s; Some (d\<lparr>cd_initContainers := initContainers @ [gpg]\<rparr>, s) }
         else Some (d\<lparr>cd_initContainers := initContainers\<rparr>, s) }"

definition backslash :: string where
  "backslash = [CHR 0x5C]"

definition gunicorn_script :: "string \<Rightarrow> string \<Rightarrow> string \<Rightarrow> string \<Rightarrow> string list" where
  "gunicorn_script command var gunicorn address =
    [''if which '' @ command, ''then'', ''  '' @ var @ ''=('' @ dq command @ '')'', ''else'',
     ''  '' @ var @ ''=('' @ gunicorn @ '')'', ''fi'',
     ''exec '' @ dq (''${'' @ var @ ''[@]}'') @ '' '' @ backslash,
     ''--bind '' @ dq address @ '' '' @ backslash]"

definition pulpcoreApiContainerArgs :: "Pulp \<Rightarrow> string list" where
  "pulpcoreApiContainerArgs pulp =
    (let gunicornBindAddress = (if Ipv6Disabled pulp then ''0.0.0.0:24817'' else ''[::]:24817'')
     in [''-c'', raw []
       (gunicorn_script ''pulpcore-api'' ''PULP_API_ENTRYPOINT''
          (dq ''gunicorn'' @ '' '' @ dq ''pulpcore.app.wsgi:application'' @ '' '' @ dq ''--name'' @ '' '' @ dq ''pulp-api'')
          gunicornBindAddress @
        [''--timeout '' @ dq ''${PULP_GUNICORN_TIMEOUT}'' @ '' '' @ backslash,
         ''--workers '' @ dq ''${PULP_API_WORKERS}'' @ '' '' @ backslash,
         ''--access-logformat '' @ dq ''${PULP_GUNICORN_ACCESS_LOGFORMAT}'' @ '' '' @ backslash,
         ''--access-logfile -''])])"

definition pulpcoreContentContainerArgs :: "Pulp \<Rightarrow> string list" where
  "pulpcoreContentContainerArgs pulp =
    (let gunicornBindAddress = (if Ipv6Disabled pulp then ''0.0.0.0:24816'' else ''[::]:24816'')
     in [''-c'', block
       (gunicorn_script ''pulpcore-content'' ''PULP_CONTENT_ENTRYPOINT''
          (dq ''gunicorn'' @ '' '' @ dq ''pulpcore.content:server'' @ '' '' @ dq ''--worker-class'' @ '' ''
             @ dq ''aiohttp.GunicornWebWorker'' @ '' '' @ dq ''--name'' @ '' '' @ dq ''pulp-content'')
          gunicornBindAddress @
        [''--timeout '' @ dq ''${PULP_GUNICORN_TIMEOUT}'' @ '' '' @ backslash,
         ''--workers '' @ dq ''${PULP_CONTENT_WORKERS}'' @ '' '' @ backslash,
         ''--access-logformat '' @ dq ''${PULP_GUNICORN_ACCESS_LOGFORMAT}'' @ '' '' @ backslash,
         ''--access-logfile -''])])"

definition tcp_port :: "int \<Rightarrow> json" where
  "tcp_port p = JObj [(''containerPort'', JNum p), (''protocol'', JStr ''TCP'')]"

definition setContainers :: "Pulp \<Rightarrow> PulpcoreType \<Rightarrow> CommonDeployment \<Rightarrow> CommonDeployment" where
  "setContainers pulp t d =
    (let common = zero_Container\<lparr>
           ctr_Image := cd_image d,
           ctr_ImagePullPolicy := Spec_ImagePullPolicy (Pulp_Spec pulp),
           ctr_Env := cd_envVars d,
           ctr_LivenessProbe := cd_livenessProbe d,
           ctr_ReadinessProbe := cd_readinessProbe d,
           ctr_Resources := cd_resourceRequirements d,
           ctr_VolumeMounts := cd_volumeMounts d,
           ctr_SecurityContext := Some SetDefaultSecurityContext\<rparr>
     in d\<lparr>cd_containers :=
          (if t = API then
             [common\<lparr>ctr_Name := ''api'', ctr_Command := [''/bin/sh''], ctr_Args := pulpcoreApiContainerArgs pulp,
                     ctr_Ports := [tcp_port 24817]\<rparr>]
           else if t = CONTENT then
             [common\<lparr>ctr_Name := ''content'', ctr_Command := [''/bin/sh''], ctr_Args := pulpcoreContentContainerArgs pulp,
                     ctr_Ports := [tcp_port 24816]\<rparr>]
           else if t = WORKER then
             [common\<lparr>ctr_Name := ''worker'', ctr_Command := [''/usr/bin/pulp-worker'']\<rparr>]
           else [])\<rparr>)"

subsection \<open>Telemetry\<close>

definition telemetryContainerImage :: "'w Externals \<Rightarrow> Pulp \<Rightarrow> string" where
  "telemetryContainerImage X pulp =
    (let tel = Spec_Telemetry (Pulp_Spec pulp);
         telemetryImage = x_Getenv X ''RELATED_OTEL_COLLECTOR_IMAGE''
     in if length (Telemetry_OpenTelemetryCollectorImage tel) > 0 \<and>
           length (Telemetry_OpenTelemetryCollectorImageVersion tel) > 0
        then Telemetry_OpenTelemetryCollectorImage tel @ '':'' @ Telemetry_OpenTelemetryCollectorImageVersion tel
        else if telemetryImage = [] then ''docker.io/otel/opentelemetry-collector:latest''
        else telemetryImage)"

definition telemetryEnvVars :: "Pulp \<Rightarrow> EnvVar list" where
  "telemetryEnvVars pulp =
    [plain_env ''PULP_OTEL_ENABLED'' (if Telemetry_Enabled (Spec_Telemetry (Pulp_Spec pulp)) then ''true'' else ''false''),
     plain_env ''OTEL_EXPORTER_OTLP_PROTOCOL'' (Telemetry_ExporterOtlpProtocol (Spec_Telemetry (Pulp_Spec pulp))),
     plain_env ''OTEL_EXPORTER_OTLP_ENDPOINT'' ''http://localhost:4318'']"

text \<open>\<open>setResourceRequirements\<close> of \<open>telemetry.go\<close>; the zero value is left out or written as \<open>{}\<close>.\<close>

definition setResourceRequirements_otel :: "Pulp \<Rightarrow> json" where
  "setResourceRequirements_otel pulp =
    (let requirements = Telemetry_ResourceRequirements (Spec_Telemetry (Pulp_Spec pulp))
     in if requirements = JNull \<or> requirements = JObj []
        then JObj [(''requests'', JObj [(''cpu'', JStr ''50m''), (''memory'', JStr ''128Mi'')])]
        else requirements)"

definition telemetry_args :: "string list" where
  "telemetry_args =
    (let q = (\<lambda>t. backslash @ dq (t @ backslash)) in
     [raw []
      [''if which pulpcore-api'', ''then'', ''  PULP_API_ENTRYPOINT=('' @ dq ''pulpcore-api'' @ '')'', ''else'',
       ''  PULP_API_ENTRYPOINT=('' @ dq ''gunicorn'' @ '' '' @ dq ''pulpcore.app.wsgi:application'' @ '' '' @ dq ''--bind''
         @ '' '' @ dq ''[::]:24817'' @ '' '' @ dq ''--name'' @ '' '' @ dq ''pulp-api'' @ '' '' @ dq ''--access-logformat''
         @ '' '' @ dq (''pulp [%({correlation-id}o)s]: %(h)s %(l)s %(u)s %(t)s '' @ q ''%(r)s'' @ '' %(s)s %(b)s ''
             @ q ''%(f)s'' @ '' '' @ q ''%(a)s'') @ '')'',
       ''fi'', [], ''exec '' @ dq ''${PULP_API_ENTRYPOINT[@]}'' @ '' '' @ backslash,
       ''--timeout '' @ dq ''${PULP_GUNICORN_TIMEOUT}'' @ '' '' @ backslash,
       ''--workers '' @ dq ''${PULP_API_WORKERS}'' @ '' '' @ backslash, ''--access-logfile -'']])"

definition telemetryConfig ::
  "'w Externals \<Rightarrow> Pulp \<Rightarrow> EnvVar list \<Rightarrow> Container list \<Rightarrow> Volume list \<Rightarrow> PulpcoreType \<Rightarrow>
    (Container list \<times> Volume list) option" where
  "telemetryConfig X pulp envVars containers volumes t =
    (if \<not> Telemetry_Enabled (Spec_Telemetry (Pulp_Spec pulp)) \<or> t \<noteq> API then Some (containers, volumes)
     else do {
       first \<leftarrow> index containers 0;
       let first = first\<lparr>ctr_Env := envVars @ telemetryEnvVars pulp, ctr_Command := [''/bin/sh'', ''-c''],
             ctr_Args := telemetry_args\<rparr>;
       let sidecar = zero_Container\<lparr>
             ctr_Name := ''otel-collector-sidecar'',
             ctr_Image := telemetryContainerImage X pulp,
             ctr_ImagePullPolicy := Spec_ImagePullPolicy (Pulp_Spec pulp),
             ctr_Ports := [tcp_port OtelContainerPort],
             ctr_Args := [''--config'', ''file:/etc/otelcol-contrib/'' @ OtelConfigFile],
             ctr_VolumeMounts := [mount ''otel-collector-config'' (''/etc/otelcol-contrib/'' @ OtelConfigFile) OtelConfigFile True],
             ctr_Resources := setResourceRequirements_otel pulp,
             ctr_SecurityContext := Some SetDefaultSecurityContext\<rparr>;
       Some (containers[0 := first] @ [sidecar],
             volumes @ [\<lparr>vol_Name = ''otel-collector-config'',
               vol_Source = ConfigMapVolume (OtelConfigMapName (Pulp_Name pulp)) None []\<rparr>]) })"

definition setTelemetryConfig :: "'w Externals \<Rightarrow> Pulp \<Rightarrow> PulpcoreType \<Rightarrow> CommonDeployment \<Rightarrow> CommonDeployment option" where
  "setTelemetryConfig X pulp t d =
    do { (containers, volumes) \<leftarrow> telemetryConfig X pulp (cd_envVars d) (cd_containers d) (cd_volumes d) t;
         Some (d\<lparr>cd_containers := containers, cd_volumes := volumes\<rparr>) }"

definition otel_config :: string where
  "otel_config = newline @ block
    [''receivers:'', ''  otlp:'', ''    protocols:'', ''      http:'', [], ''exporters:'', ''  prometheus:'',
     ''    endpoint: '' @ dq ''0.0.0.0:8889'', ''  otlp:'', ''    endpoint: localhost:4317'', [], ''service:'',
     ''  pipelines:'', ''    metrics:'', ''      receivers: [otlp]'', ''      processors: []'',
     ''      exporters: [prometheus]'', ''    traces:'', ''      receivers: [otlp]'', ''      processors: []'',
     ''      exporters: [otlp]'']"

definition OtelConfigMap :: "'w provisioner" where
  "OtelConfigMap s =
    (let pulp = st_pulp s in
     Some (ConfigMapObj \<lparr>
       cm_Meta = set_controller (Pulp_Name pulp) (zero_ObjectMeta\<lparr>meta_Name := OtelConfigMapName (Pulp_Name pulp),
         meta_Namespace := Pulp_Namespace pulp, meta_Labels := CommonLabels pulp\<rparr>),
       cm_Data = [(OtelConfigFile, otel_config)]\<rparr>, s))"

definition cluster_ip_spec :: "ServicePort list \<Rightarrow> gomap \<Rightarrow> ServiceSpec" where
  "cluster_ip_spec ports selector = zero_ServiceSpec\<lparr>
     sspec_InternalTrafficPolicy := Some ''Cluster'', sspec_IPFamilies := [''IPv4''],
     sspec_IPFamilyPolicy := Some ''SingleStack'', sspec_Ports := ports, sspec_Selector := selector,
     sspec_SessionAffinity := ''None'', sspec_Type := ''ClusterIP''\<rparr>"

definition tcp_service_port :: "string \<Rightarrow> int \<Rightarrow> int \<Rightarrow> ServicePort" where
  "tcp_service_port name port target =
    \<lparr>sport_Name = name, sport_Port = port, sport_Protocol = ''TCP'', sport_TargetPort = target, sport_NodePort = 0\<rparr>"

definition ServiceOtel :: "'w provisioner" where
  "ServiceOtel s =
    (let pulp = st_pulp s in
     Some (ServiceObj \<lparr>
       svc_Meta = set_controller (Pulp_Name pulp) (zero_ObjectMeta\<lparr>meta_Name := OtelServiceName (Pulp_Name pulp),
         meta_Namespace := Pulp_Namespace pulp, meta_Labels := gset ''otel'' [] (CommonLabels pulp)\<rparr>),
       svc_Spec = (cluster_ip_spec
           [tcp_service_port (''otel-'' @ Itoa OtelContainerPort) OtelContainerPort OtelContainerPort]
           (PulpcoreLabels pulp API))\<lparr>sspec_PublishNotReadyAddresses := True\<rparr>\<rparr>, s))"

definition RemoveTelemetryResources :: "'w Externals \<Rightarrow> 'w St \<Rightarrow> 'w St" where
  "RemoveTelemetryResources X s =
    (let pulp = st_pulp s;
         s = delete_if_found X KConfigMap (OtelConfigMapName (Pulp_Name pulp)) (Pulp_Namespace pulp) s;
         s = delete_if_found X KService (OtelServiceName (Pulp_Name pulp)) (Pulp_Namespace pulp) s
     in snd (Status_Update X (set_Status (\<lambda>st. st\<lparr>Status_TelemetryEnabled := False\<rparr>) s)))"

subsection \<open>The Deployment\<close>

definition build :: "'w Externals \<Rightarrow> PulpcoreType \<Rightarrow> CommonDeployment \<Rightarrow> 'w St \<Rightarrow> (CommonDeployment \<times> 'w St) option" where
  "build X t d s =
    do { d \<leftarrow> setReplicas (st_pulp s) t d;
         (d, s) \<leftarrow> setEnvVars X t d s;
         d \<leftarrow> setStrategy (st_pulp s) t d;
         let (d, s) = setLabels t d s;
         (d, s) \<leftarrow> setAnnotations t d s;
         d \<leftarrow> setAffinity (st_pulp s) t d;
         let d = setPodSecurityContext d;
         d \<leftarrow> setNodeSelector (st_pulp s) t d;
         d \<leftarrow> setTolerations (st_pulp s) t d;
         (d, s) \<leftarrow> setVolumes X t d s;
         d \<leftarrow> setVolumeMounts (st_pulp s) t d;
         d \<leftarrow> setResourceRequirements (st_pulp s) t d;
         (d, s) \<leftarrow> setLivenessProbe X t d s;
         (d, s) \<leftarrow> setReadinessProbe X t d s;
         let d = setImage X (st_pulp s) d;
         d \<leftarrow> setTopologySpreadConstraints (st_pulp s) t d;
         d \<leftarrow> setInitContainerResourceRequirements (st_pulp s) t d;
         d \<leftarrow> setInitContainerImage (st_pulp s) t d;
         d \<leftarrow> setInitContainerVolumeMounts (st_pulp s) d;
         d \<leftarrow> setInitContainerEnvVars (st_pulp s) t d;
         let (d, s) = setLDAPConfigs X d s;
         (d, s) \<leftarrow> setInitContainers X t d s;
         let d = setContainers (st_pulp s) t d;
         let d = setSchedulerName (setDnsPolicy (setTerminationPeriod (setRestartPolicy d)));
         d \<leftarrow> setTelemetryConfig X (st_pulp s) t d;
         Some (d, s) }"

definition AddHashLabel :: "'w Externals \<Rightarrow> Deployment \<Rightarrow> 'w St \<Rightarrow> Deployment \<times> 'w St" where
  "AddHashLabel X deployment s =
    (let ((err, obj), s) = call (x_DryRunCreate X (DeploymentObj deployment)) s;
         ((hash, deployment), s) =
           (if err \<noteq> None then HashFromMutated X deployment s
            else (let deployment = as_dep deployment obj;
                      depCopy = (if isHPAManagedDeployment (meta_Name (dep_Meta deployment)) (st_pulp s)
                                 then drop_replicas deployment else deployment)
                  in ((CalculateDeploymentHash X (dep_Spec depCopy), deployment), s)))
     in (deployment\<lparr>dep_Meta := SetHashLabel hash (dep_Meta deployment)\<rparr>, s))"

definition deployment_of :: "Pulp \<Rightarrow> PulpcoreType \<Rightarrow> CommonDeployment \<Rightarrow> Deployment" where
  "deployment_of pulp t d = zero_Deployment\<lparr>
     dep_Meta := zero_ObjectMeta\<lparr>meta_Name := DeploymentName t (Pulp_Name pulp), meta_Namespace := Pulp_Namespace pulp,
       meta_Annotations := cd_deploymentAnnotations d, meta_Labels := cd_deploymentLabels d\<rparr>,
     dep_Spec := \<lparr>dspec_Replicas = cd_replicas d, dspec_Strategy = cd_strategy d, dspec_Selector = cd_podSelectorLabels d,
       dspec_Template = \<lparr>tmpl_Labels = cd_podLabels d, tmpl_Annotations = cd_podAnnotations d,
         tmpl_Spec = zero_PodSpec\<lparr>pod_Affinity := cd_affinity d, pod_SecurityContext := cd_podSecurityContext d,
           pod_NodeSelector := cd_nodeSelector d, pod_Tolerations := cd_toleration d, pod_Volumes := cd_volumes d,
           pod_ServiceAccountName := PulpServiceAccount (Pulp_Name pulp),
           pod_TopologySpreadConstraints := cd_topologySpreadConstraint d, pod_InitContainers := cd_initContainers d,
           pod_Containers := cd_containers d, pod_RestartPolicy := cd_restartPolicy d,
           pod_TerminationGracePeriodSeconds := cd_terminationPeriod d, pod_DNSPolicy := cd_dnsPolicy d,
           pod_SchedulerName := cd_schedulerName d\<rparr>\<rparr>\<rparr>\<rparr>"

definition own_deployment :: "Pulp \<Rightarrow> Deployment \<Rightarrow> Deployment" where
  "own_deployment pulp dep = dep\<lparr>dep_Meta := set_controller (Pulp_Name pulp) (dep_Meta dep)\<rparr>"

definition Deploy :: "'w Externals \<Rightarrow> PulpcoreType \<Rightarrow> 'w St \<Rightarrow> (Deployment \<times> 'w St) option" where
  "Deploy X t s =
    do { (d, s) \<leftarrow> build X t zero_CommonDeployment s;
         let (dep, s) = AddHashLabel X (deployment_of (st_pulp s) t d) s;
         Some (own_deployment (st_pulp s) dep, s) }"

text \<open>On OpenShift the security context is left to the cluster, and the hash is taken again.\<close>

definition defaultsForOCPDeployment :: "Deployment \<Rightarrow> Deployment" where
  "defaultsForOCPDeployment deployment = deployment\<lparr>dep_Spec := (dep_Spec deployment)\<lparr>dspec_Template :=
     (dspec_Template (dep_Spec deployment))\<lparr>tmpl_Spec :=
       (tmpl_Spec (dspec_Template (dep_Spec deployment)))\<lparr>pod_SecurityContext := Some (JObj [])\<rparr>\<rparr>\<rparr>\<rparr>"

definition Deploy_OCP :: "'w Externals \<Rightarrow> PulpcoreType \<Rightarrow> 'w St \<Rightarrow> (Deployment \<times> 'w St) option" where
  "Deploy_OCP X t s =
    do { (deployment, s) \<leftarrow> Deploy X t s;
         Some (AddHashLabel X (defaultsForOCPDeployment deployment) s) }"

datatype deploymentType = API_DEPLOYMENT | CONTENT_DEPLOYMENT | WORKER_DEPLOYMENT

fun deployed_type :: "deploymentType \<Rightarrow> PulpcoreType" where
  "deployed_type API_DEPLOYMENT = API"
| "deployed_type CONTENT_DEPLOYMENT = CONTENT"
| "deployed_type WORKER_DEPLOYMENT = WORKER"

text \<open>The implementations of the interface \<open>Deployer\<close>: per type, on OpenShift or not.\<close>

datatype Deployer = DeploymentVanilla PulpcoreType | DeploymentOCP PulpcoreType

definition initDeployment :: "'w Externals \<Rightarrow> deploymentType \<Rightarrow> 'w St \<Rightarrow> Deployer \<times> 'w St" where
  "initDeployment X dt s =
    (let ((isOpenshift, _), s) = IsOpenShift X s
     in (if isOpenshift then DeploymentOCP (deployed_type dt) else DeploymentVanilla (deployed_type dt), s))"

fun Deployer_Deploy :: "'w Externals \<Rightarrow> Deployer \<Rightarrow> 'w provisioner" where
  "Deployer_Deploy X (DeploymentVanilla t) s = do { (dep, s) \<leftarrow> Deploy X t s; Some (DeploymentObj dep, s) }"
| "Deployer_Deploy X (DeploymentOCP t) s = do { (dep, s) \<leftarrow> Deploy_OCP X t s; Some (DeploymentObj dep, s) }"

end
