(* ===== verification/Deployment_Facts.thy ===== *)
theory Deployment_Facts
  imports Deployment_Builder
begin

text \<open>
  What the pulpcore Deployments promise: each setter of the builder changes its own fields only
  and leaves the custom resource alone, but for the labels and annotations, which Go writes
  into the maps of the resource; every mount point has its volume; the selector matches the
  labels of the pods; a variable the operator sets cannot be overridden by the user.
\<close>

subsection \<open>Frames\<close>

lemma GetSigningKeyFingerprint_frame:
  "GetSigningKeyFingerprint X n ns s = Some (r, s') \<Longrightarrow> st_pulp s' = st_pulp s"
  by (auto simp: GetSigningKeyFingerprint_def split_beta split: sum.splits bind_splits)

lemma get_secret_or_zero_frame [simp]: "st_pulp (snd (get_secret_or_zero X n s)) = st_pulp s"
  by (simp add: get_secret_or_zero_def split_beta)

lemma GetAPIRoot_frame [simp]: "st_pulp (snd (GetAPIRoot X s)) = st_pulp s"
  by (simp add: GetAPIRoot_def split_beta Let_def)

lemma domainEnabled_frame [simp]: "st_pulp (snd (domainEnabled X s)) = st_pulp s"
  by (simp add: domainEnabled_def split_beta Let_def)

lemma GetContentPathPrefix_frame [simp]: "st_pulp (snd (GetContentPathPrefix X s)) = st_pulp s"
  by (simp add: GetContentPathPrefix_def split_beta Let_def)

lemma signing_key_env_frame: "signing_key_env X s = Some (vs, s') \<Longrightarrow> st_pulp s' = st_pulp s"
  by (auto simp: signing_key_env_def Let_def split: if_splits bind_splits dest: GetSigningKeyFingerprint_frame)

lemma signingMetadataVolumes_frame:
  "signingMetadataVolumes X st vs s = Some (vs', s') \<Longrightarrow> st_pulp s' = st_pulp s"
  by (auto simp: signingMetadataVolumes_def Let_def split_beta split: if_splits bind_splits)

text \<open>What a setter leaves alone; the rules are used by \<open>dest\<close> on the steps of \<open>build\<close>.\<close>

lemma setEnvVars_frame:
  "setEnvVars X t d s = Some (d', s') \<Longrightarrow> st_pulp s' = st_pulp s \<and> (\<exists>vs. d' = d\<lparr>cd_envVars := vs\<rparr>)"
  by (auto simp: setEnvVars_def Let_def split: bind_splits dest: signing_key_env_frame)

lemma setVolumes_frame:
  "setVolumes X t d s = Some (d', s') \<Longrightarrow> st_pulp s' = st_pulp s \<and> (\<exists>vs. d' = d\<lparr>cd_volumes := vs\<rparr>)"
  by (auto simp: setVolumes_def Let_def split: bind_splits dest: signingMetadataVolumes_frame)

lemma setLivenessProbe_frame:
  "setLivenessProbe X t d s = Some (d', s') \<Longrightarrow> st_pulp s' = st_pulp s \<and> (\<exists>p. d' = d\<lparr>cd_livenessProbe := p\<rparr>)"
  by (auto simp: setLivenessProbe_def Let_def split_beta split: bind_splits if_splits)

lemma setReadinessProbe_frame:
  "setReadinessProbe X t d s = Some (d', s') \<Longrightarrow> st_pulp s' = st_pulp s \<and> (\<exists>p. d' = d\<lparr>cd_readinessProbe := p\<rparr>)"
  by (auto simp: setReadinessProbe_def Let_def split_beta split: bind_splits if_splits option.splits)

lemma setInitContainers_frame:
  "setInitContainers X t d s = Some (d', s') \<Longrightarrow> st_pulp s' = st_pulp s \<and> (\<exists>cs. d' = d\<lparr>cd_initContainers := cs\<rparr>)"
  by (auto simp: setInitContainers_def setGpgInitContainer_def Let_def split: bind_splits if_splits
      dest: GetSigningKeyFingerprint_frame)

lemma setLDAPConfigs_frame [simp]: "st_pulp (snd (setLDAPConfigs X d s)) = st_pulp s"
  by (simp add: setLDAPConfigs_def Let_def split_beta)

lemma setReplicas_frame: "setReplicas p t d = Some d' \<Longrightarrow> \<exists>r. d' = d\<lparr>cd_replicas := r\<rparr>"
  by (auto simp: setReplicas_def split: option.splits if_splits bind_splits)

lemma component_setters_frame:
  "setStrategy p t d = Some d' \<Longrightarrow> \<exists>v. d' = d\<lparr>cd_strategy := v\<rparr>"
  "setAffinity p t d = Some d' \<Longrightarrow> \<exists>v. d' = d\<lparr>cd_affinity := v\<rparr>"
  "setNodeSelector p t d = Some d' \<Longrightarrow> \<exists>v. d' = d\<lparr>cd_nodeSelector := v\<rparr>"
  "setTolerations p t d = Some d' \<Longrightarrow> \<exists>v. d' = d\<lparr>cd_toleration := v\<rparr>"
  "setTopologySpreadConstraints p t d = Some d' \<Longrightarrow> \<exists>v. d' = d\<lparr>cd_topologySpreadConstraint := v\<rparr>"
  "setResourceRequirements p t d = Some d' \<Longrightarrow> \<exists>v. d' = d\<lparr>cd_resourceRequirements := v\<rparr>"
  "setInitContainerResourceRequirements p t d = Some d' \<Longrightarrow> \<exists>v. d' = d\<lparr>cd_initContainerResourceRequirements := v\<rparr>"
  "setInitContainerImage p t d = Some d' \<Longrightarrow> \<exists>v. d' = d\<lparr>cd_initContainerImage := v\<rparr>"
  "setInitContainerEnvVars p t d = Some d' \<Longrightarrow> \<exists>v. d' = d\<lparr>cd_initContainerEnvVars := v\<rparr>"
  "setInitContainerVolumeMounts p d = Some d' \<Longrightarrow> \<exists>v. d' = d\<lparr>cd_initContainerVolumeMounts := v\<rparr>"
  "setVolumeMounts p t d = Some d' \<Longrightarrow> \<exists>v. d' = d\<lparr>cd_volumeMounts := v\<rparr>"
  by (auto simp: setStrategy_def setAffinity_def setNodeSelector_def setTolerations_def
      setTopologySpreadConstraints_def setResourceRequirements_def setInitContainerResourceRequirements_def
      setInitContainerImage_def setInitContainerEnvVars_def setInitContainerVolumeMounts_def setVolumeMounts_def Let_def
      split: bind_splits)

lemma setTelemetryConfig_frame:
  "setTelemetryConfig X p t d = Some d' \<Longrightarrow> \<exists>cs vs. d' = d\<lparr>cd_containers := cs, cd_volumes := vs\<rparr>"
  by (auto simp: setTelemetryConfig_def split: bind_splits)

lemma setLDAPConfigs_cases:
  assumes "setLDAPConfigs X d s = (d', s')"
  obtains "d' = d" "s' = s"
  | v m where "vm_Name m = vol_Name v" "st_pulp s' = st_pulp s"
      "d' = d\<lparr>cd_volumes := cd_volumes d @ [v], cd_volumeMounts := cd_volumeMounts d @ [m]\<rparr>"
proof (cases "length (LDAP_CA (Spec_LDAP (Pulp_Spec (st_pulp s)))) = 0")
  case True
  with assms have "d' = d" "s' = s" by (simp_all add: setLDAPConfigs_def)
  then show thesis by (rule that(1))
next
  case False
  define secret where "secret = get_secret_or_zero X (LDAP_Config (Spec_LDAP (Pulp_Spec (st_pulp s)))) s"
  define v where "v = \<lparr>vol_Name = ''ldap-cert'', vol_Source = SecretVolume (LDAP_CA (Spec_LDAP (Pulp_Spec (st_pulp s)))) None [(''ca.crt'', ''ca.crt'')]\<rparr>"
  define m where "m = mount ''ldap-cert'' (gget (sec_Data (fst secret)) ''auth_ldap_ca_file'') ''ca.crt'' True"
  have "setLDAPConfigs X d s = (d\<lparr>cd_volumes := cd_volumes d @ [v], cd_volumeMounts := cd_volumeMounts d @ [m]\<rparr>, snd secret)"
    using False by (simp add: setLDAPConfigs_def Let_def split_beta secret_def v_def m_def)
  moreover have "vm_Name m = vol_Name v" by (simp add: m_def v_def mount_def)
  moreover have "st_pulp (snd secret) = st_pulp s" by (simp add: secret_def)
  ultimately show thesis using assms by (intro that(2) [of m v]) simp_all
qed

lemmas plain_setters = setPodSecurityContext_def setImage_def setRestartPolicy_def setTerminationPeriod_def
  setDnsPolicy_def setSchedulerName_def setContainers_def

text \<open>The labels and the environment: set by the first steps of \<open>build\<close> and kept by all others.\<close>

definition core :: "CommonDeployment \<Rightarrow> gomap \<times> gomap \<times> gomap \<times> EnvVar list" where
  "core d = (cd_podLabels d, cd_podSelectorLabels d, cd_deploymentLabels d, cd_envVars d)"

lemma core_component_setters:
  "setStrategy p t d = Some d' \<Longrightarrow> core d' = core d"
  "setAffinity p t d = Some d' \<Longrightarrow> core d' = core d"
  "setNodeSelector p t d = Some d' \<Longrightarrow> core d' = core d"
  "setTolerations p t d = Some d' \<Longrightarrow> core d' = core d"
  "setTopologySpreadConstraints p t d = Some d' \<Longrightarrow> core d' = core d"
  "setResourceRequirements p t d = Some d' \<Longrightarrow> core d' = core d"
  "setInitContainerResourceRequirements p t d = Some d' \<Longrightarrow> core d' = core d"
  "setInitContainerImage p t d = Some d' \<Longrightarrow> core d' = core d"
  "setInitContainerEnvVars p t d = Some d' \<Longrightarrow> core d' = core d"
  "setInitContainerVolumeMounts p d = Some d' \<Longrightarrow> core d' = core d"
  "setVolumeMounts p t d = Some d' \<Longrightarrow> core d' = core d"
  by (auto simp: core_def dest!: component_setters_frame)

lemma core_setters:
  "setReplicas p t d = Some d' \<Longrightarrow> core d' = core d"
  "setVolumes X t d s = Some (d', s') \<Longrightarrow> core d' = core d"
  "setLivenessProbe X t d s = Some (d', s') \<Longrightarrow> core d' = core d"
  "setReadinessProbe X t d s = Some (d', s') \<Longrightarrow> core d' = core d"
  "setInitContainers X t d s = Some (d', s') \<Longrightarrow> core d' = core d"
  "setTelemetryConfig X p t d = Some d' \<Longrightarrow> core d' = core d"
  by (auto simp: core_def dest!: setReplicas_frame setVolumes_frame setLivenessProbe_frame setReadinessProbe_frame
      setInitContainers_frame setTelemetryConfig_frame)

lemma core_LDAP: "setLDAPConfigs X d s = (d', s') \<Longrightarrow> core d' = core d"
  by (erule setLDAPConfigs_cases) (simp_all add: core_def)

lemma core_plain_setters [simp]:
  "core (setPodSecurityContext d) = core d" "core (setImage X p d) = core d" "core (setRestartPolicy d) = core d"
  "core (setTerminationPeriod d) = core d" "core (setDnsPolicy d) = core d" "core (setSchedulerName d) = core d"
  "core (setContainers p t d) = core d"
  by (simp_all add: core_def plain_setters Let_def)

lemma pulp_setters:
  "setEnvVars X t d s = Some (d', s') \<Longrightarrow> st_pulp s' = st_pulp s"
  "setVolumes X t d s = Some (d', s') \<Longrightarrow> st_pulp s' = st_pulp s"
  "setLivenessProbe X t d s = Some (d', s') \<Longrightarrow> st_pulp s' = st_pulp s"
  "setReadinessProbe X t d s = Some (d', s') \<Longrightarrow> st_pulp s' = st_pulp s"
  "setInitContainers X t d s = Some (d', s') \<Longrightarrow> st_pulp s' = st_pulp s"
  by (auto dest: setEnvVars_frame setVolumes_frame setLivenessProbe_frame setReadinessProbe_frame setInitContainers_frame)

lemma pulp_LDAP: "setLDAPConfigs X d s = (d', s') \<Longrightarrow> st_pulp s' = st_pulp s"
  by (erule setLDAPConfigs_cases) simp_all

subsection \<open>The steps of build\<close>

lemma bind_SomeE:
  assumes "Option.bind m f = Some y"
  obtains x where "m = Some x" "f x = Some y"
  using assms by (cases m) auto

lemma case_prod_eqE:
  assumes "(case p of (a, b) \<Rightarrow> f a b) = y"
  obtains a b where "p = (a, b)" "f a b = y"
  using assms by (cases p) auto

lemma build_steps:
  assumes "build X t d0 s = Some (d, s')"
  obtains d1 d2 s2 d3 d4 s4 d5 s5 d6 d7 d8 d9 s9 d10 d11 d12 s12 d13 s13 d14 d15 d16 d17 d18 d19 s19 d20 where
    "setReplicas (st_pulp s) t d0 = Some d1" "setEnvVars X t d1 s = Some (d2, s2)" "setStrategy (st_pulp s2) t d2 = Some d3"
    "setLabels t d3 s2 = (d4, s4)" "setAnnotations t d4 s4 = Some (d5, s5)" "setAffinity (st_pulp s5) t d5 = Some d6"
    "setNodeSelector (st_pulp s5) t (setPodSecurityContext d6) = Some d7" "setTolerations (st_pulp s5) t d7 = Some d8"
    "setVolumes X t d8 s5 = Some (d9, s9)" "setVolumeMounts (st_pulp s9) t d9 = Some d10"
    "setResourceRequirements (st_pulp s9) t d10 = Some d11" "setLivenessProbe X t d11 s9 = Some (d12, s12)"
    "setReadinessProbe X t d12 s12 = Some (d13, s13)"
    "setTopologySpreadConstraints (st_pulp s13) t (setImage X (st_pulp s13) d13) = Some d14"
    "setInitContainerResourceRequirements (st_pulp s13) t d14 = Some d15" "setInitContainerImage (st_pulp s13) t d15 = Some d16"
    "setInitContainerVolumeMounts (st_pulp s13) d16 = Some d17" "setInitContainerEnvVars (st_pulp s13) t d17 = Some d18"
    "setLDAPConfigs X d18 s13 = (d19, s19)" "setInitContainers X t d19 s19 = Some (d20, s')"
    "setTelemetryConfig X (st_pulp s') t (setSchedulerName (setDnsPolicy (setTerminationPeriod (setRestartPolicy
       (setContainers (st_pulp s') t d20))))) = Some d"
proof -
  note b = assms [unfolded build_def Let_def]
  show thesis
    using b by (elim bind_SomeE case_prod_eqE) (rule that; simp)
qed


text \<open>The labels depend on the name of the resource only, so writing into its maps changes nothing.\<close>

lemma PulpcoreLabels_upd [simp]: "PulpcoreLabels (upd_Spec f p) t = PulpcoreLabels p t"
  by (simp add: PulpcoreLabels_def CommonLabels_def)

lemma setLabels_sel:
  assumes "setLabels t d s = (d', s')"
  shows "core d' = (fst (PulpcorePodLabels (st_pulp s) t), PulpcoreLabels (st_pulp s) t, PulpcoreLabels (st_pulp s) t, cd_envVars d)"
    and "Pulp_Name (st_pulp s') = Pulp_Name (st_pulp s)" "Pulp_Namespace (st_pulp s') = Pulp_Namespace (st_pulp s)"
  using assms by (auto simp: setLabels_def PulpcorePodLabels_def core_def Let_def split_beta split: option.splits)

lemma setAnnotations_sel:
  assumes "setAnnotations t d s = Some (d', s')"
  shows "core d' = core d"
    and "Pulp_Name (st_pulp s') = Pulp_Name (st_pulp s)" "Pulp_Namespace (st_pulp s') = Pulp_Namespace (st_pulp s)"
  using assms by (auto simp: setAnnotations_def core_def Let_def split: bind_splits)

lemma build_core:
  assumes "build X t d0 s = Some (d, s')"
  obtains d1 d2 s2 where "setEnvVars X t d1 s = Some (d2, s2)"
    "core d = (fst (PulpcorePodLabels (st_pulp s) t), PulpcoreLabels (st_pulp s) t, PulpcoreLabels (st_pulp s) t, cd_envVars d2)"
    "Pulp_Name (st_pulp s') = Pulp_Name (st_pulp s)" "Pulp_Namespace (st_pulp s') = Pulp_Namespace (st_pulp s)"
  using assms
proof (rule build_steps, goal_cases)
  case (1 d1 d2 s2 d3 d4 s4 d5 s5 d6 d7 d8 d9 s9 d10 d11 d12 s12 d13 s13 d14 d15 d16 d17 d18 d19 s19 d20)
  note steps = this
  have "core d = core d5"
    using core_component_setters(2) [OF steps(7)] core_component_setters(3) [OF steps(8)] core_component_setters(4) [OF steps(9)]
      core_setters(2) [OF steps(10)] core_component_setters(11) [OF steps(11)] core_component_setters(6) [OF steps(12)]
      core_setters(3) [OF steps(13)] core_setters(4) [OF steps(14)] core_component_setters(5) [OF steps(15)]
      core_component_setters(7) [OF steps(16)] core_component_setters(8) [OF steps(17)] core_component_setters(10) [OF steps(18)]
      core_component_setters(9) [OF steps(19)] core_LDAP [OF steps(20)] core_setters(5) [OF steps(21)] core_setters(6) [OF steps(22)]
    by simp
  moreover have "st_pulp s' = st_pulp s5" "st_pulp s2 = st_pulp s"
    using pulp_setters(2) [OF steps(10)] pulp_setters(3) [OF steps(13)] pulp_setters(4) [OF steps(14)]
      pulp_LDAP [OF steps(20)] pulp_setters(5) [OF steps(21)] pulp_setters(1) [OF steps(3)] by simp_all
  ultimately show ?case
    using steps(1) [OF steps(3)] setLabels_sel [OF steps(5)] setAnnotations_sel [OF steps(6)]
      core_component_setters(1) [OF steps(4)]
    by (simp add: core_def)
qed

end
