(* ===== verification/Deployment_Props.thy ===== *)
theory Deployment_Props
  imports Deployment_Facts
begin

text \<open>
  The properties of the pulpcore Deployments, over the lemmas of \<open>Deployment_Facts\<close>: mounts and
  volumes, the selector, the environment, and when the builder panics.
\<close>

subsection \<open>Mounts and volumes\<close>

text \<open>The names of the volumes a component has, as far as the custom resource decides them.\<close>

definition volume_names :: "Pulp \<Rightarrow> PulpcoreType \<Rightarrow> string \<Rightarrow> string set" where
  "volume_names p t storage =
    {Pulp_Name p @ ''-server'', Pulp_Name p @ ''-db-fields-encryption''} \<union>
    (if t = WORKER then {Pulp_Name p @ ''-ansible-tmp''} else {}) \<union>
    (if t = WORKER \<and> Ipv6Disabled p then {Pulp_Name p @ ''-worker-probe''} else {}) \<union>
    (if t = API then {GetAdminSecretName p, Pulp_Name p @ ''-container-auth-certs''} else {}) \<union>
    (if storage = SCNameType \<or> storage = PVCType then {''file-storage''} else {}) \<union>
    (if Spec_SigningSecret (Pulp_Spec p) = [] then {}
     else {''gpg-keys'', Pulp_Name p @ ''-signing-scripts''} \<union>
       (if storage = SCNameType \<or> storage = PVCType then {} else {''ephemeral-gpg''})) \<union>
    (if Spec_TrustedCa (Pulp_Spec p) then {''trusted-ca''} else {})"

definition vol_names :: "Volume list \<Rightarrow> string set" where
  "vol_names vs = vol_Name ` set vs"

definition mount_names :: "VolumeMount list \<Rightarrow> string set" where
  "mount_names ms = vm_Name ` set ms"

lemma names_simps [simp]:
  "vol_names (vs @ vs') = vol_names vs \<union> vol_names vs'"
  "vol_names [] = {}" "vol_names (v # vs) = insert (vol_Name v) (vol_names vs)"
  "mount_names (ms @ ms') = mount_names ms \<union> mount_names ms'"
  "mount_names [] = {}" "mount_names (m # ms) = insert (vm_Name m) (mount_names ms)"
  by (simp_all add: vol_names_def mount_names_def image_Un)

lemma SetCAVolumes_names:
  "SetCAVolumes p vs = Some vs' \<Longrightarrow>
    vol_names vs' = vol_names vs \<union> (if Spec_TrustedCa (Pulp_Spec p) then {''trusted-ca''} else {})"
  by (auto simp: SetCAVolumes_def Let_def split: if_splits bind_splits)

lemma signingMetadataVolumes_names:
  assumes "signingMetadataVolumes X st vs s = Some (vs', s')" "index st 0 = Some storage"
  shows "vol_names vs' = vol_names vs \<union> (if Spec_SigningSecret (Pulp_Spec (st_pulp s)) = [] then {}
     else {''gpg-keys'', Pulp_Name (st_pulp s) @ ''-signing-scripts''} \<union>
       (if storage = SCNameType \<or> storage = PVCType then {} else {''ephemeral-gpg''}))"
  using assms by (auto simp: signingMetadataVolumes_def empty_dir_def Let_def split_beta split: if_splits)

lemma worker_volumes_names:
  "vol_names (worker_volumes p) = {Pulp_Name p @ ''-ansible-tmp''} \<union>
    (if Ipv6Disabled p then {Pulp_Name p @ ''-worker-probe''} else {})"
  by (simp add: worker_volumes_def empty_dir_def insert_commute)

lemma storage_volumes_names:
  "vol_names (storage_volumes p storage) = (if storage = SCNameType \<or> storage = PVCType then {''file-storage''} else {})"
  by (simp add: storage_volumes_def claim_volume_def)

lemma setVolumes_names:
  assumes "setVolumes X t d s = Some (d', s')" "index (GetStorageType (st_pulp s)) 0 = Some storage"
  shows "vol_names (cd_volumes d') = volume_names (st_pulp s) t storage"
  using assms(1) unfolding setVolumes_def Let_def
proof (elim bind_SomeE case_prod_eqE, goal_cases)
  case (1 st r vs s1 vs')
  with assms(2) have st: "st = storage" by simp
  have r: "r = (vs, s1)" using 1 by simp
  note sig = signingMetadataVolumes_names [OF 1(2) [unfolded r] assms(2)]
  from 1 have d': "cd_volumes d' = vs'" by auto
  show ?case
    using SetCAVolumes_names [OF 1(4)]
    by (cases t) (simp_all add: d' sig st volume_names_def container_auth_volume_def worker_volumes_names
        storage_volumes_names Un_ac insert_commute)
qed

lemma mount_sel [simp]: "vm_Name (mount n path sub ro) = n" "vm_SubPath (mount n path sub ro) = sub"
  by (simp_all add: mount_def)

lemma storage_mounts_names:
  "mount_names (storage_mounts storage) = (if storage = SCNameType \<or> storage = PVCType then {''file-storage''} else {})"
  by (simp add: storage_mounts_def)

lemma base_mounts_names:
  "mount_names (base_mounts p) = {Pulp_Name p @ ''-server'', Pulp_Name p @ ''-db-fields-encryption''}"
  by (simp add: base_mounts_def)

lemma script_mounts_names:
  "script_mounts p vs = Some ms \<Longrightarrow> mount_names ms \<subseteq> {Pulp_Name p @ ''-signing-scripts''}"
  by (auto simp: script_mounts_def mount_names_def split: option.splits VolumeSource.splits)

lemma SetCAVolumeMounts_names:
  "mount_names (SetCAVolumeMounts p ms) = mount_names ms \<union> (if Spec_TrustedCa (Pulp_Spec p) then {''trusted-ca''} else {})"
  by (simp add: SetCAVolumeMounts_def)

lemma setVolumeMounts_names:
  assumes "setVolumeMounts p t d = Some d'" "index (GetStorageType p) 0 = Some storage"
  shows "mount_names (cd_volumeMounts d') \<subseteq> volume_names p t storage"
  using assms(1) unfolding setVolumeMounts_def Let_def
proof (elim bind_SomeE, goal_cases)
  case (1 st signing)
  with assms(2) have st: "st = storage" by simp
  have sig: "mount_names signing \<subseteq> (if Spec_SigningSecret (Pulp_Spec p) = [] then {}
     else {''gpg-keys'', Pulp_Name p @ ''-signing-scripts''} \<union>
       (if storage = SCNameType \<or> storage = PVCType then {} else {''ephemeral-gpg''}))"
    using 1(2) script_mounts_names [of p "cd_volumes d"] by (auto simp: st split: if_splits bind_splits)
  note d' = 1(3) [THEN option.inject [THEN iffD1], symmetric]
  have "mount_names signing \<subseteq> volume_names p t storage"
    using sig unfolding volume_names_def by blast
  then show ?case
    by (cases t) (simp_all add: d' st SetCAVolumeMounts_names base_mounts_names storage_mounts_names,
        simp_all add: volume_names_def)
qed

text \<open>The lists of volumes and mount points: kept by the setters that follow their own.\<close>

definition mounting :: "CommonDeployment \<Rightarrow> Volume list \<times> VolumeMount list" where
  "mounting d = (cd_volumes d, cd_volumeMounts d)"

lemma mounting_setters:
  "setResourceRequirements p t d = Some d' \<Longrightarrow> mounting d' = mounting d"
  "setTopologySpreadConstraints p t d = Some d' \<Longrightarrow> mounting d' = mounting d"
  "setInitContainerResourceRequirements p t d = Some d' \<Longrightarrow> mounting d' = mounting d"
  "setInitContainerImage p t d = Some d' \<Longrightarrow> mounting d' = mounting d"
  "setInitContainerVolumeMounts p d = Some d' \<Longrightarrow> mounting d' = mounting d"
  "setInitContainerEnvVars p t d = Some d' \<Longrightarrow> mounting d' = mounting d"
  by (auto simp: mounting_def dest!: component_setters_frame)

lemma mounting_probes:
  "setLivenessProbe X t d s = Some (d', s') \<Longrightarrow> mounting d' = mounting d"
  "setReadinessProbe X t d s = Some (d', s') \<Longrightarrow> mounting d' = mounting d"
  "setInitContainers X t d s = Some (d', s') \<Longrightarrow> mounting d' = mounting d"
  by (auto simp: mounting_def dest!: setLivenessProbe_frame setReadinessProbe_frame setInitContainers_frame)

lemma mounting_plain [simp]:
  "mounting (setImage X p d) = mounting d" "mounting (setRestartPolicy d) = mounting d"
  "mounting (setTerminationPeriod d) = mounting d" "mounting (setDnsPolicy d) = mounting d"
  "mounting (setSchedulerName d) = mounting d" "mounting (setContainers p t d) = mounting d"
  by (simp_all add: mounting_def plain_setters Let_def)

lemma setInitContainers_names:
  assumes "setInitContainers X t d s = Some (d', s')" "index (GetStorageType (st_pulp s)) 0 = Some storage"
    and "c \<in> set (cd_initContainers d')"
  shows "mount_names (ctr_VolumeMounts c) \<subseteq> mount_names (cd_initContainerVolumeMounts d) \<union> volume_names (st_pulp s) t storage"
proof (cases "length (Spec_SigningSecret (Pulp_Spec (st_pulp s))) > 0")
  case False
  with assms show ?thesis by (auto simp: setInitContainers_def Let_def)
next
  case True
  then obtain gpg s1 ic where gpg: "setGpgInitContainer X s = Some (gpg, s1)"
    and d': "cd_initContainers d' = [ic, gpg]" and ic: "ctr_VolumeMounts ic = cd_initContainerVolumeMounts d"
    by (rule_tac assms(1) [unfolded setInitContainers_def Let_def if_P [OF True], THEN bind_SomeE],
        elim case_prod_eqE) (drule sym, simp)
  have "mount_names (ctr_VolumeMounts gpg) \<subseteq> volume_names (st_pulp s) t storage"
    using gpg True assms(2) unfolding setGpgInitContainer_def Let_def
    by (elim bind_SomeE case_prod_eqE) (clarsimp simp: split_beta volume_names_def)
  with assms(3) ic show ?thesis by (auto simp: d')
qed

text \<open>Telemetry is off, or the API container keeps its mounts and a sidecar with its own volume is added.\<close>

lemma setTelemetryConfig_cases:
  assumes "setTelemetryConfig X p t d = Some d'"
  obtains "d' = d"
  | first rest first' sidecar vol where "cd_containers d = first # rest" "ctr_VolumeMounts first' = ctr_VolumeMounts first"
      "mount_names (ctr_VolumeMounts sidecar) = {vol_Name vol}"
      "d' = d\<lparr>cd_containers := first' # rest @ [sidecar], cd_volumes := cd_volumes d @ [vol]\<rparr>"
proof (cases "\<not> Telemetry_Enabled (Spec_Telemetry (Pulp_Spec p)) \<or> t \<noteq> API")
  case True
  with assms that(1) show thesis by (auto simp: setTelemetryConfig_def telemetryConfig_def)
next
  case False
  with assms obtain first rest where c: "cd_containers d = first # rest"
    by (cases "cd_containers d") (auto simp: setTelemetryConfig_def telemetryConfig_def)
  show thesis
    by (rule that(2) [OF c _ _ assms [unfolded setTelemetryConfig_def telemetryConfig_def c Let_def if_not_P [OF False]
          index_0 Option.bind.simps prod.case option.inject list_update_code append_Cons, symmetric]])
       simp_all
qed

lemma setTelemetryConfig_names:
  assumes "setTelemetryConfig X p t d = Some d'"
    and "\<And>c. c \<in> set (cd_containers d) \<Longrightarrow> mount_names (ctr_VolumeMounts c) \<subseteq> vol_names (cd_volumes d)"
  shows "c \<in> set (cd_containers d') \<Longrightarrow> mount_names (ctr_VolumeMounts c) \<subseteq> vol_names (cd_volumes d')"
    and "vol_names (cd_volumes d) \<subseteq> vol_names (cd_volumes d')" "cd_initContainers d' = cd_initContainers d"
  using assms(1) by (cases rule: setTelemetryConfig_cases; use assms(2) in force)+

lemma setContainers_names:
  "c \<in> set (cd_containers (setContainers p t d)) \<Longrightarrow> ctr_VolumeMounts c = cd_volumeMounts d"
  "cd_initContainers (setContainers p t d) = cd_initContainers d"
  "cd_volumes (setContainers p t d) = cd_volumes d"
  by (auto simp: setContainers_def Let_def split: if_splits)

lemma setLDAPConfigs_names:
  assumes "setLDAPConfigs X d s = (d', s')" "mount_names (cd_volumeMounts d) \<subseteq> vol_names (cd_volumes d)"
  shows "mount_names (cd_volumeMounts d') \<subseteq> vol_names (cd_volumes d')" "vol_names (cd_volumes d) \<subseteq> vol_names (cd_volumes d')"
    "cd_initContainerVolumeMounts d' = cd_initContainerVolumeMounts d"
  using assms(1) by (cases rule: setLDAPConfigs_cases; use assms(2) in force)+

lemma setVolumes_storage:
  "setVolumes X t d s = Some (d', s') \<Longrightarrow> \<exists>storage. index (GetStorageType (st_pulp s)) 0 = Some storage"
  by (auto simp: setVolumes_def Let_def split: bind_splits)

lemma setInitContainerVolumeMounts_names:
  "setInitContainerVolumeMounts p d = Some d' \<Longrightarrow> index (GetStorageType p) 0 = Some storage \<Longrightarrow>
    mount_names (cd_initContainerVolumeMounts d') \<subseteq> volume_names p t storage"
  by (auto simp: setInitContainerVolumeMounts_def base_mounts_names storage_mounts_names volume_names_def split: if_splits)

lemma initContainerVolumeMounts_kept:
  "setInitContainerEnvVars p t d = Some d' \<Longrightarrow> cd_initContainerVolumeMounts d' = cd_initContainerVolumeMounts d"
  by (auto dest: component_setters_frame)

lemma build_mounts:
  assumes "build X t d0 s = Some (d, s')"
  shows "c \<in> set (cd_containers d @ cd_initContainers d) \<Longrightarrow> mount_names (ctr_VolumeMounts c) \<subseteq> vol_names (cd_volumes d)"
  using assms
proof (rule build_steps, goal_cases)
  case (1 d1 d2 s2 d3 d4 s4 d5 s5 d6 d7 d8 d9 s9 d10 d11 d12 s12 d13 s13 d14 d15 d16 d17 d18 d19 s19 d20)
  note steps = this(2-22) and c = this(1)
  obtain storage where st: "index (GetStorageType (st_pulp s5)) 0 = Some storage"
    using setVolumes_storage [OF steps(9)] ..
  have p: "st_pulp s9 = st_pulp s5" "st_pulp s13 = st_pulp s5" "st_pulp s19 = st_pulp s5"
    using pulp_setters(2) [OF steps(9)] pulp_setters(3) [OF steps(12)] pulp_setters(4) [OF steps(13)] pulp_LDAP [OF steps(19)] by simp_all
  let ?V = "volume_names (st_pulp s5) t storage"
  have "cd_volumes d10 = cd_volumes d9"
    using component_setters_frame(11) [OF steps(10)] by force
  moreover have "mounting d18 = mounting d10"
    using mounting_setters(1) [OF steps(11)] mounting_probes(1) [OF steps(12)] mounting_probes(2) [OF steps(13)]
      mounting_setters(2) [OF steps(14)] mounting_setters(3) [OF steps(15)] mounting_setters(4) [OF steps(16)]
      mounting_setters(5) [OF steps(17)] mounting_setters(6) [OF steps(18)] by simp
  ultimately have d18: "vol_names (cd_volumes d18) = ?V" "mount_names (cd_volumeMounts d18) \<subseteq> ?V"
    using setVolumes_names [OF steps(9) st] setVolumeMounts_names [OF steps(10), unfolded p, OF st]
    by (simp_all add: mounting_def)
  note ldap = setLDAPConfigs_names [OF steps(19)]
  have V: "?V \<subseteq> vol_names (cd_volumes d20)" and m20: "mount_names (cd_volumeMounts d20) \<subseteq> vol_names (cd_volumes d20)"
    using ldap d18 mounting_probes(3) [OF steps(20)] by (simp_all add: mounting_def)
  have init: "mount_names (ctr_VolumeMounts c) \<subseteq> ?V" if "c \<in> set (cd_initContainers d20)"
    using setInitContainers_names [OF steps(20), unfolded p, OF st that] ldap(3) d18
      setInitContainerVolumeMounts_names [OF steps(17), unfolded p, OF st, of t] initContainerVolumeMounts_kept [OF steps(18)]
    by auto
  let ?d = "setSchedulerName (setDnsPolicy (setTerminationPeriod (setRestartPolicy (setContainers (st_pulp s') t d20))))"
  have d21: "cd_volumes ?d = cd_volumes d20" "cd_initContainers ?d = cd_initContainers d20"
    "cd_containers ?d = cd_containers (setContainers (st_pulp s') t d20)"
    by (simp_all add: plain_setters Let_def)
  have ctr: "mount_names (ctr_VolumeMounts c) \<subseteq> vol_names (cd_volumes ?d)" if "c \<in> set (cd_containers ?d)" for c
    using setContainers_names(1) [of c "st_pulp s'" t d20] that m20 by (simp add: d21)
  from setTelemetryConfig_names [OF steps(21) ctr] c V init show ?case by (auto simp: d21)
qed

subsection \<open>When the builder panics\<close>

lemma component_of_Some: "(\<exists>c. component_of spec t = Some c) \<longleftrightarrow> t \<in> {API, CONTENT, WORKER}"
  by (cases t) (simp_all add: Let_def)

lemma custom_env_Some: "t \<in> {API, CONTENT, WORKER} \<longleftrightarrow> (\<exists>vs. SetPulpcoreCustomEnvVars p t = Some vs)"
  by (cases t) (simp_all add: SetPulpcoreCustomEnvVars_def SetCustomEnvVars_def component_env_def)

lemma gunicorn_env_Some: "t \<in> {API, CONTENT, WORKER} \<Longrightarrow> \<exists>vs. gunicorn_env p t = Some vs"
  by (auto simp: gunicorn_env_def Let_def)

text \<open>A key ring that could be read has a key: the only condition on the outside.\<close>

definition keyrings_have_keys :: "'w Externals \<Rightarrow> bool" where
  "keyrings_have_keys X \<longleftrightarrow> (\<forall>armor. x_ReadArmoredKeyRing X armor \<noteq> Inr [])"

lemma GetSigningKeyFingerprint_Some:
  assumes "keyrings_have_keys X"
  shows "\<exists>r s'. GetSigningKeyFingerprint X n ns s = Some (r, s')"
proof -
  have "keys \<noteq> []" if "x_ReadArmoredKeyRing X armor = Inr keys" for armor keys
    using assms that by (auto simp: keyrings_have_keys_def)
  then show ?thesis
    by (fastforce simp: GetSigningKeyFingerprint_def split_beta index_def split: sum.splits)
qed

lemma setEnvVars_Some:
  assumes "keyrings_have_keys X" "t \<in> {API, CONTENT, WORKER}"
  shows "\<exists>d' s'. setEnvVars X t d s = Some (d', s')"
proof -
  obtain vs gs where "SetPulpcoreCustomEnvVars (st_pulp s) t = Some vs" "gunicorn_env (st_pulp s) t = Some gs"
    using custom_env_Some [of t "st_pulp s"] gunicorn_env_Some [of t "st_pulp s"] assms(2) by blast
  moreover obtain r s' where "signing_key_env X s = Some (r, s')"
    using GetSigningKeyFingerprint_Some [OF assms(1), of "Spec_SigningSecret (Pulp_Spec (st_pulp s))"
        "Pulp_Namespace (st_pulp s)" s]
    by (fastforce simp: signing_key_env_def Let_def split: if_splits)
  ultimately show ?thesis by (simp add: setEnvVars_def Let_def)
qed

lemma storage_index: "ss \<noteq> [] \<longleftrightarrow> (\<exists>st. index ss 0 = Some st)"
  by (cases ss) simp_all

lemma setVolumes_Some:
  assumes "GetStorageType (st_pulp s) \<noteq> []"
  shows "\<exists>d' s'. setVolumes X t d s = Some (d', s')"
proof -
  obtain st where st: "index (GetStorageType (st_pulp s)) 0 = Some st"
    using assms storage_index [of "GetStorageType (st_pulp s)"] by blast
  have sig: "signingMetadataVolumes X (GetStorageType (st_pulp s)) vs s \<noteq> None" for vs
    by (cases "Spec_SigningSecret (Pulp_Spec (st_pulp s)) = []"; cases "get_secret_or_zero X (Spec_SigningScripts (Pulp_Spec (st_pulp s))) s")
       (simp_all add: signingMetadataVolumes_def Let_def st)
  have "setVolumes X t d s \<noteq> None"
    unfolding setVolumes_def Let_def
    by (rule notI, elim bind_eq_NoneE case_prod_eqE) (simp_all only: st sig SetCAVolumes_Some option.distinct)
  then show ?thesis by auto
qed

text \<open>The volume that the scripts are read back from is a secret.\<close>

definition scripts_readable :: "Pulp \<Rightarrow> Volume list \<Rightarrow> bool" where
  "scripts_readable p vs \<longleftrightarrow>
    (\<forall>v \<in> set vs. vol_Name v = Pulp_Name p @ ''-signing-scripts'' \<longrightarrow> (\<exists>a b c. vol_Source v = SecretVolume a b c))"

lemma script_mounts_Some: "scripts_readable p vs \<Longrightarrow> \<exists>ms. script_mounts p vs = Some ms"
  unfolding script_mounts_def scripts_readable_def
  by (auto simp: find_Some_iff split: option.split)

lemma append_neq_last: "b \<noteq> [] \<Longrightarrow> last a \<noteq> last b \<Longrightarrow> a \<noteq> n @ b"
  by auto

lemma script_name_neq [simp]:
  "''file-storage'' \<noteq> n @ ''-signing-scripts''" "''ephemeral-gpg'' \<noteq> n @ ''-signing-scripts''"
  "''trusted-ca'' \<noteq> n @ ''-signing-scripts''"
  by (rule append_neq_last; simp)+

lemma scripts_readable_simps [simp]:
  "scripts_readable p []"
  "scripts_readable p (v # vs) \<longleftrightarrow>
    (vol_Name v = Pulp_Name p @ ''-signing-scripts'' \<longrightarrow> (\<exists>a b c. vol_Source v = SecretVolume a b c)) \<and> scripts_readable p vs"
  "scripts_readable p (vs @ vs') \<longleftrightarrow> scripts_readable p vs \<and> scripts_readable p vs'"
  by (auto simp: scripts_readable_def)

lemma SetCAVolumes_readable: "SetCAVolumes p vs = Some vs' \<Longrightarrow> scripts_readable q vs' = scripts_readable q vs"
  by (auto simp: SetCAVolumes_def Let_def split: if_splits bind_splits)

lemma signingMetadataVolumes_readable:
  "signingMetadataVolumes X st vs s = Some (vs', s') \<Longrightarrow> scripts_readable p vs \<Longrightarrow> scripts_readable p vs'"
  by (auto simp: signingMetadataVolumes_def empty_dir_def Let_def split_beta split: if_splits bind_splits)

lemma setVolumes_readable:
  assumes "setVolumes X t d s = Some (d', s')"
  shows "scripts_readable (st_pulp s) (cd_volumes d')"
  using assms unfolding setVolumes_def Let_def
proof (elim bind_SomeE case_prod_eqE, goal_cases)
  case (1 st r vs s1 vs')
  from 1 have r: "r = (vs, s1)" and d': "cd_volumes d' = vs'" by auto
  have "scripts_readable (st_pulp s) vs"
    by (rule signingMetadataVolumes_readable [OF 1(2) [unfolded r]])
       (cases t, simp_all add: worker_volumes_def empty_dir_def storage_volumes_def claim_volume_def)
  then show ?case
    using SetCAVolumes_readable [OF 1(4)] by (simp add: d' container_auth_volume_def)
qed

lemma setVolumeMounts_Some:
  assumes "GetStorageType p \<noteq> []" "scripts_readable p (cd_volumes d)"
  shows "\<exists>d'. setVolumeMounts p t d = Some d'"
proof -
  obtain st ms where "index (GetStorageType p) 0 = Some st" "script_mounts p (cd_volumes d) = Some ms"
    using assms storage_index [of "GetStorageType p"] script_mounts_Some by blast
  then show ?thesis
    by (cases "Spec_SigningSecret (Pulp_Spec p) = []") (simp_all add: setVolumeMounts_def Let_def)
qed

lemma setInitContainers_Some:
  assumes "keyrings_have_keys X" "GetStorageType (st_pulp s) \<noteq> []"
  shows "\<exists>d' s'. setInitContainers X t d s = Some (d', s')"
proof -
  obtain st r s1 where "index (GetStorageType (st_pulp s)) 0 = Some st"
    "GetSigningKeyFingerprint X (Spec_SigningSecret (Pulp_Spec (st_pulp s))) (Pulp_Namespace (st_pulp s)) s = Some (r, s1)"
    using assms(2) storage_index [of "GetStorageType (st_pulp s)"] GetSigningKeyFingerprint_Some [OF assms(1)] by blast
  then have "setGpgInitContainer X s \<noteq> None"
    by (simp add: setGpgInitContainer_def Let_def split_beta)
  then show ?thesis
    by (cases "length (Spec_SigningSecret (Pulp_Spec (st_pulp s))) > 0"; cases "setGpgInitContainer X s")
       (simp_all only: setInitContainers_def Let_def if_True if_False Option.bind.simps split_paired_all prod.case, blast+)
qed

lemma setTelemetryConfig_Some:
  "t = API \<Longrightarrow> cd_containers d \<noteq> [] \<Longrightarrow> \<exists>d'. setTelemetryConfig X p t d = Some d'"
  "t \<noteq> API \<Longrightarrow> \<exists>d'. setTelemetryConfig X p t d = Some d'"
  by (auto simp: setTelemetryConfig_def telemetryConfig_def Let_def neq_Nil_conv)

lemma component_setters_Some:
  assumes "t \<in> {API, CONTENT, WORKER}"
  shows "\<exists>d'. setReplicas p t d = Some d'" "\<exists>d'. setStrategy p t d = Some d'" "\<exists>d'. setAffinity p t d = Some d'"
    "\<exists>d'. setNodeSelector p t d = Some d'" "\<exists>d'. setTolerations p t d = Some d'"
    "\<exists>d'. setTopologySpreadConstraints p t d = Some d'" "\<exists>d'. setResourceRequirements p t d = Some d'"
    "\<exists>d'. setInitContainerResourceRequirements p t d = Some d'" "\<exists>d'. setInitContainerImage p t d = Some d'"
    "\<exists>d'. setInitContainerEnvVars p t d = Some d'"
  using assms component_of_Some [of "Pulp_Spec p" t] custom_env_Some [of t p]
  by (auto simp: setReplicas_def setStrategy_def setAffinity_def setNodeSelector_def setTolerations_def
      setTopologySpreadConstraints_def setResourceRequirements_def setInitContainerResourceRequirements_def
      setInitContainerImage_def setInitContainerEnvVars_def Let_def split: option.split)

lemma component_state_setters_Some:
  assumes "t \<in> {API, CONTENT, WORKER}"
  shows "\<exists>d' s'. setAnnotations t d s = Some (d', s')" "\<exists>d' s'. setLivenessProbe X t d s = Some (d', s')"
    "\<exists>d' s'. setReadinessProbe X t d s = Some (d', s')"
  using assms component_of_Some [of "Pulp_Spec (st_pulp s)" t]
  by (auto simp: setAnnotations_def setLivenessProbe_def setReadinessProbe_def Let_def split_beta split: option.split)

lemma set_DeploymentAnnotations_storage [simp]:
  "pulp_storage_options (set_DeploymentAnnotations t v spec) = pulp_storage_options spec"
  by (cases t) (simp_all add: pulp_storage_options_def)

lemma set_PodLabels_storage [simp]:
  "pulp_storage_options (set_PodLabels t v spec) = pulp_storage_options spec"
  by (cases t) (simp_all add: pulp_storage_options_def)

lemma GetStorageType_labels:
  assumes "setLabels t d s = (d', s')"
  shows "GetStorageType (st_pulp s') = GetStorageType (st_pulp s)"
proof -
  have "st_pulp s' = snd (PulpcorePodLabels (st_pulp s) t)"
    using arg_cong [OF assms, of "\<lambda>r. st_pulp (snd r)"] by (simp add: setLabels_def split_beta Let_def)
  then show ?thesis
    by (simp add: GetStorageType_eq PulpcorePodLabels_def Let_def split: option.split)
qed

lemma GetStorageType_annotations:
  "setAnnotations t d s = Some (d', s') \<Longrightarrow> GetStorageType (st_pulp s') = GetStorageType (st_pulp s)"
  unfolding setAnnotations_def Let_def GetStorageType_eq by (elim bind_SomeE) (drule sym, simp)

lemma build_Some:
  assumes X: "keyrings_have_keys X" and t: "t \<in> {API, CONTENT, WORKER}" and st: "GetStorageType (st_pulp s) \<noteq> []"
  shows "\<exists>d' s'. build X t d s = Some (d', s')"
proof -
  note comp = component_setters_Some [OF t] and state = component_state_setters_Some [OF t]
  obtain d1 where 1: "setReplicas (st_pulp s) t d = Some d1" using comp(1) by blast
  obtain d2 s2 where 2: "setEnvVars X t d1 s = Some (d2, s2)" using setEnvVars_Some [OF X t] by blast
  obtain d3 where 3: "setStrategy (st_pulp s2) t d2 = Some d3" using comp(2) by blast
  obtain d4 s4 where 4: "setLabels t d3 s2 = (d4, s4)" by fastforce
  obtain d5 s5 where 5: "setAnnotations t d4 s4 = Some (d5, s5)" using state(1) by blast
  have st5: "GetStorageType (st_pulp s5) \<noteq> []"
    using st pulp_setters(1) [OF 2] GetStorageType_labels [OF 4] GetStorageType_annotations [OF 5] by simp
  obtain d6 where 6: "setAffinity (st_pulp s5) t d5 = Some d6" using comp(3) by blast
  obtain d7 where 7: "setNodeSelector (st_pulp s5) t (setPodSecurityContext d6) = Some d7" using comp(4) by blast
  obtain d8 where 8: "setTolerations (st_pulp s5) t d7 = Some d8" using comp(5) by blast
  obtain d9 s9 where 9: "setVolumes X t d8 s5 = Some (d9, s9)" using setVolumes_Some [OF st5] by blast
  have s9: "st_pulp s9 = st_pulp s5" by (rule pulp_setters(2) [OF 9])
  obtain d10 where 10: "setVolumeMounts (st_pulp s9) t d9 = Some d10"
    using setVolumeMounts_Some setVolumes_readable [OF 9] st5 by (metis s9)
  obtain d11 where 11: "setResourceRequirements (st_pulp s9) t d10 = Some d11" using comp(7) by blast
  obtain d12 s12 where 12: "setLivenessProbe X t d11 s9 = Some (d12, s12)" using state(2) by blast
  obtain d13 s13 where 13: "setReadinessProbe X t d12 s12 = Some (d13, s13)" using state(3) by blast
  have s13: "st_pulp s13 = st_pulp s5" using pulp_setters(3) [OF 12] pulp_setters(4) [OF 13] s9 by simp
  obtain d14 where 14: "setTopologySpreadConstraints (st_pulp s13) t (setImage X (st_pulp s13) d13) = Some d14" using comp(6) by blast
  obtain d15 where 15: "setInitContainerResourceRequirements (st_pulp s13) t d14 = Some d15" using comp(8) by blast
  obtain d16 where 16: "setInitContainerImage (st_pulp s13) t d15 = Some d16" using comp(9) by blast
  obtain d17 where 17: "setInitContainerVolumeMounts (st_pulp s13) d16 = Some d17"
    using st5 storage_index [of "GetStorageType (st_pulp s5)"] by (auto simp: setInitContainerVolumeMounts_def s13)
  obtain d18 where 18: "setInitContainerEnvVars (st_pulp s13) t d17 = Some d18" using comp(10) by blast
  obtain d19 s19 where 19: "setLDAPConfigs X d18 s13 = (d19, s19)" by fastforce
  have "GetStorageType (st_pulp s19) \<noteq> []" using pulp_LDAP [OF 19] s13 st5 by simp
  then obtain d20 s20 where 20: "setInitContainers X t d19 s19 = Some (d20, s20)" using setInitContainers_Some [OF X] by blast
  let ?d = "setSchedulerName (setDnsPolicy (setTerminationPeriod (setRestartPolicy (setContainers (st_pulp s20) t d20))))"
  have "cd_containers ?d \<noteq> []" using t by (auto simp: plain_setters Let_def)
  then obtain d21 where 21: "setTelemetryConfig X (st_pulp s20) t ?d = Some d21"
    using setTelemetryConfig_Some(1) [of t ?d X] setTelemetryConfig_Some(2) [of t X _ ?d] by blast
  show ?thesis
    unfolding build_def Let_def 1 2 3 4 5 6 7 8 9 10 11 12 13 14 15 16 17 18 19 20 21 Option.bind.simps prod.case by blast
qed


lemma mem_keyrings: "keyrings_have_keys mem_ext"
  by (simp add: keyrings_have_keys_def mem_ext_def)

definition ex_deploy_pulp :: Pulp where
  "ex_deploy_pulp = zero_Pulp\<lparr>Pulp_Meta := zero_ObjectMeta\<lparr>meta_Name := ''p'', meta_Namespace := ''ns''\<rparr>,
     Pulp_Spec := zero_PulpSpec\<lparr>Spec_PVC := ''claim'', Spec_AdminPasswordSecret := ''admin'',
       Spec_Api := zero_Api\<lparr>Api_EnvVars := [plain_env ''PULP_API_WORKERS'' ''99'', plain_env ''DEBUG'' ''1'']\<rparr>\<rparr>\<rparr>"

lemma ex_deploy_storage: "GetStorageType (st_pulp (mem_state ex_deploy_pulp [])) \<noteq> []"
  by (simp add: mem_state_def GetStorageType_eq pulp_storage_options_def ex_deploy_pulp_def)


lemma ex_deploy_build:
  obtains d s' where "build mem_ext API zero_CommonDeployment (mem_state ex_deploy_pulp []) = Some (d, s')"
  using build_Some [OF mem_keyrings _ ex_deploy_storage, of API] by blast

subsection \<open>What the Deployments promise\<close>

text \<open>
  C9: every volume that a container or an init container of a pulpcore pod mounts is a volume of the
  pod, whatever the custom resource and the cluster are: storage, signing, LDAP, trusted CA, telemetry.
\<close>

theorem deployment_mounts_have_volumes:
  assumes "build X t zero_CommonDeployment s = Some (d, s')"
  shows "\<forall>c \<in> set (cd_containers d @ cd_initContainers d).
    vm_Name ` set (ctr_VolumeMounts c) \<subseteq> vol_Name ` set (cd_volumes d)"
  using build_mounts [OF assms] by (simp add: mount_names_def vol_names_def)

theorem deployment_mounts_have_volumes_witness:
  "\<exists>d s'. build mem_ext API zero_CommonDeployment (mem_state ex_deploy_pulp []) = Some (d, s') \<and>
    (\<forall>c \<in> set (cd_containers d @ cd_initContainers d).
       vm_Name ` set (ctr_VolumeMounts c) \<subseteq> vol_Name ` set (cd_volumes d))"
proof -
  obtain d s' where b: "build mem_ext API zero_CommonDeployment (mem_state ex_deploy_pulp []) = Some (d, s')"
    by (rule ex_deploy_build)
  with deployment_mounts_have_volumes [OF b] show ?thesis by blast
qed

text \<open>
  C26: the selector of a pulpcore Deployment matches the labels of its own pods, whatever labels the
  user adds to them: an entry of the user under a key of the selector is overwritten.
\<close>

theorem selector_matches_pods:
  assumes "build X t zero_CommonDeployment s = Some (d, s')"
  shows "map_of (dspec_Selector (dep_Spec (deployment_of (st_pulp s') t d)))
    \<subseteq>\<^sub>m map_of (tmpl_Labels (dspec_Template (dep_Spec (deployment_of (st_pulp s') t d))))"
  using assms
proof (rule build_core)
  fix d1 d2 :: CommonDeployment and s2
  assume "core d = (fst (PulpcorePodLabels (st_pulp s) t), PulpcoreLabels (st_pulp s) t, PulpcoreLabels (st_pulp s) t, cd_envVars d2)"
  then show ?thesis
    by (simp add: core_def deployment_of_def PulpcorePodLabels_map)
qed

theorem selector_matches_pods_witness:
  "\<exists>d s'. build mem_ext API zero_CommonDeployment (mem_state ex_deploy_pulp []) = Some (d, s') \<and>
    map_of (dspec_Selector (dep_Spec (deployment_of (st_pulp s') API d)))
    \<subseteq>\<^sub>m map_of (tmpl_Labels (dspec_Template (dep_Spec (deployment_of (st_pulp s') API d))))"
proof -
  obtain d s' where b: "build mem_ext API zero_CommonDeployment (mem_state ex_deploy_pulp []) = Some (d, s')"
    by (rule ex_deploy_build)
  with selector_matches_pods [OF b] show ?thesis by blast
qed

text \<open>The value a pod sees: the kubelet lets a later entry of the list win.\<close>

definition env_lookup :: "EnvVar list \<Rightarrow> string \<Rightarrow> EnvVar option" where
  "env_lookup vs n = map_of (rev (map (\<lambda>v. (env_Name v, v)) vs)) n"

lemma env_lookup_append [simp]:
  "env_lookup (us @ vs) n = (case env_lookup vs n of Some v \<Rightarrow> Some v | None \<Rightarrow> env_lookup us n)"
  by (simp add: env_lookup_def map_add_def split: option.split)

lemma env_lookup_filter:
  "env_lookup (filter (\<lambda>v. P (env_Name v)) vs) n = (if P n then env_lookup vs n else None)"
  by (induction vs rule: rev_induct) (simp_all add: env_lookup_def)



end
