(* ===== verification/Pulpcore_Controllers.thy ===== *)
theory Pulpcore_Controllers
  imports Deployment_Props
begin

text \<open>
  \<open>api.go\<close>, \<open>content.go\<close> and \<open>worker.go\<close> of \<open>controllers/repo_manager\<close>: the controllers that
  create the Deployments and Services of pulpcore and keep them as the custom resource asks.
  Each creates what is missing, stopping at the first object it creates or fails to create,
  and then compares every object with the one it would create now.
\<close>

subsection \<open>Comparing what is there with what is wanted\<close>

text \<open>
  \<open>r.Get\<close> into a fresh object whose error is ignored: the zero value stays when there is none.
\<close>

definition get_or_zero :: "'w Externals \<Rightarrow> Object \<Rightarrow> string \<Rightarrow> 'w St \<Rightarrow> Object \<times> 'w St" where
  "get_or_zero X zero name s =
    (let (r, s) = call (x_Get X (obj_Kind zero) (Pulp_Namespace (st_pulp s)) name) s
     in (case r of Inr obj \<Rightarrow> if obj_Kind obj = obj_Kind zero then obj else zero | Inl _ \<Rightarrow> zero, s))"

definition ensureObject ::
  "'w Externals \<Rightarrow> string \<Rightarrow> Object \<Rightarrow> string \<Rightarrow> 'w provisioner \<Rightarrow> PulpObject \<Rightarrow> 'w St
    \<Rightarrow> ((bool \<times> error option) \<times> 'w St) option" where
  "ensureObject X conditionType zero name f pulpObject s =
    do { let (current, s) = get_or_zero X zero name s;
         (expected, s) \<leftarrow> f s;
         ReconcileObject X expected current conditionType pulpObject s }"

text \<open>One after the other, up to the first that has to be updated or fails.\<close>

fun ensureAll ::
  "'w Externals \<Rightarrow> string \<Rightarrow> (Object \<times> string \<times> 'w provisioner \<times> PulpObject) list \<Rightarrow> 'w St
    \<Rightarrow> ((bool \<times> error option) \<times> 'w St) option" where
  "ensureAll X conditionType [] s = Some ((False, None), s)"
| "ensureAll X conditionType ((zero, name, f, pulpObject) # rest) s =
    do { ((requeue, err), s) \<leftarrow> ensureObject X conditionType zero name f pulpObject s;
         if err \<noteq> None \<or> requeue then Some ((requeue, err), s)
         else ensureAll X conditionType rest s }"

text \<open>\<open>ctrl.Result{Requeue: requeue}\<close>.\<close>

definition result_of :: "bool \<Rightarrow> Result" where
  "result_of requeue = zero_Result\<lparr>Requeue := requeue\<rparr>"

subsection \<open>The API\<close>

definition serviceAPISpec :: "Pulp \<Rightarrow> ServiceSpec" where
  "serviceAPISpec pulp = cluster_ip_spec [tcp_service_port ''api-24817'' 24817 24817] (PulpcoreLabels pulp API)"

definition serviceAPIObject :: "Pulp \<Rightarrow> Service" where
  "serviceAPIObject pulp = \<lparr>
     svc_Meta = zero_ObjectMeta\<lparr>meta_Name := ApiService (Pulp_Name pulp), meta_Namespace := Pulp_Namespace pulp,
       meta_Labels := PulpcoreLabels pulp API\<rparr>,
     svc_Spec = serviceAPISpec pulp\<rparr>"

definition own_service :: "Pulp \<Rightarrow> Service \<Rightarrow> Object" where
  "own_service pulp svc = ServiceObj (svc\<lparr>svc_Meta := set_controller (Pulp_Name pulp) (svc_Meta svc)\<rparr>)"

definition serviceForAPI :: "'w provisioner" where
  "serviceForAPI s = Some (own_service (st_pulp s) (serviceAPIObject (st_pulp s)), s)"

definition api_resources :: "'w Externals \<Rightarrow> Pulp \<Rightarrow> 'w provisioner \<Rightarrow> (ResourceDefinition \<times> 'w provisioner) list" where
  "api_resources X pulp deploymentForPulpApi =
    (let define = (\<lambda>k name alias. \<lparr>rd_Type = k, rd_Name = name, rd_Alias = alias, rd_ConditionType = ''Pulp-API-Ready''\<rparr>)
     in [(define KDeployment (DeploymentName API (Pulp_Name pulp)) ''Api'', deploymentForPulpApi),
         (define KService (ApiService (Pulp_Name pulp)) ''Api'', serviceForAPI)] @
        (if Telemetry_Enabled (Spec_Telemetry (Pulp_Spec pulp))
         then [(define KConfigMap (OtelConfigMapName (Pulp_Name pulp)) ''Telemetry'', OtelConfigMap),
               (define KService (OtelServiceName (Pulp_Name pulp)) ''Telemetry'', ServiceOtel)]
         else []))"

definition api_objects :: "Pulp \<Rightarrow> 'w provisioner \<Rightarrow> (Object \<times> string \<times> 'w provisioner \<times> PulpObject) list" where
  "api_objects pulp deploymentForPulpApi =
    [(DeploymentObj zero_Deployment, DeploymentName API (Pulp_Name pulp), deploymentForPulpApi, PulpDeployment),
     (ServiceObj zero_Service, ApiService (Pulp_Name pulp), serviceForAPI, PulpService)] @
    (if Telemetry_Enabled (Spec_Telemetry (Pulp_Spec pulp))
     then [(ConfigMapObj zero_ConfigMap, OtelConfigMapName (Pulp_Name pulp), OtelConfigMap, PulpConfigMap),
           (ServiceObj zero_Service, OtelServiceName (Pulp_Name pulp), ServiceOtel, PulpService)]
     else [])"

definition pulpApiController :: "'w Externals \<Rightarrow> 'w St \<Rightarrow> ((Result \<times> error option) \<times> 'w St) option" where
  "pulpApiController X s =
    do { let (deployer, s) = initDeployment X API_DEPLOYMENT s;
         let deploymentForPulpApi = Deployer_Deploy X deployer;
         ((requeue, err), s) \<leftarrow> createAll X (api_resources X (st_pulp s) deploymentForPulpApi) s;
         if err \<noteq> None then Some ((zero_Result, err), s)
         else if requeue then Some ((requeue_Result, None), s)
         else do {
           ((requeue, err), s) \<leftarrow> ensureAll X ''Pulp-API-Ready'' (api_objects (st_pulp s) deploymentForPulpApi) s;
           Some ((result_of requeue, err), s) } }"

subsection \<open>Content\<close>

definition serviceContentSpec :: "Pulp \<Rightarrow> ServiceSpec" where
  "serviceContentSpec pulp =
    cluster_ip_spec [tcp_service_port ''content-24816'' 24816 24816] (PulpcoreLabels pulp CONTENT)"

definition serviceContentObject :: "Pulp \<Rightarrow> Service" where
  "serviceContentObject pulp = \<lparr>
     svc_Meta = zero_ObjectMeta\<lparr>meta_Name := ContentService (Pulp_Name pulp), meta_Namespace := Pulp_Namespace pulp,
       meta_Labels := PulpcoreLabels pulp CONTENT\<rparr>,
     svc_Spec = serviceContentSpec pulp\<rparr>"

definition serviceForContent :: "'w provisioner" where
  "serviceForContent s = Some (own_service (st_pulp s) (serviceContentObject (st_pulp s)), s)"

definition content_resources :: "Pulp \<Rightarrow> 'w provisioner \<Rightarrow> (ResourceDefinition \<times> 'w provisioner) list" where
  "content_resources pulp deploymentForPulpContent =
    [(\<lparr>rd_Type = KDeployment, rd_Name = DeploymentName CONTENT (Pulp_Name pulp), rd_Alias = ''Content'',
       rd_ConditionType = ''Pulp-Content-Ready''\<rparr>, deploymentForPulpContent),
     (\<lparr>rd_Type = KService, rd_Name = ContentService (Pulp_Name pulp), rd_Alias = ''Content'',
       rd_ConditionType = ''Pulp-Content-Ready''\<rparr>, serviceForContent)]"

definition pulpContentController :: "'w Externals \<Rightarrow> 'w St \<Rightarrow> ((Result \<times> error option) \<times> 'w St) option" where
  "pulpContentController X s =
    do { let (deployer, s) = initDeployment X CONTENT_DEPLOYMENT s;
         let deploymentForPulpContent = Deployer_Deploy X deployer;
         ((requeue, err), s) \<leftarrow> createAll X (content_resources (st_pulp s) deploymentForPulpContent) s;
         if err \<noteq> None then Some ((zero_Result, err), s)
         else if requeue then Some ((requeue_Result, None), s)
         else do {
           ((requeue, err), s) \<leftarrow> ensureAll X ''Pulp-Content-Ready''
             [(DeploymentObj zero_Deployment, DeploymentName CONTENT (Pulp_Name (st_pulp s)), deploymentForPulpContent, PulpDeployment),
              (ServiceObj zero_Service, ContentService (Pulp_Name (st_pulp s)), serviceForContent, PulpService)] s;
           Some ((result_of requeue, err), s) } }"

subsection \<open>Workers\<close>

text \<open>The script that waits for the database, in a ConfigMap because the image knows IPv6 only.\<close>

definition wait_on_postgres :: string where
  "wait_on_postgres =
    (let env = (\<lambda>v. ''os.environ['' @ dq v @ '']'') in
     raw []
      [''#!/usr/bin/env python3'', ''import os'', ''import socket'', ''import sys'', ''import time'',
       ''if __name__ == '' @ dq ''__main__'' @ '':'',
       ''    postgres_is_alive = False'',
       ''    s4 = socket.socket(socket.AF_INET, socket.SOCK_STREAM)'',
       ''    tries = 0'',
       ''    print('' @ dq ''Waiting on postgresql to start...'' @ '')'',
       ''    while not postgres_is_alive and tries < 100:'',
       ''        tries += 1'',
       ''        pg_port = 5432'',
       ''        try:'',
       ''            env_port = os.environ.get('' @ dq ''POSTGRES_SERVICE_PORT'' @ '', '' @ dq ''5432'' @ '')'',
       ''            pg_port = int(env_port)'',
       ''        except ValueError:'',
       ''            pass'',
       ''        try:'',
       ''            print('' @ dq ''Checking postgres host %s'' @ '' % '' @ env ''POSTGRES_SERVICE_HOST'' @ '')'',
       ''            print('' @ dq ''Checking postgres port %s'' @ '' % '' @ env ''POSTGRES_SERVICE_PORT'' @ '')'',
       ''            s4.connect(('' @ env ''POSTGRES_SERVICE_HOST'' @ '', pg_port))'',
       ''        except socket.error:'',
       ''            time.sleep(3)'',
       ''        else:'',
       ''            postgres_is_alive = True'',
       [],
       ''    if postgres_is_alive:'',
       ''        print('' @ dq ''Postgres started!'' @ '')'',
       ''        sys.exit(0)'',
       ''    else:'',
       ''        print('' @ dq ''Unable to reach postgres on port %s'' @ '' % '' @ env ''POSTGRES_SERVICE_PORT'' @ '')'',
       ''        sys.exit(1)''])"

definition postgresConnectionConfigMap :: "'w provisioner" where
  "postgresConnectionConfigMap s =
    (let pulp = st_pulp s in
     Some (ConfigMapObj \<lparr>
       cm_Meta = zero_ObjectMeta\<lparr>meta_Name := PulpWorkerProbe (Pulp_Name pulp), meta_Namespace := Pulp_Namespace pulp,
         meta_Labels := CommonLabels pulp\<rparr>,
       cm_Data = [(''wait_on_postgres.py'', wait_on_postgres)]\<rparr>, s))"

text \<open>A nil result means: go on.\<close>

definition createProbeConfigMap ::
  "'w Externals \<Rightarrow> string \<Rightarrow> 'w St \<Rightarrow> ((Result option \<times> error option) \<times> 'w St) option" where
  "createProbeConfigMap X conditionType s =
    (if \<not> Ipv6Disabled (st_pulp s) then Some ((None, None), s)
     else do {
       let configMapName = PulpWorkerProbe (Pulp_Name (st_pulp s));
       ((requeue, err), s) \<leftarrow> createPulpResource X
         \<lparr>rd_Type = KConfigMap, rd_Name = configMapName, rd_Alias = ''PulpWorkerProbe'', rd_ConditionType = conditionType\<rparr>
         postgresConnectionConfigMap s;
       if err \<noteq> None then Some ((None, err), s)
       else if requeue then Some ((Some requeue_Result, None), s)
       else do {
         ((requeue, err), s) \<leftarrow> ensureObject X conditionType (ConfigMapObj zero_ConfigMap) configMapName
           postgresConnectionConfigMap PulpConfigMap s;
         if err \<noteq> None \<or> requeue then Some ((Some (result_of requeue), err), s)
         else Some ((None, None), s) } })"

text \<open>The Deployment: created, then compared, then the condition of the workers set.\<close>

definition workerDeployment :: "'w Externals \<Rightarrow> string \<Rightarrow> 'w St \<Rightarrow> ((Result \<times> error option) \<times> 'w St) option" where
  "workerDeployment X conditionType s =
    do { let (deployer, s) = initDeployment X WORKER_DEPLOYMENT s;
         let deploymentForPulpWorker = Deployer_Deploy X deployer;
         let deploymentName = DeploymentName WORKER (Pulp_Name (st_pulp s));
         ((requeue, err), s) \<leftarrow> createPulpResource X
           \<lparr>rd_Type = KDeployment, rd_Name = deploymentName, rd_Alias = ''Worker'', rd_ConditionType = conditionType\<rparr>
           deploymentForPulpWorker s;
         if err \<noteq> None \<or> requeue then Some ((result_of requeue, err), s)
         else do {
           ((requeue, err), s) \<leftarrow> ensureObject X conditionType (DeploymentObj zero_Deployment) deploymentName
             deploymentForPulpWorker PulpDeployment s;
           if err \<noteq> None \<or> requeue then Some ((result_of requeue, err), s)
           else if x_IsStatusConditionFalse X (conditions s) conditionType
           then Some ((zero_Result, None), Record_Event EventNormal ''WorkerReady'' ''All Worker tasks ran successfully''
             (UpdateStatus X ConditionTrue conditionType ''WorkerTasksFinished'' ''All Worker tasks ran successfully'' s))
           else Some ((zero_Result, None), s) } }"

text \<open>\<open>return *requeue, err\<close> dereferences nil when only the error is set.\<close>

definition pulpWorkerController :: "'w Externals \<Rightarrow> 'w St \<Rightarrow> ((Result \<times> error option) \<times> 'w St) option" where
  "pulpWorkerController X s =
    do { let conditionType = ''Pulp-Worker-Ready'';
         ((requeue, err), s) \<leftarrow> createProbeConfigMap X conditionType s;
         if err \<noteq> None \<or> requeue \<noteq> None then do { result \<leftarrow> requeue; Some ((result, err), s) }
         else workerDeployment X conditionType s }"

subsection \<open>When the controllers panic\<close>

lemma get_or_zero_kind [simp]: "obj_Kind (fst (get_or_zero X zero name s)) = obj_Kind zero"
  by (simp add: get_or_zero_def split_beta split: sum.split)

lemma get_or_zero_frame [simp]: "st_pulp (snd (get_or_zero X zero name s)) = st_pulp s"
  by (simp add: get_or_zero_def split_beta)

lemma initDeployment_frame [simp]: "st_pulp (snd (initDeployment X dt s)) = st_pulp s"
  by (simp add: initDeployment_def split_beta)

lemma createPulpResource_Some:
  assumes "objKind_name (rd_Type r) \<noteq> None" "\<And>s'. st_pulp s' = st_pulp s \<Longrightarrow> f s' \<noteq> None"
  shows "createPulpResource X r f s \<noteq> None"
proof -
  obtain kind where kind: "objKind_name (rd_Type r) = Some kind" using assms(1) by blast
  obtain g s1 where g: "call (x_Get X (rd_Type r) (Pulp_Namespace (st_pulp s)) (rd_Name r)) s = (g, s1)" by fastforce
  then have "st_pulp s1 = st_pulp s" by (metis call_sel(3) snd_conv)
  from assms(2) [OF this] obtain obj s2 where "f s1 = Some (obj, s2)" by auto
  with kind g show ?thesis
    by (auto simp: createPulpResource_def Let_def split_beta split: sum.split option.split)
qed

lemma ensureObject_Some:
  assumes f: "\<And>s'. st_pulp s' = st_pulp s \<Longrightarrow> f s' \<noteq> None"
    and k: "handled_kind po (obj_Kind zero)" "\<And>s obj s'. f s = Some (obj, s') \<Longrightarrow> obj_Kind obj = obj_Kind zero"
  shows "\<exists>requeue err s'. ensureObject X ct zero name f po s = Some ((requeue, err), s')"
proof -
  obtain c s1 where c: "get_or_zero X zero name s = (c, s1)" by fastforce
  then have "st_pulp s1 = st_pulp s" and kc: "obj_Kind c = obj_Kind zero"
    by (metis get_or_zero_frame snd_conv, metis get_or_zero_kind fst_conv)
  with f [of s1] obtain obj s2 where obj: "f s1 = Some (obj, s2)" by auto
  have "handled_kind po (obj_Kind obj)" "handled_kind po (obj_Kind c)" using k(1) k(2) [OF obj] kc by simp_all
  then obtain requeue err s' where "ReconcileObject X obj c ct po s2 = Some ((requeue, err), s')"
    using kind_outcome [of po obj c X ct s2] by blast
  with c obj show ?thesis by (simp add: ensureObject_def)
qed

lemma Deploy_kind: "Deployer_Deploy X deployer s = Some (obj, s') \<Longrightarrow> obj_Kind obj = KDeployment"
  by (cases deployer) (auto split: bind_splits)

lemma AddHashLabel_frame [simp]: "st_pulp (snd (AddHashLabel X d s)) = st_pulp s"
  by (simp add: AddHashLabel_def split_beta Let_def)

lemma Deploy_storage:
  assumes "Deploy X t s = Some (dep, s')"
  shows "GetStorageType (st_pulp s') = GetStorageType (st_pulp s)"
proof -
  from assms obtain d s1 where b: "build X t zero_CommonDeployment s = Some (d, s1)"
    and s': "s' = snd (AddHashLabel X (deployment_of (st_pulp s1) t d) s1)"
    by (auto simp: Deploy_def split_beta Let_def split: bind_splits)
  have "GetStorageType (st_pulp s1) = GetStorageType (st_pulp s)"
    using b
  proof (rule build_steps, goal_cases)
    case (1 d1 d2 s2 d3 d4 s4 d5 s5 d6 d7 d8 d9 s9 d10 d11 d12 s12 d13 s13 d14 d15 d16 d17 d18 d19 s19 d20)
    then show ?case
      using pulp_setters(1) [OF 1(2)] GetStorageType_labels [OF 1(4)] GetStorageType_annotations [OF 1(5)] pulp_setters(2) [OF 1(9)]
        pulp_setters(3) [OF 1(12)] pulp_setters(4) [OF 1(13)] pulp_LDAP [OF 1(19)] pulp_setters(5) [OF 1(20)]
      by simp
  qed
  then show ?thesis by (simp add: s')
qed

lemma Deployer_storage:
  "Deployer_Deploy X deployer s = Some (obj, s') \<Longrightarrow> GetStorageType (st_pulp s') = GetStorageType (st_pulp s)"
  by (cases deployer) (auto simp: Deploy_OCP_def split_beta split: bind_splits dest: Deploy_storage)

lemma Deployer_Some:
  assumes "keyrings_have_keys X" "GetStorageType (st_pulp s) \<noteq> []" "deployer \<in> {DeploymentVanilla WORKER, DeploymentOCP WORKER}"
  shows "Deployer_Deploy X deployer s \<noteq> None"
proof -
  obtain d s1 where "build X WORKER zero_CommonDeployment s = Some (d, s1)"
    using build_Some [OF assms(1) _ assms(2), of WORKER] by blast
  then show ?thesis using assms(3) by (auto simp: Deploy_OCP_def Deploy_def split_beta Let_def)
qed

context status_server
begin

lemma createPulpResource_storage:
  assumes "createPulpResource X r f s = Some (q, s')"
    and "\<And>s obj s'. f s = Some (obj, s') \<Longrightarrow> GetStorageType (st_pulp s') = GetStorageType (st_pulp s)"
  shows "GetStorageType (st_pulp s') = GetStorageType (st_pulp s)"
proof -
  obtain g s1 where g: "call (x_Get X (rd_Type r) (Pulp_Namespace (st_pulp s)) (rd_Name r)) s = (g, s1)" by fastforce
  then have s1: "st_pulp s1 = st_pulp s" by (metis call_sel(3) snd_conv)
  have keep: "GetStorageType (st_pulp s2) = GetStorageType (st_pulp s)" if "f s1 = Some (obj, s2)" for obj s2
    using assms(2) [OF that] s1 by simp
  from assms(1) g s1 keep show ?thesis
    unfolding createPulpResource_def Let_def
    by (auto simp: GetStorageType_eq split_beta split: sum.splits option.splits if_splits bind_splits)
qed

lemma workerDeployment_Some:
  assumes "keyrings_have_keys X" "GetStorageType (st_pulp s) \<noteq> []"
  shows "workerDeployment X ct s \<noteq> None"
proof -
  obtain deployer s1 where init: "initDeployment X WORKER_DEPLOYMENT s = (deployer, s1)" by fastforce
  then have s1: "st_pulp s1 = st_pulp s" and dep: "deployer \<in> {DeploymentVanilla WORKER, DeploymentOCP WORKER}"
    by (metis initDeployment_frame snd_conv, auto simp: initDeployment_def split_beta split: if_splits)
  have total: "Deployer_Deploy X deployer s' \<noteq> None" if "GetStorageType (st_pulp s') \<noteq> []" for s'
    by (rule Deployer_Some [OF assms(1) that dep])
  let ?name = "DeploymentName WORKER (Pulp_Name (st_pulp s1))"
  let ?r = "\<lparr>rd_Type = KDeployment, rd_Name = ?name, rd_Alias = ''Worker'', rd_ConditionType = ct\<rparr>"
  have "createPulpResource X ?r (Deployer_Deploy X deployer) s1 \<noteq> None"
    by (rule createPulpResource_Some) (use total assms(2) s1 in auto)
  then obtain requeue err s2 where create: "createPulpResource X ?r (Deployer_Deploy X deployer) s1 = Some ((requeue, err), s2)"
    by auto
  have "GetStorageType (st_pulp s2) \<noteq> []"
    using createPulpResource_storage [OF create Deployer_storage] assms(2) s1 by simp
  then have "\<exists>requeue err s'. ensureObject X ct (DeploymentObj zero_Deployment) ?name (Deployer_Deploy X deployer) PulpDeployment s2
      = Some ((requeue, err), s')"
    by (intro ensureObject_Some) (use total Deploy_kind in auto)
  then show ?thesis
    using create by (auto simp: workerDeployment_def init Let_def)
qed

lemma probe_quiet:
  assumes "ensureObject X ct (ConfigMapObj zero_ConfigMap) name postgresConnectionConfigMap PulpConfigMap s = Some ((False, None), s')"
  shows "st_pulp s' = st_pulp s"
proof -
  obtain c s1 where c: "get_or_zero X (ConfigMapObj zero_ConfigMap) name s = (c, s1)" by fastforce
  then have s1: "st_pulp s1 = st_pulp s" and kc: "obj_Kind c = KConfigMap"
    by (metis get_or_zero_frame snd_conv, metis get_or_zero_kind fst_conv obj_Kind.simps(2))
  obtain cm where cm: "postgresConnectionConfigMap s1 = Some (ConfigMapObj cm, s1)"
    by (simp add: postgresConnectionConfigMap_def Let_def)
  with kind_outcome [of PulpConfigMap "ConfigMapObj cm" c X ct s1] kc c assms s1 show ?thesis
    by (auto simp: ensureObject_def)
qed

lemma probe_cases:
  assumes "Ipv6Disabled (st_pulp s)" "GetStorageType (st_pulp s) \<noteq> []"
    and r_def: "r = \<lparr>rd_Type = KConfigMap, rd_Name = PulpWorkerProbe (Pulp_Name (st_pulp s)), rd_Alias = ''PulpWorkerProbe'',
      rd_ConditionType = ct\<rparr>"
  obtains (failed) e s' where "createPulpResource X r postgresConnectionConfigMap s = Some ((False, Some e), s')"
      "createProbeConfigMap X ct s = Some ((None, Some e), s')"
    | (stop) result err s' where "createProbeConfigMap X ct s = Some ((Some result, err), s')"
      "\<nexists>e s'. createPulpResource X r postgresConnectionConfigMap s = Some ((False, Some e), s')"
    | (go) s' where "createProbeConfigMap X ct s = Some ((None, None), s')" "GetStorageType (st_pulp s') \<noteq> []"
      "\<nexists>e s'. createPulpResource X r postgresConnectionConfigMap s = Some ((False, Some e), s')"
proof -
  have total: "postgresConnectionConfigMap s \<noteq> None" for s :: "'a St"
    by (simp add: postgresConnectionConfigMap_def Let_def)
  have "createPulpResource X r postgresConnectionConfigMap s \<noteq> None"
    by (rule createPulpResource_Some) (use total in \<open>auto simp: r_def\<close>)
  then obtain requeue err s1 where create: "createPulpResource X r postgresConnectionConfigMap s = Some ((requeue, err), s1)"
    by auto
  have s1: "GetStorageType (st_pulp s1) \<noteq> []"
    using createPulpResource_storage [OF create] assms(2) by (simp add: postgresConnectionConfigMap_def Let_def)
  have "\<exists>rq e s'. ensureObject X ct (ConfigMapObj zero_ConfigMap) (PulpWorkerProbe (Pulp_Name (st_pulp s))) postgresConnectionConfigMap PulpConfigMap s1
      = Some ((rq, e), s')"
    by (rule ensureObject_Some) (use total in \<open>auto simp: postgresConnectionConfigMap_def Let_def\<close>)
  then obtain rq e s2 where ens: "ensureObject X ct (ConfigMapObj zero_ConfigMap) (PulpWorkerProbe (Pulp_Name (st_pulp s))) postgresConnectionConfigMap
      PulpConfigMap s1 = Some ((rq, e), s2)" by blast
  note run = createProbeConfigMap_def [of X ct s] and defs = assms(1) Let_def r_def [symmetric]
  show thesis
  proof (cases err)
    case (Some x)
    then have "\<not> requeue" using createPulpResource_never_both [OF create] by blast
    with Some create show thesis
      by (intro failed [of x s1]) (simp_all add: run defs)
  next
    case None
    then have no: "\<nexists>e s'. createPulpResource X r postgresConnectionConfigMap s = Some ((False, Some e), s')"
      using create by simp
    consider "requeue" | "\<not> requeue" "e \<noteq> None \<or> rq" | "\<not> requeue" "e = None" "\<not> rq" by blast
    then show thesis
    proof cases
      case 1
      with None create show thesis by (intro stop [OF _ no]) (simp add: run defs)
    next
      case 2
      with None create ens show thesis by (intro stop [OF _ no]) (simp add: run defs)
    next
      case 3
      with None create ens have "createProbeConfigMap X ct s = Some ((None, None), s2)"
        by (simp add: run defs)
      with 3 ens s1 probe_quiet [of ct "PulpWorkerProbe (Pulp_Name (st_pulp s))" s1 s2] show thesis by (intro go [of s2, OF _ _ no]) simp_all
    qed
  qed
qed

end

text \<open>
  C40: the worker controller panics exactly when IPv6 is disabled and the ConfigMap of the probe
  cannot be read or created. The error is reported with a nil result, which the caller dereferences,
  so an ordinary error of the API server becomes a panic instead of an answer.
\<close>

theorem worker_controller_panics_iff:
  assumes "status_server X" "keyrings_have_keys X" "GetStorageType (st_pulp s) \<noteq> []"
  shows "pulpWorkerController X s = None \<longleftrightarrow> Ipv6Disabled (st_pulp s) \<and>
    (\<exists>e s'. createPulpResource X \<lparr>rd_Type = KConfigMap, rd_Name = PulpWorkerProbe (Pulp_Name (st_pulp s)),
        rd_Alias = ''PulpWorkerProbe'', rd_ConditionType = ''Pulp-Worker-Ready''\<rparr> postgresConnectionConfigMap s
      = Some ((False, Some e), s'))"
proof (cases "Ipv6Disabled (st_pulp s)")
  case False
  then show ?thesis
    using status_server.workerDeployment_Some [OF assms] by (simp add: pulpWorkerController_def createProbeConfigMap_def)
next
  case True
  show ?thesis
    by (rule status_server.probe_cases [OF assms(1) True assms(3) refl, of "''Pulp-Worker-Ready''"])
       (use True status_server.workerDeployment_Some [OF assms(1,2)] in \<open>auto simp: pulpWorkerController_def\<close>)
qed

text \<open>A server that refuses every \<open>Create\<close>.\<close>

definition refusing_ext :: "mem Externals" where
  "refusing_ext = mem_ext\<lparr>x_Create := (\<lambda>obj w. (Some (Errorf ''forbidden''), w))\<rparr>"

interpretation refusing: status_server refusing_ext
  using mem_status.status_server_axioms
  by (simp add: status_server_def condition_lib_def pulp_store_def refusing_ext_def)

definition ex_ipv6_pulp :: Pulp where
  "ex_ipv6_pulp = upd_Spec (\<lambda>spec. spec\<lparr>Spec_IPv6Disabled := Some True\<rparr>) ex_deploy_pulp"

theorem worker_controller_panics_iff_witness: "pulpWorkerController refusing_ext (mem_state ex_ipv6_pulp []) = None"
proof -
  have "keyrings_have_keys refusing_ext"
    using mem_keyrings by (simp add: keyrings_have_keys_def refusing_ext_def)
  moreover have p: "Ipv6Disabled (st_pulp (mem_state ex_ipv6_pulp []))" "GetStorageType (st_pulp (mem_state ex_ipv6_pulp [])) \<noteq> []"
    using ex_deploy_storage by (simp_all add: mem_state_def ex_ipv6_pulp_def Ipv6Disabled_def GetStorageType_eq pulp_storage_options_def)
  ultimately have "pulpWorkerController refusing_ext (mem_state ex_ipv6_pulp []) = None \<longleftrightarrow>
    (\<exists>e s'. createPulpResource refusing_ext \<lparr>rd_Type = KConfigMap, rd_Name = PulpWorkerProbe (Pulp_Name (st_pulp (mem_state ex_ipv6_pulp []))),
        rd_Alias = ''PulpWorkerProbe'', rd_ConditionType = ''Pulp-Worker-Ready''\<rparr> postgresConnectionConfigMap (mem_state ex_ipv6_pulp [])
      = Some ((False, Some e), s'))"
    using worker_controller_panics_iff [OF refusing.status_server_axioms, of "mem_state ex_ipv6_pulp []"] by simp
  moreover have "\<exists>e s'. createPulpResource refusing_ext r postgresConnectionConfigMap (mem_state p []) = Some ((False, Some e), s')"
    if "rd_Type r = KConfigMap" for r p
    using that by (simp add: createPulpResource_def refusing_ext_def mem_ext_def mem_get_def mem_lookup_def mem_state_def mem_init_def
        postgresConnectionConfigMap_def call_def Let_def)
  ultimately show ?thesis by simp
qed

end
