(* ===== verification/Convergence.thy ===== *)
theory Convergence
  imports Pulpcore_Controllers
begin

text \<open>
  Why the requeues end. A controller that creates an object answers with a requeue, and the
  work queue runs it again. On a cluster where objects stay once they are created, every such
  run leaves fewer objects missing, whatever else happens to the custom resource in between,
  so the controller stops asking for another run after as many runs as objects were missing.
\<close>

subsection \<open>A cluster where objects stay\<close>

text \<open>
  On top of the laws of the client: a \<open>Create\<close>, successful or not, removes nothing, and a dry
  run removes nothing and keeps kind, name and namespace of the object it is given.
\<close>

definition found :: "'w Externals \<Rightarrow> Kind \<Rightarrow> string \<Rightarrow> string \<Rightarrow> 'w \<Rightarrow> bool" where
  "found X k ns n w \<longleftrightarrow> (\<exists>obj. fst (x_Get X k ns n w) = Inr obj)"

locale stable_cluster = status_server + object_store + quiet_cluster +
  assumes create_keeps: "found X k ns n w \<Longrightarrow> found X k ns n (snd (x_Create X obj w))"
    and dry_create_get: "fst (x_Get X k ns n (snd (x_DryRunCreate X obj w))) = fst (x_Get X k ns n w)"
    and dry_update_get: "fst (x_Get X k ns n (snd (x_DryRunUpdate X obj w))) = fst (x_Get X k ns n w)"
    and dry_create_key: "key_of (snd (fst (x_DryRunCreate X obj w))) = key_of obj"
    and dry_update_key: "key_of (snd (fst (x_DryRunUpdate X obj w))) = key_of obj"
    and discovery_get: "fst (x_Get X k ns n (snd (x_ServerResources X gv w))) = fst (x_Get X k ns n w)"
begin

lemma UpdateStatus_found: "found X k ns n (st_world (UpdateStatus X st t r m s)) = found X k ns n (st_world s)"
  by (simp add: UpdateStatus_def set_condition_now_def Status_Update_def found_def Let_def split_beta
      status_update_get now_get call_def)

end

interpretation mem_stable: stable_cluster mem_ext
proof unfold_locales
  fix k ns n w obj
  have "List.find P (xs @ ys) = Some x" if "List.find P xs = Some x" for P :: "Object \<Rightarrow> bool" and xs ys x
    using that by (induction xs) (auto split: if_splits)
  then show "found mem_ext k ns n w \<Longrightarrow> found mem_ext k ns n (snd (x_Create mem_ext obj w))"
    by (auto simp: found_def mem_ext_def mem_get_def mem_lookup_def mem_create_def Let_def split: option.splits)
qed (simp_all add: mem_ext_def mem_get_def)

subsection \<open>Provisioners and progress\<close>

definition names_instance :: "string \<Rightarrow> string \<Rightarrow> 'w St \<Rightarrow> bool" where
  "names_instance n ns s \<longleftrightarrow> Pulp_Name (st_pulp s) = n \<and> Pulp_Namespace (st_pulp s) = ns"

definition present :: "'w Externals \<Rightarrow> string \<Rightarrow> 'w St \<Rightarrow> ResourceDefinition \<Rightarrow> bool" where
  "present X ns s r \<longleftrightarrow> found X (rd_Type r) ns (rd_Name r) (st_world s)"

definition missing :: "'w Externals \<Rightarrow> string \<Rightarrow> (ResourceDefinition \<times> 'w provisioner) list \<Rightarrow> 'w St \<Rightarrow> nat" where
  "missing X ns rs s = length (filter (\<lambda>(r, f). \<not> present X ns s r) rs)"

text \<open>Nothing that was there is gone.\<close>

definition keeps_objects :: "'w Externals \<Rightarrow> string \<Rightarrow> 'w St \<Rightarrow> 'w St \<Rightarrow> bool" where
  "keeps_objects X ns s s' \<longleftrightarrow> (\<forall>k m. found X k ns m (st_world s) \<longrightarrow> found X k ns m (st_world s'))"

lemma keeps_objects_refl [simp]: "keeps_objects X ns s s"
  by (simp add: keeps_objects_def)

lemma keeps_objects_trans [trans]: "keeps_objects X ns a b \<Longrightarrow> keeps_objects X ns b c \<Longrightarrow> keeps_objects X ns a c"
  by (simp add: keeps_objects_def)

text \<open>One run that asks for another, and the start of the next: only the cluster is carried over.\<close>

definition rerun ::
  "'w Externals \<Rightarrow> string \<Rightarrow> string \<Rightarrow> (ResourceDefinition \<times> 'w provisioner) list \<Rightarrow> ('w St \<times> 'w St) set" where
  "rerun X n ns rs = {(next, s). names_instance n ns s \<and> names_instance n ns next \<and>
     (\<exists>s'. createAll X rs s = Some ((True, None), s') \<and> st_world next = st_world s')}"

text \<open>The contract of a list of resources: each is created under the key it is looked up by.\<close>

locale provisioners = stable_cluster X for X :: "'w Externals" +
  fixes rs :: "(ResourceDefinition \<times> 'w provisioner) list" and n ns :: string
  assumes provides: "(r, f) \<in> set rs \<Longrightarrow> names_instance n ns s \<Longrightarrow> f s = Some (obj, s') \<Longrightarrow>
      key_of obj = (rd_Type r, ns, rd_Name r) \<and> rd_Name r \<noteq> [] \<and> names_instance n ns s' \<and> keeps_objects X ns s s'"
begin

lemma missing_mono: "keeps_objects X ns s s' \<Longrightarrow> missing X ns rs' s' \<le> missing X ns rs' s"
  by (induction rs') (auto simp: missing_def keeps_objects_def present_def)

lemma missing_less:
  assumes "keeps_objects X ns s s'" "(r, f) \<in> set rs'" "\<not> present X ns s r" "present X ns s' r"
  shows "missing X ns rs' s' < missing X ns rs' s"
  using assms(2)
proof (induction rs')
  case (Cons a rs')
  show ?case
  proof (cases "a = (r, f)")
    case True
    with assms(3,4) missing_mono [OF assms(1), of rs'] show ?thesis by (simp add: missing_def)
  next
    case False
    with Cons have "missing X ns rs' s' < missing X ns rs' s" by auto
    moreover have "\<not> present X ns s' (fst a) \<Longrightarrow> \<not> present X ns s (fst a)"
      using assms(1) by (auto simp: present_def keeps_objects_def)
    ultimately show ?thesis by (auto simp: missing_def split_beta)
  qed
qed simp

lemma create_one:
  assumes r: "(r, f) \<in> set rs" and inst: "names_instance n ns s"
    and run: "createPulpResource X r f s = Some ((requeue, err), s')"
  shows "names_instance n ns s' \<and> keeps_objects X ns s s' \<and> (requeue \<longrightarrow> \<not> present X ns s r \<and> present X ns s' r) \<and>
    (\<not> requeue \<and> err = None \<longrightarrow> present X ns s r)"
proof -
  have get: "call (x_Get X (rd_Type r) (Pulp_Namespace (st_pulp s)) (rd_Name r)) s =
      (fst (x_Get X (rd_Type r) ns (rd_Name r) (st_world s)), s)"
    using inst by (simp add: names_instance_def call_def split_beta get_pure)
  show ?thesis
  proof (cases "fst (x_Get X (rd_Type r) ns (rd_Name r) (st_world s))")
    case (Inr obj)
    with run get have "s' = s" "\<not> requeue"
      by (auto simp: createPulpResource_def split: bind_splits)
    with Inr inst show ?thesis by (simp add: present_def found_def)
  next
    case (Inl e)
    then have absent: "\<not> present X ns s r" by (simp add: present_def found_def)
    show ?thesis
    proof (cases "IsNotFound e")
      case False
      with run get Inl inst show ?thesis by (auto simp: createPulpResource_def split: bind_splits)
    next
      case True
      with run get Inl obtain kind obj s1 where f: "f s = Some (obj, s1)" and kind: "objKind_name (rd_Type r) = Some kind"
        by (auto simp: createPulpResource_def split: bind_splits)
      note ok = provides [OF r inst f]
      define s2 where "s2 = UpdateStatus X ConditionFalse (rd_ConditionType r) (''Creating'' @ rd_Alias r @ kind)
        (''Creating '' @ rd_Name r @ '' '' @ kind) s1"
      obtain ce w where ce: "x_Create X obj (st_world s2) = (ce, w)" by fastforce
      have s2: "names_instance n ns s2" "keeps_objects X ns s s2"
        using ok by (simp_all add: s2_def names_instance_def keeps_objects_def UpdateStatus_found)
      have keep: "keeps_objects X ns s s'" if "\<And>k m. found X k ns m (st_world s') = found X k ns m w" for s' :: "'w St"
        using s2(2) that create_keeps [where obj = obj and w = "st_world s2"] by (auto simp: keeps_objects_def ce)
      note run' = run [unfolded createPulpResource_def kind Option.bind.simps get Let_def prod.case Inl sum.case if_P [OF True] f,
          folded s2_def, unfolded call_def [of "x_Create X obj" s2] ce Let_def prod.case]
      show ?thesis
      proof (cases ce)
        case None
        then have "found X (obj_Kind obj) (obj_Namespace obj) (obj_Name obj) w"
          using create_then_get [of obj "st_world s2" w] ok ce by (auto simp: found_def key_of_def)
        with None run' s2 ok absent keep [of s'] show ?thesis by (auto simp: names_instance_def present_def key_of_def)
      next
        case (Some e)
        with run' s2 absent keep [of s'] show ?thesis by (auto simp: names_instance_def UpdateStatus_found)
      qed
    qed
  qed
qed

text \<open>A run that asks for another created something; a run that does not, without an error, found everything.\<close>

lemma createAll_progress:
  assumes "set rs' \<subseteq> set rs" "names_instance n ns s" "createAll X rs' s = Some ((requeue, err), s')"
  shows "keeps_objects X ns s s' \<and> (requeue \<longrightarrow> (\<exists>(r, f) \<in> set rs'. \<not> present X ns s r \<and> present X ns s' r)) \<and>
    (\<not> requeue \<and> err = None \<longrightarrow> (\<forall>(r, f) \<in> set rs'. present X ns s' r))"
  using assms
proof (induction rs' arbitrary: s)
  case (Cons a rs')
  obtain r f where a: "a = (r, f)" by (cases a)
  from Cons.prems(3) a obtain requeue1 err1 s1 where one: "createPulpResource X r f s = Some ((requeue1, err1), s1)"
    by (auto split: bind_splits)
  from Cons.prems(1) a have "(r, f) \<in> set rs" by simp
  note step = create_one [OF this Cons.prems(2) one]
  show ?case
  proof (cases "err1 = None \<and> \<not> requeue1")
    case True
    with Cons.prems(3) a one have rest: "createAll X rs' s1 = Some ((requeue, err), s')" by simp
    have "set rs' \<subseteq> set rs" "names_instance n ns s1" using Cons.prems(1) step by auto
    note IH = Cons.IH [OF this rest]
    have keep: "keeps_objects X ns s s'" using IH step keeps_objects_trans by blast
    moreover have "present X ns s' r"
      using step True keep by (auto simp: keeps_objects_def present_def)
    moreover have "\<not> present X ns s x" if "\<not> present X ns s1 x" for x
      using that step by (auto simp: keeps_objects_def present_def)
    ultimately show ?thesis using IH by (auto simp: a)
  next
    case False
    with Cons.prems(3) a one have "s' = s1" "requeue \<longrightarrow> requeue1" "requeue \<or> err \<noteq> None"
      by (auto split: if_splits)
    with step show ?thesis by (auto simp: a)
  qed
qed simp

lemma rerun_less: "(t, s) \<in> rerun X n ns rs \<Longrightarrow> missing X ns rs t < missing X ns rs s"
proof -
  assume "(t, s) \<in> rerun X n ns rs"
  then obtain s' where inst: "names_instance n ns s" and run: "createAll X rs s = Some ((True, None), s')" and w: "st_world t = st_world s'"
    by (auto simp: rerun_def)
  from createAll_progress [OF order_refl inst run] obtain r f where
    "keeps_objects X ns s s'" "(r, f) \<in> set rs" "\<not> present X ns s r" "present X ns s' r"
    by auto
  then have "missing X ns rs s' < missing X ns rs s" by (rule missing_less)
  then show ?thesis by (simp add: missing_def present_def w)
qed

lemma rerun_wf: "wf (rerun X n ns rs)"
  by (rule wf_subset [OF wf_measure [of "missing X ns rs"]]) (auto dest: rerun_less)

lemma rerun_bound: "(t, s) \<in> rerun X n ns rs ^^ k \<Longrightarrow> k + missing X ns rs t \<le> missing X ns rs s"
proof (induction k arbitrary: s)
  case (Suc k)
  then obtain u where "(t, u) \<in> rerun X n ns rs ^^ k" "(u, s) \<in> rerun X n ns rs" by auto
  with Suc.IH [of u] rerun_less [of u s] show ?case by simp
qed simp

end

subsection \<open>The pulpcore controllers\<close>

lemma key_of_Deployment [simp]:
  "key_of (DeploymentObj (deployment_of p t d)) = (KDeployment, Pulp_Namespace p, DeploymentName t (Pulp_Name p))"
  "key_of (DeploymentObj (d'\<lparr>dep_Meta := SetHashLabel h (dep_Meta d')\<rparr>)) = key_of (DeploymentObj d')"
  "key_of (DeploymentObj (defaultsForOCPDeployment d')) = key_of (DeploymentObj d')"
  by (simp_all add: key_of_def deployment_of_def defaultsForOCPDeployment_def)

lemma key_set_controller [simp]:
  "key_of (DeploymentObj (own_deployment p d)) = key_of (DeploymentObj d)"
  "key_of (own_service p svc) = key_of (ServiceObj svc)"
  by (simp_all add: key_of_def own_deployment_def own_service_def set_controller_def)

context stable_cluster
begin

lemma Get_found [simp]:
  "st_world (snd (Get_Secret X n ns s)) = st_world s" "st_world (snd (Get_ConfigMap X n ns s)) = st_world s"
  by (simp_all add: Get_Secret_def Get_ConfigMap_def split_beta get_pure)

lemma settings_world [simp]:
  "st_world (snd (getPulpSetting X k s)) = st_world s" "st_world (snd (domainEnabled X s)) = st_world s"
  "st_world (snd (GetAPIRoot X s)) = st_world s" "st_world (snd (GetContentPathPrefix X s)) = st_world s"
  "st_world (snd (get_secret_or_zero X n s)) = st_world s" "st_world (snd (RetrieveSecretData X n ns b ks s)) = st_world s"
  by (simp_all add: getPulpSetting_def domainEnabled_def GetAPIRoot_def GetContentPathPrefix_def get_secret_or_zero_def
      RetrieveSecretData_def Let_def split_beta split: option.split sum.split)

lemma GetSigningKeyFingerprint_world: "GetSigningKeyFingerprint X n ns s = Some (r, s') \<Longrightarrow> st_world s' = st_world s"
  by (auto simp: GetSigningKeyFingerprint_def split_beta split: sum.splits bind_splits)

text \<open>Building a Deployment only reads.\<close>

lemma setters_world:
  "setEnvVars X t d s = Some (d', s') \<Longrightarrow> st_world s' = st_world s"
  "setVolumes X t d s = Some (d', s') \<Longrightarrow> st_world s' = st_world s"
  "setLivenessProbe X t d s = Some (d', s') \<Longrightarrow> st_world s' = st_world s"
  "setReadinessProbe X t d s = Some (d', s') \<Longrightarrow> st_world s' = st_world s"
  by (auto simp: setEnvVars_def signing_key_env_def setVolumes_def signingMetadataVolumes_def setLivenessProbe_def
      setReadinessProbe_def Let_def split_beta split: bind_splits if_splits option.splits dest: GetSigningKeyFingerprint_world)

lemma label_setters_world:
  "setLabels t d s = (d', s') \<Longrightarrow> st_world s' = st_world s"
  "setAnnotations t d s = Some (d', s') \<Longrightarrow> st_world s' = st_world s"
  by (auto simp: setLabels_def setAnnotations_def Let_def split_beta split: bind_splits)

lemma setInitContainers_world:
  assumes "setInitContainers X t d s = Some (d', s')"
  shows "st_world s' = st_world s"
proof (cases "length (Spec_SigningSecret (Pulp_Spec (st_pulp s))) > 0")
  case False
  with assms show ?thesis by (simp add: setInitContainers_def Let_def)
next
  case True
  have gpg: "st_world s1 = st_world s" if "setGpgInitContainer X s = Some (c, s1)" for c s1
    using that unfolding setGpgInitContainer_def Let_def
    by (elim bind_SomeE case_prod_eqE) (clarsimp simp: split_beta dest!: GetSigningKeyFingerprint_world)
  show ?thesis
    using assms unfolding setInitContainers_def Let_def if_P [OF True]
    by (elim bind_SomeE case_prod_eqE) (metis gpg option.inject prod.inject)
qed

lemma setLDAPConfigs_world: "setLDAPConfigs X d s = (d', s') \<Longrightarrow> st_world s' = st_world s"
  by (auto simp: setLDAPConfigs_def Let_def split_beta split: if_splits)

lemma build_world:
  assumes "build X t d0 s = Some (d, s')"
  shows "st_world s' = st_world s"
  using assms
proof (rule build_steps, goal_cases)
  case (1 d1 d2 s2 d3 d4 s4 d5 s5 d6 d7 d8 d9 s9 d10 d11 d12 s12 d13 s13 d14 d15 d16 d17 d18 d19 s19 d20)
  then show ?case
    using setters_world(1) [OF 1(2)] label_setters_world(1) [OF 1(4)] label_setters_world(2) [OF 1(5)] setters_world(2) [OF 1(9)]
      setters_world(3) [OF 1(12)] setters_world(4) [OF 1(13)] setLDAPConfigs_world [OF 1(19)] setInitContainers_world [OF 1(20)]
    by simp
qed

lemma HashFromMutated_keeps:
  assumes "HashFromMutated X d s = ((h, d'), s')"
  shows "key_of (DeploymentObj d') = key_of (DeploymentObj d)" "keeps_objects X ns s s'" "st_pulp s' = st_pulp s"
proof -
  define r where "r = x_DryRunUpdate X (DeploymentObj d) (st_world s)"
  have "d' = as_dep d (snd (fst r))" "s' = s\<lparr>st_world := snd r\<rparr>"
    using assms by (auto simp: HashFromMutated_def call_def r_def Let_def split_beta)
  then show "key_of (DeploymentObj d') = key_of (DeploymentObj d)" "keeps_objects X ns s s'" "st_pulp s' = st_pulp s"
    using dry_update_key [of "DeploymentObj d" "st_world s"] dry_update_get [where obj = "DeploymentObj d" and w = "st_world s"]
    by (cases "snd (fst r)"; simp add: r_def [symmetric] keeps_objects_def found_def)+
qed

lemma AddHashLabel_keeps:
  assumes "AddHashLabel X d s = (d', s')"
  shows "key_of (DeploymentObj d') = key_of (DeploymentObj d) \<and> keeps_objects X ns s s' \<and> st_pulp s' = st_pulp s"
proof -
  define r where "r = x_DryRunCreate X (DeploymentObj d) (st_world s)"
  define s1 where "s1 = s\<lparr>st_world := snd r\<rparr>"
  have create: "keeps_objects X ns s s1" "key_of (DeploymentObj (as_dep d (snd (fst r)))) = key_of (DeploymentObj d)"
    using dry_create_key [of "DeploymentObj d" "st_world s"] dry_create_get [where obj = "DeploymentObj d" and w = "st_world s"]
    by (cases "snd (fst r)"; simp add: s1_def r_def [symmetric] keeps_objects_def found_def)+
  have call: "call (x_DryRunCreate X (DeploymentObj d)) s = (fst r, s1)"
    by (simp add: call_def r_def s1_def split_beta)
  show ?thesis
  proof (cases "fst (fst r)")
    case None
    then obtain obj where r: "fst r = (None, obj)" by (cases "fst r") simp
    have "s' = s1" "key_of (DeploymentObj d') = key_of (DeploymentObj (as_dep d obj))"
      using assms by (auto simp: AddHashLabel_def call r Let_def)
    with create r show ?thesis by (simp add: s1_def)
  next
    case (Some e)
    then obtain obj where r: "fst r = (Some e, obj)" by (cases "fst r") simp
    obtain h d1 s2 where h: "HashFromMutated X d s1 = ((h, d1), s2)" by (metis surj_pair)
    have "st_pulp s1 = st_pulp s" by (simp add: s1_def)
    moreover have "keeps_objects X ns s s2" using create(1) HashFromMutated_keeps(2) [OF h] keeps_objects_trans by blast
    ultimately show ?thesis
      using assms HashFromMutated_keeps(1,3) [OF h] by (auto simp: AddHashLabel_def call r h Let_def)
  qed
qed

text \<open>What every Deployer promises: the Deployment of its component, and nothing removed.\<close>

lemma Deploy_keeps:
  assumes "Deploy X t s = Some (dep, s')"
  shows "key_of (DeploymentObj dep) = (KDeployment, Pulp_Namespace (st_pulp s), DeploymentName t (Pulp_Name (st_pulp s))) \<and>
    keeps_objects X ns s s' \<and> Pulp_Name (st_pulp s') = Pulp_Name (st_pulp s) \<and> Pulp_Namespace (st_pulp s') = Pulp_Namespace (st_pulp s)"
proof -
  from assms obtain d s1 where b: "build X t zero_CommonDeployment s = Some (d, s1)"
    and rest: "(let (dep, s) = AddHashLabel X (deployment_of (st_pulp s1) t d) s1 in Some (own_deployment (st_pulp s) dep, s)) = Some (dep, s')"
    by (auto simp: Deploy_def split: bind_splits)
  obtain dep1 s2 where h: "AddHashLabel X (deployment_of (st_pulp s1) t d) s1 = (dep1, s2)" by fastforce
  have n: "Pulp_Name (st_pulp s1) = Pulp_Name (st_pulp s)" "Pulp_Namespace (st_pulp s1) = Pulp_Namespace (st_pulp s)"
    using b by (auto elim!: build_core)
  have "keeps_objects X ns s s1" using build_world [OF b] by (simp add: keeps_objects_def)
  then show ?thesis
    using rest [unfolded h Let_def prod.case] AddHashLabel_keeps [OF h, of ns] n keeps_objects_trans [of X ns s s1 s2]
    by auto
qed

lemma Deployer_keeps:
  assumes "Deployer_Deploy X deployer s = Some (obj, s')"
  shows "\<exists>t. (deployer = DeploymentVanilla t \<or> deployer = DeploymentOCP t) \<and>
    key_of obj = (KDeployment, Pulp_Namespace (st_pulp s), DeploymentName t (Pulp_Name (st_pulp s))) \<and>
    keeps_objects X ns s s' \<and> Pulp_Name (st_pulp s') = Pulp_Name (st_pulp s) \<and> Pulp_Namespace (st_pulp s') = Pulp_Namespace (st_pulp s)"
proof (cases deployer)
  case (DeploymentVanilla t)
  with assms show ?thesis using Deploy_keeps [of t s] by (auto split: bind_splits)
next
  case (DeploymentOCP t)
  with assms obtain dep s1 dep2 where d: "Deploy X t s = Some (dep, s1)" and
    h: "AddHashLabel X (defaultsForOCPDeployment dep) s1 = (dep2, s')" and obj: "obj = DeploymentObj dep2"
    by (auto simp: Deploy_OCP_def split: bind_splits)
  show ?thesis
    using Deploy_keeps [OF d, of ns] AddHashLabel_keeps [OF h, of ns] keeps_objects_trans [of X ns s s1 s']
    by (auto simp: DeploymentOCP obj)
qed

lemma deployer_provides:
  assumes "deployer \<in> {DeploymentVanilla t, DeploymentOCP t}" "names_instance n ns s" "Deployer_Deploy X deployer s = Some (obj, s')"
  shows "key_of obj = (KDeployment, ns, DeploymentName t n) \<and> names_instance n ns s' \<and> keeps_objects X ns s s'"
  using Deployer_keeps [OF assms(3), of ns] assms(1,2) by (auto simp: names_instance_def)

lemma api_provisioners:
  assumes "deployer \<in> {DeploymentVanilla API, DeploymentOCP API}"
  shows "provisioners X (api_resources X p (Deployer_Deploy X deployer)) (Pulp_Name p) (Pulp_Namespace p)"
proof (unfold_locales, goal_cases)
  case (1 r f s obj s')
  note dep = deployer_provides [OF assms 1(2)]
  have names: "DeploymentName API m \<noteq> []" "ApiService m \<noteq> []" "OtelConfigMapName m \<noteq> []" "OtelServiceName m \<noteq> []" for m
    by (simp_all add: names)
  from 1(1) consider "r = \<lparr>rd_Type = KDeployment, rd_Name = DeploymentName API (Pulp_Name p), rd_Alias = ''Api'',
        rd_ConditionType = ''Pulp-API-Ready''\<rparr>" "f = Deployer_Deploy X deployer"
    | "rd_Type r = KService" "rd_Name r = ApiService (Pulp_Name p)" "f = serviceForAPI"
    | "rd_Type r = KConfigMap" "rd_Name r = OtelConfigMapName (Pulp_Name p)" "f = OtelConfigMap"
    | "rd_Type r = KService" "rd_Name r = OtelServiceName (Pulp_Name p)" "f = ServiceOtel"
    by (auto simp: api_resources_def Let_def split: if_splits)
  then show ?case
    using 1(2,3) dep names
    by cases (auto simp: serviceForAPI_def serviceAPIObject_def OtelConfigMap_def ServiceOtel_def names_instance_def own_service_def
        key_of_def set_controller_def Let_def)
qed

lemma content_provisioners:
  assumes "deployer \<in> {DeploymentVanilla CONTENT, DeploymentOCP CONTENT}"
  shows "provisioners X (content_resources p (Deployer_Deploy X deployer)) (Pulp_Name p) (Pulp_Namespace p)"
proof (unfold_locales, goal_cases)
  case (1 r f s obj s')
  note dep = deployer_provides [OF assms 1(2)]
  have "DeploymentName CONTENT m \<noteq> []" "ContentService m \<noteq> []" for m by (simp_all add: names)
  with 1 dep show ?case
    by (auto simp: content_resources_def serviceForContent_def serviceContentObject_def names_instance_def own_service_def
        key_of_def set_controller_def)
qed

end

interpretation mem_api: provisioners mem_ext
  "api_resources mem_ext ex_deploy_pulp (Deployer_Deploy mem_ext (DeploymentVanilla API))" "Pulp_Name ex_deploy_pulp" "Pulp_Namespace ex_deploy_pulp"
  by (rule mem_stable.api_provisioners) simp

text \<open>
  C10: the runs that the API or the content controller asks for because it created an object end: no infinite
  sequence of runs, whatever happens to the custom resource between them; at most as many as
  there are objects missing; and the run that asks for no other, without an error, has every object in place.
\<close>

theorem pulpcore_provisioning_terminates:
  assumes "stable_cluster X"
    and "rs = api_resources X p (Deployer_Deploy X deployer) \<and> deployer \<in> {DeploymentVanilla API, DeploymentOCP API} \<or>
      rs = content_resources p (Deployer_Deploy X deployer) \<and> deployer \<in> {DeploymentVanilla CONTENT, DeploymentOCP CONTENT}"
  shows "wf (rerun X (Pulp_Name p) (Pulp_Namespace p) rs) \<and>
    (\<forall>k s t. (t, s) \<in> rerun X (Pulp_Name p) (Pulp_Namespace p) rs ^^ k \<longrightarrow> k \<le> missing X (Pulp_Namespace p) rs s) \<and>
    (\<forall>s s'. names_instance (Pulp_Name p) (Pulp_Namespace p) s \<and> createAll X rs s = Some ((False, None), s') \<longrightarrow>
       missing X (Pulp_Namespace p) rs s' = 0)"
proof -
  have ok: "provisioners X rs (Pulp_Name p) (Pulp_Namespace p)"
    using assms stable_cluster.api_provisioners stable_cluster.content_provisioners by blast
  have "k \<le> missing X (Pulp_Namespace p) rs s" if "(t, s) \<in> rerun X (Pulp_Name p) (Pulp_Namespace p) rs ^^ k" for k s t
    using provisioners.rerun_bound [OF ok that] by simp
  moreover have "missing X (Pulp_Namespace p) rs s' = 0"
    if "names_instance (Pulp_Name p) (Pulp_Namespace p) s" "createAll X rs s = Some ((False, None), s')" for s s'
    using provisioners.createAll_progress [OF ok order_refl that] by (auto simp: missing_def filter_empty_conv)
  ultimately show ?thesis
    using provisioners.rerun_wf [OF ok] by blast
qed

theorem pulpcore_provisioning_terminates_witness:
  "wf (rerun mem_ext ''p'' ''ns'' (api_resources mem_ext ex_deploy_pulp (Deployer_Deploy mem_ext (DeploymentVanilla API)))) \<and>
   missing mem_ext ''ns'' (api_resources mem_ext ex_deploy_pulp (Deployer_Deploy mem_ext (DeploymentVanilla API))) (mem_state ex_deploy_pulp []) = 2"
proof -
  have "Pulp_Name ex_deploy_pulp = ''p''" "Pulp_Namespace ex_deploy_pulp = ''ns''"
    by (simp_all add: ex_deploy_pulp_def)
  with pulpcore_provisioning_terminates [OF mem_stable.stable_cluster_axioms, of _ ex_deploy_pulp "DeploymentVanilla API"]
  have "wf (rerun mem_ext ''p'' ''ns'' (api_resources mem_ext ex_deploy_pulp (Deployer_Deploy mem_ext (DeploymentVanilla API))))"
    by simp
  moreover have "\<not> found mem_ext k m n (st_world (mem_state p []))" for k m n p
    by (simp add: found_def mem_state_def mem_init_def mem_ext_def mem_get_def mem_lookup_def)
  ultimately show ?thesis
    by (simp add: missing_def present_def api_resources_def ex_deploy_pulp_def zero_PulpSpec_def zero_Telemetry_def Let_def)
qed

end
