(* ===== verification/Autoscaling.thy ===== *)
theory Autoscaling
  imports Convergence
begin

text \<open>
  \<open>pdb.go\<close> and \<open>hpa.go\<close> of \<open>controllers/repo_manager\<close>: the disruption budgets and the
  horizontal autoscalers of the components. The autoscaler controller is shown to refine a
  map from components to the autoscaler the custom resource asks for.
\<close>

subsection \<open>Disruption budgets\<close>

fun PDB_of :: "PulpSpec \<Rightarrow> PulpcoreType \<Rightarrow> PodDisruptionBudgetSpec option" where
  "PDB_of spec API = Api_PDB (Spec_Api spec)"
| "PDB_of spec CONTENT = Content_PDB (Spec_Content spec)"
| "PDB_of spec WORKER = Worker_PDB (Spec_Worker spec)"
| "PDB_of spec WEB = Web_PDB (Spec_Web spec)"
| "PDB_of spec _ = None"

fun set_PDB :: "PulpcoreType \<Rightarrow> PodDisruptionBudgetSpec option \<Rightarrow> PulpSpec \<Rightarrow> PulpSpec" where
  "set_PDB API v s = s\<lparr>Spec_Api := (Spec_Api s)\<lparr>Api_PDB := v\<rparr>\<rparr>"
| "set_PDB CONTENT v s = s\<lparr>Spec_Content := (Spec_Content s)\<lparr>Content_PDB := v\<rparr>\<rparr>"
| "set_PDB WORKER v s = s\<lparr>Spec_Worker := (Spec_Worker s)\<lparr>Worker_PDB := v\<rparr>\<rparr>"
| "set_PDB WEB v s = s\<lparr>Spec_Web := (Spec_Web s)\<lparr>Web_PDB := v\<rparr>\<rparr>"
| "set_PDB _ v s = s"

text \<open>\<open>&metav1.LabelSelector{MatchLabels: labels}\<close>.\<close>

definition match_labels :: "gomap \<Rightarrow> json" where
  "match_labels labels = JObj [(''matchLabels'', JObj (map (\<lambda>(k, v). (k, JStr v)) labels))]"

definition expectedPDB :: "Pulp \<Rightarrow> PulpcoreType \<Rightarrow> PodDisruptionBudgetSpec \<Rightarrow> PodDisruptionBudget" where
  "expectedPDB pulp component pdb = \<lparr>
     pdb_Meta = set_controller (Pulp_Name pulp) (zero_ObjectMeta\<lparr>meta_Name := PDBName component (Pulp_Name pulp),
       meta_Namespace := Pulp_Namespace pulp, meta_Labels := PulpcoreLabels pulp component\<rparr>),
     pdb_Spec = pdb\<rparr>"

text \<open>Neither nil nor an empty budget.\<close>

definition pdb_defined :: "PodDisruptionBudgetSpec option \<Rightarrow> PodDisruptionBudgetSpec option" where
  "pdb_defined pdb = (case pdb of None \<Rightarrow> None | Some spec \<Rightarrow> if spec = zero_PodDisruptionBudgetSpec then None else Some spec)"

text \<open>A second in nanoseconds.\<close>

definition second :: int where "second = 1000000000"

text \<open>
  The body of the loop: \<open>None\<close> goes on to the next component. The selector is written through
  the pointer of the custom resource.
\<close>

definition reconcilePDB ::
  "'w Externals \<Rightarrow> PulpcoreType \<Rightarrow> 'w St \<Rightarrow> (Result \<times> error option) option \<times> 'w St" where
  "reconcilePDB X component s =
    (let pulp = st_pulp s;
         (r, s) = call (x_Get X KPDB (Pulp_Namespace pulp) (PDBName component (Pulp_Name pulp))) s
     in case pdb_defined (PDB_of (Pulp_Spec pulp) component) of
          Some pdb \<Rightarrow>
       (let pdb = pdb\<lparr>pdbs_Selector := match_labels (PulpcoreLabels pulp component)\<rparr>;
            s = s\<lparr>st_pulp := upd_Spec (set_PDB component (Some pdb)) pulp\<rparr>;
            expected = expectedPDB pulp component pdb
        in case r of
             Inl err \<Rightarrow>
               if IsNotFound err then
                 (let (err, s) = call (x_Create X (PDBObj expected)) s
                  in if err \<noteq> None then (Some (zero_Result, err), s) else (Some (requeue_Result, None), s))
               else (Some (zero_Result, Some err), s)
           | Inr pdbFound \<Rightarrow>
               (case pdbFound of
                  PDBObj current \<Rightarrow>
                    if \<not> x_DeepDerivative X (VPDBSpec (pdb_Spec expected)) (VPDBSpec (pdb_Spec current)) then
                      (let expected = expected\<lparr>pdb_Meta := (pdb_Meta expected)\<lparr>
                             meta_ResourceVersion := meta_ResourceVersion (pdb_Meta current)\<rparr>\<rparr>;
                           ((err, _), s) = call (x_Update X (PDBObj expected)) s
                       in if err \<noteq> None then (Some (zero_Result, err), s)
                          else (Some (\<lparr>Requeue = True, RequeueAfter = second\<rparr>, None), s))
                    else (None, s)
                | _ \<Rightarrow> (Some (zero_Result, Some (Errorf ''unexpected kind'')), s)))
        | None \<Rightarrow>
          (case r of
             Inl err \<Rightarrow> if IsNotFound err then (None, s) else (Some (zero_Result, Some err), s)
           | Inr pdbFound \<Rightarrow> (None, snd (call (x_Delete X pdbFound) s))))"

definition pdb_components :: "PulpcoreType list" where
  "pdb_components = [API, CONTENT, WORKER, WEB]"

fun pdb_loop :: "'w Externals \<Rightarrow> PulpcoreType list \<Rightarrow> 'w St \<Rightarrow> (Result \<times> error option) \<times> 'w St" where
  "pdb_loop X [] s = ((zero_Result, None), s)"
| "pdb_loop X (component # rest) s =
    (case reconcilePDB X component s of
       (Some answer, s) \<Rightarrow> (answer, s)
     | (None, s) \<Rightarrow> pdb_loop X rest s)"

text \<open>The list is a Go map: the run-time chooses the order of the components.\<close>

definition pdbController :: "'w Externals \<Rightarrow> 'w St \<Rightarrow> (Result \<times> error option) \<times> 'w St" where
  "pdbController X s =
    (let (order, s) = call (x_Schedule X (length pdb_components)) s
     in pdb_loop X (map (\<lambda>i. pdb_components ! i) order) s)"

subsection \<open>Autoscalers\<close>

definition hpa_metrics :: "HPA \<Rightarrow> (string \<times> int option) list" where
  "hpa_metrics hpaConfig =
    (let metrics = append_if (HPA_TargetCPUUtilizationPercentage hpaConfig \<noteq> None)
           (''cpu'', HPA_TargetCPUUtilizationPercentage hpaConfig) [];
         metrics = append_if (HPA_TargetMemoryUtilizationPercentage hpaConfig \<noteq> None)
           (''memory'', HPA_TargetMemoryUtilizationPercentage hpaConfig) metrics
     in if length metrics = 0 then metrics @ [(''cpu'', Some 50)] else metrics)"

definition buildHPA :: "Pulp \<Rightarrow> PulpcoreType \<Rightarrow> HPA \<Rightarrow> HorizontalPodAutoscaler" where
  "buildHPA pulp pulpcoreType hpaConfig =
    (let hpaName = DeploymentName pulpcoreType (Pulp_Name pulp);
         minReplicas = (case HPA_MinReplicas hpaConfig of None \<Rightarrow> Some 1 | Some n \<Rightarrow> Some n)
     in \<lparr>hpa_Meta = zero_ObjectMeta\<lparr>meta_Name := hpaName, meta_Namespace := Pulp_Namespace pulp,
           meta_Labels := PulpcoreLabels pulp pulpcoreType\<rparr>,
         hpa_Spec = \<lparr>hpas_ScaleTargetRef = (''apps/v1'', ''Deployment'', hpaName), hpas_MinReplicas = minReplicas,
           hpas_MaxReplicas = HPA_MaxReplicas hpaConfig, hpas_Metrics = hpa_metrics hpaConfig\<rparr>\<rparr>)"

definition own_hpa :: "Pulp \<Rightarrow> HorizontalPodAutoscaler \<Rightarrow> HorizontalPodAutoscaler" where
  "own_hpa pulp hpa = hpa\<lparr>hpa_Meta := set_controller (Pulp_Name pulp) (hpa_Meta hpa)\<rparr>"

text \<open>\<open>getHPAConfig\<close> reads the same field as \<open>GetHPAConfig\<close> of \<open>controllers/utils.go\<close>.\<close>

definition getHPAConfig :: "Pulp \<Rightarrow> PulpcoreType \<Rightarrow> HPA option" where
  "getHPAConfig pulp pulpcoreType = GetHPAConfig pulp pulpcoreType"

definition reconcileHPA :: "'w Externals \<Rightarrow> PulpcoreType \<Rightarrow> 'w St \<Rightarrow> error option \<times> 'w St" where
  "reconcileHPA X pulpcoreType s =
    (let pulp = st_pulp s;
         hpaConfig = getHPAConfig pulp pulpcoreType;
         hpaName = DeploymentName pulpcoreType (Pulp_Name pulp);
         (r, s) = call (x_Get X KHPA (Pulp_Namespace pulp) hpaName) s
     in case hpaConfig of
          Some config \<Rightarrow>
            if HPA_Enabled config then
              (let desiredHPA = own_hpa pulp (buildHPA pulp pulpcoreType config)
               in case r of
                    Inl err \<Rightarrow>
                      if IsNotFound err then call (x_Create X (HPAObj desiredHPA)) s else (Some err, s)
                  | Inr obj \<Rightarrow>
                      (case obj of
                         HPAObj foundHPA \<Rightarrow>
                           if hpa_Spec foundHPA \<noteq> hpa_Spec desiredHPA then
                             (let ((err, _), s) = call (x_Update X (HPAObj (foundHPA\<lparr>hpa_Spec := hpa_Spec desiredHPA\<rparr>))) s
                              in (err, s))
                           else (None, s)
                       | _ \<Rightarrow> (Some (Errorf ''unexpected kind''), s)))
            else (case r of Inr obj \<Rightarrow> call (x_Delete X obj) s | Inl _ \<Rightarrow> (None, s))
        | None \<Rightarrow> (case r of Inr obj \<Rightarrow> call (x_Delete X obj) s | Inl _ \<Rightarrow> (None, s)))"

fun hpa_loop :: "'w Externals \<Rightarrow> PulpcoreType list \<Rightarrow> 'w St \<Rightarrow> error option \<times> 'w St" where
  "hpa_loop X [] s = (None, s)"
| "hpa_loop X (component # rest) s =
    (let (err, s) = reconcileHPA X component s
     in if err \<noteq> None then (err, s) else hpa_loop X rest s)"

definition hpaController :: "'w Externals \<Rightarrow> 'w St \<Rightarrow> (Result \<times> error option) \<times> 'w St" where
  "hpaController X s =
    (let (err, s) = hpa_loop X [API, CONTENT, WORKER] s
     in if err \<noteq> None then ((zero_Result, err), s)
        else if \<not> isRoute (st_pulp s) \<and> \<not> isIngress (st_pulp s)
        then (let (err, s) = reconcileHPA X WEB s in ((zero_Result, err), s))
        else ((zero_Result, None), s))"

subsection \<open>The autoscalers as a map\<close>

text \<open>The abstract state: which component has an autoscaler, and what it says.\<close>

definition hpa_view :: "'w Externals \<Rightarrow> Pulp \<Rightarrow> 'w \<Rightarrow> PulpcoreType \<Rightarrow> HorizontalPodAutoscalerSpec option" where
  "hpa_view X pulp w t =
    (case fst (x_Get X KHPA (Pulp_Namespace pulp) (DeploymentName t (Pulp_Name pulp)) w) of
       Inr (HPAObj hpa) \<Rightarrow> Some (hpa_Spec hpa)
     | _ \<Rightarrow> None)"

definition desired_hpa :: "Pulp \<Rightarrow> PulpcoreType \<Rightarrow> HorizontalPodAutoscalerSpec option" where
  "desired_hpa pulp t =
    (case GetHPAConfig pulp t of
       Some config \<Rightarrow> if HPA_Enabled config then Some (hpa_Spec (buildHPA pulp t config)) else None
     | None \<Rightarrow> None)"

definition hpa_managed :: "Pulp \<Rightarrow> PulpcoreType \<Rightarrow> bool" where
  "hpa_managed pulp t \<longleftrightarrow> t \<in> {API, CONTENT, WORKER} \<or> t = WEB \<and> \<not> isRoute pulp \<and> \<not> isIngress pulp"

text \<open>The abstract operation: the managed components get what is desired, the others keep what they have.\<close>

definition hpa_spec ::
  "Pulp \<Rightarrow> (PulpcoreType \<Rightarrow> HorizontalPodAutoscalerSpec option) \<Rightarrow> PulpcoreType \<Rightarrow> HorizontalPodAutoscalerSpec option" where
  "hpa_spec pulp m = (\<lambda>t. if hpa_managed pulp t then desired_hpa pulp t else m t)"

text \<open>The API server stores an autoscaler as it was sent, under its own key, and finds it there.\<close>

definition stores_hpa :: "'w Externals \<Rightarrow> HorizontalPodAutoscaler \<Rightarrow> 'w \<Rightarrow> 'w \<Rightarrow> bool" where
  "stores_hpa X hpa w w' \<longleftrightarrow> (\<forall>k ns n. fst (x_Get X k ns n w') =
     (if (k, ns, n) = key_of (HPAObj hpa) then Inr (HPAObj hpa) else fst (x_Get X k ns n w)))"

locale hpa_store = quiet_cluster +
  assumes get_key: "fst (x_Get X k ns n w) = Inr obj \<Longrightarrow> key_of obj = (k, ns, n)"
    and create_hpa: "x_Create X (HPAObj hpa) w = (None, w') \<Longrightarrow> meta_Name (hpa_Meta hpa) \<noteq> [] \<Longrightarrow> stores_hpa X hpa w w'"
    and update_hpa: "x_Update X (HPAObj hpa) w = ((None, obj), w') \<Longrightarrow> stores_hpa X hpa w w'"
    and delete_hpa: "x_Delete X (HPAObj hpa) w = (None, w') \<Longrightarrow> fst (x_Get X k ns n w') =
      (if (k, ns, n) = key_of (HPAObj hpa) then Inl (NotFound n) else fst (x_Get X k ns n w))"
begin

lemma stores_hpa_view:
  assumes "stores_hpa X hpa w w'" "key_of (HPAObj hpa) = (KHPA, Pulp_Namespace p, DeploymentName t (Pulp_Name p))"
  shows "hpa_view X p w' = (hpa_view X p w)(t := Some (hpa_Spec hpa))"
  using assms by (auto simp: stores_hpa_def hpa_view_def fun_eq_iff)

lemma reconcileHPA_refines:
  assumes "reconcileHPA X t s = (None, s')"
  shows "st_pulp s' = st_pulp s \<and>
    hpa_view X (st_pulp s) (st_world s') = (hpa_view X (st_pulp s) (st_world s))(t := desired_hpa (st_pulp s) t)"
proof -
  define p where "p = st_pulp s"
  define g where "g = fst (x_Get X KHPA (Pulp_Namespace p) (DeploymentName t (Pulp_Name p)) (st_world s))"
  have get: "call (x_Get X KHPA (Pulp_Namespace p) (DeploymentName t (Pulp_Name p))) s = (g, s)"
    by (simp add: g_def call_def split_beta get_pure)
  have view: "hpa_view X p (st_world s) t = (case g of Inr (HPAObj h) \<Rightarrow> Some (hpa_Spec h) | _ \<Rightarrow> None)"
    by (simp add: hpa_view_def g_def)
  have key: "\<exists>h. obj = HPAObj h \<and> key_of obj = (KHPA, Pulp_Namespace p, DeploymentName t (Pulp_Name p))" if "g = Inr obj" for obj
    using get_key [of KHPA "Pulp_Namespace p" "DeploymentName t (Pulp_Name p)" "st_world s" obj] that
    by (cases obj) (auto simp: g_def key_of_def)
  note run = assms [unfolded reconcileHPA_def Let_def, folded p_def, unfolded get prod.case getHPAConfig_def]
  show ?thesis
  proof (cases "desired_hpa p t")
    case None
    then have run': "(case g of Inr obj \<Rightarrow> call (x_Delete X obj) s | Inl _ \<Rightarrow> (None, s)) = (None, s')"
      using run by (auto simp: desired_hpa_def split: option.splits if_splits)
    show ?thesis
    proof (cases g)
      case (Inl e)
      with run' view None show ?thesis by (simp add: p_def fun_upd_idem)
    next
      case (Inr obj)
      with key obtain h where h: "g = Inr (HPAObj h)" "key_of (HPAObj h) = (KHPA, Pulp_Namespace p, DeploymentName t (Pulp_Name p))"
        by blast
      with run' have del: "x_Delete X (HPAObj h) (st_world s) = (None, st_world s')" and "st_pulp s' = st_pulp s"
        by (auto simp: call_def split_beta prod_eq_iff)
      with delete_hpa [OF del] h None show ?thesis
        by (auto simp: hpa_view_def fun_eq_iff p_def)
    qed
  next
    case (Some spec)
    then obtain c where c: "GetHPAConfig p t = Some c" "HPA_Enabled c" and spec: "spec = hpa_Spec (buildHPA p t c)"
      by (auto simp: desired_hpa_def split: option.splits if_splits)
    let ?h = "own_hpa p (buildHPA p t c)"
    have hk: "key_of (HPAObj ?h) = (KHPA, Pulp_Namespace p, DeploymentName t (Pulp_Name p))" "hpa_Spec ?h = spec"
      "meta_Name (hpa_Meta ?h) \<noteq> []"
      by (simp_all add: own_hpa_def buildHPA_def key_of_def spec Let_def names)
    show ?thesis
    proof (cases g)
      case (Inl e)
      with run c have create: "x_Create X (HPAObj ?h) (st_world s) = (None, st_world s')" and "st_pulp s' = st_pulp s"
        by (auto simp: call_def split_beta prod_eq_iff split: if_splits)
      with stores_hpa_view [OF create_hpa [OF create hk(3)] hk(1)] Some hk(2) show ?thesis by (simp add: p_def)
    next
      case (Inr obj)
      with key obtain h where h: "g = Inr (HPAObj h)" "key_of (HPAObj h) = (KHPA, Pulp_Namespace p, DeploymentName t (Pulp_Name p))"
        by blast
      show ?thesis
      proof (cases "hpa_Spec h = spec")
        case True
        with run c h hk(2) have "s' = s" by simp
        with True view h Some show ?thesis by (simp add: p_def fun_upd_idem)
      next
        case False
        let ?h' = "h\<lparr>hpa_Spec := spec\<rparr>"
        from False run c h hk(2) obtain o' where update: "x_Update X (HPAObj ?h') (st_world s) = ((None, o'), st_world s')"
          and "st_pulp s' = st_pulp s"
          by (auto simp: call_def split_beta prod_eq_iff)
        moreover have "key_of (HPAObj ?h') = (KHPA, Pulp_Namespace p, DeploymentName t (Pulp_Name p))"
          using h(2) by (simp add: key_of_def)
        ultimately show ?thesis
          using stores_hpa_view [OF update_hpa [OF update]] Some by (simp add: p_def)
      qed
    qed
  qed
qed

lemma hpa_loop_refines:
  "hpa_loop X ts s = (None, s') \<Longrightarrow> st_pulp s' = st_pulp s \<and>
    hpa_view X (st_pulp s) (st_world s') = (\<lambda>t. if t \<in> set ts then desired_hpa (st_pulp s) t else hpa_view X (st_pulp s) (st_world s) t)"
proof (induction ts arbitrary: s)
  case (Cons t ts)
  obtain err s1 where one: "reconcileHPA X t s = (err, s1)" by fastforce
  with Cons.prems have "err = None" and rest: "hpa_loop X ts s1 = (None, s')" by (auto split: if_splits)
  with reconcileHPA_refines [of t s s1] one Cons.IH [OF rest] show ?case by (auto simp: fun_eq_iff)
qed auto

lemma hpaController_refines_view:
  assumes "hpaController X s = ((r, None), s')"
  shows "st_pulp s' = st_pulp s \<and> hpa_view X (st_pulp s) (st_world s') = hpa_spec (st_pulp s) (hpa_view X (st_pulp s) (st_world s))"
proof -
  obtain err s1 where loop: "hpa_loop X [API, CONTENT, WORKER] s = (err, s1)" by fastforce
  with assms have "err = None" by (auto simp: hpaController_def Let_def split: if_splits)
  note core = hpa_loop_refines [OF loop [unfolded this]]
  show ?thesis
  proof (cases "isRoute (st_pulp s) \<or> isIngress (st_pulp s)")
    case True
    with assms loop core \<open>err = None\<close> have "s' = s1" by (auto simp: hpaController_def)
    with True core show ?thesis by (auto simp: hpa_spec_def hpa_managed_def fun_eq_iff)
  next
    case False
    with assms loop core \<open>err = None\<close> have web: "reconcileHPA X WEB s1 = (None, s')"
      by (auto simp: hpaController_def Let_def split: prod.splits)
    from False core reconcileHPA_refines [OF web] show ?thesis
      by (auto simp: hpa_spec_def hpa_managed_def fun_eq_iff)
  qed
qed

end

text \<open>The in-memory server.\<close>

lemma same_obj_key: "same_obj k ns n x \<longleftrightarrow> key_of x = (k, ns, n)"
  by (auto simp: same_obj_def key_of_def)

lemma mem_lookup_cong: "\<forall>x \<in> set xs. \<not> P x \<Longrightarrow> List.find P (xs @ [y]) = (if P y then Some y else None)"
  by (induction xs) auto

lemma find_append_neq: "\<not> P y \<Longrightarrow> List.find P (xs @ [y]) = List.find P xs"
  by (induction xs) auto

lemma find_map_replace:
  assumes "key_of y = key_of x"
  shows "List.find (same_obj k ns n) (map (\<lambda>z. if key_of z = key_of x then y else z) xs) =
    (if (k, ns, n) = key_of x \<and> (\<exists>z \<in> set xs. key_of z = key_of x) then Some y else List.find (same_obj k ns n) xs)"
  using assms by (induction xs) (auto simp: same_obj_key)

lemma find_filter_key:
  "List.find (same_obj k ns n) (filter (\<lambda>z. key_of z \<noteq> key) xs) =
    (if (k, ns, n) = key then None else List.find (same_obj k ns n) xs)"
proof -
  have "same_obj k ns n = (\<lambda>x. key_of x = (k, ns, n))" by (simp add: fun_eq_iff same_obj_key)
  then show ?thesis by (induction xs) auto
qed

interpretation mem_hpa: hpa_store mem_ext
proof (unfold_locales, goal_cases)
  case (1 k ns n w obj)
  then show ?case
    by (auto simp: mem_ext_def mem_get_def mem_lookup_def find_Some_iff same_obj_key split: option.splits)
next
  case (2 hpa w w')
  then have new: "mem_objs w' = mem_objs w @ [HPAObj hpa]" "\<forall>y \<in> set (mem_objs w). key_of y \<noteq> key_of (HPAObj hpa)"
    by (auto simp: mem_ext_def mem_create_def named_def Let_def split: if_splits)
  have "mem_lookup k ns n w' = (if (k, ns, n) = key_of (HPAObj hpa) then Some (HPAObj hpa) else mem_lookup k ns n w)" for k ns n
    using new(2) mem_lookup_cong [of "mem_objs w" "same_obj k ns n" "HPAObj hpa"]
      find_append_neq [of "same_obj k ns n" "HPAObj hpa" "mem_objs w"]
    by (auto simp: mem_lookup_def new(1) same_obj_key)
  then show ?case by (auto simp: stores_hpa_def mem_ext_def mem_get_def split: option.split)
next
  case (3 hpa w obj w')
  then have new: "mem_objs w' = map (\<lambda>y. if key_of y = key_of (HPAObj hpa) then HPAObj hpa else y) (mem_objs w)"
    "\<exists>y \<in> set (mem_objs w). key_of y = key_of (HPAObj hpa)"
    by (auto simp: mem_ext_def mem_update_def split: if_splits)
  then show ?case
    using find_map_replace [of "HPAObj hpa" "HPAObj hpa" _ _ _ "mem_objs w"]
    by (auto simp: stores_hpa_def mem_ext_def mem_get_def mem_lookup_def split: option.split)
next
  case (4 hpa w w' k ns n)
  then have "mem_objs w' = filter (\<lambda>y. key_of y \<noteq> key_of (HPAObj hpa)) (mem_objs w)"
    by (auto simp: mem_ext_def mem_delete_def split: if_splits)
  then show ?case
    using find_filter_key [of k ns n "key_of (HPAObj hpa)" "mem_objs w"]
    by (auto simp: mem_ext_def mem_get_def mem_lookup_def split: option.split)
qed

subsection \<open>Properties\<close>

text \<open>
  C11: the autoscaler controller refines the map from components to autoscalers. When it returns without
  an error, each of the API, content and worker components, and pulp-web for a custom resource that is
  neither a route nor an ingress, has exactly the autoscaler its configuration asks for: created, updated or
  deleted as needed. The other components keep what they had.
\<close>

theorem hpaController_refines:
  assumes "hpa_store X" "hpaController X s = ((r, None), s')"
  shows "hpa_view X (st_pulp s) (st_world s') = hpa_spec (st_pulp s) (hpa_view X (st_pulp s) (st_world s))"
  using hpa_store.hpaController_refines_view [OF assms] by blast

definition ex_scaled_pulp :: Pulp where
  "ex_scaled_pulp = zero_Pulp\<lparr>Pulp_Meta := zero_ObjectMeta\<lparr>meta_Name := ''p'', meta_Namespace := ''ns''\<rparr>,
     Pulp_Spec := zero_PulpSpec\<lparr>Spec_Api := zero_Api\<lparr>Api_HPA := Some (zero_HPA\<lparr>HPA_Enabled := True, HPA_MaxReplicas := 4\<rparr>)\<rparr>\<rparr>\<rparr>"

theorem hpaController_refines_witness:
  "\<exists>s'. hpaController mem_ext (mem_state ex_scaled_pulp []) = ((zero_Result, None), s') \<and>
    hpa_view mem_ext ex_scaled_pulp (st_world s') API =
      Some \<lparr>hpas_ScaleTargetRef = (''apps/v1'', ''Deployment'', ''p-api''), hpas_MinReplicas = Some 1, hpas_MaxReplicas = 4,
        hpas_Metrics = [(''cpu'', Some 50)]\<rparr>"
proof -
  have conf: "GetHPAConfig ex_scaled_pulp t = (if t = API then Some (zero_HPA\<lparr>HPA_Enabled := True, HPA_MaxReplicas := 4\<rparr>) else None)" for t
    by (cases t) (simp_all add: ex_scaled_pulp_def zero_PulpSpec_def zero_Content_def zero_Worker_def zero_Web_def)
  have "fst (hpaController mem_ext (mem_state ex_scaled_pulp [])) = (zero_Result, None)"
    by code_simp
  then obtain s' where s': "hpaController mem_ext (mem_state ex_scaled_pulp []) = ((zero_Result, None), s')"
    by (metis prod.collapse)
  have "st_pulp (mem_state ex_scaled_pulp []) = ex_scaled_pulp" by (simp add: mem_state_def)
  with hpaController_refines [OF mem_hpa.hpa_store_axioms s'] s' show ?thesis
    by (auto simp: hpa_spec_def hpa_managed_def desired_hpa_def conf buildHPA_def hpa_metrics_def append_if_def zero_HPA_def
        names ascii ex_scaled_pulp_def Let_def)
qed

text \<open>
  With an ingress class that is not nginx, pulp-web is deployed and its replicas are left to an
  autoscaler, but the controller does not look at the autoscaler of pulp-web.
\<close>

lemma web_hpa_ignored:
  assumes "hpa_store X" "hpaController X s = ((r, None), s')" "needsPulpWeb (st_pulp s)" "isIngress (st_pulp s)"
  shows "hpa_view X (st_pulp s) (st_world s') WEB = hpa_view X (st_pulp s) (st_world s) WEB"
  using hpa_store.hpaController_refines_view [OF assms(1,2)] assms(4) by (simp add: hpa_spec_def hpa_managed_def)

end
