(* ===== verification/Rbac.thy ===== *)
theory Rbac
  imports Autoscaling
begin

text \<open>
  \<open>controllers/repo_manager/rbac.go\<close>: the service account of the pods, its role and the binding
  between the two, created one per run in this order.
\<close>

subsection \<open>The objects\<close>

definition getApiConditionType :: string where
  "getApiConditionType = ''Pulp-API-Ready''"

text \<open>The labels of the user are the map of the custom resource, which is written to.\<close>

definition pulpSA :: "'w St \<Rightarrow> ServiceAccount \<times> 'w St" where
  "pulpSA s =
    (let m = st_pulp s;
         labels = gset ''app.kubernetes.io/part-of'' ''pulp'' (gset ''app.kubernetes.io/name'' (Pulp_Name m @ ''-sa'')
           (case Spec_SALabels (Pulp_Spec m) of None \<Rightarrow> [] | Some l \<Rightarrow> l));
         s = (if Spec_SALabels (Pulp_Spec m) \<noteq> None
              then s\<lparr>st_pulp := upd_Spec (\<lambda>spec. spec\<lparr>Spec_SALabels := Some labels\<rparr>) m\<rparr> else s)
     in (\<lparr>sa_Meta = set_controller (Pulp_Name m) (zero_ObjectMeta\<lparr>meta_Name := PulpServiceAccount (Pulp_Name m),
            meta_Namespace := Pulp_Namespace m, meta_Labels := labels, meta_Annotations := Spec_SAAnnotations (Pulp_Spec m)\<rparr>),
          sa_ImagePullSecrets = Spec_ImagePullSecrets (Pulp_Spec m)\<rparr>, s))"

definition pulpRole :: "Pulp \<Rightarrow> Role" where
  "pulpRole m = \<lparr>
     role_Meta = zero_ObjectMeta\<lparr>meta_Name := Pulp_Name m, meta_Namespace := Pulp_Namespace m,
       meta_Labels := [(''app.kubernetes.io/name'', Pulp_Name m @ ''-role''), (''app.kubernetes.io/part-of'', ''pulp'')]\<rparr>,
     role_Rules =
       [\<lparr>rule_APIGroups = [''''], rule_Resources = [''pods''],
         rule_Verbs = [''get'', ''list'', ''watch'', ''create'', ''update'', ''patch'', ''delete'']\<rparr>,
        \<lparr>rule_APIGroups = [''''], rule_Resources = [''pods/log''], rule_Verbs = [''get'']\<rparr>,
        \<lparr>rule_APIGroups = [''''], rule_Resources = [''secrets''], rule_Verbs = [''get'', ''create'', ''delete'']\<rparr>]\<rparr>"

definition pulpRoleBinding :: "Pulp \<Rightarrow> RoleBinding" where
  "pulpRoleBinding m = \<lparr>
     rb_Meta = zero_ObjectMeta\<lparr>meta_Name := Pulp_Name m, meta_Namespace := Pulp_Namespace m,
       meta_Labels := [(''app.kubernetes.io/name'', Pulp_Name m @ ''-rolebinding''), (''app.kubernetes.io/part-of'', ''pulp'')]\<rparr>,
     rb_Subjects = [(''ServiceAccount'', PulpServiceAccount (Pulp_Name m))],
     rb_RoleRef = (''rbac.authorization.k8s.io'', ''Role'', Pulp_Name m)\<rparr>"

text \<open>
  \<open>regexp.MatchString(saName + "-dockercfg-([a-z0-9]){5}", name)\<close>: not anchored, and a dot of
  the name of the account matches any character but a newline.
\<close>

fun rx_prefix :: "string \<Rightarrow> string \<Rightarrow> string option" where
  "rx_prefix [] s = Some s"
| "rx_prefix (c # cs) [] = None"
| "rx_prefix (c # cs) (d # ds) = (if c = d \<or> c = CHR ''.'' \<and> d \<noteq> CHR 0x0A then rx_prefix cs ds else None)"

definition rx_hash :: "string \<Rightarrow> bool" where
  "rx_hash s \<longleftrightarrow> length s \<ge> 5 \<and>
    (\<forall>c \<in> set (take 5 s). CHR ''a'' \<le> c \<and> c \<le> CHR ''z'' \<or> CHR ''0'' \<le> c \<and> c \<le> CHR ''9'')"

fun rx_search :: "string \<Rightarrow> string \<Rightarrow> bool" where
  "rx_search pat s \<longleftrightarrow>
    (case rx_prefix pat s of Some rest \<Rightarrow> rx_hash rest | None \<Rightarrow> False) \<or>
    (case s of [] \<Rightarrow> False | _ # s' \<Rightarrow> rx_search pat s')"

declare rx_search.simps [simp del]

fun sa_secrets :: "error + Object \<Rightarrow> string list" where
  "sa_secrets (Inr (ServiceAccountObj sa)) = sa_ImagePullSecrets sa"
| "sa_secrets _ = []"

definition getInternalRegistrySecret :: "'w Externals \<Rightarrow> string \<Rightarrow> string \<Rightarrow> 'w St \<Rightarrow> string \<times> 'w St" where
  "getInternalRegistrySecret X saName saNamespace s =
    (let (r, s) = call (x_Get X KServiceAccount saNamespace saName) s
     in case List.find (rx_search (saName @ ''-dockercfg-'')) (sa_secrets r) of
          Some name \<Rightarrow> (name, s)
        | None \<Rightarrow> ([], s))"

subsection \<open>Creation\<close>

text \<open>
  What follows a \<open>Get\<close> that did not find the object: create it, or report why not. The controllers
  written before \<open>createPulpResource\<close> spell this out for every object, with messages of their own.
\<close>

definition create_step ::
  "'w Externals \<Rightarrow> string \<Rightarrow> string \<Rightarrow> string \<Rightarrow> string \<Rightarrow> string \<Rightarrow> string \<Rightarrow> Object \<Rightarrow> 'w St
    \<Rightarrow> (Result \<times> error option) \<times> 'w St" where
  "create_step X conditionType what message errorMessage failedEvent createdEvent expected s =
    (let s = UpdateStatus X ConditionFalse conditionType (''Creating'' @ what) message s;
         (err, s) = call (x_Create X expected) s
     in case err of
          Some e \<Rightarrow>
            (let s = UpdateStatus X ConditionFalse conditionType (''ErrorCreating'' @ what) (errorMessage @ Error e) s
             in ((zero_Result, Some e), Record_Event EventWarning ''Failed'' failedEvent s))
        | None \<Rightarrow> ((requeue_Result, None), Record_Event EventNormal ''Created'' createdEvent s))"

definition createRbac ::
  "'w Externals \<Rightarrow> string \<Rightarrow> string \<Rightarrow> string \<Rightarrow> string \<Rightarrow> Object \<Rightarrow> 'w St \<Rightarrow> (Result \<times> error option) \<times> 'w St" where
  "createRbac X kind name failedMessage createdMessage expected s =
    create_step X getApiConditionType kind (''Creating '' @ name @ '' '' @ kind @ '' resource'')
      (''Failed to create '' @ name @ '' '' @ kind @ '': '') failedMessage createdMessage expected s"

definition CreateRoleBinding :: "'w Externals \<Rightarrow> 'w St \<Rightarrow> (Result \<times> error option) \<times> 'w St" where
  "CreateRoleBinding X s =
    (let pulp = st_pulp s;
         (r, s) = call (x_Get X KRoleBinding (Pulp_Namespace pulp) (Pulp_Name pulp)) s
     in case r of
          Inl err \<Rightarrow>
            if IsNotFound err
            then createRbac X ''RoleBinding'' (Pulp_Name pulp) ''Failed to create new Pulp RoleBinding'' ''Pulp RoleBinding created''
                   (RoleBindingObj (pulpRoleBinding pulp)) s
            else ((zero_Result, Some err), s)
        | Inr _ \<Rightarrow> ((zero_Result, None), s))"

definition CreateRole :: "'w Externals \<Rightarrow> 'w St \<Rightarrow> (Result \<times> error option) \<times> 'w St" where
  "CreateRole X s =
    (let pulp = st_pulp s;
         (r, s) = call (x_Get X KRole (Pulp_Namespace pulp) (Pulp_Name pulp)) s
     in case r of
          Inl err \<Rightarrow>
            if IsNotFound err
            then createRbac X ''Role'' (Pulp_Name pulp) ''Failed to create new Pulp Role'' ''Pulp Role created''
                   (RoleObj (pulpRole pulp)) s
            else ((zero_Result, Some err), s)
        | Inr _ \<Rightarrow> CreateRoleBinding X s)"

text \<open>The list of pull secrets that is completed with the internal registry is not used any further.\<close>

definition CreateServiceAccount :: "'w Externals \<Rightarrow> 'w St \<Rightarrow> (Result \<times> error option) \<times> 'w St" where
  "CreateServiceAccount X s =
    (let serviceAccountName = PulpServiceAccount (Pulp_Name (st_pulp s));
         (r, s) = call (x_Get X KServiceAccount (Pulp_Namespace (st_pulp s)) serviceAccountName) s;
         (expectedSA, s) = pulpSA s
     in case r of
          Inl err \<Rightarrow>
            if IsNotFound err
            then createRbac X ''SA'' serviceAccountName (''Failed to create '' @ serviceAccountName @ '' SA'')
                   (serviceAccountName @ '' SA created'') (ServiceAccountObj expectedSA) s
            else ((zero_Result, Some err), s)
        | Inr _ \<Rightarrow>
            (let (internalRegistrySecret, s) =
                   getInternalRegistrySecret X serviceAccountName (Pulp_Namespace (st_pulp s)) s
             in CreateRole X s))"

subsection \<open>What a finished run leaves\<close>

lemma create_step_not_finished [simp]: "fst (create_step X ct w m em f c obj s) \<noteq> (zero_Result, None)"
  by (simp add: create_step_def split_beta Let_def zero_Result_def requeue_Result_def split: option.split)

lemma createRbac_not_finished [simp]: "fst (createRbac X k n m1 m2 obj s) \<noteq> (zero_Result, None)"
  by (simp add: createRbac_def)

context stable_cluster
begin

text \<open>A run that neither requeues nor fails found the account that the pods name, its role and the binding.\<close>

lemma CreateServiceAccount_finished:
  assumes "fst (CreateServiceAccount X s) = (zero_Result, None)"
  shows "found X KServiceAccount (Pulp_Namespace (st_pulp s))
      (pod_ServiceAccountName (tmpl_Spec (dspec_Template (dep_Spec (deployment_of (st_pulp s) t d))))) (st_world s)"
    and "found X KRole (Pulp_Namespace (st_pulp s)) (Pulp_Name (st_pulp s)) (st_world s)"
    and "found X KRoleBinding (Pulp_Namespace (st_pulp s)) (Pulp_Name (st_pulp s)) (st_world s)"
proof -
  have pure: "call (x_Get X k ns n) s = (fst (x_Get X k ns n (st_world s)), s)" for k ns n and s :: "'a St"
    by (simp add: call_def split_beta get_pure)
  define s1 where "s1 = snd (pulpSA s)"
  have s1: "st_world s1 = st_world s" "Pulp_Name (st_pulp s1) = Pulp_Name (st_pulp s)" "Pulp_Namespace (st_pulp s1) = Pulp_Namespace (st_pulp s)"
    by (simp_all add: s1_def pulpSA_def Let_def)
  have reg: "snd (getInternalRegistrySecret X n ns s1) = s1" for n ns
    by (simp add: getInternalRegistrySecret_def pure split: option.split)
  obtain sa where sa: "fst (x_Get X KServiceAccount (Pulp_Namespace (st_pulp s)) (PulpServiceAccount (Pulp_Name (st_pulp s))) (st_world s)) = Inr sa"
    and role: "fst (CreateRole X s1) = (zero_Result, None)"
    using assms
    by (auto simp: CreateServiceAccount_def pure Let_def split_beta s1_def [symmetric] reg split: sum.splits if_splits)
  from role obtain ro where ro: "fst (x_Get X KRole (Pulp_Namespace (st_pulp s)) (Pulp_Name (st_pulp s)) (st_world s)) = Inr ro"
    and rb: "fst (CreateRoleBinding X s1) = (zero_Result, None)"
    by (auto simp: CreateRole_def pure Let_def s1 split: sum.splits if_splits)
  from rb obtain b where "fst (x_Get X KRoleBinding (Pulp_Namespace (st_pulp s)) (Pulp_Name (st_pulp s)) (st_world s)) = Inr b"
    by (auto simp: CreateRoleBinding_def pure Let_def s1 split: sum.splits if_splits)
  with sa ro show "found X KServiceAccount (Pulp_Namespace (st_pulp s))
      (pod_ServiceAccountName (tmpl_Spec (dspec_Template (dep_Spec (deployment_of (st_pulp s) t d))))) (st_world s)"
    "found X KRole (Pulp_Namespace (st_pulp s)) (Pulp_Name (st_pulp s)) (st_world s)"
    "found X KRoleBinding (Pulp_Namespace (st_pulp s)) (Pulp_Name (st_pulp s)) (st_world s)"
    by (auto simp: found_def deployment_of_def)
qed

end

end
