(* ===== verification/Database.thy ===== *)
theory Database
  imports Rbac
begin

text \<open>
  \<open>controllers/repo_manager/database.go\<close>: the PostgreSQL instance that the operator manages when no
  external database is given: a Secret, a StatefulSet and a headless Service.
\<close>

subsection \<open>Paths\<close>

text \<open>\<open>filepath.Clean\<close>, \<open>filepath.Dir\<close> and \<open>filepath.Base\<close> on slash-separated paths.\<close>

fun clean_parts :: "bool \<Rightarrow> string list \<Rightarrow> string list \<Rightarrow> string list" where
  "clean_parts rooted [] out = out"
| "clean_parts rooted (p # ps) out =
    (if p = [] \<or> p = ''.'' then clean_parts rooted ps out
     else if p = ''..'' then
       (if out \<noteq> [] \<and> last out \<noteq> ''..'' then clean_parts rooted ps (butlast out)
        else if rooted then clean_parts rooted ps out
        else clean_parts rooted ps (out @ [''..'']))
     else clean_parts rooted ps (out @ [p]))"

definition Clean :: "string \<Rightarrow> string" where
  "Clean path =
    (let rooted = (path \<noteq> [] \<and> hd path = CHR ''/'');
         body = Join (CHR ''/'') (clean_parts rooted (Split (CHR ''/'') path) [])
     in if rooted then CHR ''/'' # body else if body = [] then ''.'' else body)"

text \<open>Everything up to the last slash.\<close>

definition upto_slash :: "string \<Rightarrow> string" where
  "upto_slash path = rev (dropWhile (\<lambda>c. c \<noteq> CHR ''/'') (rev path))"

definition Dir :: "string \<Rightarrow> string" where
  "Dir path = Clean (upto_slash path)"

definition Base :: "string \<Rightarrow> string" where
  "Base path =
    (if path = [] then ''.''
     else (let path = rev (dropWhile (\<lambda>c. c = CHR ''/'') (rev path));
               name = rev (takeWhile (\<lambda>c. c \<noteq> CHR ''/'') (rev path))
           in if name = [] then ''/'' else name))"

subsection \<open>The objects\<close>

definition labelsForDatabase :: "Pulp \<Rightarrow> gomap" where
  "labelsForDatabase m = PulpcoreLabels m DATABASE"

text \<open>The labels of the pods and the custom resource as the call leaves it.\<close>

definition labelsForDatabasePods :: "Pulp \<Rightarrow> gomap \<times> Pulp" where
  "labelsForDatabasePods m = PulpcorePodLabels m DATABASE"

definition orElse :: "string \<Rightarrow> string \<Rightarrow> string" where
  "orElse value d = (if value \<noteq> [] then value else d)"

definition postgres_env :: "Pulp \<Rightarrow> EnvVar list" where
  "postgres_env m =
    (let db = Spec_Database (Pulp_Spec m);
         secret = DefaultDBSecret (Pulp_Name m)
     in [secret_env ''POSTGRESQL_DATABASE'' secret ''database'', secret_env ''POSTGRESQL_USER'' secret ''username'',
         secret_env ''POSTGRESQL_PASSWORD'' secret ''password'', secret_env ''POSTGRES_DB'' secret ''database'',
         secret_env ''POSTGRES_USER'' secret ''username'', secret_env ''POSTGRES_PASSWORD'' secret ''password'',
         plain_env ''PGDATA'' (orElse (Database_PostgresDataPath db) ''/var/lib/postgresql/data/pgdata''),
         plain_env ''POSTGRES_INITDB_ARGS'' (orElse (Database_PostgresInitdbArgs db) ''--auth-host=scram-sha-256''),
         plain_env ''POSTGRES_HOST_AUTH_METHOD'' (orElse (Database_PostgresHostAuthMethod db) ''scram-sha-256'')])"

text \<open>\<open>resource.MustParse\<close> panics on a text that is no quantity.\<close>

definition postgres_storage :: "'w Externals \<Rightarrow> Pulp \<Rightarrow> (PersistentVolumeClaim list \<times> Volume list) option" where
  "postgres_storage X m =
    do { let db = Spec_Database (Pulp_Spec m);
         let volumeName = DefaultDBPVC (Pulp_Name m);
         storage \<leftarrow> index (snd (MultiStorageConfigured m ''Database'')) 0;
         if storage = SCNameType then
           (let size = orElse (Database_PostgresStorageRequirements db) ''8Gi''
            in if Database_PostgresStorageRequirements db \<noteq> [] \<and> \<not> x_ParseQuantity X size then None
               else Some ([\<lparr>pvc_Meta = zero_ObjectMeta\<lparr>meta_Name := volumeName\<rparr>, pvc_Storage = size,
                           pvc_AccessModes = [''ReadWriteOnce''],
                           pvc_StorageClassName = Database_PostgresStorageClass db\<rparr>], []))
         else if storage = PVCType then
           Some ([], [\<lparr>vol_Name = volumeName, vol_Source = PVCVolume (Database_PVC db)\<rparr>])
         else Some ([], []) }"

definition pg_isready :: "int \<Rightarrow> json" where
  "pg_isready delay = JObj
    [(''exec'', JObj [(''command'', JArr (map JStr [''/bin/sh'', ''-i'', ''-c'', ''pg_isready -U pulp -h 127.0.0.1 -p 5432'']))]),
     (''initialDelaySeconds'', JNum delay), (''periodSeconds'', JNum 10), (''timeoutSeconds'', JNum 5),
     (''failureThreshold'', JNum 6), (''successThreshold'', JNum 1)]"

text \<open>The conversion \<open>int32(n)\<close> of a wider integer keeps the low 32 bits, in two's complement.\<close>

definition int32_of :: "int \<Rightarrow> int" where
  "int32_of n = sint (word_of_int n :: 32 word)"

definition postgres_port :: "Pulp \<Rightarrow> int" where
  "postgres_port m =
    (let port = Database_PostgresPort (Spec_Database (Pulp_Spec m)) in if port = 0 then 5432 else int32_of port)"

definition postgres_image :: "'w Externals \<Rightarrow> Pulp \<Rightarrow> string" where
  "postgres_image X m =
    (let image = x_Getenv X ''RELATED_IMAGE_PULP_POSTGRES'';
         user = Database_PostgresImage (Spec_Database (Pulp_Spec m))
     in if length user > 0 then user else if image = [] then ''docker.io/library/postgres:15'' else image)"

definition postgres_container :: "'w Externals \<Rightarrow> Pulp \<Rightarrow> Container" where
  "postgres_container X m =
    (let db = Spec_Database (Pulp_Spec m);
         pgDataMountPath = Dir (orElse (Database_PostgresDataPath db) ''/var/lib/postgresql/data/pgdata'')
     in zero_Container\<lparr>
          ctr_Image := postgres_image X m,
          ctr_Name := ''postgres'',
          ctr_Args := Database_PostgresExtraArgs db,
          ctr_Env := postgres_env m,
          ctr_Ports := [JObj [(''containerPort'', JNum (postgres_port m)), (''name'', JStr ''postgres'')]],
          ctr_LivenessProbe := (case Database_LivenessProbe db of None \<Rightarrow> Some (pg_isready 30) | Some p \<Rightarrow> Some p),
          ctr_ReadinessProbe := (case Database_ReadinessProbe db of None \<Rightarrow> Some (pg_isready 5) | Some p \<Rightarrow> Some p),
          ctr_VolumeMounts := [mount (DefaultDBPVC (Pulp_Name m)) pgDataMountPath (Base pgDataMountPath) False],
          ctr_Resources := Database_ResourceRequirements db,
          ctr_SecurityContext := Some SetDefaultSecurityContext\<rparr>)"

text \<open>Outside OpenShift the pods run as the user of the upstream image.\<close>

definition user999 :: json where
  "user999 = JObj [(''runAsUser'', JNum 999), (''runAsGroup'', JNum 999), (''fsGroup'', JNum 999),
     (''fsGroupChangePolicy'', JStr ''OnRootMismatch'')]"

definition statefulSetForDatabase :: "'w Externals \<Rightarrow> 'w St \<Rightarrow> (StatefulSet \<times> 'w St) option" where
  "statefulSetForDatabase X s =
    do { let m = st_pulp s;
         let db = Spec_Database (Pulp_Spec m);
         (volumeClaimTemplate, volumes) \<leftarrow> postgres_storage X m;
         let ((isOpenshift, _), s) = IsOpenShift X s;
         let podSecurityContext = (if isOpenshift then JObj [] else user999);
         let (podLabels, m') = labelsForDatabasePods m;
         Some (\<lparr>
           sts_Meta = zero_ObjectMeta\<lparr>meta_Name := DefaultDBStatefulSet (Pulp_Name m), meta_Namespace := Pulp_Namespace m,
             meta_Labels := labelsForDatabase m\<rparr>,
           sts_Spec = \<lparr>stspec_Replicas = Some 1, stspec_Selector = labelsForDatabase m,
             stspec_Template = \<lparr>tmpl_Labels = podLabels, tmpl_Annotations = [], tmpl_Spec = zero_PodSpec\<lparr>
               pod_Affinity := (case Database_Affinity db of None \<Rightarrow> Some (JObj []) | Some a \<Rightarrow> Some a),
               pod_NodeSelector := Database_NodeSelector db,
               pod_Tolerations := Database_Tolerations db,
               pod_ServiceAccountName := PulpServiceAccount (Pulp_Name m),
               pod_SecurityContext := Some podSecurityContext,
               pod_Containers := [postgres_container X m],
               pod_Volumes := volumes\<rparr>\<rparr>,
             stspec_VolumeClaimTemplates = volumeClaimTemplate\<rparr>,
           sts_ReadyReplicas = 0, sts_StatusReplicas = 0\<rparr>, s\<lparr>st_pulp := m'\<rparr>) }"

definition serviceForDatabase :: "Pulp \<Rightarrow> Service" where
  "serviceForDatabase m = \<lparr>
     svc_Meta = zero_ObjectMeta\<lparr>meta_Name := DBService (Pulp_Name m), meta_Namespace := Pulp_Namespace m,
       meta_Labels := labelsForDatabase m\<rparr>,
     svc_Spec = (cluster_ip_spec [tcp_service_port [] 5432 5432] (labelsForDatabase m))\<lparr>
       sspec_ClusterIP := ''None'', sspec_ClusterIPs := [''None'']\<rparr>\<rparr>"

definition databaseConfigSecret :: "'w Externals \<Rightarrow> 'w St \<Rightarrow> (Secret \<times> 'w St) option" where
  "databaseConfigSecret X s =
    do { let m = st_pulp s;
         (password, s) \<leftarrow> createPwd X 32 s;
         Some (\<lparr>
           sec_Meta = zero_ObjectMeta\<lparr>meta_Name := DefaultDBSecret (Pulp_Name m), meta_Namespace := Pulp_Namespace m,
             meta_Labels := CommonLabels m\<rparr>,
           sec_Data = [],
           sec_StringData = [(''password'', password), (''username'', ''pulp''), (''database'', ''pulp''), (''port'', ''5432''),
             (''host'', Pulp_Name m @ ''-database-svc''),
             (''sslmode'', orElse (Database_PostgresSSLMode (Spec_Database (Pulp_Spec m))) ''prefer''),
             (''type'', ''managed'')]\<rparr>, s) }"

subsection \<open>The controller\<close>

text \<open>An update: the status before it, and the answer; a failure is reported with or without its cause.\<close>

definition update_step ::
  "'w Externals \<Rightarrow> string \<Rightarrow> string \<Rightarrow> string \<Rightarrow> (error \<Rightarrow> string) \<Rightarrow> string \<Rightarrow> string \<Rightarrow> string \<Rightarrow> int \<Rightarrow> Object \<Rightarrow> 'w St
    \<Rightarrow> (Result \<times> error option) \<times> 'w St" where
  "update_step X conditionType what message errorMessage updatingEvent failedEvent updatedEvent after expected s =
    (let s = UpdateStatus X ConditionFalse conditionType (''Updating'' @ what) message s;
         s = Record_Event EventNormal ''Updating'' updatingEvent s;
         ((err, _), s) = call (x_Update X expected) s
     in case err of
          Some e \<Rightarrow>
            (let s = UpdateStatus X ConditionFalse conditionType (''ErrorUpdating'' @ what) (errorMessage e) s
             in ((zero_Result, Some e), Record_Event EventWarning ''Failed'' failedEvent s))
        | None \<Rightarrow> ((\<lparr>Requeue = True, RequeueAfter = after\<rparr>, None), Record_Event EventNormal ''Updated'' updatedEvent s))"

definition minute :: int where "minute = 60 * second"

text \<open>\<open>SetControllerReference\<close>, then the write.\<close>

definition own :: "Pulp \<Rightarrow> Object \<Rightarrow> Object" where
  "own pulp obj = map_Meta (set_controller (Pulp_Name pulp)) obj"

fun sts_spec_of :: "Object \<Rightarrow> StatefulSetSpec" where
  "sts_spec_of (StatefulSetObj x) = sts_Spec x"
| "sts_spec_of _ = sts_Spec zero_StatefulSet"

fun svc_spec_of :: "Object \<Rightarrow> ServiceSpec" where
  "svc_spec_of (ServiceObj x) = svc_Spec x"
| "svc_spec_of _ = zero_ServiceSpec"

definition databaseService :: "'w Externals \<Rightarrow> string \<Rightarrow> 'w St \<Rightarrow> (Result \<times> error option) \<times> 'w St" where
  "databaseService X conditionType s =
    (let svcName = DBService (Pulp_Name (st_pulp s));
         (r, s) = call (x_Get X KService (Pulp_Namespace (st_pulp s)) svcName) s;
         expected = serviceForDatabase (st_pulp s)
     in case r of
          Inl err \<Rightarrow>
            if IsNotFound err
            then create_step X conditionType ''DatabaseService'' (''Creating '' @ svcName @ '' Service resource'')
                   (''Failed to create '' @ svcName @ '' Service resource: '') ''Failed to create database service''
                   ''Database service created'' (own (st_pulp s) (ServiceObj expected)) s
            else ((zero_Result, Some err), s)
        | Inr dbSvc \<Rightarrow>
            if \<not> x_DeepDerivative X (VServiceSpec (svc_Spec expected)) (VServiceSpec (svc_spec_of dbSvc))
            then update_step X conditionType ''DatabaseService'' (''Reconciling '' @ svcName @ '' Service resource'')
                   (\<lambda>e. ''Failed to reconcile '' @ svcName @ '' Service resource: '' @ Error e) ''Reconciling database service''
                   ''Failed to reconcile database service'' ''Database service reconciled'' second
                   (own (st_pulp s) (ServiceObj expected)) s
            else if x_IsStatusConditionFalse X (conditions s) conditionType
            then ((zero_Result, None), Record_Event EventNormal ''DatabaseReady'' ''All Database tasks ran successfully''
              (UpdateStatus X ConditionTrue conditionType ''DatabaseTasksFinished'' ''All Database tasks ran successfully'' s))
            else ((zero_Result, None), s))"

definition databaseStatefulSet :: "'w Externals \<Rightarrow> string \<Rightarrow> 'w St \<Rightarrow> ((Result \<times> error option) \<times> 'w St) option" where
  "databaseStatefulSet X conditionType s =
    do { let name = DefaultDBStatefulSet (Pulp_Name (st_pulp s));
         let (r, s) = call (x_Get X KStatefulSet (Pulp_Namespace (st_pulp s)) name) s;
         (expected, s) \<leftarrow> statefulSetForDatabase X s;
         Some (case r of
           Inl err \<Rightarrow>
             if IsNotFound err
             then create_step X conditionType ''DatabaseSts'' (''Creating '' @ name @ '' StatefulSet resource'')
                    (''Failed to create '' @ name @ '' Statefulset resource: '') ''Failed to create database StatefulSet''
                    ''Database StatefulSet created'' (own (st_pulp s) (StatefulSetObj expected)) s
             else ((zero_Result, Some err), s)
         | Inr pgSts \<Rightarrow>
             if \<not> x_DeepDerivative X (VStatefulSetSpec (sts_Spec expected)) (VStatefulSetSpec (sts_spec_of pgSts))
             then update_step X conditionType ''DatabaseSts'' (''Reconciling '' @ name @ '' Statefulset resource'')
                    (\<lambda>e. ''Failed to reconcile '' @ name @ '' Statefulset resource'') (''Reconciling '' @ name @ '' StatefulSet'')
                    (''Failed to reconcile '' @ name @ '' StatefulSet'') (name @ '' StatefulSet reconciled'') minute
                    (own (st_pulp s) (StatefulSetObj expected)) s
             else databaseService X conditionType s) }"

text \<open>The password is drawn on every run, and used only when the secret does not exist.\<close>

definition databaseController :: "'w Externals \<Rightarrow> 'w St \<Rightarrow> ((Result \<times> error option) \<times> 'w St) option" where
  "databaseController X s =
    do { let conditionType = ''Pulp-Database-Ready'';
         let secretName = DefaultDBSecret (Pulp_Name (st_pulp s));
         let (r, s) = call (x_Get X KSecret (Pulp_Namespace (st_pulp s)) secretName) s;
         (expected, s) \<leftarrow> databaseConfigSecret X s;
         case r of
           Inl err \<Rightarrow>
             if IsNotFound err
             then Some (create_step X conditionType ''DatabasePostgresSecret'' (''Creating '' @ secretName @ '' Secret resource'')
                    (''Failed to create '' @ secretName @ '' Secret resource: '') (''Failed to create '' @ secretName @ '' Secret'')
                    (secretName @ '' Secret created'') (own (st_pulp s) (SecretObj expected)) s)
             else Some ((zero_Result, Some err), s)
         | Inr _ \<Rightarrow> databaseStatefulSet X conditionType s }"

subsection \<open>Lemmas\<close>

text \<open>Printing a number loses nothing.\<close>

definition decimal :: "string \<Rightarrow> nat" where
  "decimal ds = foldl (\<lambda>a c. 10 * a + (of_char c - 48)) 0 ds"

lemma decimal_digits_of [simp]: "decimal (digits_of n) = n"
proof (induction n rule: digits_of.induct)
  case (1 n)
  have digit: "of_char (char_of (48 + k :: nat) :: char) - 48 = k" if "k < 10" for k
    using that by (simp add: of_char_of)
  show ?case
  proof (cases "n < 10")
    case True
    then show ?thesis by (subst digits_of.simps) (simp add: decimal_def digit)
  next
    case False
    then show ?thesis
      using 1 [OF False] by (subst digits_of.simps) (simp add: decimal_def digit)
  qed
qed

lemma digits_of_inject: "digits_of n = digits_of m \<longleftrightarrow> n = m"
  by (metis decimal_digits_of)

lemma digits_of_chars: "c \<in> set (digits_of n) \<Longrightarrow> c \<noteq> CHR ''-''"
proof (induction n rule: digits_of.induct)
  case (1 n)
  have "char_of (48 + k :: nat) \<noteq> CHR ''-''" if "k < 10" for k
  proof
    assume eq: "char_of (48 + k) = CHR ''-''"
    have "(of_char (char_of (48 + k) :: char) :: nat) = 48 + k" using that by (simp add: of_char_of)
    with eq show False by simp
  qed
  from this [of n] this [of "n mod 10"] show ?case
    using 1 by (subst (asm) (2) digits_of.simps) (auto split: if_splits)
qed

lemma Itoa_inject: "Itoa i = Itoa j \<longleftrightarrow> i = j"
proof
  assume eq: "Itoa i = Itoa j"
  have neg: "digits_of n \<noteq> CHR ''-'' # ds" for n ds
    using digits_of_chars [of "CHR ''-''" n] by auto
  show "i = j"
    using eq neg neg [symmetric] by (auto simp: Itoa_def digits_of_inject split: if_splits)
qed simp

lemma database_storages:
  "snd (MultiStorageConfigured m ''Database'') =
    append_if (Database_PostgresStorageClass (Spec_Database (Pulp_Spec m)) \<noteq> None) SCNameType
      (append_if (Database_PVC (Spec_Database (Pulp_Spec m)) \<noteq> []) PVCType [])"
  by (simp add: MultiStorageConfigured_def resource_names append_if_def Let_def)

lemma database_storage_cases:
  assumes "index (snd (MultiStorageConfigured m ''Database'')) 0 = Some storage"
  shows "storage = SCNameType \<or> storage = PVCType"
  using assms by (auto simp: database_storages append_if_def split: if_splits)

text \<open>Whatever the storage is, the volume that is mounted exists under its name.\<close>

lemma postgres_storage_name:
  assumes "postgres_storage X m = Some (claims, volumes)"
  shows "DefaultDBPVC (Pulp_Name m) \<in> (\<lambda>c. meta_Name (pvc_Meta c)) ` set claims \<union> vol_Name ` set volumes"
  using assms database_storage_cases [of m]
  by (auto simp: postgres_storage_def Let_def split: bind_splits if_splits)

lemma postgres_storage_None:
  "postgres_storage X m = None \<longleftrightarrow>
    (let db = Spec_Database (Pulp_Spec m) in
     Database_PVC db = [] \<and> Database_PostgresStorageClass db = None \<or>
     Database_PVC db = [] \<and> Database_PostgresStorageRequirements db \<noteq> [] \<and>
       \<not> x_ParseQuantity X (Database_PostgresStorageRequirements db))"
  by (auto simp: postgres_storage_def database_storages append_if_def orElse_def storage_types Let_def)

lemma statefulSetForDatabase_parts:
  assumes "statefulSetForDatabase X s = Some (sts, s')"
  obtains claims volumes where "postgres_storage X (st_pulp s) = Some (claims, volumes)"
    "stspec_VolumeClaimTemplates (sts_Spec sts) = claims"
    "pod_Volumes (tmpl_Spec (stspec_Template (sts_Spec sts))) = volumes"
    "pod_Containers (tmpl_Spec (stspec_Template (sts_Spec sts))) = [postgres_container X (st_pulp s)]"
    "stspec_Selector (sts_Spec sts) = PulpcoreLabels (st_pulp s) DATABASE"
    "tmpl_Labels (stspec_Template (sts_Spec sts)) = fst (PulpcorePodLabels (st_pulp s) DATABASE)"
  using assms by (auto simp: statefulSetForDatabase_def labelsForDatabase_def labelsForDatabasePods_def Let_def split_beta split: bind_splits)

subsection \<open>Properties\<close>

text \<open>The secrets and keys that a container takes variables from.\<close>

definition env_secret_keys :: "EnvVar list \<Rightarrow> (string \<times> string) set" where
  "env_secret_keys vs = {(name, key). \<exists>v \<in> set vs. env_ValueFrom v = Some (SecretKeyRef name key)}"

text \<open>
  C30: the parts of the managed database fit together. The selector of the StatefulSet matches its pods; the
  volume its container mounts is a claim template or a volume of the pod; the variables it takes from a
  secret are keys of the secret that the operator creates; and the Service selects these pods.
\<close>

theorem database_parts_fit:
  assumes "statefulSetForDatabase X s = Some (sts, s')" "databaseConfigSecret X s = Some (secret, s'')"
  shows "map_of (stspec_Selector (sts_Spec sts)) \<subseteq>\<^sub>m map_of (tmpl_Labels (stspec_Template (sts_Spec sts))) \<and>
    sspec_Selector (svc_Spec (serviceForDatabase (st_pulp s))) = stspec_Selector (sts_Spec sts) \<and>
    (\<forall>c \<in> set (pod_Containers (tmpl_Spec (stspec_Template (sts_Spec sts)))).
       vm_Name ` set (ctr_VolumeMounts c) \<subseteq>
         (\<lambda>c. meta_Name (pvc_Meta c)) ` set (stspec_VolumeClaimTemplates (sts_Spec sts)) \<union>
         vol_Name ` set (pod_Volumes (tmpl_Spec (stspec_Template (sts_Spec sts)))) \<and>
       env_secret_keys (ctr_Env c) \<subseteq> {meta_Name (sec_Meta secret)} \<times> gkeys (sec_StringData secret))"
  using assms(1)
proof (rule statefulSetForDatabase_parts)
  fix claims volumes
  assume st: "postgres_storage X (st_pulp s) = Some (claims, volumes)"
    and parts: "stspec_VolumeClaimTemplates (sts_Spec sts) = claims"
    "pod_Volumes (tmpl_Spec (stspec_Template (sts_Spec sts))) = volumes"
    "pod_Containers (tmpl_Spec (stspec_Template (sts_Spec sts))) = [postgres_container X (st_pulp s)]"
    "stspec_Selector (sts_Spec sts) = PulpcoreLabels (st_pulp s) DATABASE"
    "tmpl_Labels (stspec_Template (sts_Spec sts)) = fst (PulpcorePodLabels (st_pulp s) DATABASE)"
  have secret: "meta_Name (sec_Meta secret) = DefaultDBSecret (Pulp_Name (st_pulp s))"
    "{''database'', ''username'', ''password''} \<subseteq> gkeys (sec_StringData secret)"
    using assms(2) by (auto simp: databaseConfigSecret_def gkeys_def Let_def split: bind_splits)
  have "env_secret_keys (postgres_env (st_pulp s)) =
      {DefaultDBSecret (Pulp_Name (st_pulp s))} \<times> {''database'', ''username'', ''password''}"
    by (auto simp: env_secret_keys_def postgres_env_def secret_env_def plain_env_def Let_def)
  with secret have env: "env_secret_keys (ctr_Env (postgres_container X (st_pulp s))) \<subseteq>
      {meta_Name (sec_Meta secret)} \<times> gkeys (sec_StringData secret)"
    by (auto simp: postgres_container_def Let_def)
  have "vm_Name ` set (ctr_VolumeMounts (postgres_container X (st_pulp s))) = {DefaultDBPVC (Pulp_Name (st_pulp s))}"
    by (simp add: postgres_container_def Let_def)
  with postgres_storage_name [OF st] env show ?thesis
    by (simp add: parts PulpcorePodLabels_map serviceForDatabase_def labelsForDatabase_def cluster_ip_spec_def)
qed

definition ex_db_pulp :: Pulp where
  "ex_db_pulp = upd_Spec (\<lambda>spec. spec\<lparr>Spec_Database := zero_Database\<lparr>Database_PVC := ''dbclaim''\<rparr>\<rparr>) ex_deploy_pulp"

theorem database_parts_fit_witness:
  "\<exists>sts s' secret s''. statefulSetForDatabase mem_ext (mem_state ex_db_pulp []) = Some (sts, s') \<and>
    databaseConfigSecret mem_ext (mem_state ex_db_pulp []) = Some (secret, s'') \<and>
    map_of (stspec_Selector (sts_Spec sts)) \<subseteq>\<^sub>m map_of (tmpl_Labels (stspec_Template (sts_Spec sts))) \<and>
    (\<forall>c \<in> set (pod_Containers (tmpl_Spec (stspec_Template (sts_Spec sts)))).
       env_secret_keys (ctr_Env c) \<subseteq> {meta_Name (sec_Meta secret)} \<times> gkeys (sec_StringData secret))"
proof -
  have "postgres_storage mem_ext ex_db_pulp \<noteq> None"
    by (simp add: postgres_storage_None ex_db_pulp_def Let_def)
  then obtain sts s' where sts: "statefulSetForDatabase mem_ext (mem_state ex_db_pulp []) = Some (sts, s')"
    by (auto simp: statefulSetForDatabase_def mem_state_def Let_def split_beta)
  obtain p s'' where "createPwd mem_ext 32 (mem_state ex_db_pulp []) = Some (p, s'')"
    using mem_runtime.createPwd_Some [of 32 "mem_state ex_db_pulp []"] by blast
  then obtain secret where secret: "databaseConfigSecret mem_ext (mem_state ex_db_pulp []) = Some (secret, s'')"
    by (simp add: databaseConfigSecret_def Let_def)
  note fit = database_parts_fit [OF sts secret]
  show ?thesis
    by (rule exI [of _ sts], rule exI [of _ s'], rule exI [of _ secret], rule exI [of _ s'']) (use sts secret fit in simp)
qed

text \<open>
  C39: the port of the managed database is the user's only in part. The pulpcore pods are told the port
  of the custom resource and the container declares it, but the Service, the connection secret, the probes and
  the server itself stay at 5432: the two agree exactly when the port is left at its default.
\<close>

theorem database_port_agrees_iff:
  assumes "Database_ExternalDBSecret (Spec_Database (Pulp_Spec p)) = []"
  shows "env_lookup (GetPostgresEnvVars p) ''POSTGRES_SERVICE_PORT'' =
      Some (plain_env ''POSTGRES_SERVICE_PORT'' (Itoa (sport_TargetPort (hd (sspec_Ports (svc_Spec (serviceForDatabase p)))))))
    \<longleftrightarrow> Database_PostgresPort (Spec_Database (Pulp_Spec p)) \<in> {0, 5432}"
proof -
  let ?port = "if Database_PostgresPort (Spec_Database (Pulp_Spec p)) = 0 then 5432
    else Database_PostgresPort (Spec_Database (Pulp_Spec p))"
  have "env_lookup (GetPostgresEnvVars p) ''POSTGRES_SERVICE_PORT'' = Some (plain_env ''POSTGRES_SERVICE_PORT'' (Itoa ?port))"
    using assms by (simp add: GetPostgresEnvVars_def env_lookup_def plain_env_def Let_def)
  moreover have "sport_TargetPort (hd (sspec_Ports (svc_Spec (serviceForDatabase p)))) = 5432"
    by (simp add: serviceForDatabase_def cluster_ip_spec_def tcp_service_port_def)
  ultimately show ?thesis
    by (simp add: plain_env_def Itoa_inject)
qed

theorem database_port_agrees_iff_witness:
  "env_lookup (GetPostgresEnvVars ex_db_pulp) ''POSTGRES_SERVICE_PORT'' =
    Some (plain_env ''POSTGRES_SERVICE_PORT'' (Itoa (sport_TargetPort (hd (sspec_Ports (svc_Spec (serviceForDatabase ex_db_pulp)))))))"
  using database_port_agrees_iff [of ex_db_pulp] by (simp add: ex_db_pulp_def zero_Database_def)

end
