(* ===== verification/Redis.thy ===== *)
theory Redis
  imports Database
begin

text \<open>
  \<open>controllers/repo_manager/redis.go\<close>: the Redis cache that the operator manages, a claim (when a
  storage class is given), a Service and a Deployment, and its removal.
\<close>

subsection \<open>Resource requirements\<close>

text \<open>
  The requirements are kept as JSON; \<open>Requests.Storage()\<close> is the quantity under \<open>storage\<close>, and
  \<open>delete\<close> removes it from the map that the custom resource holds too.
\<close>

fun json_field :: "string \<Rightarrow> json \<Rightarrow> json option" where
  "json_field k (JObj kvs) = map_of kvs k"
| "json_field k _ = None"

fun quantity_text :: "json \<Rightarrow> string option" where
  "quantity_text (JStr q) = Some q"
| "quantity_text (JNum n) = Some (Itoa n)"
| "quantity_text _ = None"

definition requests_storage :: "json \<Rightarrow> string option" where
  "requests_storage resources =
    do { requests \<leftarrow> json_field ''requests'' resources;
         storage \<leftarrow> json_field ''storage'' requests;
         quantity_text storage }"

fun drop_storage :: "json \<Rightarrow> json" where
  "drop_storage (JObj kvs) = JObj (filter (\<lambda>(k, _). k \<noteq> ''storage'') kvs)"
| "drop_storage j = j"

fun removeStorageDefinition :: "json \<Rightarrow> json" where
  "removeStorageDefinition (JObj kvs) =
     JObj (map (\<lambda>(k, v). (k, if k = ''requests'' \<or> k = ''limits'' then drop_storage v else v)) kvs)"
| "removeStorageDefinition j = j"

subsection \<open>The objects\<close>

definition labelsForCache :: "Pulp \<Rightarrow> gomap" where
  "labelsForCache m = PulpcoreLabels m CACHE"

definition labelsForCachePods :: "Pulp \<Rightarrow> gomap \<times> Pulp" where
  "labelsForCachePods m = PulpcorePodLabels m CACHE"

definition redisDataPVC :: "'w Externals \<Rightarrow> Pulp \<Rightarrow> PersistentVolumeClaim option" where
  "redisDataPVC X m =
    (let cache = Spec_Cache (Pulp_Spec m);
         storageSize = (case requests_storage (Cache_RedisResourceRequirements cache) of
             Some q \<Rightarrow> if x_QuantityIsZero X q then ''1Gi'' else x_QuantityString X q
           | None \<Rightarrow> ''1Gi'')
     in if \<not> x_ParseQuantity X storageSize then None
        else Some \<lparr>
          pvc_Meta = zero_ObjectMeta\<lparr>meta_Name := DefaultCachePVC (Pulp_Name m), meta_Namespace := Pulp_Namespace m,
            meta_Labels := labelsForCache m\<rparr>,
          pvc_Storage = storageSize, pvc_AccessModes = [''ReadWriteOnce''],
          pvc_StorageClassName = Some (Cache_RedisStorageClass cache)\<rparr>)"

definition redisSvc :: "Pulp \<Rightarrow> Service" where
  "redisSvc m =
    (let port = Cache_RedisPort (Spec_Cache (Pulp_Spec m));
         port = (if port = 0 then 6379 else port)
     in \<lparr>svc_Meta = zero_ObjectMeta\<lparr>meta_Name := CacheService (Pulp_Name m), meta_Namespace := Pulp_Namespace m,
           meta_Labels := labelsForCache m\<rparr>,
         svc_Spec = zero_ServiceSpec\<lparr>sspec_Selector := labelsForCache m,
           sspec_Ports := [tcp_service_port ''redis-6379'' (int32_of port) 6379]\<rparr>\<rparr>)"

definition redis_volume :: "Pulp \<Rightarrow> string \<Rightarrow> Volume" where
  "redis_volume m storage = \<lparr>vol_Name = Pulp_Name m @ ''-redis-data'',
     vol_Source = (if storage = SCNameType then PVCVolume (DefaultCachePVC (Pulp_Name m))
       else if storage = PVCType then PVCVolume (Cache_PVC (Spec_Cache (Pulp_Spec m)))
       else if storage = EmptyDirType then EmptyDirVolume
       else NoVolumeSource)\<rparr>"

definition redis_probe :: json where
  "redis_probe = JObj
    [(''exec'', JObj [(''command'', JArr (map JStr [''/bin/sh'', ''-i'', ''-c'', ''redis-cli -h 127.0.0.1 -p 6379'']))]),
     (''initialDelaySeconds'', JNum 5), (''periodSeconds'', JNum 5), (''timeoutSeconds'', JNum 5),
     (''failureThreshold'', JNum 5), (''successThreshold'', JNum 1)]"

definition redis_image :: "'w Externals \<Rightarrow> Pulp \<Rightarrow> string" where
  "redis_image X m =
    (let image = x_Getenv X ''RELATED_IMAGE_PULP_REDIS'';
         user = Cache_RedisImage (Spec_Cache (Pulp_Spec m))
     in if length user > 0 then user else if image = [] then ''docker.io/library/redis:latest'' else image)"

definition redis_annotations :: "Pulp \<Rightarrow> gomap" where
  "redis_annotations m =
    (let annotations = (case Cache_DeploymentAnnotations (Spec_Cache (Pulp_Spec m)) of None \<Rightarrow> [] | Some a \<Rightarrow> a);
         annotations = gset ''email'' ''pulp-dev@redhat.com'' annotations;
         annotations = gset ''ignore-check.kube-linter.io/unset-cpu-requirements'' ''Temporarily disabled'' annotations;
         annotations = gset ''ignore-check.kube-linter.io/unset-memory-requirements'' ''Temporarily disabled'' annotations
     in gset ''ignore-check.kube-linter.io/no-node-affinity'' ''Do not check node affinity'' annotations)"

definition redis_container :: "'w Externals \<Rightarrow> Pulp \<Rightarrow> json \<Rightarrow> Container" where
  "redis_container X m resources =
    (let cache = Spec_Cache (Pulp_Spec m)
     in zero_Container\<lparr>
          ctr_Name := ''redis'',
          ctr_Image := redis_image X m,
          ctr_ImagePullPolicy := ''IfNotPresent'',
          ctr_VolumeMounts := [mount (Pulp_Name m @ ''-redis-data'') ''/data'' [] False],
          ctr_Ports := [tcp_port 6379],
          ctr_LivenessProbe := (case Cache_LivenessProbe cache of None \<Rightarrow> Some redis_probe | Some p \<Rightarrow> Some p),
          ctr_ReadinessProbe := (case Cache_ReadinessProbe cache of None \<Rightarrow> Some redis_probe | Some p \<Rightarrow> Some p),
          ctr_Resources := resources,
          ctr_SecurityContext := Some SetDefaultSecurityContext\<rparr>)"

text \<open>
  The custom resource as the function leaves it: its requirements without storage, its
  annotations with the standard ones, the labels of its pods with the operator's.
\<close>

definition redis_cr :: "Pulp \<Rightarrow> Pulp" where
  "redis_cr m = upd_Spec (\<lambda>spec. spec\<lparr>Spec_Cache := (Spec_Cache spec)\<lparr>
     Cache_RedisResourceRequirements := removeStorageDefinition (Cache_RedisResourceRequirements (Spec_Cache spec)),
     Cache_DeploymentAnnotations := (case Cache_DeploymentAnnotations (Spec_Cache spec) of
         None \<Rightarrow> None | Some _ \<Rightarrow> Some (redis_annotations m))\<rparr>\<rparr>) m"

definition redis_dep :: "'w Externals \<Rightarrow> Pulp \<Rightarrow> string \<Rightarrow> bool \<Rightarrow> gomap \<Rightarrow> Deployment" where
  "redis_dep X m storage isOpenshift podLabels =
    (let cache = Spec_Cache (Pulp_Spec m);
         strategy = Cache_Strategy cache
     in zero_Deployment\<lparr>
          dep_Meta := zero_ObjectMeta\<lparr>meta_Name := DeploymentName CACHE (Pulp_Name m), meta_Namespace := Pulp_Namespace m,
            meta_Annotations := redis_annotations m, meta_Labels := labelsForCache m\<rparr>,
          dep_Spec := \<lparr>dspec_Replicas = Some 1,
            dspec_Strategy = (if strat_Type strategy = [] then strategy\<lparr>strat_Type := ''RollingUpdate''\<rparr> else strategy),
            dspec_Selector = labelsForCache m,
            dspec_Template = \<lparr>tmpl_Labels = podLabels, tmpl_Annotations = [], tmpl_Spec = zero_PodSpec\<lparr>
              pod_Affinity := (case Cache_Affinity cache of None \<Rightarrow> Some (JObj []) | Some a \<Rightarrow> Some a),
              pod_NodeSelector := Cache_NodeSelector cache,
              pod_Tolerations := Cache_Tolerations cache,
              pod_ServiceAccountName := PulpServiceAccount (Pulp_Name m),
              pod_SecurityContext := Some (if isOpenshift then JObj [] else user999),
              pod_Containers := [redis_container X m (removeStorageDefinition (Cache_RedisResourceRequirements cache))],
              pod_Volumes := [redis_volume m storage]\<rparr>\<rparr>\<rparr>\<rparr>)"

definition redisDeployment :: "'w Externals \<Rightarrow> 'w St \<Rightarrow> (Deployment \<times> 'w St) option" where
  "redisDeployment X s =
    do { let m = st_pulp s;
         storage \<leftarrow> index (snd (MultiStorageConfigured m ''Cache'')) 0;
         let ((isOpenshift, _), s) = IsOpenShift X s;
         let (podLabels, m') = labelsForCachePods (redis_cr m);
         let (dep, s) = AddHashLabel X (redis_dep X m storage isOpenshift podLabels) (s\<lparr>st_pulp := m'\<rparr>);
         Some (own_deployment (st_pulp s) dep, s) }"

subsection \<open>The controller\<close>

text \<open>Creation and update without a status condition.\<close>

definition create_plain :: "'w Externals \<Rightarrow> string \<Rightarrow> string \<Rightarrow> Object \<Rightarrow> 'w St \<Rightarrow> (Result \<times> error option) \<times> 'w St" where
  "create_plain X failedEvent createdEvent expected s =
    (let (err, s) = call (x_Create X expected) s
     in if err \<noteq> None then ((zero_Result, err), Record_Event EventWarning ''Failed'' failedEvent s)
        else ((requeue_Result, None), Record_Event EventNormal ''Created'' createdEvent s))"

definition update_plain ::
  "'w Externals \<Rightarrow> string \<Rightarrow> string \<Rightarrow> string \<Rightarrow> Object \<Rightarrow> 'w St \<Rightarrow> (Result \<times> error option) \<times> 'w St" where
  "update_plain X updatingEvent failedEvent updatedEvent expected s =
    (let s = Record_Event EventNormal ''Updating'' updatingEvent s;
         ((err, _), s) = call (x_Update X expected) s
     in if err \<noteq> None then ((zero_Result, err), Record_Event EventWarning ''Failed'' failedEvent s)
        else ((\<lparr>Requeue = True, RequeueAfter = second\<rparr>, None), Record_Event EventNormal ''Updated'' updatedEvent s))"

text \<open>The three steps; \<open>None\<close> inside is a step that has nothing to do.\<close>

fun pvc_of :: "Object \<Rightarrow> PersistentVolumeClaim option" where
  "pvc_of (PVCObj x) = Some x"
| "pvc_of _ = None"

definition pvc_spec :: "PersistentVolumeClaim \<Rightarrow> apiValue" where
  "pvc_spec pvc = VPVC (pvc\<lparr>pvc_Meta := zero_ObjectMeta\<rparr>)"

definition zero_PVC :: PersistentVolumeClaim where
  "zero_PVC = \<lparr>pvc_Meta = zero_ObjectMeta, pvc_Storage = [], pvc_AccessModes = [], pvc_StorageClassName = None\<rparr>"

definition cacheClaim :: "'w Externals \<Rightarrow> 'w St \<Rightarrow> ((Result \<times> error option) option \<times> 'w St) option" where
  "cacheClaim X s =
    do { let (r, s) = call (x_Get X KPVC (Pulp_Namespace (st_pulp s)) (DefaultCachePVC (Pulp_Name (st_pulp s)))) s;
         pvc \<leftarrow> redisDataPVC X (st_pulp s);
         let owned = own (st_pulp s) (PVCObj pvc);
         Some (case r of
           Inl err \<Rightarrow>
             if IsNotFound err
             then (let (answer, s) = create_plain X ''Failed to create new Redis Data PVC'' ''Redis Data PVC created'' owned s
                   in (Some answer, s))
             else (Some (zero_Result, Some err), s)
         | Inr obj \<Rightarrow>
             (let pvcFound = (case pvc_of obj of Some p \<Rightarrow> p | None \<Rightarrow> zero_PVC)
              in if \<not> x_DeepDerivative X (pvc_spec pvc) (pvc_spec pvcFound)
                 then (let (answer, s) = update_plain X ''Reconciling Redis PVC'' ''Failed to reconcile Redis PVC''
                             ''Redis PVC reconciled'' owned s
                       in (Some answer, s))
                 else (None, s))) }"

definition cacheService :: "'w Externals \<Rightarrow> 'w St \<Rightarrow> (Result \<times> error option) option \<times> 'w St" where
  "cacheService X s =
    (let (r, s) = call (x_Get X KService (Pulp_Namespace (st_pulp s)) (CacheService (Pulp_Name (st_pulp s)))) s;
         svc = redisSvc (st_pulp s);
         owned = own (st_pulp s) (ServiceObj svc)
     in case r of
          Inl err \<Rightarrow>
            if IsNotFound err
            then (let (answer, s) = create_plain X ''Failed to create new Redis Service'' ''Redis Service created'' owned s
                  in (Some answer, s))
            else (Some (zero_Result, Some err), s)
        | Inr svcFound \<Rightarrow>
            if \<not> x_DeepDerivative X (VServiceSpec (svc_Spec svc)) (VServiceSpec (svc_spec_of svcFound))
            then (let (answer, s) = update_plain X ''Reconciling Redis Service'' ''Failed to reconcile Redis Service''
                        ''Redis Service reconciled'' owned s
                  in (Some answer, s))
            else (None, s))"

definition set_managed_cache :: "'w Externals \<Rightarrow> 'w St \<Rightarrow> 'w St" where
  "set_managed_cache X s =
    snd (Status_Update X (set_Status (\<lambda>st. st\<lparr>Status_ManagedCacheEnabled := Cache_Enabled (Spec_Cache (Pulp_Spec (st_pulp s)))\<rparr>) s))"

definition cacheDeployment :: "'w Externals \<Rightarrow> string \<Rightarrow> 'w St \<Rightarrow> ((Result \<times> error option) \<times> 'w St) option" where
  "cacheDeployment X conditionType s =
    do { let (r, s) = call (x_Get X KDeployment (Pulp_Namespace (st_pulp s)) (DeploymentName CACHE (Pulp_Name (st_pulp s)))) s;
         (dep, s) \<leftarrow> redisDeployment X s;
         case r of
           Inl err \<Rightarrow>
             if IsNotFound err
             then Some (create_plain X ''Failed to create new Redis Deployment'' ''Redis Deployment created'' (DeploymentObj dep) s)
             else Some ((zero_Result, Some err), s)
         | Inr deploymentFound \<Rightarrow>
             do { let current = (case dep_of deploymentFound of Some d \<Rightarrow> d | None \<Rightarrow> zero_Deployment);
                  ((requeue, err), s) \<leftarrow> ReconcileObject X (DeploymentObj dep) (DeploymentObj current) conditionType PulpDeployment s;
                  if err \<noteq> None \<or> requeue then Some ((result_of requeue, err), s)
                  else Some ((zero_Result, None), Record_Event EventNormal ''RedisReady'' ''All Redis tasks ran successfully''
                         (set_managed_cache X s)) } }"

definition pulpCacheController :: "'w Externals \<Rightarrow> 'w St \<Rightarrow> ((Result \<times> error option) \<times> 'w St) option" where
  "pulpCacheController X s =
    do { let conditionType = ''Pulp-API-Ready'';
         storage \<leftarrow> index (snd (MultiStorageConfigured (st_pulp s) ''Cache'')) 0;
         (claim, s) \<leftarrow> (if storage = SCNameType then cacheClaim X s else Some (None, s));
         case claim of
           Some answer \<Rightarrow> Some (answer, s)
         | None \<Rightarrow>
             (let (service, s) = cacheService X s
              in case service of
                   Some answer \<Rightarrow> Some (answer, s)
                 | None \<Rightarrow> cacheDeployment X conditionType s) }"

text \<open>
  The removal: anything but \<open>NotFound\<close> counts as found, and after another error it is the
  empty object that is deleted.
\<close>

definition delete_unless_missing :: "'w Externals \<Rightarrow> Object \<Rightarrow> string \<Rightarrow> 'w St \<Rightarrow> 'w St" where
  "delete_unless_missing X zero name s =
    (let (r, s) = call (x_Get X (obj_Kind zero) (Pulp_Namespace (st_pulp s)) name) s
     in case r of
          Inr obj \<Rightarrow> snd (call (x_Delete X obj) s)
        | Inl err \<Rightarrow> if IsNotFound err then s else snd (call (x_Delete X zero) s))"

definition deprovisionCache :: "'w Externals \<Rightarrow> 'w St \<Rightarrow> (Result \<times> error option) \<times> 'w St" where
  "deprovisionCache X s =
    (let s = delete_unless_missing X (ServiceObj zero_Service) (CacheService (Pulp_Name (st_pulp s))) s;
         s = delete_unless_missing X (DeploymentObj zero_Deployment) (DeploymentName CACHE (Pulp_Name (st_pulp s))) s
     in ((zero_Result, None), set_managed_cache X s))"

definition managedCacheDisabled :: "Pulp \<Rightarrow> bool" where
  "managedCacheDisabled pulp \<longleftrightarrow>
    length (Cache_ExternalCacheSecret (Spec_Cache (Pulp_Spec pulp))) = 0 \<and>
    Cache_Enabled (Spec_Cache (Pulp_Spec pulp)) \<noteq> Status_ManagedCacheEnabled (Pulp_Status pulp)"

end
