(* ===== verification/Web.thy ===== *)
theory Web
  imports Redis
begin

text \<open>
  \<open>controllers/repo_manager/web.go\<close>: the pulp-web reverse proxy, a ConfigMap with its nginx
  configuration, a Deployment and a Service, for every ingress type that does not route to the
  API and content Services itself.
\<close>

subsection \<open>The nginx configuration\<close>

definition tabs :: "nat \<Rightarrow> string \<Rightarrow> string" where
  "tabs n l = replicate n (CHR 0x09) @ l"

text \<open>The part that depends on where TLS ends.\<close>

definition nginx_server :: "Pulp \<Rightarrow> string" where
  "nginx_server m =
    (let spec = Pulp_Spec m;
         readTimeout = orElse (Spec_NginxProxyReadTimeout spec) ''120s'';
         connectTimeout = orElse (Spec_NginxProxyConnectTimeout spec) ''120s'';
         sendTimeout = orElse (Spec_NginxProxySendTimeout spec) ''120s'';
         bodySize = orElse (Spec_NginxMaxBodySize spec) ''10m'';
         mechanism = Web_TLSTerminationMechanism (Spec_Web spec);
         tlsTerminationMechanism = (if length mechanism > 0 then ToLower mechanism else ''edge'');
         listenHTTPIpv6 = (if Ipv6Disabled m then [] else ''listen [::]:8080 default_server deferred;'');
         listenHTTPSIpv6 = (if Ipv6Disabled m then [] else ''listen [::]:8443 default_server deferred ssl;'')
     in if tlsTerminationMechanism = ''passthrough''
        then raw []
        [[],
         [],
         ''    server {'',
         ''        listen 8080 default_server;'',
         ''        '' @ listenHTTPIpv6,
         ''        server_name _;'',
         [],
         ''        proxy_read_timeout '' @ readTimeout @ '';'',
         ''        proxy_connect_timeout '' @ connectTimeout @ '';'',
         ''        proxy_send_timeout '' @ sendTimeout @ '';'',
         [],
         ''        client_max_body_size '' @ bodySize @ '';'',
         [],
         ''        # Redirect all HTTP links to the matching HTTPS page'',
         ''        return 301 https://$host$request_uri;'',
         ''    }'',
         [],
         ''    server {'',
         ''        listen 8443 default_server deferred ssl;'',
         ''        '' @ listenHTTPSIpv6,
         [],
         ''        ssl_certificate /etc/nginx/pki/web.crt;'',
         ''        ssl_certificate_key /etc/nginx/pki/web.key;'',
         ''        ssl_session_cache shared:SSL:50m;'',
         ''        ssl_session_timeout 1d;'',
         ''        ssl_session_tickets off;'',
         [],
         ''        # intermediate configuration'',
         ''        ssl_protocols TLSv1.2;'',
         ''        ssl_ciphers'' @ squote @ ''ECDHE-ECDSA-AES256-GCM-SHA384:ECDHE-RSA-AES256-GCM-SHA384:ECDHE-ECDSA-CHACHA20-POLY1305:ECDHE-RSA-CHACHA20-POLY1305:ECDHE-ECDS-AES128-GCM-SHA256:ECDHE-RSA-AES128-GCM-SHA256:ECDHE-ECDSA-AES256-SHA384:ECDHE-RSA-AES256-SHA384:ECDHE-ECDSA-AES128-SHA256:ECDH-RSA-AES128-SHA256'' @ squote @ '';'',
         ''        ssl_prefer_server_ciphers on;'',
         []]
        else raw []
        [[],
         [],
         ''    server {'',
         ''    '' @ [CHR 0x09] @ ''# Gunicorn docs suggest the use of the '' @ dquote @ ''deferred'' @ dquote @ '' directive on Linux.'',
         ''    '' @ [CHR 0x09] @ ''listen 8080 default_server deferred;'',
         ''    '' @ [CHR 0x09] @ listenHTTPIpv6])"

definition nginx_conf :: "Pulp \<Rightarrow> string \<Rightarrow> string \<Rightarrow> string" where
  "nginx_conf m contentPath apiRoot =
    (let spec = Pulp_Spec m;
         readTimeout = orElse (Spec_NginxProxyReadTimeout spec) ''120s'';
         connectTimeout = orElse (Spec_NginxProxyConnectTimeout spec) ''120s'';
         sendTimeout = orElse (Spec_NginxProxySendTimeout spec) ''120s'';
         bodySize = orElse (Spec_NginxMaxBodySize spec) ''10m'';
         serverConfig = nginx_server m
     in raw []
        [[],
         tabs 1 ''error_log /dev/stdout info;'',
         tabs 1 ''worker_processes 1;'',
         tabs 1 ''events {'',
         tabs 2 ''worker_connections 1024;  # increase if you have lots of clients'',
         tabs 2 (''accept_mutex off;  # set to '' @ squote @ ''on'' @ squote @ '' if nginx worker_processes > 1''),
         tabs 1 ''}'',
         [],
         tabs 1 ''http {'',
         tabs 2 ''access_log /dev/stdout;'',
         tabs 2 ''include mime.types;'',
         tabs 2 (''# fallback in case we can'' @ squote @ ''t determine a type''),
         tabs 2 ''default_type application/octet-stream;'',
         tabs 2 ''sendfile on;'',
         [],
         tabs 2 ''# If left at the default of 1024, nginx emits a warning about being unable'',
         tabs 2 ''# to build optimal hash types.'',
         tabs 2 ''types_hash_max_size 4096;'',
         [],
         tabs 2 ''upstream pulp-content {'',
         tabs 3 (''server '' @ ContentService (Pulp_Name m) @ '':24816;''),
         tabs 2 ''}'',
         [],
         tabs 2 ''upstream pulp-api {'',
         tabs 3 (''server '' @ ApiService (Pulp_Name m) @ '':24817;''),
         tabs 2 ''}'',
         serverConfig,
         [],
         tabs 3 ''# If you have a domain name, this is where to add it'',
         tabs 3 ''server_name $hostname;'',
         [],
         tabs 3 (''proxy_read_timeout '' @ readTimeout @ '';''),
         tabs 3 (''proxy_connect_timeout '' @ connectTimeout @ '';''),
         tabs 3 (''proxy_send_timeout '' @ sendTimeout @ '';''),
         [],
         tabs 3 ''# The default client_max_body_size is 1m. Clients uploading'',
         tabs 3 ''# files larger than this will need to chunk said files.'',
         tabs 3 (''client_max_body_size '' @ bodySize @ '';''),
         [],
         tabs 3 ''# Gunicorn docs suggest this value.'',
         tabs 3 ''keepalive_timeout 5;'',
         [],
         tabs 3 ''# static files that can change dynamically, or are needed for TLS'',
         tabs 3 ''# purposes are served through the webserver.'',
         tabs 3 (''root '' @ dquote @ ''/opt/app-root/src'' @ dquote @ '';''),
         [],
         tabs 3 (''location '' @ contentPath @ '' {''),
         tabs 4 ''proxy_set_header X-Forwarded-For $proxy_add_x_forwarded_for;'',
         tabs 4 ''proxy_set_header X-Forwarded-Proto $scheme;'',
         tabs 4 ''proxy_set_header Host $http_host;'',
         tabs 4 (''# we don'' @ squote @ ''t want nginx trying to do something clever with''),
         tabs 4 ''# redirects, we set the Host: header above already.'',
         tabs 4 ''proxy_redirect off;'',
         tabs 4 ''proxy_pass http://pulp-content;'',
         tabs 3 ''}'',
         [],
         tabs 3 (''location '' @ apiRoot @ ''api/v3/ {''),
         tabs 4 ''proxy_set_header X-Forwarded-For $proxy_add_x_forwarded_for;'',
         tabs 4 ''proxy_set_header X-Forwarded-Proto $scheme;'',
         tabs 4 ''proxy_set_header Host $http_host;'',
         tabs 4 (''# we don'' @ squote @ ''t want nginx trying to do something clever with''),
         tabs 4 ''# redirects, we set the Host: header above already.'',
         tabs 4 ''proxy_redirect off;'',
         tabs 4 ''proxy_pass http://pulp-api;'',
         tabs 3 ''}'',
         [],
         tabs 3 ''location /auth/login/ {'',
         tabs 4 ''proxy_set_header X-Forwarded-For $proxy_add_x_forwarded_for;'',
         tabs 4 ''proxy_set_header X-Forwarded-Proto $scheme;'',
         tabs 4 ''proxy_set_header Host $http_host;'',
         tabs 4 (''# we don'' @ squote @ ''t want nginx trying to do something clever with''),
         tabs 4 ''# redirects, we set the Host: header above already.'',
         tabs 4 ''proxy_redirect off;'',
         tabs 4 ''proxy_pass http://pulp-api;'',
         tabs 3 ''}'',
         [],
         tabs 3 ''include /opt/app-root/etc/nginx.default.d/*.conf;'',
         tabs 3 ''include /etc/nginx/pulp/*.conf;'',
         [],
         tabs 3 ''location / {'',
         tabs 4 ''proxy_set_header X-Forwarded-For $proxy_add_x_forwarded_for;'',
         tabs 4 ''proxy_set_header X-Forwarded-Proto $scheme;'',
         tabs 4 ''proxy_set_header Host $http_host;'',
         tabs 4 (''# we don'' @ squote @ ''t want nginx trying to do something clever with''),
         tabs 4 ''# redirects, we set the Host: header above already.'',
         tabs 4 ''proxy_redirect off;'',
         tabs 4 ''proxy_pass http://pulp-api;'',
         tabs 4 ''# static files are served through whitenoise - http://whitenoise.evans.io/en/stable/'',
         tabs 3 ''}'',
         tabs 2 ''}'',
         tabs 1 ''}'',
         []])"

definition pulpWebConfigMap :: "'w Externals \<Rightarrow> 'w St \<Rightarrow> ConfigMap \<times> 'w St" where
  "pulpWebConfigMap X s =
    (let m = st_pulp s;
         (contentPath, s) = GetContentPathPrefix X s;
         (apiRoot, s) = GetAPIRoot X s
     in (\<lparr>cm_Meta = set_controller (Pulp_Name m) (zero_ObjectMeta\<lparr>meta_Name := PulpWebConfigMapName (Pulp_Name m),
            meta_Namespace := Pulp_Namespace m, meta_Labels := CommonLabels m\<rparr>),
          cm_Data = [(''nginx.conf'', nginx_conf m contentPath apiRoot)]\<rparr>, s))"

subsection \<open>The Deployment\<close>

definition labelsForPulpWeb :: "Pulp \<Rightarrow> gomap" where
  "labelsForPulpWeb m = PulpcoreLabels m WEB"

definition labelsForPulpWebPods :: "Pulp \<Rightarrow> gomap \<times> Pulp" where
  "labelsForPulpWebPods m = PulpcorePodLabels m WEB"

definition web_image :: "'w Externals \<Rightarrow> Pulp \<Rightarrow> string" where
  "web_image X m =
    (let image = x_Getenv X ''RELATED_IMAGE_PULP_WEB'';
         spec = Pulp_Spec m
     in if length (Spec_ImageWeb spec) > 0 \<and> length (Spec_ImageWebVersion spec) > 0
        then Spec_ImageWeb spec @ '':'' @ Spec_ImageWebVersion spec
        else if image = [] then ''quay.io/pulp/pulp-web:stable'' else image)"

text \<open>The settings are asked for the path of the probe only when the user gives no probe.\<close>

definition web_readiness :: "'w Externals \<Rightarrow> 'w St \<Rightarrow> json \<times> 'w St" where
  "web_readiness X s =
    (case Web_ReadinessProbe (Spec_Web (Pulp_Spec (st_pulp s))) of
       Some probe \<Rightarrow> (probe, s)
     | None \<Rightarrow>
         (let (apiRoot, s) = GetAPIRoot X s
          in (JObj [(''httpGet'', JObj [(''path'', JStr (apiRoot @ ''api/v3/status/'')), (''port'', JNum 8080),
                (''scheme'', JStr ''HTTP'')]), (''failureThreshold'', JNum 2), (''initialDelaySeconds'', JNum 3),
                (''periodSeconds'', JNum 10), (''successThreshold'', JNum 1), (''timeoutSeconds'', JNum 10)], s)))"

definition web_container :: "'w Externals \<Rightarrow> Pulp \<Rightarrow> json \<Rightarrow> Container" where
  "web_container X m readinessProbe =
    (let web = Spec_Web (Pulp_Spec m)
     in zero_Container\<lparr>
          ctr_Image := web_image X m,
          ctr_Name := ''web'',
          ctr_Resources := Web_ResourceRequirements web,
          ctr_Env := \<lparr>env_Name = ''NODE_IP'', env_Value = [], env_ValueFrom = Some (FieldRef ''status.hostIP'')\<rparr> # Web_EnvVars web,
          ctr_Ports := [tcp_port 8080],
          ctr_LivenessProbe := Web_LivenessProbe web,
          ctr_ReadinessProbe := Some readinessProbe,
          ctr_VolumeMounts := [mount (Pulp_Name m @ ''-nginx-conf'') ''/etc/nginx/nginx.conf'' ''nginx.conf'' True],
          ctr_SecurityContext := Some SetDefaultSecurityContext\<rparr>)"

definition web_dep :: "'w Externals \<Rightarrow> Pulp \<Rightarrow> json \<Rightarrow> bool \<Rightarrow> gomap \<Rightarrow> Deployment" where
  "web_dep X m readinessProbe isOpenShift podLabels =
    (let web = Spec_Web (Pulp_Spec m);
         strategy = Web_Strategy web
     in zero_Deployment\<lparr>
          dep_Meta := zero_ObjectMeta\<lparr>meta_Name := DeploymentName WEB (Pulp_Name m), meta_Namespace := Pulp_Namespace m,
            meta_Labels := labelsForPulpWeb m,
            meta_Annotations := (case Web_DeploymentAnnotations web of None \<Rightarrow> [] | Some a \<Rightarrow> a)\<rparr>,
          dep_Spec := \<lparr>dspec_Replicas = Some (Web_Replicas web),
            dspec_Strategy = (if strat_Type strategy = [] then strategy\<lparr>strat_Type := ''RollingUpdate''\<rparr> else strategy),
            dspec_Selector = labelsForPulpWeb m,
            dspec_Template = \<lparr>tmpl_Labels = podLabels, tmpl_Annotations = [], tmpl_Spec = zero_PodSpec\<lparr>
              pod_NodeSelector := Web_NodeSelector web,
              pod_ServiceAccountName := PulpServiceAccount (Pulp_Name m),
              pod_Containers := [web_container X m readinessProbe],
              pod_SecurityContext := Some (if isOpenShift then JObj []
                else JObj [(''runAsUser'', JNum 700), (''fsGroup'', JNum 700)]),
              pod_Volumes := [\<lparr>vol_Name = Pulp_Name m @ ''-nginx-conf'',
                vol_Source = ConfigMapVolume (PulpWebConfigMapName (Pulp_Name m)) None [(''nginx.conf'', ''nginx.conf'')]\<rparr>]\<rparr>\<rparr>\<rparr>\<rparr>)"

definition deploymentForPulpWeb :: "'w Externals \<Rightarrow> 'w St \<Rightarrow> Deployment \<times> 'w St" where
  "deploymentForPulpWeb X s =
    (let m = st_pulp s;
         (readinessProbe, s) = web_readiness X s;
         ((isOpenShift, _), s) = IsOpenShift X s;
         (podLabels, m') = labelsForPulpWebPods m;
         (dep, s) = AddHashLabel X (web_dep X m readinessProbe isOpenShift podLabels) (s\<lparr>st_pulp := m'\<rparr>)
     in (own_deployment (st_pulp s) dep, s))"

subsection \<open>The Service\<close>

definition lb_protocol :: "Pulp \<Rightarrow> string" where
  "lb_protocol m =
    (let protocol = Spec_LoadbalancerProtocol (Pulp_Spec m)
     in if length protocol > 0 then ToLower protocol else ''http'')"

definition web_ports :: "Pulp \<Rightarrow> ServicePort list" where
  "web_ports m =
    (let lbProtocol = lb_protocol m;
         ingressType = ToLower (Spec_IngressType (Pulp_Spec m));
         port = Spec_LoadbalancerPort (Pulp_Spec m)
     in (if ingressType \<noteq> ''loadbalancer'' \<and> lbProtocol \<noteq> ''https'' then [tcp_service_port ''web-8080'' 24880 8080] else []) @
        (if ingressType = ''loadbalancer'' \<and> lbProtocol = ''https''
         then [tcp_service_port ''web-8443'' (if port \<noteq> 0 then port else 443) 8080]
         else if ingressType = ''loadbalancer'' \<and> lbProtocol \<noteq> ''https''
         then [tcp_service_port ''web-8080'' (if port \<noteq> 0 then port else 80) 8080]
         else []))"

text \<open>\<open>servicePort[0].NodePort = ...\<close> panics on an empty slice.\<close>

definition set_node_port :: "int \<Rightarrow> ServicePort list \<Rightarrow> ServicePort list option" where
  "set_node_port n ports = (case ports of [] \<Rightarrow> None | p # ps \<Rightarrow> Some (p\<lparr>sport_NodePort := n\<rparr> # ps))"

definition serviceForPulpWeb :: "Pulp \<Rightarrow> Service option" where
  "serviceForPulpWeb m =
    do { let ingressType = ToLower (Spec_IngressType (Pulp_Spec m));
         let nodePort = Spec_NodePort (Pulp_Spec m);
         ports \<leftarrow> (if ingressType = ''nodeport'' \<and> nodePort > 0 then set_node_port nodePort (web_ports m) else Some (web_ports m));
         Some \<lparr>
           svc_Meta = zero_ObjectMeta\<lparr>meta_Name := PulpWebService (Pulp_Name m), meta_Namespace := Pulp_Namespace m,
             meta_Labels := labelsForPulpWeb m, meta_Annotations := Web_ServiceAnnotations (Spec_Web (Pulp_Spec m))\<rparr>,
           svc_Spec = zero_ServiceSpec\<lparr>sspec_Selector := labelsForPulpWeb m, sspec_Ports := ports,
             sspec_Type := (if ingressType = ''loadbalancer'' then ''LoadBalancer''
               else if ingressType = ''nodeport'' then ''NodePort'' else ''ClusterIP'')\<rparr>\<rparr> }"

subsection \<open>The controller\<close>

definition webService :: "'w Externals \<Rightarrow> string \<Rightarrow> 'w St \<Rightarrow> ((Result \<times> error option) \<times> 'w St) option" where
  "webService X conditionType s =
    do { let serviceName = PulpWebService (Pulp_Name (st_pulp s));
         let (r, s) = call (x_Get X KService (Pulp_Namespace (st_pulp s)) serviceName) s;
         newWebSvc \<leftarrow> serviceForPulpWeb (st_pulp s);
         case r of
           Inl err \<Rightarrow>
             if IsNotFound err
             then (let s = UpdateStatus X ConditionFalse conditionType ''CreatingWebService''
                         (''Creating '' @ serviceName @ '' Service resource'') s;
                       (err, s) = call (x_Create X (own_service (st_pulp s) newWebSvc)) s
                   in case err of
                        Some e \<Rightarrow>
                          (let s = UpdateStatus X ConditionFalse conditionType ''ErrorCreatingWebDService''
                                 (''Failed to create '' @ serviceName @ '' Service resource: '' @ Error e) s
                           in Some ((zero_Result, Some e), Record_Event EventWarning ''Failed'' ''Failed to create new Web Service'' s))
                      | None \<Rightarrow> Some ((requeue_Result, None), Record_Event EventNormal ''Created'' ''Web Service created'' s))
             else Some ((zero_Result, Some err), s)
         | Inr obj \<Rightarrow>
             do { let webSvc = (case svc_of obj of Some svc \<Rightarrow> svc | None \<Rightarrow> zero_Service);
                  ((requeue, err), s) \<leftarrow> ReconcileObject X (ServiceObj newWebSvc) (ServiceObj webSvc) conditionType PulpService s;
                  if err \<noteq> None \<or> requeue then Some ((result_of requeue, err), s)
                  else Some ((zero_Result, None), s) } }"

definition webDeployment :: "'w Externals \<Rightarrow> string \<Rightarrow> 'w St \<Rightarrow> ((Result \<times> error option) \<times> 'w St) option" where
  "webDeployment X conditionType s =
    (let deploymentName = DeploymentName WEB (Pulp_Name (st_pulp s));
         (r, s) = call (x_Get X KDeployment (Pulp_Namespace (st_pulp s)) deploymentName) s;
         (newWebDeployment, s) = deploymentForPulpWeb X s
     in case r of
          Inl err \<Rightarrow>
            if IsNotFound err
            then Some (create_step X conditionType ''WebDeployment'' (''Creating '' @ deploymentName @ '' Deployment resource'')
                   (''Failed to create '' @ deploymentName @ '' Deployment resource: '') ''Failed to create new Web Deployment''
                   ''Web Deployment created'' (DeploymentObj newWebDeployment) s)
            else Some ((zero_Result, Some err), s)
        | Inr obj \<Rightarrow>
            (let webDep = (case dep_of obj of Some d \<Rightarrow> d | None \<Rightarrow> zero_Deployment);
                 (modified, s) = CheckDeploymentSpec X newWebDeployment webDep s
             in if modified
                then Some (update_step X conditionType ''WebDeployment'' (''Reconciling '' @ deploymentName @ '' Deployment resource'')
                       (\<lambda>e. ''Failed to reconcile '' @ deploymentName @ '' Deployment resource: '' @ Error e)
                       ''Reconciling Web Deployment'' ''Failed to reconcile Web Deployment'' ''Web Deployment reconciled'' second
                       (DeploymentObj newWebDeployment) s)
                else webService X conditionType s))"

text \<open>The ConfigMap is created once and not compared again.\<close>

definition pulpWebController :: "'w Externals \<Rightarrow> 'w St \<Rightarrow> ((Result \<times> error option) \<times> 'w St) option" where
  "pulpWebController X s =
    (let conditionType = ''Pulp-Web-Ready'';
         name = Pulp_Name (st_pulp s);
         (r, s) = call (x_Get X KConfigMap (Pulp_Namespace (st_pulp s)) (PulpWebConfigMapName name)) s;
         (newWebConfigMap, s) = pulpWebConfigMap X s
     in case r of
          Inl err \<Rightarrow>
            if IsNotFound err
            then Some (create_step X conditionType ''WebConfigmap'' (''Creating '' @ name @ ''-web configmap resource'')
                   (''Failed to create '' @ name @ ''-web configmap resource: '') ''Failed to create new Web ConfigMap''
                   ''Web ConfigMap created'' (ConfigMapObj newWebConfigMap) s)
            else Some ((zero_Result, Some err), s)
        | Inr _ \<Rightarrow> webDeployment X conditionType s)"

subsection \<open>Properties\<close>

lemma web_ports_target: "port \<in> set (web_ports m) \<Longrightarrow> sport_TargetPort port = 8080"
  by (auto simp: web_ports_def tcp_service_port_def Let_def split: if_splits)

lemma web_ports_Nil:
  "web_ports m = [] \<longleftrightarrow> ToLower (Spec_IngressType (Pulp_Spec m)) \<noteq> ''loadbalancer'' \<and> lb_protocol m = ''https''"
  by (simp add: web_ports_def Let_def)

lemma set_node_port_simps [simp]:
  "set_node_port n [] = None" "set_node_port n (p # ps) = Some (p\<lparr>sport_NodePort := n\<rparr> # ps)"
  by (simp_all add: set_node_port_def)

lemma set_node_port_targets:
  "set_node_port n ports = Some ports' \<Longrightarrow> map sport_TargetPort ports' = map sport_TargetPort ports"
  by (auto simp: set_node_port_def split: list.splits)

lemma serviceForPulpWeb_None:
  "serviceForPulpWeb m = None \<longleftrightarrow> ToLower (Spec_IngressType (Pulp_Spec m)) = ''nodeport'' \<and>
    Spec_NodePort (Pulp_Spec m) > 0 \<and> lb_protocol m = ''https''"
  using web_ports_Nil [of m] by (cases "web_ports m") (auto simp: serviceForPulpWeb_def Let_def)

lemma serviceForPulpWeb_parts:
  assumes "serviceForPulpWeb m = Some svc"
  shows "map sport_TargetPort (sspec_Ports (svc_Spec svc)) = map sport_TargetPort (web_ports m)"
    "sspec_Selector (svc_Spec svc) = PulpcoreLabels m WEB"
    "meta_Name (svc_Meta svc) = PulpWebService (Pulp_Name m)"
  using assms by (auto simp: serviceForPulpWeb_def labelsForPulpWeb_def Let_def set_node_port_targets
      split: bind_splits if_splits)

text \<open>
  C32: the Service of pulp-web. Building it panics exactly for a NodePort with a port number whose
  load balancer protocol is https. Otherwise it selects the pods of the Deployment whatever labels the user
  gives them, every port leads to the port of the container, and it has no port at all exactly when
  the protocol is https and the type is not a load balancer.
\<close>

theorem web_service_serves:
  "(serviceForPulpWeb m = None \<longleftrightarrow> ToLower (Spec_IngressType (Pulp_Spec m)) = ''nodeport'' \<and>
      Spec_NodePort (Pulp_Spec m) > 0 \<and> lb_protocol m = ''https'') \<and>
   pred_option (\<lambda>svc.
      map_of (sspec_Selector (svc_Spec svc)) \<subseteq>\<^sub>m
        map_of (tmpl_Labels (dspec_Template (dep_Spec (web_dep X m probe openshift (fst (labelsForPulpWebPods m)))))) \<and>
      list_all (\<lambda>port. tcp_port (sport_TargetPort port) \<in> set (ctr_Ports (web_container X m probe))) (sspec_Ports (svc_Spec svc)) \<and>
      (sspec_Ports (svc_Spec svc) = [] \<longleftrightarrow>
        ToLower (Spec_IngressType (Pulp_Spec m)) \<noteq> ''loadbalancer'' \<and> lb_protocol m = ''https''))
     (serviceForPulpWeb m)"
proof (cases "serviceForPulpWeb m")
  case (Some svc)
  note parts = serviceForPulpWeb_parts [OF Some]
  have target: "sport_TargetPort port = 8080" if "port \<in> set (sspec_Ports (svc_Spec svc))" for port
  proof -
    have "sport_TargetPort port \<in> set (map sport_TargetPort (web_ports m))"
      using that by (simp flip: parts(1))
    then show ?thesis by (auto dest: web_ports_target)
  qed
  have "sspec_Ports (svc_Spec svc) = [] \<longleftrightarrow> web_ports m = []"
    using parts(1) by (metis map_is_Nil_conv)
  with Some parts(2) target serviceForPulpWeb_None [of m] show ?thesis
    by (simp add: list_all_iff web_ports_Nil web_container_def web_dep_def labelsForPulpWebPods_def PulpcorePodLabels_map Let_def)
next
  case None
  then show ?thesis using serviceForPulpWeb_None [of m] by simp
qed

end
