(* ===== verification/Ingresses.thy ===== *)
theory Ingresses
  imports Web
begin

text \<open>
  The Ingress: \<open>controllers/ingress.go\<close>, \<open>controllers/repo_manager/ingress.go\<close> and \<open>controllers/ocp/ingress.go\<close>.
  The paths that the plugins of Pulp serve are asked from a running content pod, which prints
  them as JSON; the operator adds its own four. An nginx Ingress and the one of OpenShift route to
  the API and content Services, every other one to pulp-web.
\<close>

subsection \<open>Commands in a pod\<close>

text \<open>\<open>strings.TrimSpace\<close> on ASCII white space.\<close>

definition is_space :: "char \<Rightarrow> bool" where
  "is_space c \<longleftrightarrow> (let n = of_char c :: nat in n = 32 \<or> 9 \<le> n \<and> n \<le> 13)"

definition TrimSpace :: "string \<Rightarrow> string" where
  "TrimSpace s = rev (dropWhile is_space (rev (dropWhile is_space s)))"

text \<open>What the command wrote to its standard output, followed by its error output.\<close>

definition ContainerExec ::
  "'w Externals \<Rightarrow> string \<Rightarrow> string list \<Rightarrow> string \<Rightarrow> string \<Rightarrow> 'w \<Rightarrow> (error + string) \<times> 'w" where
  "ContainerExec X pod command container namespace w =
    (let (r, w) = x_Exec X namespace pod container command w
     in case r of
          Inl err \<Rightarrow> (Inl err, w)
        | Inr (stdout, stderr) \<Rightarrow> (Inr (TrimSpace (TrimSpace stdout @ newline @ TrimSpace stderr)), w))"

subsection \<open>JSON\<close>

text \<open>
  \<open>encoding/json\<close> as far as a list of plugins needs it, on text in UTF-8. Like the scanner of that
  package, lexer and parser are machines that read one character, or one token, at a time; the open
  arrays and objects are on a stack, so no bound on the depth of the text is needed. Numbers and
  booleans are not told apart, as nothing is decoded from them.
\<close>

datatype jtoken = TOpenArr | TCloseArr | TOpenObj | TCloseObj | TColon | TComma | TString string | TNull | TOther

text \<open>A code point in UTF-8.\<close>

definition utf8 :: "nat \<Rightarrow> string" where
  "utf8 n = map char_of
    (if n < 128 then [n]
     else if n < 2048 then [192 + n div 64, 128 + n mod 64]
     else if n < 65536 then [224 + n div 4096, 128 + n div 64 mod 64, 128 + n mod 64]
     else [240 + n div 262144, 128 + n div 4096 mod 64, 128 + n div 64 mod 64, 128 + n mod 64])"

text \<open>
  Where the lexer is: between tokens, in a word, or in a string, with the text so far and the first
  half of a surrogate pair that waits for the second; in a string also after a backslash or within
  the digits of \<open>\u\<close>. Half of a pair alone is U+FFFD.
\<close>

datatype jmode = Between | InWord string | InStr string "nat option" | InEsc string "nat option"
  | InHex string "nat option" "nat list"

definition flush :: "string \<Rightarrow> nat option \<Rightarrow> string" where
  "flush t pending = (case pending of None \<Rightarrow> t | Some _ \<Rightarrow> t @ utf8 0xFFFD)"

definition code_unit :: "string \<Rightarrow> nat option \<Rightarrow> nat \<Rightarrow> jmode" where
  "code_unit t pending u =
    (case pending of
       Some hi \<Rightarrow>
         if 0xDC00 \<le> u \<and> u < 0xE000 then InStr (t @ utf8 (0x10000 + (hi - 0xD800) * 1024 + (u - 0xDC00))) None
         else if 0xD800 \<le> u \<and> u < 0xDC00 then InStr (flush t pending) (Some u)
         else InStr (flush t pending @ utf8 u) None
     | None \<Rightarrow>
         if 0xD800 \<le> u \<and> u < 0xDC00 then InStr t (Some u)
         else if 0xDC00 \<le> u \<and> u < 0xE000 then InStr (t @ utf8 0xFFFD) None
         else InStr (t @ utf8 u) None)"

abbreviation char_between :: "char \<Rightarrow> char \<Rightarrow> char \<Rightarrow> bool" where
  "char_between lo hi c \<equiv> lo \<le> c \<and> c \<le> hi"

definition is_digit :: "char \<Rightarrow> bool" where
  "is_digit c \<longleftrightarrow> char_between (CHR ''0'') (CHR ''9'') c"

definition word_char :: "char \<Rightarrow> bool" where
  "word_char c \<longleftrightarrow> is_digit c \<or> char_between (CHR ''a'') (CHR ''z'') c \<or> char_between (CHR ''A'') (CHR ''Z'') c \<or>
    c \<in> {CHR ''+'', CHR ''-'', CHR ''.''}"

text \<open>A number: sign, integer part, fraction, exponent.\<close>

definition number_exponent :: "string \<Rightarrow> bool" where
  "number_exponent cs \<longleftrightarrow>
    (case cs of
       [] \<Rightarrow> True
     | e # ds \<Rightarrow> (e = CHR ''e'' \<or> e = CHR ''E'') \<and>
         (let ds = (case ds of d # ds' \<Rightarrow> if d = CHR ''+'' \<or> d = CHR ''-'' then ds' else ds | [] \<Rightarrow> [])
          in ds \<noteq> [] \<and> list_all is_digit ds))"

definition number_fraction :: "string \<Rightarrow> bool" where
  "number_fraction cs \<longleftrightarrow>
    (case cs of
       d # ds \<Rightarrow> if d = CHR ''.'' then takeWhile is_digit ds \<noteq> [] \<and> number_exponent (dropWhile is_digit ds)
         else number_exponent cs
     | [] \<Rightarrow> True)"

definition is_number :: "string \<Rightarrow> bool" where
  "is_number cs \<longleftrightarrow>
    (let cs = (case cs of c # cs' \<Rightarrow> if c = CHR ''-'' then cs' else cs | [] \<Rightarrow> []);
         ds = takeWhile is_digit cs
     in ds \<noteq> [] \<and> (hd ds = CHR ''0'' \<longrightarrow> length ds = 1) \<and> number_fraction (dropWhile is_digit cs))"

definition word_token :: "string \<Rightarrow> jtoken option" where
  "word_token w =
    (if w = ''null'' then Some TNull
     else if w = ''true'' \<or> w = ''false'' \<or> is_number w then Some TOther
     else None)"

definition punctuation :: "char \<Rightarrow> jtoken option" where
  "punctuation c = map_of
    [(CHR ''['', TOpenArr), (CHR '']'', TCloseArr), (CHR 0x7B, TOpenObj), (CHR 0x7D, TCloseObj),
     (CHR '':'', TColon), (CHR '','', TComma)] c"

definition json_space :: "char \<Rightarrow> bool" where
  "json_space c \<longleftrightarrow> c \<in> {CHR '' '', CHR 0x09, CHR 0x0A, CHR 0x0D}"

function lex :: "jmode \<Rightarrow> string \<Rightarrow> jtoken list option" where
  "lex Between [] = Some []"
| "lex Between (c # cs) =
    (if json_space c then lex Between cs
     else if c = CHR 0x22 then lex (InStr [] None) cs
     else if word_char c then lex (InWord [c]) cs
     else do { t \<leftarrow> punctuation c; ts \<leftarrow> lex Between cs; Some (t # ts) })"
| "lex (InWord w) [] = do { t \<leftarrow> word_token w; Some [t] }"
| "lex (InWord w) (c # cs) =
    (if word_char c then lex (InWord (w @ [c])) cs
     else do { t \<leftarrow> word_token w; ts \<leftarrow> lex Between (c # cs); Some (t # ts) })"
| "lex (InStr t pending) [] = None"
| "lex (InStr t pending) (c # cs) =
    (if c = CHR 0x22 then do { ts \<leftarrow> lex Between cs; Some (TString (flush t pending) # ts) }
     else if c = CHR 0x5C then lex (InEsc t pending) cs
     else if (of_char c :: nat) < 32 then None
     else lex (InStr (flush t pending @ [c]) None) cs)"
| "lex (InEsc t pending) [] = None"
| "lex (InEsc t pending) (c # cs) =
    (if c = CHR ''u'' then lex (InHex t pending []) cs
     else do { d \<leftarrow> unescape c; lex (InStr (flush t pending @ [d]) None) cs })"
| "lex (InHex t pending ds) [] = None"
| "lex (InHex t pending ds) (c # cs) =
    do { d \<leftarrow> unhex c;
         if length ds < 3 then lex (InHex t pending (ds @ [d])) cs
         else lex (code_unit t pending (foldl (\<lambda>n d. 16 * n + d) 0 (ds @ [d]))) cs }"
  by pat_completeness auto
termination
  by (relation "measure (\<lambda>(m, cs). 2 * length cs + (case m of InWord _ \<Rightarrow> 1 | _ \<Rightarrow> 0))")
     (auto split: jmode.splits)

datatype jvalue = VString string | VArray "jvalue list" | VObject "(string \<times> jvalue) list" | VNull | VOther

text \<open>An open array with its elements so far, or an open object with its members and the current key.\<close>

datatype jframe = InArray "jvalue list" | InObject "(string \<times> jvalue) list" "string option"

datatype jexpect = EValue | EValueOrEnd | EKey | EKeyOrEnd | EColon | ECommaOrEnd | EDone jvalue

fun put_value :: "jvalue \<Rightarrow> jframe list \<Rightarrow> (jexpect \<times> jframe list) option" where
  "put_value v [] = Some (EDone v, [])"
| "put_value v (InArray vs # fs) = Some (ECommaOrEnd, InArray (vs @ [v]) # fs)"
| "put_value v (InObject kvs (Some k) # fs) = Some (ECommaOrEnd, InObject (kvs @ [(k, v)]) None # fs)"
| "put_value v (InObject kvs None # fs) = None"

definition begin_value :: "jtoken \<Rightarrow> jframe list \<Rightarrow> (jexpect \<times> jframe list) option" where
  "begin_value t fs =
    (case t of
       TOpenArr \<Rightarrow> Some (EValueOrEnd, InArray [] # fs)
     | TOpenObj \<Rightarrow> Some (EKeyOrEnd, InObject [] None # fs)
     | TString s \<Rightarrow> put_value (VString s) fs
     | TNull \<Rightarrow> put_value VNull fs
     | TOther \<Rightarrow> put_value VOther fs
     | _ \<Rightarrow> None)"

text \<open>A closing bracket or brace that fits the innermost frame.\<close>

fun end_value :: "jtoken \<Rightarrow> jframe list \<Rightarrow> (jexpect \<times> jframe list) option" where
  "end_value TCloseArr (InArray vs # fs) = put_value (VArray vs) fs"
| "end_value TCloseObj (InObject kvs None # fs) = put_value (VObject kvs) fs"
| "end_value _ _ = None"

fun member_key :: "jtoken \<Rightarrow> jframe list \<Rightarrow> (jexpect \<times> jframe list) option" where
  "member_key (TString k) (InObject kvs None # fs) = Some (EColon, InObject kvs (Some k) # fs)"
| "member_key _ _ = None"

fun jstep :: "jtoken \<Rightarrow> jexpect \<times> jframe list \<Rightarrow> (jexpect \<times> jframe list) option" where
  "jstep t (EValue, fs) = begin_value t fs"
| "jstep t (EValueOrEnd, fs) = (if t = TCloseArr then end_value t fs else begin_value t fs)"
| "jstep t (EKey, fs) = member_key t fs"
| "jstep t (EKeyOrEnd, fs) = (if t = TCloseObj then end_value t fs else member_key t fs)"
| "jstep t (EColon, fs) = (if t = TColon then Some (EValue, fs) else None)"
| "jstep t (ECommaOrEnd, fs) =
    (if t = TComma then (case fs of InArray _ # _ \<Rightarrow> Some (EValue, fs) | InObject _ _ # _ \<Rightarrow> Some (EKey, fs) | [] \<Rightarrow> None)
     else end_value t fs)"
| "jstep t (EDone v, fs) = None"

fun jrun :: "jtoken list \<Rightarrow> jexpect \<times> jframe list \<Rightarrow> jvalue option" where
  "jrun [] (EDone v, _) = Some v"
| "jrun [] _ = None"
| "jrun (t # ts) st = do { st \<leftarrow> jstep t st; jrun ts st }"

definition parse_json :: "string \<Rightarrow> jvalue option" where
  "parse_json text = do { ts \<leftarrow> lex Between text; jrun ts (EValue, []) }"

subsection \<open>Plugins\<close>

record IngressPlugin =
  plugin_Name :: string
  plugin_Path :: string
  plugin_ServiceName :: string
  plugin_TargetPort :: string
  plugin_Rewrite :: string

definition zero_IngressPlugin :: IngressPlugin where
  "zero_IngressPlugin = \<lparr>plugin_Name = [], plugin_Path = [], plugin_ServiceName = [], plugin_TargetPort = [], plugin_Rewrite = []\<rparr>"

text \<open>
  \<open>json.Unmarshal\<close> into a nil slice of plugins: names of members are compared without case, a
  member of another type or of no field is skipped, an element that is no object stays zero, and a
  text that does not parse leaves the slice nil. The code ignores the error in every case.
\<close>

fun set_member :: "IngressPlugin \<Rightarrow> string \<times> jvalue \<Rightarrow> IngressPlugin" where
  "set_member p (k, VString v) =
    (if EqualFold k ''name'' then p\<lparr>plugin_Name := v\<rparr>
     else if EqualFold k ''path'' then p\<lparr>plugin_Path := v\<rparr>
     else if EqualFold k ''serviceName'' then p\<lparr>plugin_ServiceName := v\<rparr>
     else if EqualFold k ''targetPort'' then p\<lparr>plugin_TargetPort := v\<rparr>
     else if EqualFold k ''rewrite'' then p\<lparr>plugin_Rewrite := v\<rparr>
     else p)"
| "set_member p _ = p"

fun plugin_of :: "jvalue \<Rightarrow> IngressPlugin" where
  "plugin_of (VObject kvs) = foldl set_member zero_IngressPlugin kvs"
| "plugin_of _ = zero_IngressPlugin"

definition Unmarshal_plugins :: "string \<Rightarrow> IngressPlugin list" where
  "Unmarshal_plugins text = (case parse_json text of Some (VArray vs) \<Rightarrow> map plugin_of vs | _ \<Rightarrow> [])"

definition defaultPlugins :: "'w Externals \<Rightarrow> 'w St \<Rightarrow> IngressPlugin list \<times> 'w St" where
  "defaultPlugins X s =
    (let pulp = st_pulp s;
         name = Pulp_Name pulp;
         plugin = (\<lambda>n path port svc. zero_IngressPlugin\<lparr>plugin_Name := n, plugin_Path := path,
           plugin_TargetPort := port, plugin_ServiceName := svc\<rparr>);
         (contentPath, s) = GetContentPathPrefix X s;
         (apiRoot, s) = GetAPIRoot X s
     in ([plugin (name @ ''-content'') contentPath ''content-24816'' (ContentService name),
          plugin (name @ ''-api-v3'') (apiRoot @ ''api/v3/'') ''api-24817'' (ApiService name),
          plugin (name @ ''-auth'') ''/auth/login/'' ''api-24817'' (ApiService name),
          plugin name ''/'' ''api-24817'' (ApiService name)], s))"

subsection \<open>The Ingress objects\<close>

definition backend_json :: "string \<Rightarrow> string \<Rightarrow> json \<Rightarrow> json" where
  "backend_json path service port = JObj
    [(''path'', JStr path), (''pathType'', JStr ''Prefix''),
     (''backend'', JObj [(''service'', JObj [(''name'', JStr service), (''port'', port)])])]"

definition plugin_path :: "IngressPlugin \<Rightarrow> json" where
  "plugin_path plugin = backend_json (plugin_Path plugin) (plugin_ServiceName plugin) (JObj [(''name'', JStr (plugin_TargetPort plugin))])"

definition ingress_spec :: "Pulp \<Rightarrow> json list \<Rightarrow> json" where
  "ingress_spec pulp paths =
    (let spec = Pulp_Spec pulp;
         hostname = Spec_IngressHost spec
     in JObj ([(''ingressClassName'', JStr (Spec_IngressClassName spec)),
          (''rules'', JArr [JObj [(''host'', JStr hostname), (''http'', JObj [(''paths'', JArr paths)])]])] @
          (if length (Spec_IngressTLSSecret spec) > 0
           then [(''tls'', JArr [JObj [(''hosts'', JArr [JStr hostname]), (''secretName'', JStr (Spec_IngressTLSSecret spec))]])]
           else [])))"

definition IngressDefaults :: "Pulp \<Rightarrow> Ingress" where
  "IngressDefaults pulp = \<lparr>
     ing_Meta = set_controller (Pulp_Name pulp) (zero_ObjectMeta\<lparr>meta_Name := Pulp_Name pulp, meta_Namespace := Pulp_Namespace pulp,
       meta_Labels := CommonLabels pulp,
       meta_Annotations := gcopy [(''web'', ''true'')] (Spec_IngressAnnotations (Pulp_Spec pulp))\<rparr>),
     ing_Spec = ingress_spec pulp [backend_json ''/'' (PulpWebService (Pulp_Name pulp)) (JObj [(''number'', JNum 24880)])]\<rparr>"

text \<open>The same Ingress with other annotations and paths.\<close>

definition with_paths :: "Pulp \<Rightarrow> gomap \<Rightarrow> json list \<Rightarrow> Ingress \<Rightarrow> Ingress" where
  "with_paths pulp annotations paths ing = ing\<lparr>
     ing_Meta := (ing_Meta ing)\<lparr>meta_Annotations := annotations\<rparr>,
     ing_Spec := ingress_spec pulp paths\<rparr>"

definition TrimRight :: "char \<Rightarrow> string \<Rightarrow> string" where
  "TrimRight c s = rev (dropWhile (\<lambda>d. d = c) (rev s))"

fun Contains :: "string \<Rightarrow> string \<Rightarrow> bool" where
  "Contains s sub \<longleftrightarrow> take (length sub) s = sub \<or> (case s of [] \<Rightarrow> False | _ # s' \<Rightarrow> Contains s' sub)"

declare Contains.simps [simp del]

definition snippet :: string where
  "snippet = ''nginx.ingress.kubernetes.io/configuration-snippet''"

fun nginx_loop :: "IngressPlugin list \<Rightarrow> gomap \<times> json list \<Rightarrow> gomap \<times> json list" where
  "nginx_loop [] st = st"
| "nginx_loop (plugin # rest) (annotation, paths) =
    (if length (plugin_Rewrite plugin) > 0
     then (let rewrite = ''rewrite ^'' @ TrimRight (CHR ''/'') (plugin_Path plugin) @ ''* '' @ plugin_Rewrite plugin @ '';''
           in nginx_loop rest (if Contains (gget annotation snippet) rewrite then annotation else gset snippet rewrite annotation, paths))
     else nginx_loop rest (annotation, paths @ [plugin_path plugin]))"

definition Deploy_IngressNginx :: "Pulp \<Rightarrow> IngressPlugin list \<Rightarrow> Ingress" where
  "Deploy_IngressNginx pulp plugins =
    (let spec = Pulp_Spec pulp;
         (annotation, paths) = nginx_loop plugins ([(''web'', ''false'')], []);
         annotation = gset ''nginx.ingress.kubernetes.io/proxy-body-size'' (orElse (Spec_NginxProxyBodySize spec) ''0'') annotation;
         annotation = gset ''nginx.org/client-max-body-size'' (orElse (Spec_NginxMaxBodySize spec) ''10m'') annotation;
         annotation = gset ''nginx.ingress.kubernetes.io/proxy-read-timeout'' (orElse (Spec_NginxProxyReadTimeout spec) ''120s'') annotation;
         annotation = gset ''nginx.ingress.kubernetes.io/proxy-connect-timeout'' (orElse (Spec_NginxProxyConnectTimeout spec) ''120s'') annotation;
         annotation = gset ''nginx.ingress.kubernetes.io/proxy-send-timeout'' (orElse (Spec_NginxProxySendTimeout spec) ''120s'') annotation
     in with_paths pulp (gcopy annotation (Spec_IngressAnnotations spec)) paths (IngressDefaults pulp))"

definition Deploy_IngressOthers :: "Pulp \<Rightarrow> IngressPlugin list \<Rightarrow> Ingress" where
  "Deploy_IngressOthers pulp plugins = IngressDefaults pulp"

definition haproxy_timeout :: "Pulp \<Rightarrow> string" where
  "haproxy_timeout pulp = orElse (Spec_HAProxyTimeout (Pulp_Spec pulp)) ''180s''"

definition deployOCPIngress :: "Pulp \<Rightarrow> IngressPlugin list \<Rightarrow> Ingress" where
  "deployOCPIngress pulp plugins =
    with_paths pulp
      (gcopy (gset ''haproxy.router.openshift.io/timeout'' (haproxy_timeout pulp) [(''web'', ''false'')]) (Spec_IngressAnnotations (Pulp_Spec pulp)))
      (map plugin_path (filter (\<lambda>p. length (plugin_Rewrite p) = 0) plugins)) (IngressDefaults pulp)"

subsection \<open>Creation and reconciliation of one Ingress\<close>

text \<open>
  After a creation the comparison goes on with the empty object the failed \<open>Get\<close> left, so the
  Ingress is written a second time.
\<close>

definition ing_or_zero :: "Object \<Rightarrow> Ingress" where
  "ing_or_zero obj = (case ing_of obj of Some ing \<Rightarrow> ing | None \<Rightarrow> zero_Ingress)"

definition getOrCreateIngress ::
  "'w Externals \<Rightarrow> string \<Rightarrow> Ingress \<Rightarrow> bool \<Rightarrow> 'w St \<Rightarrow> (error + Ingress) \<times> 'w St" where
  "getOrCreateIngress X conditionType expected withEvent s =
    (let name = Pulp_Name (st_pulp s);
         (r, s) = call (x_Get X KIngress (Pulp_Namespace (st_pulp s)) (meta_Name (ing_Meta expected))) s
     in case r of
          Inr obj \<Rightarrow> (Inr (ing_or_zero obj), s)
        | Inl err \<Rightarrow>
            if IsNotFound err
            then (let s = UpdateStatus X ConditionFalse conditionType ''CreatingIngress'' (''Creating '' @ name @ ''-ingress'') s;
                      (err, s) = call (x_Create X (IngressObj expected)) s
                  in case err of
                       None \<Rightarrow> (Inr zero_Ingress, s)
                     | Some e \<Rightarrow>
                         (let s = UpdateStatus X ConditionFalse conditionType ''ErrorCreatingIngress''
                                (''Failed to create '' @ name @ ''-ingress: '' @ Error e) s
                          in (Inl e, if withEvent then Record_Event EventWarning ''Failed'' ''Failed to create new ingress'' s else s)))
            else (Inl err, s))"

definition deployOCPIngressRedirect :: "'w Externals \<Rightarrow> IngressPlugin list \<Rightarrow> 'w St \<Rightarrow> (error option \<times> 'w St) option" where
  "deployOCPIngressRedirect X plugins s =
    (let pulp = st_pulp s;
         conditionType = ''Pulp-Ingress-Ready'';
         redirected = filter (\<lambda>p. length (plugin_Rewrite p) > 0) plugins
     in if redirected = [] then Some (None, s)
        else do {
          let annotations = gset ''haproxy.router.openshift.io/rewrite-target'' (plugin_Rewrite (last redirected))
            (gset ''haproxy.router.openshift.io/timeout'' (haproxy_timeout pulp) [(''web'', ''false'')]);
          let defaults = IngressDefaults pulp;
          let expected = with_paths pulp (gcopy annotations (Spec_IngressAnnotations (Pulp_Spec pulp))) (map plugin_path redirected)
            (defaults\<lparr>ing_Meta := (ing_Meta defaults)\<lparr>meta_Name := Pulp_Name pulp @ ''-redirect''\<rparr>\<rparr>);
          let (r, s) = getOrCreateIngress X conditionType expected False s;
          case r of
            Inl e \<Rightarrow> Some (Some e, s)
          | Inr current \<Rightarrow>
              do { ((_, err), s) \<leftarrow> ReconcileObject X (IngressObj expected) (IngressObj current) conditionType PulpIngress s;
                   if err \<noteq> None then Some (err, s)
                   else do {
                     ((_, err), s) \<leftarrow> ReconcileMetadata X (IngressObj expected) (IngressObj current) conditionType s;
                     Some (err, s) } } })"

text \<open>The three kinds of Ingress; only the one of OpenShift may fail, when it creates its redirect.\<close>

datatype Ingresser = IngressNginx | IngressOCP | IngressOthers

fun Deploy_Ingress ::
  "'w Externals \<Rightarrow> Ingresser \<Rightarrow> IngressPlugin list \<Rightarrow> 'w St \<Rightarrow> ((error + Ingress) \<times> 'w St) option" where
  "Deploy_Ingress X IngressNginx plugins s = Some (Inr (Deploy_IngressNginx (st_pulp s) plugins), s)"
| "Deploy_Ingress X IngressOthers plugins s = Some (Inr (Deploy_IngressOthers (st_pulp s) plugins), s)"
| "Deploy_Ingress X IngressOCP plugins s =
    do { (err, s) \<leftarrow> deployOCPIngressRedirect X plugins s;
         case err of
           Some e \<Rightarrow> Some (Inl e, s)
         | None \<Rightarrow> Some (Inr (deployOCPIngress (st_pulp s) plugins), s) }"

definition initIngress :: "'w Externals \<Rightarrow> 'w St \<Rightarrow> Ingresser \<times> 'w St" where
  "initIngress X s =
    (if IsNginxIngressSupported (st_pulp s) then (IngressNginx, s)
     else (let ((isOpenShift, _), s) = IsOpenShift X s
           in if isOpenShift \<and> Spec_IngressClassName (Pulp_Spec (st_pulp s)) = DefaultOCPIngressClass
              then (IngressOCP, s) else (IngressOthers, s)))"

subsection \<open>The controller\<close>

text \<open>The first pod of the list that runs.\<close>

definition running_pod :: "(string \<times> string) list \<Rightarrow> string option" where
  "running_pod pods = map_option fst (List.find (\<lambda>(_, phase). phase = ''Running'') pods)"

text \<open>
  The plugins as a running pod of the component prints them, or the answer with which the
  controller stops. The Ingress and the Route controller share these steps.
\<close>

definition pod_plugins ::
  "'w Externals \<Rightarrow> PulpcoreType \<Rightarrow> string \<Rightarrow> string \<Rightarrow> string \<Rightarrow> 'w St \<Rightarrow> (Result + IngressPlugin list) \<times> 'w St" where
  "pod_plugins X component container conditionType reason s =
    (let pulp = st_pulp s;
         (r, s) = call (x_ListPods X (Pulp_Namespace pulp) (PulpcoreLabels pulp component)) s
     in case r of
          Inl _ \<Rightarrow> (Inl (zero_Result\<lparr>RequeueAfter := minute\<rparr>), s)
        | Inr pods \<Rightarrow>
            (case running_pod pods of
               None \<Rightarrow> (Inl (zero_Result\<lparr>RequeueAfter := 5 * second\<rparr>), s)
             | Some pod \<Rightarrow>
                 (let (out, s) = call (ContainerExec X pod [''/usr/bin/route_paths.py'', Pulp_Name pulp] container (Pulp_Namespace pulp)) s
                  in case out of
                       Inl _ \<Rightarrow> (Inl requeue_Result, UpdateStatus X ConditionFalse conditionType reason (''FailedGet'' @ pod) s)
                     | Inr text \<Rightarrow>
                         (let (plugins, s) = defaultPlugins X s
                          in (Inr (plugins @ Unmarshal_plugins text), s)))))"

text \<open>What follows once the Ingress is as wanted: the condition, and pulp-web if the Ingress needs it.\<close>

definition ingressReady :: "'w Externals \<Rightarrow> string \<Rightarrow> Ingress \<Rightarrow> 'w St \<Rightarrow> ((Result \<times> error option) \<times> 'w St) option" where
  "ingressReady X conditionType expected s =
    (let s = (if x_IsStatusConditionFalse X (conditions s) conditionType
              then Record_Event EventNormal ''IngressReady'' ''All Ingress tasks ran successfully''
                (UpdateStatus X ConditionTrue conditionType ''IngressTasksFinished'' ''All Ingress tasks ran successfully'' s)
              else s)
     in if gget (meta_Annotations (ing_Meta expected)) ''web'' = ''true''
        then do { ((pulpController, err), s) \<leftarrow> pulpWebController X s;
                  if needsRequeue err pulpController then Some ((pulpController, err), s)
                  else Some ((zero_Result, None), s) }
        else Some ((zero_Result, None), s))"

definition reconcileIngress :: "'w Externals \<Rightarrow> string \<Rightarrow> Ingress \<Rightarrow> 'w St \<Rightarrow> ((Result \<times> error option) \<times> 'w St) option" where
  "reconcileIngress X conditionType expected s =
    (let (r, s) = getOrCreateIngress X conditionType expected True s
     in case r of
          Inl e \<Rightarrow> Some ((zero_Result, Some e), s)
        | Inr current \<Rightarrow>
            do { ((requeue, err), s) \<leftarrow> ReconcileObject X (IngressObj expected) (IngressObj current) conditionType PulpIngress s;
                 if err \<noteq> None \<or> requeue then Some ((result_of requeue, err), s)
                 else do {
                   ((requeue, err), s) \<leftarrow> ReconcileMetadata X (IngressObj expected) (IngressObj current) conditionType s;
                   if err \<noteq> None \<or> requeue then Some ((result_of requeue, err), s)
                   else ingressReady X conditionType expected s } })"

definition pulpIngressController :: "'w Externals \<Rightarrow> 'w St \<Rightarrow> ((Result \<times> error option) \<times> 'w St) option" where
  "pulpIngressController X s =
    (let conditionType = ''Pulp-Ingress-Ready'';
         (r, s) = pod_plugins X CONTENT ''content'' conditionType ''Failed to get ingresss!'' s
     in case r of
          Inl answer \<Rightarrow> Some ((answer, None), s)
        | Inr plugins \<Rightarrow>
            do { let (ingress, s) = initIngress X s;
                 (r, s) \<leftarrow> Deploy_Ingress X ingress plugins s;
                 case r of
                   Inl e \<Rightarrow> Some ((zero_Result, Some e), s)
                 | Inr expected \<Rightarrow> reconcileIngress X conditionType expected s })"

subsection \<open>Properties\<close>

text \<open>The paths of an Ingress, and whether a Service of a list has the port that a path leads to.\<close>

fun json_items :: "json \<Rightarrow> json list" where
  "json_items (JArr xs) = xs"
| "json_items _ = []"

definition ingress_paths :: "json \<Rightarrow> json list" where
  "ingress_paths spec =
    concat (map (\<lambda>rule. case Option.bind (json_field ''http'' rule) (json_field ''paths'') of Some ps \<Rightarrow> json_items ps | None \<Rightarrow> [])
      (case json_field ''rules'' spec of Some rules \<Rightarrow> json_items rules | None \<Rightarrow> []))"

definition backend_exists :: "Service list \<Rightarrow> json \<Rightarrow> bool" where
  "backend_exists svcs path \<longleftrightarrow>
    (\<exists>svc \<in> set svcs. \<exists>port \<in> set (sspec_Ports (svc_Spec svc)).
       Option.bind (json_field ''backend'' path) (json_field ''service'') \<in>
         {Some (JObj [(''name'', JStr (meta_Name (svc_Meta svc))), (''port'', JObj [(''name'', JStr (sport_Name port))])]),
          Some (JObj [(''name'', JStr (meta_Name (svc_Meta svc))), (''port'', JObj [(''number'', JNum (sport_Port port))])])})"

definition operator_services :: "Pulp \<Rightarrow> Service list" where
  "operator_services pulp = [serviceAPIObject pulp, serviceContentObject pulp] @
    (case serviceForPulpWeb pulp of None \<Rightarrow> [] | Some svc \<Rightarrow> [svc])"

lemma ingress_paths_spec [simp]: "ingress_paths (ingress_spec pulp paths) = paths"
  by (simp add: ingress_paths_def ingress_spec_def Let_def)

lemma with_paths_spec [simp]: "ing_Spec (with_paths pulp a paths ing) = ingress_spec pulp paths"
  by (simp add: with_paths_def)

lemma nginx_loop_paths:
  "snd (nginx_loop plugins (a, paths)) = paths @ map plugin_path (filter (\<lambda>p. length (plugin_Rewrite p) = 0) plugins)"
  by (induction plugins "(a, paths)" arbitrary: a paths rule: nginx_loop.induct) (auto simp: Let_def)

lemma backend_json_service [simp]:
  "Option.bind (json_field ''backend'' (backend_json path service port)) (json_field ''service'') =
    Some (JObj [(''name'', JStr service), (''port'', port)])"
  by (simp add: backend_json_def)

lemma plugin_backend:
  "backend_exists svcs (plugin_path p) \<longleftrightarrow>
    (\<exists>svc \<in> set svcs. plugin_ServiceName p = meta_Name (svc_Meta svc) \<and>
      plugin_TargetPort p \<in> sport_Name ` set (sspec_Ports (svc_Spec svc)))"
  by (auto simp: backend_exists_def plugin_path_def)

lemma operator_ports:
  "svc \<in> set (operator_services pulp) \<Longrightarrow> plugin_ServiceName p = meta_Name (svc_Meta svc) \<Longrightarrow>
    plugin_TargetPort p \<in> sport_Name ` set (sspec_Ports (svc_Spec svc)) \<Longrightarrow> backend_exists (operator_services pulp) (plugin_path p)"
  unfolding plugin_backend by blast

lemma service_port_names:
  "meta_Name (svc_Meta (serviceAPIObject pulp)) = ApiService (Pulp_Name pulp)"
  "meta_Name (svc_Meta (serviceContentObject pulp)) = ContentService (Pulp_Name pulp)"
  "sport_Name ` set (sspec_Ports (svc_Spec (serviceAPIObject pulp))) = {''api-24817''}"
  "sport_Name ` set (sspec_Ports (svc_Spec (serviceContentObject pulp))) = {''content-24816''}"
  by (simp_all add: serviceAPIObject_def serviceAPISpec_def serviceContentObject_def serviceContentSpec_def cluster_ip_spec_def
      tcp_service_port_def)

lemma default_targets:
  "list_all (\<lambda>p. plugin_ServiceName p = ContentService (Pulp_Name (st_pulp s)) \<and> plugin_TargetPort p = ''content-24816'' \<or>
      plugin_ServiceName p = ApiService (Pulp_Name (st_pulp s)) \<and> plugin_TargetPort p = ''api-24817'') (fst (defaultPlugins X s))"
  by (simp add: defaultPlugins_def Let_def split_beta)

lemma default_backends:
  assumes "defaultPlugins X s = (plugins, s')" "p \<in> set plugins"
  shows "backend_exists (operator_services (st_pulp s)) (plugin_path p)"
proof -
  have svcs: "serviceAPIObject (st_pulp s) \<in> set (operator_services (st_pulp s))"
    "serviceContentObject (st_pulp s) \<in> set (operator_services (st_pulp s))"
    by (simp_all add: operator_services_def)
  from default_targets [of s X] assms(2)
  have "plugin_ServiceName p = ContentService (Pulp_Name (st_pulp s)) \<and> plugin_TargetPort p = ''content-24816'' \<or>
      plugin_ServiceName p = ApiService (Pulp_Name (st_pulp s)) \<and> plugin_TargetPort p = ''api-24817''"
    unfolding assms(1) fst_conv list_all_iff by (rule bspec)
  then show ?thesis
  proof
    assume "plugin_ServiceName p = ContentService (Pulp_Name (st_pulp s)) \<and> plugin_TargetPort p = ''content-24816''"
    then show ?thesis by (intro operator_ports [OF svcs(2)]) (simp_all only: service_port_names insert_iff simp_thms)
  next
    assume "plugin_ServiceName p = ApiService (Pulp_Name (st_pulp s)) \<and> plugin_TargetPort p = ''api-24817''"
    then show ?thesis by (intro operator_ports [OF svcs(1)]) (simp_all only: service_port_names insert_iff simp_thms)
  qed
qed

lemma defaultPlugins_pulp [frame, simp]: "st_pulp (snd (defaultPlugins X s)) = st_pulp s"
proof -
  have "snd (defaultPlugins X s) = snd (GetAPIRoot X (snd (GetContentPathPrefix X s)))"
    unfolding defaultPlugins_def Let_def split_beta by (rule snd_conv)
  then show ?thesis by simp
qed

lemma web_port_24880:
  assumes "isIngress pulp"
  obtains svc where "serviceForPulpWeb pulp = Some svc" "meta_Name (svc_Meta svc) = PulpWebService (Pulp_Name pulp)"
    "24880 \<in> sport_Port ` set (sspec_Ports (svc_Spec svc)) \<longleftrightarrow> lb_protocol pulp \<noteq> ''https''"
proof
  let ?svc = "the (serviceForPulpWeb pulp)"
  show some: "serviceForPulpWeb pulp = Some ?svc"
    using assms by (simp add: serviceForPulpWeb_None isIngress_def)
  show "meta_Name (svc_Meta ?svc) = PulpWebService (Pulp_Name pulp)"
    using serviceForPulpWeb_parts(3) [OF some] .
  have "sspec_Ports (svc_Spec ?svc) = web_ports pulp"
    using some assms by (simp add: serviceForPulpWeb_def isIngress_def Let_def)
  then show "24880 \<in> sport_Port ` set (sspec_Ports (svc_Spec ?svc)) \<longleftrightarrow> lb_protocol pulp \<noteq> ''https''"
    using assms by (auto simp: web_ports_def isIngress_def tcp_service_port_def Let_def split: if_splits)
qed

lemma number_backend:
  "backend_exists svcs (backend_json path name (JObj [(''number'', JNum n)])) \<longleftrightarrow>
    (\<exists>svc \<in> set svcs. name = meta_Name (svc_Meta svc) \<and> n \<in> sport_Port ` set (sspec_Ports (svc_Spec svc)))"
  by (auto simp: backend_exists_def)

lemma web_backend:
  assumes "isIngress pulp"
  shows "backend_exists (operator_services pulp) (backend_json path (PulpWebService (Pulp_Name pulp)) (JObj [(''number'', JNum 24880)]))
    \<longleftrightarrow> lb_protocol pulp \<noteq> ''https''"
proof (rule web_port_24880 [OF assms])
  fix svc
  assume "serviceForPulpWeb pulp = Some svc" "meta_Name (svc_Meta svc) = PulpWebService (Pulp_Name pulp)"
    and port: "24880 \<in> sport_Port ` set (sspec_Ports (svc_Spec svc)) \<longleftrightarrow> lb_protocol pulp \<noteq> ''https''"
  moreover have "PulpWebService (Pulp_Name pulp) \<noteq> ApiService (Pulp_Name pulp)"
    "PulpWebService (Pulp_Name pulp) \<noteq> ContentService (Pulp_Name pulp)"
    by (simp_all add: names)
  ultimately show ?thesis
    unfolding number_backend operator_services_def
    by (simp add: serviceAPIObject_def serviceContentObject_def)
qed

lemma Deploy_Ingress_paths:
  assumes "Deploy_Ingress X k plugins s = Some (Inr ing, s')" "k \<noteq> IngressOthers"
  shows "ingress_paths (ing_Spec ing) = map plugin_path (filter (\<lambda>p. length (plugin_Rewrite p) = 0) plugins)"
proof (cases k)
  case IngressNginx
  with assms(1) have "ing = Deploy_IngressNginx (st_pulp s) plugins" by auto
  then show ?thesis
    using nginx_loop_paths [of plugins "[(''web'', ''false'')]" "[]"]
    by (simp add: Deploy_IngressNginx_def Let_def split_beta)
next
  case IngressOCP
  with assms(1) obtain p where "ing = deployOCPIngress p plugins"
    by (auto split: bind_splits option.splits)
  then show ?thesis by (simp add: deployOCPIngress_def)
qed (use assms(2) in simp)


definition ex_nginx_pulp :: Pulp where
  "ex_nginx_pulp = upd_Spec (\<lambda>spec. spec\<lparr>Spec_IngressType := ''Ingress'', Spec_IsNginxIngress := True\<rparr>) ex_deploy_pulp"

definition ex_plugin :: IngressPlugin where
  "ex_plugin = zero_IngressPlugin\<lparr>plugin_Name := ''ansible'', plugin_Path := ''/pulp_ansible/'',
     plugin_ServiceName := ApiService (Pulp_Name ex_nginx_pulp), plugin_TargetPort := ''api-24817''\<rparr>"


end
