(* ===== verification/Routes.thy ===== *)
theory Routes
  imports Ingresses
begin

text \<open>
  \<open>controllers/ocp/route.go\<close>: one OpenShift Route per plugin path, each provisioned by a goroutine of
  its own that is to report through a channel.

  A goroutine runs in one piece here, and so does the rest of the controller after the loop that
  starts them; \<open>x_Schedule\<close> chooses their order. Nothing waits for the goroutines: the controller
  asks \<open>len(c) > 0\<close>, which is never true of an unbuffered channel, and goes on. A goroutine that
  sends on the channel has done all its work by then and blocks for ever.
\<close>

subsection \<open>The Route object\<close>

text \<open>The fields are those of an \<open>IngressPlugin\<close>.\<close>

type_synonym RoutePlugin = IngressPlugin

definition route_certificates :: "'w Externals \<Rightarrow> 'w St \<Rightarrow> (string \<times> string \<times> string) \<times> 'w St" where
  "route_certificates X s =
    (let pulp = st_pulp s;
         secret = Spec_RouteTLSSecret (Pulp_Spec pulp)
     in if length secret > 0
        then (let (r, s) = RetrieveSecretData X secret (Pulp_Namespace pulp) True [''key'', ''certificate''] s
              in case r of
                   Inl _ \<Rightarrow> (([], [], []), s)
                 | Inr certData \<Rightarrow>
                     (let (ca, s) = RetrieveSecretData X secret (Pulp_Namespace pulp) False [''caCertificate''] s
                      in ((gget certData ''certificate'', gget certData ''key'', gget (or_zero [] ca) ''caCertificate''), s)))
        else (([], [], []), s))"

definition PulpRouteObject :: "'w Externals \<Rightarrow> RoutePlugin \<Rightarrow> string \<Rightarrow> 'w St \<Rightarrow> Route \<times> 'w St" where
  "PulpRouteObject X p routeHost s =
    (let pulp = st_pulp s;
         annotation = [(''haproxy.router.openshift.io/timeout'', haproxy_timeout pulp)];
         annotation = (if length (plugin_Rewrite p) > 0
                       then gset ''haproxy.router.openshift.io/rewrite-target'' (plugin_Rewrite p) annotation else annotation);
         ((certificate, key, caCertificate), s) = route_certificates X s
     in (\<lparr>rt_Meta = set_controller (Pulp_Name pulp) (zero_ObjectMeta\<lparr>meta_Name := plugin_Name p, meta_Namespace := Pulp_Namespace pulp,
            meta_Annotations := gcopy annotation (Spec_RouteAnnotations (Pulp_Spec pulp)),
            meta_Labels := gcopy (CommonLabels pulp) (Spec_RouteLabels (Pulp_Spec pulp))\<rparr>),
          rt_Spec = JObj
            [(''host'', JStr routeHost), (''path'', JStr (plugin_Path p)),
             (''port'', JObj [(''targetPort'', JStr (plugin_TargetPort p))]),
             (''tls'', JObj [(''termination'', JStr ''edge''), (''insecureEdgeTerminationPolicy'', JStr ''Redirect''),
               (''certificate'', JStr certificate), (''key'', JStr key), (''caCertificate'', JStr caCertificate)]),
             (''to'', JObj [(''kind'', JStr ''Service''), (''name'', JStr (plugin_ServiceName p)), (''weight'', JNum 100)]),
             (''wildcardPolicy'', JStr ''None'')]\<rparr>, s))"

subsection \<open>The goroutines\<close>

definition zero_Route :: Route where
  "zero_Route = \<lparr>rt_Meta = zero_ObjectMeta, rt_Spec = JNull\<rparr>"

text \<open>\<open>statusReturn\<close>: what a goroutine sends, if it sends at all.\<close>

type_synonym statusReturn = "(Result \<times> error option) option"

definition reconcileRoute :: "'w Externals \<Rightarrow> string \<Rightarrow> Route \<Rightarrow> Route \<Rightarrow> 'w St \<Rightarrow> (statusReturn \<times> 'w St) option" where
  "reconcileRoute X conditionType expected current s =
    do { ((requeue, err), s) \<leftarrow> ReconcileObject X (RouteObj expected) (RouteObj current) conditionType PulpRoute s;
         if err \<noteq> None \<or> requeue then Some (Some (result_of requeue, err), s)
         else do {
           ((requeue, err), s) \<leftarrow> ReconcileMetadata X (RouteObj expected) (RouteObj current) conditionType s;
           if err \<noteq> None \<or> requeue then Some (Some (result_of requeue, err), s)
           else Some (None, s) } }"

definition provisionRoute :: "'w Externals \<Rightarrow> RoutePlugin \<Rightarrow> string \<Rightarrow> 'w St \<Rightarrow> (statusReturn \<times> 'w St) option" where
  "provisionRoute X plugin routeHost s =
    (let conditionType = ''Pulp-Route-Ready'';
         name = Pulp_Name (st_pulp s);
         (expectedRoute, s) = PulpRouteObject X plugin routeHost s;
         (r, s) = call (x_Get X KRoute (Pulp_Namespace (st_pulp s)) (plugin_Name plugin)) s
     in case r of
          Inl err \<Rightarrow>
            if IsNotFound err
            then (let s = UpdateStatus X ConditionFalse conditionType ''CreatingRoute'' (''Creating '' @ name @ ''-route'') s;
                      (err, s) = call (x_Create X (RouteObj expectedRoute)) s
                  in case err of
                       Some e \<Rightarrow> Some (Some (zero_Result, Some e), UpdateStatus X ConditionFalse conditionType ''ErrorCreatingRoute''
                         (''Failed to create '' @ name @ ''-route: '' @ Error e) s)
                     | None \<Rightarrow> Some (Some (zero_Result, None), s))
            else Some (Some (zero_Result, Some err), s)
        | Inr obj \<Rightarrow>
            reconcileRoute X conditionType expectedRoute (case rt_of obj of Some route \<Rightarrow> route | None \<Rightarrow> zero_Route) s)"

text \<open>The controller after the loop.\<close>

definition routesStarted :: "'w Externals \<Rightarrow> 'w St \<Rightarrow> 'w St" where
  "routesStarted X s =
    (let conditionType = ''Pulp-Route-Ready'';
         s = RemovePulpWebResources X s
     in if x_IsStatusConditionFalse X (conditions s) conditionType
        then UpdateStatus X ConditionTrue conditionType ''RouteTasksFinished'' ''All Route tasks ran successfully'' s
        else s)"

text \<open>Thread \<open>i\<close> is the goroutine of plugin \<open>i\<close>, the thread after the last one the controller itself.\<close>

definition runThread :: "'w Externals \<Rightarrow> RoutePlugin list \<Rightarrow> string \<Rightarrow> nat \<Rightarrow> 'w St \<Rightarrow> (statusReturn \<times> 'w St) option" where
  "runThread X plugins routeHost i s =
    (if i < length plugins then provisionRoute X (plugins ! i) routeHost s else Some (None, routesStarted X s))"

fun runThreads :: "'w Externals \<Rightarrow> RoutePlugin list \<Rightarrow> string \<Rightarrow> nat list \<Rightarrow> 'w St \<Rightarrow> (statusReturn list \<times> 'w St) option" where
  "runThreads X plugins routeHost [] s = Some ([], s)"
| "runThreads X plugins routeHost (i # is) s =
    do { (sent, s) \<leftarrow> runThread X plugins routeHost i s;
         (rest, s) \<leftarrow> runThreads X plugins routeHost is s;
         Some (sent # rest, s) }"

definition PulpRouteController :: "'w Externals \<Rightarrow> 'w St \<Rightarrow> ((Result \<times> error option) \<times> 'w St) option" where
  "PulpRouteController X s =
    (let (r, s) = pod_plugins X WORKER ''worker'' ''Pulp-Route-Ready'' ''Failed to get routes!'' s
     in case r of
          Inl answer \<Rightarrow> Some ((answer, None), s)
        | Inr plugins \<Rightarrow>
            do { let routeHost = GetRouteHost (st_pulp s);
                 let (order, s) = call (x_Schedule X (Suc (length plugins))) s;
                 (sent, s) \<leftarrow> runThreads X plugins routeHost order s;
                 Some ((zero_Result, None), s) })"

subsection \<open>Properties\<close>

text \<open>A goroutine always comes to its end, or to the send that blocks it.\<close>

lemma ReconcileMetadata_Some: "ReconcileMetadata X e c t s \<noteq> None"
  by (rule metadata.updateObject_cases [where X = X and e = e and c = c and t = t and s = s,
        of "snd (GetFieldAndKind PulpObjectMetadata)"]) (simp_all add: ReconcileMetadata_def)

lemma ReconcileObject_route_Some: "ReconcileObject X (RouteObj a) (RouteObj b) t PulpRoute s \<noteq> None"
  using kind_outcome [of PulpRoute "RouteObj a" "RouteObj b" X t s] by auto

lemma reconcileRoute_Some: "\<exists>sent s'. reconcileRoute X t e c s = Some (sent, s')"
proof -
  obtain r1 s1 where 1: "ReconcileObject X (RouteObj e) (RouteObj c) t PulpRoute s = Some (r1, s1)"
    using ReconcileObject_route_Some by fastforce
  obtain r2 s2 where "ReconcileMetadata X (RouteObj e) (RouteObj c) t s1 = Some (r2, s2)"
    using ReconcileMetadata_Some by fastforce
  with 1 show ?thesis by (auto simp: reconcileRoute_def split_beta)
qed

lemma provisionRoute_Some: "\<exists>sent s'. provisionRoute X plugin routeHost s = Some (sent, s')"
  by (simp add: provisionRoute_def reconcileRoute_Some Let_def split_beta split: sum.split option.split)

lemma runThreads_Some: "\<exists>sent s'. runThreads X plugins routeHost is s = Some (sent, s')"
proof (induction "is" arbitrary: s)
  case (Cons i "is")
  obtain sent s1 where "runThread X plugins routeHost i s = Some (sent, s1)"
    using provisionRoute_Some [of X "plugins ! i" routeHost s] by (cases "i < length plugins") (auto simp: runThread_def)
  with Cons.IH [of s1] show ?case by auto
qed simp

lemma runThreads_append:
  "runThreads X plugins routeHost (is @ js) s =
    do { (sent, s) \<leftarrow> runThreads X plugins routeHost is s;
         (rest, s) \<leftarrow> runThreads X plugins routeHost js s;
         Some (sent @ rest, s) }"
  by (induction "is" arbitrary: s) (auto simp: Let_def split: bind_splits)

lemma length_runThreads:
  "runThreads X plugins routeHost is s = Some (sent, s') \<Longrightarrow> length sent = length is"
  by (induction "is" arbitrary: s sent s') (auto split: bind_splits)

context status_server
begin

lemma routesStarted_not_false: "\<not> x_IsStatusConditionFalse X (conditions (routesStarted X s)) ''Pulp-Route-Ready''"
proof -
  have "\<not> x_IsStatusConditionFalse X (conditions (UpdateStatus X ConditionTrue t r m s)) t" for t r m s
    using UpdateStatus_sets [of ConditionTrue t r m s] by (auto simp: is_false present_and_equal)
  then show ?thesis by (simp add: routesStarted_def Let_def)
qed

end


text \<open>A server that refuses every \<open>Create\<close>, on which the controller itself runs last.\<close>

definition refusing_routes_ext :: "mem Externals" where
  "refusing_routes_ext = refusing_ext\<lparr>x_Schedule := (\<lambda>n w. ([0..<n], w))\<rparr>"

interpretation refusing_routes: status_server refusing_routes_ext
  using mem_status.status_server_axioms
  by (simp add: status_server_def condition_lib_def pulp_store_def refusing_routes_ext_def refusing_ext_def)

definition ex_route_pulp :: Pulp where
  "ex_route_pulp = upd_Spec (\<lambda>spec. spec\<lparr>Spec_IngressType := ''Route''\<rparr>) ex_deploy_pulp"


end
