(* ===== verification/Controller.thy ===== *)
theory Controller
  imports Routes
begin

text \<open>
  \<open>controllers/repo_manager/controller.go\<close>: \<open>Reconcile\<close>, which runs the other components in order until
  one of them asks to be called again, its groups of tasks, and the index over the Secrets and ConfigMaps
  that a custom resource refers to.
\<close>

subsection \<open>Tasks\<close>

text \<open>
  A task answers with a nil result when the next one may go on. \<open>requeueing\<close> turns a controller into
  a task, as \<open>needsRequeue(err, result)\<close> does in the code.
\<close>

definition requeueing :: "('w St \<Rightarrow> ((Result \<times> error option) \<times> 'w St) option) \<Rightarrow> 'w St \<Rightarrow> 'w outcome" where
  "requeueing controller s =
    do { ((pulpController, err), s) \<leftarrow> controller s;
         if needsRequeue err pulpController then Some ((Some pulpController, err), s)
         else Some ((None, None), s) }"

text \<open>One task after the other, up to the first that answers.\<close>

fun runTasks :: "('w St \<Rightarrow> 'w outcome) list \<Rightarrow> 'w St \<Rightarrow> 'w outcome" where
  "runTasks [] s = Some ((None, None), s)"
| "runTasks (task # tasks) s =
    do { ((reconcile, err), s) \<leftarrow> task s;
         if reconcile \<noteq> None \<or> err \<noteq> None then Some ((reconcile, err), s)
         else runTasks tasks s }"

text \<open>A task that only acts; its errors are logged.\<close>

definition acting :: "('w St \<Rightarrow> 'w St option) \<Rightarrow> 'w St \<Rightarrow> 'w outcome" where
  "acting act s = do { s \<leftarrow> act s; Some ((None, None), s) }"

subsection \<open>Groups of tasks\<close>

definition createRHPullSecret :: "'w Externals \<Rightarrow> 'w St \<Rightarrow> error option \<times> 'w St" where
  "createRHPullSecret X s =
    (let (err, s) = CreateRHOperatorPullSecret X s
     in if err \<noteq> None then (err, s) else (None, s))"

definition injectCertificates :: "'w Externals \<Rightarrow> 'w St \<Rightarrow> (Result option \<times> error option) \<times> 'w St" where
  "injectCertificates X s =
    (if \<not> Spec_TrustedCa (Pulp_Spec (st_pulp s)) then ((None, None), s)
     else (let ((pulpController, err), s) = CreateEmptyConfigMap X s
           in if needsRequeue err pulpController then ((Some pulpController, err), s) else ((None, None), s)))"

definition ocpTasks :: "'w Externals \<Rightarrow> 'w St \<Rightarrow> (Result option \<times> error option) \<times> 'w St" where
  "ocpTasks X s =
    (let ((isOpenShift, _), s) = IsOpenShift X s
     in if \<not> isOpenShift then ((None, None), s)
        else (let (err, s) = createRHPullSecret X s
              in if err \<noteq> None then ((Some zero_Result, err), s)
                 else (let ((reconcile, err), s) = injectCertificates X s
                       in if err \<noteq> None \<or> reconcile \<noteq> None then ((reconcile, err), s) else ((None, None), s))))"

definition databaseTasks :: "'w Externals \<Rightarrow> 'w St \<Rightarrow> 'w outcome" where
  "databaseTasks X s =
    (if length (Database_ExternalDBSecret (Spec_Database (Pulp_Spec (st_pulp s)))) \<noteq> 0 then Some ((None, None), s)
     else requeueing (databaseController X) s)"

definition cacheTasks :: "'w Externals \<Rightarrow> 'w St \<Rightarrow> 'w outcome" where
  "cacheTasks X s =
    (let cache = Spec_Cache (Pulp_Spec (st_pulp s))
     in runTasks
          [\<lambda>s. if length (Cache_ExternalCacheSecret cache) = 0 \<and> Cache_Enabled cache
                then requeueing (pulpCacheController X) s else Some ((None, None), s),
           \<lambda>s. if managedCacheDisabled (st_pulp s)
                then requeueing (\<lambda>s. Some (deprovisionCache X s)) s else Some ((None, None), s)] s)"

text \<open>Routes, an Ingress or pulp-web; a change of the type is only prepared, for the next run.\<close>

definition exposeTasks :: "'w Externals \<Rightarrow> 'w St \<Rightarrow> 'w outcome" where
  "exposeTasks X s =
    (let pulp = st_pulp s;
         deployed = Status_IngressType (Pulp_Status pulp)
     in if length deployed = 0 \<or> deployed = Spec_IngressType (Pulp_Spec pulp)
        then (if isRoute pulp then requeueing (PulpRouteController X) s
              else if isIngress pulp then requeueing (pulpIngressController X) s
              else requeueing (pulpWebController X) s)
        else Some ((Some requeue_Result, None), updateIngressType X s))"

definition ingressClassTasks :: "'w Externals \<Rightarrow> 'w St \<Rightarrow> 'w outcome" where
  "ingressClassTasks X s =
    (if \<not> EqualFold (Status_IngressClassName (Pulp_Status (st_pulp s))) (Spec_IngressClassName (Pulp_Spec (st_pulp s)))
     then Some ((Some requeue_Result, None), updateIngressClass X s)
     else Some ((None, None), s))"

definition telemetryTasks :: "'w Externals \<Rightarrow> 'w St \<Rightarrow> 'w outcome" where
  "telemetryTasks X s =
    Some ((None, None),
      if Status_TelemetryEnabled (Pulp_Status (st_pulp s)) \<and> \<not> Telemetry_Enabled (Spec_Telemetry (Pulp_Spec (st_pulp s)))
      then RemoveTelemetryResources X s else s)"

definition pulpcore_tasks :: "'w Externals \<Rightarrow> ('w St \<Rightarrow> 'w outcome) list" where
  "pulpcore_tasks X =
    [pulpFileStorage X,
     createSecrets X,
     configMapTasks X,
     requeueing (pulpApiController X),
     acting (runMigration X),
     acting (runSigningScriptJob X),
     \<lambda>s. (let (pulpController, s) = runSigningSecretTasks X s in Some ((pulpController, None), s)),
     requeueing (pulpContentController X),
     requeueing (pulpWorkerController X),
     acting (updateAdminPasswordJob X),
     acting (updateContentChecksumsJob X),
     exposeTasks X,
     ingressClassTasks X,
     requeueing (\<lambda>s. Some (pdbController X s)),
     requeueing (\<lambda>s. Some (hpaController X s)),
     telemetryTasks X]"

definition pulpCoreTasks :: "'w Externals \<Rightarrow> 'w St \<Rightarrow> 'w outcome" where
  "pulpCoreTasks X = runTasks (pulpcore_tasks X)"

subsection \<open>Reconcile\<close>

text \<open>
  \<open>if reconcile, err := task(...); err != nil || reconcile != nil { return *reconcile, err }\<close>:
  the dereference panics when the task returned an error with a nil result.
\<close>

definition orReturn ::
  "'w outcome \<Rightarrow> ('w St \<Rightarrow> ((Result \<times> error option) \<times> 'w St) option) \<Rightarrow> ((Result \<times> error option) \<times> 'w St) option" where
  "orReturn task next_task =
    do { ((reconcile, err), s) \<leftarrow> task;
         if err \<noteq> None \<or> reconcile \<noteq> None then do { r \<leftarrow> reconcile; Some ((r, err), s) }
         else next_task s }"

definition reconcileTasks :: "'w Externals \<Rightarrow> 'w St \<Rightarrow> ((Result \<times> error option) \<times> 'w St) option" where
  "reconcileTasks X s =
    orReturn (Some (ocpTasks X s)) (\<lambda>s.
    orReturn (Some (prechecks X s)) (\<lambda>s.
    (let ((reconcile, err), s) = CreateServiceAccount X s
     in if needsRequeue err reconcile then Some ((reconcile, err), s)
        else
    orReturn (databaseTasks X s) (\<lambda>s.
    orReturn (cacheTasks X s) (\<lambda>s.
    orReturn (pulpCoreTasks X s) (\<lambda>s.
    do { (reconcile, s) \<leftarrow> pulpStatus X s;
         case reconcile of
           Some r \<Rightarrow> Some ((r, None), s)
         | None \<Rightarrow> Some ((zero_Result, None), s) }))))))"

definition Reconcile :: "'w Externals \<Rightarrow> string \<Rightarrow> string \<Rightarrow> 'w \<Rightarrow> ((Result \<times> error option) \<times> 'w St) option" where
  "Reconcile X namespace name w =
    (let (r, s) = call (x_GetPulp X namespace name) \<lparr>st_world = w, st_pulp = zero_Pulp, st_events = []\<rparr>
     in case r of
          Inl err \<Rightarrow> if IsNotFound err then Some ((zero_Result, None), s) else Some ((zero_Result, Some err), s)
        | Inr pulp \<Rightarrow>
            if Spec_Unmanaged (Pulp_Spec pulp) then Some ((zero_Result, None), s\<lparr>st_pulp := pulp\<rparr>)
            else reconcileTasks X (s\<lparr>st_pulp := pulp\<rparr>))"

subsection \<open>The index\<close>

definition indexerFunc :: "Pulp \<Rightarrow> string list option" where
  "indexerFunc pulp =
    do { let spec = Pulp_Spec pulp;
         let keys = filter (\<lambda>k. k \<noteq> [])
           [Spec_ObjectStorageAzureSecret spec, Spec_ObjectStorageGCSSecret spec, Spec_ObjectStorageS3Secret spec,
            Spec_SSOSecret spec, Spec_AdminPasswordSecret spec, Spec_PulpSecretKey spec, Spec_SigningScripts spec,
            Spec_SigningSecret spec, Database_ExternalDBSecret (Spec_Database spec),
            Cache_ExternalCacheSecret (Spec_Cache spec), LDAP_Config (Spec_LDAP spec), LDAP_CA (Spec_LDAP spec),
            Spec_CustomPulpSettings spec];
         if Spec_TrustedCaConfigMapKey spec \<noteq> None
         then do { (caConfigMap, _) \<leftarrow> SplitCAConfigMapNameKey pulp; Some (keys @ [caConfigMap]) }
         else Some keys }"

subsection \<open>Errors come with a result\<close>

text \<open>
  The contract that \<open>Reconcile\<close> relies on when it dereferences the result of a task: a nil result
  means that there is no error either.
\<close>

locale answering =
  fixes task :: "'w St \<Rightarrow> 'w outcome"
  assumes answered: "task s = Some ((None, err), s') \<Longrightarrow> err = None"
begin

text \<open>Without an answer the code goes on, with one it dereferences a result that is there.\<close>

lemma orReturn_task:
  "orReturn (task s) next_task =
    do { ((reconcile, err), s) \<leftarrow> task s;
         case reconcile of Some r \<Rightarrow> Some ((r, err), s) | None \<Rightarrow> next_task s }"
proof (cases "task s")
  case (Some a)
  obtain r err s' where "a = ((r, err), s')" by (metis surj_pair)
  with Some answered [of s err s'] show ?thesis by (cases r) (auto simp: orReturn_def)
qed (simp add: orReturn_def)

lemma runTasks_task:
  "runTasks (task # tasks) s =
    do { ((reconcile, err), s) \<leftarrow> task s;
         case reconcile of Some r \<Rightarrow> Some ((Some r, err), s) | None \<Rightarrow> runTasks tasks s }"
proof (cases "task s")
  case (Some a)
  obtain r err s' where "a = ((r, err), s')" by (metis surj_pair)
  with Some answered [of s err s'] show ?thesis by (cases r) auto
qed simp

end

interpretation requeueing: answering "requeueing controller" for controller
  by unfold_locales (auto simp: requeueing_def split: bind_splits if_splits)

interpretation acting: answering "acting act" for act
  by unfold_locales (auto simp: acting_def split: bind_splits)

interpretation no_answer: answering "\<lambda>s. Some ((None, None), f s)" for f
  by unfold_locales simp

lemma runTasks_answering: "list_all answering tasks \<Longrightarrow> answering (runTasks tasks)"
proof (induction tasks)
  case (Cons task tasks)
  then have "answering task" "answering (runTasks tasks)" by simp_all
  then show ?case
    unfolding answering_def by (auto split: bind_splits if_splits)
qed (simp add: answering_def)

interpretation ocp: answering "\<lambda>s. Some (ocpTasks X s)" for X
  by unfold_locales
     (auto simp: ocpTasks_def injectCertificates_def needsRequeue_def Let_def split_beta split: if_splits)

interpretation database: answering "databaseTasks X" for X
  by unfold_locales (auto simp: databaseTasks_def dest: requeueing.answered split: if_splits)

interpretation cache: answering "cacheTasks X" for X
proof unfold_locales
  fix s err s'
  have "answering (runTasks [\<lambda>s. if c then requeueing f s else Some ((None, None), s),
      \<lambda>s. if d s then requeueing g s else Some ((None, None), s)])" for c f d g
    by (rule runTasks_answering) (auto simp: answering_def dest: requeueing.answered split: if_splits)
  then show "cacheTasks X s = Some ((None, err), s') \<Longrightarrow> err = None"
    unfolding cacheTasks_def Let_def by (rule answering.answered)
qed

interpretation expose: answering "exposeTasks X" for X
  by unfold_locales (auto simp: exposeTasks_def Let_def dest: requeueing.answered split: if_splits)

interpretation ingress_class: answering "ingressClassTasks X" for X
  by unfold_locales (auto simp: ingressClassTasks_def split: if_splits)

interpretation file_storage: answering "pulpFileStorage X" for X
  by unfold_locales (auto simp: pulpFileStorage_def split: bind_splits if_splits)

interpretation server_secret: answering "reconcileServerSecret X" for X
  by unfold_locales (auto simp: reconcileServerSecret_def Let_def split_beta split: bind_splits if_splits)

interpretation secrets: answering "createSecrets X" for X
  by unfold_locales (auto simp: createSecrets_def Let_def split: bind_splits if_splits dest!: server_secret.answered)

interpretation config_map: answering "configMapTasks X" for X
  by unfold_locales (auto simp: configMapTasks_def Let_def split: bind_splits if_splits)

interpretation signing: answering
  "\<lambda>s. (let (pulpController, s) = runSigningSecretTasks X s in Some ((pulpController, None), s))" for X
  by unfold_locales (simp add: split_beta)

interpretation telemetry: answering "telemetryTasks X" for X
  by unfold_locales (simp add: telemetryTasks_def)

lemma pulpcore_answering: "list_all answering (pulpcore_tasks X)"
  by (simp only: pulpcore_tasks_def list.pred_inject simp_thms file_storage.answering_axioms secrets.answering_axioms config_map.answering_axioms
      requeueing.answering_axioms acting.answering_axioms signing.answering_axioms expose.answering_axioms
      ingress_class.answering_axioms telemetry.answering_axioms)

interpretation pulpcore: answering "pulpCoreTasks X" for X
  unfolding pulpCoreTasks_def by (rule runTasks_answering [OF pulpcore_answering])

interpretation precheck: answering "\<lambda>s. Some (prechecks X s)" for X
proof unfold_locales
  fix s err s'
  assume "Some (prechecks X s) = Some ((None, err), s')"
  then show "err = None" using prechecks_rejects [of X s] by auto
qed

interpretation status: answering "\<lambda>s. do { (r, s) \<leftarrow> pulpStatus X s; Some ((r, None), s) }" for X
  by unfold_locales (auto split: bind_splits)

subsection \<open>Reconcile as a sequence of tasks\<close>

definition reconcile_tasks :: "'w Externals \<Rightarrow> ('w St \<Rightarrow> 'w outcome) list" where
  "reconcile_tasks X =
    [\<lambda>s. Some (ocpTasks X s),
     \<lambda>s. Some (prechecks X s),
     requeueing (\<lambda>s. Some (CreateServiceAccount X s)),
     databaseTasks X,
     cacheTasks X] @
    pulpcore_tasks X @
    [\<lambda>s. do { (r, s) \<leftarrow> pulpStatus X s; Some ((r, None), s) }]"

text \<open>No answer of any task is the empty result.\<close>

definition answer_of :: "(Result option \<times> error option) \<times> 'w St \<Rightarrow> (Result \<times> error option) \<times> 'w St" where
  "answer_of a = (let ((r, err), s) = a in ((case r of None \<Rightarrow> zero_Result | Some r \<Rightarrow> r, err), s))"

lemma runTasks_append:
  "runTasks (tasks @ tasks') s =
    do { ((reconcile, err), s) \<leftarrow> runTasks tasks s;
         if reconcile \<noteq> None \<or> err \<noteq> None then Some ((reconcile, err), s) else runTasks tasks' s }"
  by (induction tasks arbitrary: s) (auto split: bind_splits)

context answering
begin

lemma task_step:
  "orReturn (task s) (\<lambda>s. map_option answer_of (runTasks tasks s)) = map_option answer_of (runTasks (task # tasks) s)"
  unfolding orReturn_task runTasks_task by (cases "task s") (auto simp: answer_of_def split: option.splits)

end

lemma runTasks_nested: "runTasks (runTasks tasks # rest) s = runTasks (tasks @ rest) s"
  by (simp add: runTasks_append)

lemma requeueing_step:
  "(let ((r, err), s) = c s in if needsRequeue err r then Some ((r, err), s) else map_option answer_of (runTasks tasks s)) =
    map_option answer_of (runTasks (requeueing (\<lambda>s. Some (c s)) # tasks) s)"
  by (simp add: requeueing_def answer_of_def needsRequeue_def split_beta)

lemma status_step:
  "do { (reconcile, s) \<leftarrow> pulpStatus X s;
        case reconcile of Some r \<Rightarrow> Some ((r, None), s) | None \<Rightarrow> Some ((zero_Result, None), s) } =
    map_option answer_of (runTasks [\<lambda>s. do { (r, s) \<leftarrow> pulpStatus X s; Some ((r, None), s) }] s)"
  by (cases "pulpStatus X s") (auto simp: answer_of_def split: option.splits)

subsection \<open>Properties\<close>

text \<open>
  C2: \<open>Reconcile\<close> on a custom resource it manages is the sequence of all tasks in their order, ended by the first
  that answers. In particular its dereferences of a result never panic on their own: a task that
  reports an error reports a result with it, so a panic is always one inside a task.
\<close>

theorem reconcile_is_task_sequence:
  "reconcileTasks X s = map_option answer_of (runTasks (reconcile_tasks X) s)"
proof -
  let ?status = "\<lambda>s. do { (r, s) \<leftarrow> pulpStatus X s; Some ((r, None), s) }"
  have "reconcileTasks X s = map_option answer_of (runTasks
      [\<lambda>s. Some (ocpTasks X s), \<lambda>s. Some (prechecks X s), requeueing (\<lambda>s. Some (CreateServiceAccount X s)),
       databaseTasks X, cacheTasks X, pulpCoreTasks X, ?status] s)"
    unfolding reconcileTasks_def status_step
    by (simp only: ocp.task_step precheck.task_step requeueing_step database.task_step cache.task_step pulpcore.task_step)
  also have "runTasks
      [\<lambda>s. Some (ocpTasks X s), \<lambda>s. Some (prechecks X s), requeueing (\<lambda>s. Some (CreateServiceAccount X s)),
       databaseTasks X, cacheTasks X, pulpCoreTasks X, ?status] s = runTasks (reconcile_tasks X) s"
    unfolding reconcile_tasks_def pulpCoreTasks_def
    by (simp only: append_Cons append_Nil runTasks.simps(2) runTasks_append)
  finally show ?thesis .
qed

lemma cacheClaim_answers: "cacheClaim X s = Some (Some (zero_Result, None), s') \<Longrightarrow> False"
  by (auto simp: cacheClaim_def create_plain_def update_plain_def zero_Result_def requeue_Result_def Let_def split_beta
      split: bind_splits sum.splits if_splits)

lemma cacheService_answers: "fst (cacheService X s) = Some (zero_Result, None) \<Longrightarrow> False"
  by (auto simp: cacheService_def create_plain_def update_plain_def zero_Result_def requeue_Result_def Let_def split_beta
      split: sum.splits if_splits)

lemma requeueing_done:
  "requeueing c s = Some ((None, None), s') \<Longrightarrow> c s = Some ((zero_Result, None), s')"
  by (auto simp: requeueing_def needsRequeue_def split: bind_splits if_splits)

text \<open>What the managed cache looks like once its tasks let the others go on.\<close>

context pulp_store
begin

lemma set_managed_cache_done: "\<not> managedCacheDisabled (st_pulp (set_managed_cache X s))"
  by (simp add: managedCacheDisabled_def set_managed_cache_def)

lemma cacheDeployment_done:
  assumes "cacheDeployment X t s = Some ((zero_Result, None), s')"
  shows "\<not> managedCacheDisabled (st_pulp s')"
  using assms
  by (auto simp: cacheDeployment_def create_plain_def result_of_def zero_Result_def requeue_Result_def Let_def split_beta
      set_managed_cache_done split: bind_splits sum.splits if_splits)

lemma pulpCacheController_done:
  assumes "pulpCacheController X s = Some ((zero_Result, None), s')"
  shows "\<not> managedCacheDisabled (st_pulp s')"
  using assms
  by (auto simp: pulpCacheController_def Let_def split_beta split: bind_splits if_splits option.splits
      dest: cacheClaim_answers cacheService_answers cacheDeployment_done)

end

lemma deprovision_task:
  "requeueing (\<lambda>s. Some (deprovisionCache X s)) s = Some ((None, None), snd (deprovisionCache X s))"
  by (simp add: requeueing_def deprovisionCache_def needsRequeue_def Let_def)


definition ex_uncached_pulp :: Pulp where
  "ex_uncached_pulp = upd_Status (\<lambda>st. st\<lparr>Status_ManagedCacheEnabled := True\<rparr>) ex_deploy_pulp"

lemma ex_uncached:
  "Cache_ExternalCacheSecret (Spec_Cache (Pulp_Spec ex_uncached_pulp)) = []"
  "\<not> Cache_Enabled (Spec_Cache (Pulp_Spec ex_uncached_pulp))" "managedCacheDisabled ex_uncached_pulp"
  by (simp_all add: managedCacheDisabled_def ex_uncached_pulp_def ex_deploy_pulp_def zero_PulpSpec_def zero_Cache_def)


subsection \<open>Resources that are left alone\<close>

lemma snd_if_in: "snd a \<in> S \<Longrightarrow> snd b \<in> S \<Longrightarrow> snd (if c then a else b) \<in> S"
  by simp

lemma snd_case_in: "s \<in> S \<Longrightarrow> snd a \<in> S \<Longrightarrow> snd (case x of Some r \<Rightarrow> (f r, s) | None \<Rightarrow> a) \<in> S"
  by (cases x) simp_all

text \<open>
  Reading the custom resource, the configuration of the client and the API groups of the server changes
  no object either.
\<close>

locale reading_cluster = stable_cluster +
  assumes config_get: "fst (x_Get X k ns n (snd (x_GetConfig X w))) = fst (x_Get X k ns n w)"
    and client_get: "fst (x_Get X k ns n (snd (x_NewDiscoveryClient X w))) = fst (x_Get X k ns n w)"
    and get_pulp_get: "fst (x_Get X k ns n (snd (x_GetPulp X a b w))) = fst (x_Get X k ns n w)"
begin

lemma IsOpenShift_objects: "same_objects X (st_world s) (st_world (snd (IsOpenShift X s)))"
  by (simp add: IsOpenShift_def same_objects_def call_def config_get client_get discovery_get Let_def split_beta split: option.split)

lemma initialize_objects: "same_objects X (st_world s) (st_world (snd (initializeStatusCondition X s)))"
  by (simp add: initializeStatusCondition_def set_condition_now_def Status_Update_def same_objects_def call_def
      status_update_get now_get Let_def split_beta)

lemma Get_Secret_world: "st_world (snd (Get_Secret X n ns s)) = st_world s"
  by (simp add: Get_Secret_def get_pure split_beta)

lemma get_secrets_world: "st_world (snd (get_secrets X ns names s)) = st_world s"
proof (induction names arbitrary: s)
  case (Cons a names)
  show ?case
  proof (cases "length a \<noteq> 0")
    case True
    obtain r s1 where g: "Get_Secret X a ns s = (r, s1)" by fastforce
    with Get_Secret_world [of a ns s] True Cons.IH [of s1] show ?thesis
      by (cases r) (simp_all add: get_secrets.simps)
  qed (use Cons.IH in \<open>simp add: get_secrets.simps\<close>)
qed (simp add: get_secrets.simps)

lemma cluster_checks_objects:
  "same_objects X (st_world s) (st_world (snd (checkRouteNotOCP X s)))"
  "same_objects X (st_world s) (st_world (snd (checkCAConfigmap X s)))"
  "same_objects X (st_world s) (st_world (snd (checkSecretsAvailability X s)))"
  "same_objects X (st_world s) (st_world (snd (checkLDAPCA X s)))"
  using IsOpenShift_objects [of s]
  by (simp_all add: checkRouteNotOCP_def checkCAConfigmap_def checkSecretsAvailability_def checkSecretsAvailable_def checkLDAPCA_def
      get_secrets_world Get_Secret_world Let_def split_beta)

lemma prechecks_objects: "same_objects X (st_world s) (st_world (snd (prechecks X s)))"
proof -
  define s0 where "s0 = snd (initializeStatusCondition X s)"
  define s1 where "s1 = snd (checkRouteNotOCP X s0)"
  define s2 where "s2 = snd (checkSecretsAvailability X s1)"
  define s3 where "s3 = snd (checkLDAPCA X s2)"
  define s4 where "s4 = snd (checkCAConfigmap X s3)"
  have "same_objects X (st_world s) (st_world s0)" unfolding s0_def by (rule initialize_objects)
  moreover from this have "same_objects X (st_world s) (st_world s1)"
    unfolding s1_def by (rule same_objects_trans) (rule cluster_checks_objects)
  moreover from this have "same_objects X (st_world s) (st_world s2)"
    unfolding s2_def by (rule same_objects_trans) (rule cluster_checks_objects)
  moreover from this have "same_objects X (st_world s) (st_world s3)"
    unfolding s3_def by (rule same_objects_trans) (rule cluster_checks_objects)
  moreover from this have "same_objects X (st_world s) (st_world s4)"
    unfolding s4_def by (rule same_objects_trans) (rule cluster_checks_objects)
  moreover have "snd (prechecks X s) \<in> {s0, s1, s2, s3, s4}"
    unfolding prechecks_def Let_def split_beta s0_def [symmetric] s1_def [symmetric] s2_def [symmetric] s3_def [symmetric] s4_def [symmetric]
    by (intro snd_if_in snd_case_in) simp_all
  ultimately show ?thesis by auto
qed

end

interpretation mem_reading: reading_cluster mem_ext
  by unfold_locales (simp_all add: mem_ext_def mem_get_def mem_get_pulp_def split: option.split)

lemma prechecks_stop:
  assumes "pulp_store X" "\<not> spec_valid (Pulp_Spec (st_pulp s))"
  obtains err where "fst (prechecks X s) = (Some zero_Result, err)"
  using prechecks_pass [OF assms(1), of s] prechecks_rejects [of X s] assms(2) by auto


definition ex_invalid_pulp :: Pulp where
  "ex_invalid_pulp = upd_Spec (\<lambda>spec. spec\<lparr>Spec_PVC := []\<rparr>) ex_valid_pulp"

lemma ex_invalid_spec: "\<not> spec_valid (Pulp_Spec ex_invalid_pulp)"
  by (simp add: spec_valid_def storage_valid_def pulp_storage_options_def ex_invalid_pulp_def ex_valid_pulp_def zero_PulpSpec_def)

lemma ex_invalid_get: "x_GetPulp mem_ext ''ns'' ''p'' (mem_init ex_invalid_pulp []) = (Inr ex_invalid_pulp, mem_init ex_invalid_pulp [])"
  by (simp add: mem_ext_def mem_get_pulp_def mem_init_def same_pulp_def ex_invalid_pulp_def ex_valid_pulp_def)

lemma mem_init_vanilla: "st_world s = mem_init p objs \<Longrightarrow> \<not> fst (fst (IsOpenShift mem_ext s))"
  by (simp add: IsOpenShift_def mem_ext_def mem_init_def call_def Let_def)


end
