(* ===== verification/Effects.thy ===== *)
theory Effects
  imports Controller
begin

text \<open>
  What a reconciliation may do to the cluster. The predicate \<open>reaches\<close> describes the worlds that can come about
  by calls the operator is entitled to make for one custom resource: it may read, but creates,
  changes and deletes objects only in the namespace of the resource, and deletes only the objects of the
  parts that can be switched off. Every operation is shown to stay \<open>within\<close> these calls; the
  proofs follow the program text by the rules \<open>vcg\<close>, one for each construct, and \<open>confined\<close>, one for each operation.
\<close>

subsection \<open>The policy\<close>

text \<open>The custom resource that is reconciled and the world at the start.\<close>

record 'w Scope =
  sc_Namespace :: string
  sc_Name :: string
  sc_Start :: 'w

text \<open>
  An object is placed in the namespace of the resource. After a failed read the code goes on with the
  zero object and may update or delete that: it has no name, and no object is stored under it.
\<close>

definition placed :: "'w Scope \<Rightarrow> Object \<Rightarrow> bool" where
  "placed P obj \<longleftrightarrow> obj_Namespace obj = sc_Namespace P"

definition writable :: "'w Scope \<Rightarrow> Object \<Rightarrow> bool" where
  "writable P obj \<longleftrightarrow> placed P obj \<or> obj_Name obj = []"

text \<open>
  The objects that are deleted one by one: disruption budgets, autoscalers, Ingresses and the objects
  of pulp-web, of the cache and of telemetry.
\<close>

definition disposable :: "string \<Rightarrow> Kind \<Rightarrow> string \<Rightarrow> bool" where
  "disposable name k n \<longleftrightarrow>
    k \<in> {KPDB, KHPA, KIngress}
    \<or> k = KDeployment \<and> n \<in> {DeploymentName WEB name, DeploymentName CACHE name}
    \<or> k = KService \<and> n \<in> {PulpWebService name, CacheService name, OtelServiceName name}
    \<or> k = KConfigMap \<and> n = OtelConfigMapName name"

definition deletable :: "'w Scope \<Rightarrow> Object \<Rightarrow> bool" where
  "deletable P obj \<longleftrightarrow>
    obj_Namespace obj = sc_Namespace P \<and> disposable (sc_Name P) (obj_Kind obj) (obj_Name obj) \<or> obj_Name obj = []"

inductive reaches :: "'w Externals \<Rightarrow> 'w Scope \<Rightarrow> 'w \<Rightarrow> bool" for X P where
  start: "reaches X P (sc_Start P)"
| get: "reaches X P w \<Longrightarrow> reaches X P (snd (x_Get X k ns n w))"
| get_pulp: "reaches X P w \<Longrightarrow> reaches X P (snd (x_GetPulp X ns n w))"
| list_jobs: "reaches X P w \<Longrightarrow> reaches X P (snd (x_ListJobs X ns labels w))"
| list_pods: "reaches X P w \<Longrightarrow> reaches X P (snd (x_ListPods X ns labels w))"
| exec: "reaches X P w \<Longrightarrow> reaches X P (snd (x_Exec X (sc_Namespace P) pod container command w))"
| get_config: "reaches X P w \<Longrightarrow> reaches X P (snd (x_GetConfig X w))"
| discovery: "reaches X P w \<Longrightarrow> reaches X P (snd (x_NewDiscoveryClient X w))"
| resources: "reaches X P w \<Longrightarrow> reaches X P (snd (x_ServerResources X gv w))"
| now: "reaches X P w \<Longrightarrow> reaches X P (snd (x_Now X w))"
| intn: "reaches X P w \<Longrightarrow> reaches X P (snd (x_Intn X i w))"
| rand_bytes: "reaches X P w \<Longrightarrow> reaches X P (snd (x_RandBytes X i w))"
| gen_key: "reaches X P w \<Longrightarrow> reaches X P (snd (x_GenKeyPEM X w))"
| range_order: "reaches X P w \<Longrightarrow> reaches X P (snd (x_RangeOrder X m w))"
| schedule: "reaches X P w \<Longrightarrow> reaches X P (snd (x_Schedule X i w))"
| dry_create: "reaches X P w \<Longrightarrow> placed P obj \<Longrightarrow> reaches X P (snd (x_DryRunCreate X obj w))"
| dry_update: "reaches X P w \<Longrightarrow> placed P obj \<Longrightarrow> reaches X P (snd (x_DryRunUpdate X obj w))"
| create: "reaches X P w \<Longrightarrow> placed P obj \<Longrightarrow> reaches X P (snd (x_Create X obj w))"
| update: "reaches X P w \<Longrightarrow> writable P obj \<Longrightarrow> reaches X P (snd (x_Update X obj w))"
| delete: "reaches X P w \<Longrightarrow> deletable P obj \<Longrightarrow> reaches X P (snd (x_Delete X obj w))"
| delete_all: "reaches X P w \<Longrightarrow> k \<in> {KRoute, KIngress} \<Longrightarrow> reaches X P (snd (x_DeleteAllOf X k (sc_Namespace P) labels w))"
| status: "reaches X P w \<Longrightarrow> Pulp_Namespace p = sc_Namespace P \<Longrightarrow> Pulp_Name p = sc_Name P \<Longrightarrow>
    reaches X P (snd (x_StatusUpdate X p w))"
| patch: "reaches X P w \<Longrightarrow> Pulp_Namespace p = sc_Namespace P \<Longrightarrow> Pulp_Name p = sc_Name P \<Longrightarrow>
    reaches X P (snd (x_PatchPulp X p base w))"

text \<open>A run of the operator: so far only such calls, and still for the resource it was started for.\<close>

definition within :: "'w Externals \<Rightarrow> 'w Scope \<Rightarrow> 'w St \<Rightarrow> bool" where
  "within X P s \<longleftrightarrow> reaches X P (st_world s) \<and> Pulp_Namespace (st_pulp s) = sc_Namespace P \<and> Pulp_Name (st_pulp s) = sc_Name P"

text \<open>The same for the results of operations: a pair, a pair or a state that may be missing after a panic.\<close>

definition within_pair :: "'w Externals \<Rightarrow> 'w Scope \<Rightarrow> 'a \<times> 'w St \<Rightarrow> bool" where
  "within_pair X P r \<longleftrightarrow> within X P (snd r)"

definition within_opt :: "'w Externals \<Rightarrow> 'w Scope \<Rightarrow> ('a \<times> 'w St) option \<Rightarrow> bool" where
  "within_opt X P r \<longleftrightarrow> (case r of None \<Rightarrow> True | Some p \<Rightarrow> within_pair X P p)"

definition within_state :: "'w Externals \<Rightarrow> 'w Scope \<Rightarrow> 'w St option \<Rightarrow> bool" where
  "within_state X P r \<longleftrightarrow> (case r of None \<Rightarrow> True | Some s \<Rightarrow> within X P s)"

text \<open>A constructor of an object: it stays within the calls and places the object.\<close>

definition places :: "'w Externals \<Rightarrow> 'w Scope \<Rightarrow> (Object \<times> 'w St) option \<Rightarrow> bool" where
  "places X P r \<longleftrightarrow> (case r of None \<Rightarrow> True | Some (obj, s) \<Rightarrow> placed P obj \<and> within X P s)"

subsection \<open>Rules for the constructs\<close>

named_theorems vcg \<open>one rule for each construct of the program text\<close>

named_theorems confined \<open>operations that make only the calls of the policy\<close>

lemma within_sel:
  "within X P s \<Longrightarrow> Pulp_Namespace (st_pulp s) = sc_Namespace P"
  "within X P s \<Longrightarrow> Pulp_Name (st_pulp s) = sc_Name P"
  "within X P s \<Longrightarrow> reaches X P (st_world s)"
  by (simp_all add: within_def)

lemma within_cong:
  "within X P s \<Longrightarrow> st_world s' = st_world s \<Longrightarrow> Pulp_Meta (st_pulp s') = Pulp_Meta (st_pulp s) \<Longrightarrow> within X P s'"
  by (simp add: within_def)

lemma within_let:
  "within X P e \<Longrightarrow> (\<And>s. within X P s \<Longrightarrow> within_pair X P (f s)) \<Longrightarrow> within_pair X P (Let e f)"
  "within X P e \<Longrightarrow> (\<And>s. within X P s \<Longrightarrow> within_opt X P (g s)) \<Longrightarrow> within_opt X P (Let e g)"
  "within X P e \<Longrightarrow> (\<And>s. within X P s \<Longrightarrow> within_state X P (h s)) \<Longrightarrow> within_state X P (Let e h)"
  "within X P e \<Longrightarrow> (\<And>s. within X P s \<Longrightarrow> within X P (j s)) \<Longrightarrow> within X P (Let e j)"
  "within X P e \<Longrightarrow> (\<And>s. within X P s \<Longrightarrow> places X P (c s)) \<Longrightarrow> places X P (Let e c)"
  by (simp_all add: Let_def)

lemma within_let_pair:
  "within_pair X P e \<Longrightarrow> (\<And>a s. e = (a, s) \<Longrightarrow> within X P s \<Longrightarrow> within_pair X P (f a s)) \<Longrightarrow> within_pair X P (Let e (case_prod f))"
  "within_pair X P e \<Longrightarrow> (\<And>a s. e = (a, s) \<Longrightarrow> within X P s \<Longrightarrow> within_opt X P (g a s)) \<Longrightarrow> within_opt X P (Let e (case_prod g))"
  "within_pair X P e \<Longrightarrow> (\<And>a s. e = (a, s) \<Longrightarrow> within X P s \<Longrightarrow> within_state X P (h a s)) \<Longrightarrow> within_state X P (Let e (case_prod h))"
  "within_pair X P e \<Longrightarrow> (\<And>a s. e = (a, s) \<Longrightarrow> within X P s \<Longrightarrow> within X P (j a s)) \<Longrightarrow> within X P (Let e (case_prod j))"
  "within_pair X P e \<Longrightarrow> (\<And>a s. e = (a, s) \<Longrightarrow> within X P s \<Longrightarrow> places X P (c a s)) \<Longrightarrow> places X P (Let e (case_prod c))"
  by (cases e; simp add: within_pair_def)+

lemma within_let_value:
  "within_pair X P (f e) \<Longrightarrow> within_pair X P (Let e f)"
  "within_opt X P (g e) \<Longrightarrow> within_opt X P (Let e g)"
  "within_state X P (h e) \<Longrightarrow> within_state X P (Let e h)"
  "within X P (j e) \<Longrightarrow> within X P (Let e j)"
  "places X P (c e) \<Longrightarrow> places X P (Let e c)"
  by (simp_all add: Let_def)

lemma within_prod:
  "(\<And>a b. e = (a, b) \<Longrightarrow> within_pair X P (f a b)) \<Longrightarrow> within_pair X P (case_prod f e)"
  "(\<And>a b. e = (a, b) \<Longrightarrow> within_opt X P (g a b)) \<Longrightarrow> within_opt X P (case_prod g e)"
  "(\<And>a b. e = (a, b) \<Longrightarrow> within_state X P (h a b)) \<Longrightarrow> within_state X P (case_prod h e)"
  "(\<And>a b. e = (a, b) \<Longrightarrow> within X P (j a b)) \<Longrightarrow> within X P (case_prod j e)"
  "(\<And>a b. e = (a, b) \<Longrightarrow> places X P (c a b)) \<Longrightarrow> places X P (case_prod c e)"
  by (simp_all split: prod.split)

lemma within_prod_state:
  "(\<And>a b. e = (a, b) \<Longrightarrow> within_pair X P (f a b s)) \<Longrightarrow> within_pair X P (case_prod f e s)"
  "(\<And>a b. e = (a, b) \<Longrightarrow> within_opt X P (g a b s)) \<Longrightarrow> within_opt X P (case_prod g e s)"
  "(\<And>a b. e = (a, b) \<Longrightarrow> within_state X P (h a b s)) \<Longrightarrow> within_state X P (case_prod h e s)"
  "(\<And>a b. e = (a, b) \<Longrightarrow> within X P (j a b s)) \<Longrightarrow> within X P (case_prod j e s)"
  "(\<And>a b. e = (a, b) \<Longrightarrow> places X P (c a b s)) \<Longrightarrow> places X P (case_prod c e s)"
  by (simp_all split: prod.split)

lemma within_if:
  "(b \<Longrightarrow> within_pair X P e) \<Longrightarrow> (\<not> b \<Longrightarrow> within_pair X P e') \<Longrightarrow> within_pair X P (if b then e else e')"
  "(b \<Longrightarrow> within_opt X P f) \<Longrightarrow> (\<not> b \<Longrightarrow> within_opt X P f') \<Longrightarrow> within_opt X P (if b then f else f')"
  "(b \<Longrightarrow> within_state X P g) \<Longrightarrow> (\<not> b \<Longrightarrow> within_state X P g') \<Longrightarrow> within_state X P (if b then g else g')"
  "(b \<Longrightarrow> within X P s) \<Longrightarrow> (\<not> b \<Longrightarrow> within X P s') \<Longrightarrow> within X P (if b then s else s')"
  "(b \<Longrightarrow> places X P h) \<Longrightarrow> (\<not> b \<Longrightarrow> places X P h') \<Longrightarrow> places X P (if b then h else h')"
  by simp_all

lemma within_option:
  "(e = None \<Longrightarrow> within_pair X P f) \<Longrightarrow> (\<And>a. e = Some a \<Longrightarrow> within_pair X P (f' a)) \<Longrightarrow> within_pair X P (case_option f f' e)"
  "(e = None \<Longrightarrow> within_opt X P g) \<Longrightarrow> (\<And>a. e = Some a \<Longrightarrow> within_opt X P (g' a)) \<Longrightarrow> within_opt X P (case_option g g' e)"
  "(e = None \<Longrightarrow> within_state X P h) \<Longrightarrow> (\<And>a. e = Some a \<Longrightarrow> within_state X P (h' a)) \<Longrightarrow> within_state X P (case_option h h' e)"
  "(e = None \<Longrightarrow> within X P j) \<Longrightarrow> (\<And>a. e = Some a \<Longrightarrow> within X P (j' a)) \<Longrightarrow> within X P (case_option j j' e)"
  "(e = None \<Longrightarrow> places X P c) \<Longrightarrow> (\<And>a. e = Some a \<Longrightarrow> places X P (c' a)) \<Longrightarrow> places X P (case_option c c' e)"
  by (cases e; simp)+

lemma within_sum:
  "(\<And>a. e = Inl a \<Longrightarrow> within_pair X P (f a)) \<Longrightarrow> (\<And>a. e = Inr a \<Longrightarrow> within_pair X P (f' a)) \<Longrightarrow> within_pair X P (case_sum f f' e)"
  "(\<And>a. e = Inl a \<Longrightarrow> within_opt X P (g a)) \<Longrightarrow> (\<And>a. e = Inr a \<Longrightarrow> within_opt X P (g' a)) \<Longrightarrow> within_opt X P (case_sum g g' e)"
  "(\<And>a. e = Inl a \<Longrightarrow> within_state X P (h a)) \<Longrightarrow> (\<And>a. e = Inr a \<Longrightarrow> within_state X P (h' a)) \<Longrightarrow> within_state X P (case_sum h h' e)"
  "(\<And>a. e = Inl a \<Longrightarrow> within X P (j a)) \<Longrightarrow> (\<And>a. e = Inr a \<Longrightarrow> within X P (j' a)) \<Longrightarrow> within X P (case_sum j j' e)"
  "(\<And>a. e = Inl a \<Longrightarrow> places X P (c a)) \<Longrightarrow> (\<And>a. e = Inr a \<Longrightarrow> places X P (c' a)) \<Longrightarrow> places X P (case_sum c c' e)"
  by (cases e; simp)+

text \<open>A constructor that is run hands on the object it placed.\<close>

lemma within_bind_object:
  "places X P m \<Longrightarrow> (\<And>obj s. m = Some (obj, s) \<Longrightarrow> placed P obj \<Longrightarrow> within X P s \<Longrightarrow> within_opt X P (f obj s)) \<Longrightarrow>
    within_opt X P (Option.bind m (case_prod f))"
  by (cases m) (auto simp: places_def within_opt_def)

lemma within_bind_pair:
  "within_opt X P m \<Longrightarrow> (\<And>a s. m = Some (a, s) \<Longrightarrow> within X P s \<Longrightarrow> within_opt X P (g a s)) \<Longrightarrow>
    within_opt X P (Option.bind m (case_prod g))"
  "within_opt X P m \<Longrightarrow> (\<And>a s. m = Some (a, s) \<Longrightarrow> within X P s \<Longrightarrow> within_state X P (h a s)) \<Longrightarrow>
    within_state X P (Option.bind m (case_prod h))"
  "within_opt X P m \<Longrightarrow> (\<And>a s. m = Some (a, s) \<Longrightarrow> within X P s \<Longrightarrow> places X P (c a s)) \<Longrightarrow>
    places X P (Option.bind m (case_prod c))"
  by (cases m; auto simp: within_opt_def within_state_def places_def within_pair_def)+

lemma within_bind_state:
  "within_state X P m \<Longrightarrow> (\<And>s. m = Some s \<Longrightarrow> within X P s \<Longrightarrow> within_opt X P (g s)) \<Longrightarrow> within_opt X P (Option.bind m g)"
  "within_state X P m \<Longrightarrow> (\<And>s. m = Some s \<Longrightarrow> within X P s \<Longrightarrow> within_state X P (h s)) \<Longrightarrow> within_state X P (Option.bind m h)"
  by (cases m; simp add: within_state_def within_opt_def)+

lemma within_bind_value:
  "(\<And>a. m = Some a \<Longrightarrow> within_opt X P (g a)) \<Longrightarrow> within_opt X P (Option.bind m g)"
  "(\<And>a. m = Some a \<Longrightarrow> within_state X P (h a)) \<Longrightarrow> within_state X P (Option.bind m h)"
  "(\<And>a. m = Some a \<Longrightarrow> places X P (c a)) \<Longrightarrow> places X P (Option.bind m c)"
  by (cases m; simp add: within_state_def within_opt_def places_def)+

lemma within_return:
  "within X P s \<Longrightarrow> within_pair X P (a, s)"
  "within_pair X P r \<Longrightarrow> within_opt X P (Some r)"
  "within X P s \<Longrightarrow> within_state X P (Some s)"
  "within_opt X P None"
  "within_state X P None"
  "places X P None"
  "placed P obj \<Longrightarrow> within X P s \<Longrightarrow> places X P (Some (obj, s))"
  "within_pair X P r \<Longrightarrow> within X P (snd r)"
  by (simp_all add: within_pair_def within_opt_def within_state_def places_def)

lemmas within_rules [vcg] = within_return(1-7) within_if within_option within_sum within_let_pair within_let within_let_value
  within_prod within_prod_state within_bind_object within_bind_pair within_bind_state within_bind_value within_return(8)

lemma within_opt_Some: "within_opt X P m \<Longrightarrow> m = Some (a, s) \<Longrightarrow> within X P s"
  by (simp add: within_opt_def within_pair_def)

lemma within_pair_eq: "within_pair X P e \<Longrightarrow> e = (a, s) \<Longrightarrow> within X P s"
  by (simp add: within_pair_def)

subsection \<open>The calls\<close>

text \<open>
  Of the server: an object that is read is the one asked for, and a dry run answers with the
  object it was given.
\<close>

locale api_server = pulp_store X for X :: "'w Externals" +
  assumes get_key: "fst (x_Get X k ns n w) = Inr obj \<Longrightarrow> key_of obj = (k, ns, n)"
    and get_pulp_key: "fst (x_GetPulp X ns n w) = Inr p \<Longrightarrow> Pulp_Namespace p = ns \<and> Pulp_Name p = n"
    and create_answer: "key_of (snd (fst (x_DryRunCreate X obj w))) = key_of obj"
    and update_answer: "key_of (snd (fst (x_DryRunUpdate X obj w))) = key_of obj"
begin

lemma within_call:
  assumes "within X P s" "\<And>w. reaches X P w \<Longrightarrow> reaches X P (snd (f w))"
  shows "within_pair X P (call f s)"
  using assms by (simp add: within_pair_def within_def)

lemma within_reads [confined]:
  assumes "within X P s"
  shows "within_pair X P (call (x_Get X k ns n) s)"
    "within_pair X P (call (x_GetPulp X ns n) s)"
    "within_pair X P (call (x_ListJobs X ns labels) s)"
    "within_pair X P (call (x_ListPods X ns labels) s)"
    "within_pair X P (call (x_GetConfig X) s)"
    "within_pair X P (call (x_NewDiscoveryClient X) s)"
    "within_pair X P (call (x_ServerResources X gv) s)"
    "within_pair X P (call (x_Now X) s)"
    "within_pair X P (call (x_Intn X i) s)"
    "within_pair X P (call (x_RandBytes X i) s)"
    "within_pair X P (call (x_GenKeyPEM X) s)"
    "within_pair X P (call (x_RangeOrder X m) s)"
    "within_pair X P (call (x_Schedule X i) s)"
  using assms by (blast intro: within_call reaches.intros)+

lemma within_writes [confined]:
  "within X P s \<Longrightarrow> placed P obj \<Longrightarrow> within_pair X P (call (x_DryRunCreate X obj) s)"
  "within X P s \<Longrightarrow> placed P obj \<Longrightarrow> within_pair X P (call (x_DryRunUpdate X obj) s)"
  "within X P s \<Longrightarrow> placed P obj \<Longrightarrow> within_pair X P (call (x_Create X obj) s)"
  "within X P s \<Longrightarrow> writable P obj \<Longrightarrow> within_pair X P (call (x_Update X obj) s)"
  "within X P s \<Longrightarrow> deletable P obj \<Longrightarrow> within_pair X P (call (x_Delete X obj) s)"
  by (blast intro: within_call reaches.intros)+

lemma within_delete_all:
  "within X P s \<Longrightarrow> k \<in> {KRoute, KIngress} \<Longrightarrow> ns = sc_Namespace P \<Longrightarrow> within_pair X P (call (x_DeleteAllOf X k ns labels) s)"
  by (blast intro: within_call reaches.intros)

lemma within_gets [confined]:
  assumes "within X P s"
  shows "within_pair X P (Get_Secret X n ns s)" "within_pair X P (Get_ConfigMap X n ns s)"
    "within_pair X P (Get_Deployment X n ns s)" "within_pair X P (Get_Ingress X n ns s)"
  unfolding Get_Secret_def Get_ConfigMap_def Get_Deployment_def Get_Ingress_def
  by (assumption | rule assms confined vcg)+

lemma within_Status_Update [confined]: "within X P s \<Longrightarrow> within_pair X P (Status_Update X s)"
  using reaches.status [of X P "st_world s" "st_pulp s"] Status_Update_sel [of s]
  by (simp add: within_pair_def within_def) (simp add: Status_Update_def split_beta)

lemma within_set_Status [confined]: "within X P s \<Longrightarrow> within X P (set_Status f s)"
  by (simp add: within_def)

lemma within_Record_Event [confined]: "within X P s \<Longrightarrow> within X P (Record_Event a b c s)"
  by (simp add: within_def)

lemma placed_writable: "placed P obj \<Longrightarrow> writable P obj"
  by (simp add: writable_def)

text \<open>What was read in the namespace of the resource may be deleted if it is disposable, and written back.\<close>

lemma read_deletable:
  assumes "call (x_Get X k ns n) s = (Inr obj, s')" "ns = sc_Namespace P" "disposable (sc_Name P) k n"
  shows "deletable P obj"
  using get_key [of k ns n "st_world s" obj] assms by (auto simp: call_def split_beta key_of_def deletable_def)

lemma read_placed:
  assumes "call (x_Get X k ns n) s = (Inr obj, s')" "ns = sc_Namespace P"
  shows "placed P obj"
  using get_key [of k ns n "st_world s" obj] assms by (auto simp: call_def split_beta key_of_def placed_def)

end

subsection \<open>Shared operations\<close>

context api_server
begin

lemma within_settings [confined]:
  assumes "within X P s"
  shows "within_pair X P (SettingNeedsMigrationChanged X s)" "within_pair X P (getPulpSetting X key s)"
  unfolding SettingNeedsMigrationChanged_def getPulpSetting_def by (assumption | rule assms confined vcg)+

lemma within_domainEnabled [confined]: "within X P s \<Longrightarrow> within_pair X P (domainEnabled X s)"
  unfolding domainEnabled_def by (assumption | rule confined vcg)+

lemma within_paths [confined]:
  assumes "within X P s"
  shows "within_pair X P (GetAPIRoot X s)" "within_pair X P (GetContentPathPrefix X s)"
    "within_pair X P (RetrieveSecretData X n ns required keys s)" "within_pair X P (IsOpenShift X s)"
  unfolding GetAPIRoot_def GetContentPathPrefix_def RetrieveSecretData_def IsOpenShift_def
  by (assumption | rule assms confined vcg)+

lemma within_HashFromMutated [confined]:
  "within X P s \<Longrightarrow> placed P (DeploymentObj d) \<Longrightarrow> within_pair X P (HashFromMutated X d s)"
  unfolding HashFromMutated_def by (assumption | rule confined vcg)+

lemma within_set_condition_now [confined]: "within X P s \<Longrightarrow> within X P (set_condition_now X t st r m s)"
  unfolding set_condition_now_def by (assumption | rule confined vcg)+

lemma within_UpdateStatus [confined]: "within X P s \<Longrightarrow> within X P (UpdateStatus X st t r m s)"
  unfolding UpdateStatus_def by (assumption | rule confined vcg)+

lemma within_CheckDeploymentSpec [confined]:
  assumes "within X P s" "placed P (DeploymentObj d)"
  shows "within_pair X P (CheckDeploymentSpec X d c s)"
proof -
  have copy: "placed P (DeploymentObj (drop_replicas d))" using assms(2) by (simp add: placed_def drop_replicas_def)
  show ?thesis unfolding CheckDeploymentSpec_def by (assumption | rule assms copy confined vcg)+
qed

lemma within_updateModified [confined]:
  assumes "within X P s" "placed P e"
  shows "within_pair X P (updateModified X k t e c s)"
proof -
  have sent: "placed P (if isRouteOrIngress e then map_Meta (\<lambda>m. m\<lparr>meta_ResourceVersion := meta_ResourceVersion (obj_Meta c)\<rparr>) e else e)"
    using assms(2) by (cases e) (simp_all add: placed_def)
  show ?thesis unfolding updateModified_def by (assumption | rule assms sent placed_writable confined vcg)+
qed

lemma within_modified [confined]:
  assumes "within X P s" "GetFields po e c = Some f" "placed P e"
  shows "within_opt X P (GetModifiedFunc po X f s)"
  using assms(2,3)
  by (cases po; cases f)
     (auto simp: check_deployment_def check_secret_def check_value_def check_meta_def
       intro!: assms(1) confined within_return split: bind_splits elim: dep_of.elims)

lemma within_updateObject [confined]:
  "within X P s \<Longrightarrow> placed P e \<Longrightarrow> within_opt X P (updateObject X po k t e c s)"
  unfolding updateObject_def by (assumption | rule confined vcg)+

lemma within_ReconcileObject [confined]:
  assumes "within X P s" "placed P e"
  shows "within_opt X P (ReconcileObject X e c t po s)" "within_opt X P (ReconcileMetadata X e c t s)"
  unfolding ReconcileObject_def ReconcileMetadata_def by (assumption | rule assms confined vcg)+

lemma within_UpdateCRField [confined]:
  assumes "within X P s"
  shows "within_opt X P (UpdateCRField X f v s)"
proof -
  obtain err p w where patch: "x_PatchPulp X (upd_Spec (set_spec_string f v) (st_pulp s)) (st_pulp s) (st_world s) = ((err, p), w)"
    by (metis surj_pair)
  have "reaches X P w"
    using reaches.patch [of X P "st_world s" "upd_Spec (set_spec_string f v) (st_pulp s)" "st_pulp s"] assms
    by (simp add: within_def patch)
  then have "within X P (s\<lparr>st_pulp := p, st_world := w\<rparr>)"
    using patch_keeps [OF patch] assms by (simp add: within_def )
  with assms show ?thesis
    by (simp add: UpdateCRField_def within_opt_def within_pair_def patch split: bind_split)
qed

lemma within_restartPulpCorePods [confined]: "within X P s \<Longrightarrow> within X P (restartPulpCorePods X s)"
  unfolding restartPulpCorePods_def by (assumption | rule confined vcg)+

lemma within_delete_if_found:
  assumes "within X P s" "ns = sc_Namespace P" "disposable (sc_Name P) k n"
  shows "within X P (delete_if_found X k n ns s)"
  unfolding delete_if_found_def by (assumption | rule assms confined vcg read_deletable | simp)+

lemma within_remove_condition_type [confined]: "within X P s \<Longrightarrow> within X P (remove_condition_type X t s)"
  unfolding remove_condition_type_def by (rule confined)

end

end
