(* ===== verification/Confinement_Tasks.thy ===== *)
theory Confinement_Tasks
  imports Effects
begin

text \<open>
  The operations of the reconciliation, component by component, stay within the calls of the policy.
\<close>

subsection \<open>Provisioning and ingress changes\<close>

context api_server
begin

lemma placed_iff [simp]: "obj_Namespace obj = sc_Namespace P \<Longrightarrow> placed P obj"
  by (simp add: placed_def)

lemma within_RemovePulpWebResources [confined]: "within X P s \<Longrightarrow> within X P (RemovePulpWebResources X s)"
  unfolding RemovePulpWebResources_def
  by (assumption | rule confined vcg within_delete_if_found | simp add: within_sel disposable_def)+

lemma within_createPulpResource:
  assumes "within X P s" "\<And>s. within X P s \<Longrightarrow> places X P (f s)"
  shows "within_opt X P (createPulpResource X d f s)"
  unfolding createPulpResource_def by (assumption | rule assms confined vcg)+

lemma within_createAll:
  assumes "within X P s" "\<And>d f s. (d, f) \<in> set rs \<Longrightarrow> within X P s \<Longrightarrow> places X P (f s)"
  shows "within_opt X P (createAll X rs s)"
  using assms
proof (induction rs arbitrary: s)
  case Nil
  then show ?case by (simp add: within_return)
next
  case (Cons r rs)
  obtain d f where r: "r = (d, f)" by (cases r)
  have f: "\<And>s. within X P s \<Longrightarrow> places X P (f s)" and rest: "\<And>s. within X P s \<Longrightarrow> within_opt X P (createAll X rs s)"
    using Cons r by auto
  show ?case unfolding r createAll.simps
    by (assumption | rule Cons.prems(1) f rest within_createPulpResource vcg)+
qed

lemma within_set_IngressType [confined]: "within X P s \<Longrightarrow> within X P (set_IngressType s)"
  unfolding set_IngressType_def by (rule confined)

lemma within_updateIngressType [confined]: "within X P s \<Longrightarrow> within X P (updateIngressType X s)"
  unfolding updateIngressType_def
  by (assumption | rule confined vcg within_delete_all | simp add: within_sel)+

lemma Get_Ingress_deletable:
  assumes "Get_Ingress X n ns s = (r, s')" "ns = sc_Namespace P"
  shows "deletable P (IngressObj (or_zero zero_Ingress r))"
proof -
  obtain a where a: "call (x_Get X KIngress ns n) s = (a, s')" "r = as_Ingress a"
    using assms(1) by (auto simp: Get_Ingress_def split_beta prod_eq_iff)
  show ?thesis
  proof (cases a rule: as_Ingress.cases)
    case (1 x)
    then show ?thesis
      using read_deletable [of KIngress ns n s "IngressObj x" s' P] a assms(2) by (simp add: disposable_def)
  qed (simp_all add: a(2) deletable_def zero_Ingress_def zero_ObjectMeta_def)
qed

lemma Get_Ingress_found_deletable:
  "Get_Ingress X n ns s = (r, s') \<Longrightarrow> r = Inr ing \<Longrightarrow> ns = sc_Namespace P \<Longrightarrow> deletable P (IngressObj ing)"
  using Get_Ingress_deletable by fastforce

lemma zero_Ingress_deletable: "deletable P (IngressObj zero_Ingress)"
  by (simp add: deletable_def zero_Ingress_def zero_ObjectMeta_def)

lemma within_UpdateIngressClass_ocp [confined]: "within X P s \<Longrightarrow> within X P (UpdateIngressClass_ocp X s)"
  unfolding UpdateIngressClass_ocp_def
  by (assumption | rule confined vcg zero_Ingress_deletable Get_Ingress_found_deletable within_sel(1))+

lemma within_updateIngressClass [confined]: "within X P s \<Longrightarrow> within X P (updateIngressClass X s)"
  unfolding updateIngressClass_def
  by (assumption | rule confined vcg Get_Ingress_deletable within_delete_if_found within_sel(1)
     | simp add: within_sel disposable_def)+

subsection \<open>Prechecks\<close>

lemma within_get_secrets [confined]: "within X P s \<Longrightarrow> within_pair X P (get_secrets X ns names s)"
proof (induction names arbitrary: s)
  case Nil
  then show ?case by (simp add: get_secrets.simps within_return)
next
  case (Cons name names)
  show ?case unfolding get_secrets.simps by (assumption | rule Cons confined vcg)+
qed

lemma within_cluster_checks [confined]:
  assumes "within X P s"
  shows "within_pair X P (checkRouteNotOCP X s)" "within_pair X P (checkCAConfigmap X s)"
    "within_pair X P (checkSecretsAvailability X s)" "within_pair X P (checkLDAPCA X s)"
    "within_pair X P (initializeStatusCondition X s)"
  unfolding checkRouteNotOCP_def checkCAConfigmap_def checkSecretsAvailability_def checkSecretsAvailable_def
    checkLDAPCA_def initializeStatusCondition_def
  by (assumption | rule assms confined vcg)+

lemma within_prechecks [confined]: "within X P s \<Longrightarrow> within_pair X P (prechecks X s)"
  unfolding prechecks_def by (assumption | rule confined vcg)+

subsection \<open>Server settings\<close>

lemma within_setting_parts [confined]:
  assumes "within X P s"
  shows "within_pair X P (addCustomPulpSettings X s cs)" "within_pair X P (databaseSettings X custom s cs)"
    "within_pair X P (cacheSettings X s cs)" "within_pair X P (secretKeySettings X custom s cs)"
    "within_pair X P (ssoConfig X s cs)" "within_pair X P (ldapSettings X s cs)"
    "within_pair X P (needsMigrationSetting X custom s cs)"
  unfolding addCustomPulpSettings_def databaseSettings_def cacheSettings_def secretKeySettings_def ssoConfig_def
    ldapSettings_def needsMigrationSetting_def
  by (assumption | rule assms confined vcg)+

lemma within_storage_settings [confined]:
  assumes "within X P s"
  shows "within_opt X P (azureSettings X custom s cs)" "within_opt X P (gcsSettings X custom s cs)"
    "within_opt X P (s3Settings X custom s cs)"
  unfolding azureSettings_def gcsSettings_def s3Settings_def
  by (assumption | rule assms confined vcg)+

lemma within_pulp_settings [confined]: "within X P s \<Longrightarrow> within_opt X P (pulp_settings X s)"
  unfolding pulp_settings_def by (assumption | rule confined vcg)+

lemma pulpServerSecret_places [confined]: "within X P s \<Longrightarrow> places X P (pulpServerSecret X s)"
  unfolding pulpServerSecret_def by (assumption | rule confined vcg | simp add: within_sel)+

subsection \<open>Secrets, file storage, trusted CA\<close>

text \<open>An object that was read, or the zero object after a failed read, can be written back.\<close>

lemma zero_Meta_nameless: "meta_Name zero_ObjectMeta = []" "meta_GenerateName zero_ObjectMeta = []"
  by (simp_all add: zero_ObjectMeta_def)

lemma Get_Secret_writable:
  assumes "Get_Secret X n ns s = (r, s')" "ns = sc_Namespace P"
  shows "writable P (SecretObj (or_zero zero_Secret r))"
proof -
  obtain a where a: "call (x_Get X KSecret ns n) s = (a, s')" "r = as_Secret a"
    using assms(1) by (auto simp: Get_Secret_def split_beta prod_eq_iff)
  show ?thesis
    using read_placed [of KSecret ns n s _ s' P] a assms(2)
    by (cases a rule: as_Secret.cases) (simp_all add: writable_def placed_def zero_Secret_def zero_Meta_nameless)
qed

lemma Get_ConfigMap_writable:
  assumes "Get_ConfigMap X n ns s = (r, s')" "ns = sc_Namespace P"
  shows "writable P (ConfigMapObj (or_zero zero_ConfigMap r))"
proof -
  obtain a where a: "call (x_Get X KConfigMap ns n) s = (a, s')" "r = as_ConfigMap a"
    using assms(1) by (auto simp: Get_ConfigMap_def split_beta prod_eq_iff)
  show ?thesis
    using read_placed [of KConfigMap ns n s _ s' P] a assms(2)
    by (cases a rule: as_ConfigMap.cases) (simp_all add: writable_def placed_def zero_ConfigMap_def zero_Meta_nameless)
qed

lemma within_random_chars [confined]: "within X P s \<Longrightarrow> within_opt X P (random_chars X chars n s)"
proof (induction n arbitrary: s)
  case 0
  then show ?case by (simp add: within_return)
next
  case (Suc n)
  show ?case unfolding random_chars.simps by (assumption | rule Suc confined vcg)+
qed

lemma secrets_place [confined]:
  assumes "within X P s"
  shows "places X P (pulpDBFieldsEncryptionSecret X s)" "places X P (pulpAdminPasswordSecret X s)"
    "places X P (pulpDjangoKeySecret X s)" "places X P (pulpContainerAuth X s)" "places X P (fileStoragePVC X s)"
  unfolding pulpDBFieldsEncryptionSecret_def pulpAdminPasswordSecret_def pulpDjangoKeySecret_def pulpContainerAuth_def
    createFernetKey_def createPwd_def djangoKey_def genTokenAuthKey_def fileStoragePVC_def
  by (assumption | rule assms confined vcg | simp add: within_sel [OF assms])+

lemma within_reconcileServerSecret [confined]: "within X P s \<Longrightarrow> within_opt X P (reconcileServerSecret X s)"
  unfolding reconcileServerSecret_def by (assumption | rule confined vcg)+

lemma secret_resources_place:
  assumes "(d, f) \<in> set (secret_resources X p a dj db t)" "within X P s"
  shows "places X P (f s)"
  using assms by (auto simp: secret_resources_def Let_def intro: confined)

lemma within_createSecrets [confined]: "within X P s \<Longrightarrow> within_opt X P (createSecrets X s)"
  unfolding createSecrets_def by (assumption | rule confined within_createAll secret_resources_place vcg)+

lemma within_pulpFileStorage [confined]: "within X P s \<Longrightarrow> within_opt X P (pulpFileStorage X s)"
  unfolding pulpFileStorage_def by (assumption | rule confined within_createPulpResource vcg)+

lemma within_caConfigMapChanged [confined]:
  assumes "within X P s" "writable P (ConfigMapObj cm)"
  shows "within_pair X P (caConfigMapChanged X cm s)"
proof -
  have "writable P (ConfigMapObj (cm\<lparr>cm_Meta := SetHashLabel h (cm_Meta cm)\<rparr>))" for h
    using assms(2) by (simp add: writable_def placed_def SetHashLabel_def)
  then show ?thesis unfolding caConfigMapChanged_def by - (assumption | rule assms confined vcg)+
qed

lemma within_configMapTasks [confined]: "within X P s \<Longrightarrow> within_opt X P (configMapTasks X s)"
  unfolding configMapTasks_def by (assumption | rule confined Get_ConfigMap_writable within_sel(1) vcg)+

lemma within_ocp_objects [confined]:
  assumes "within X P s"
  shows "within_pair X P (CreateRHOperatorPullSecret X s)" "within_pair X P (CreateEmptyConfigMap X s)"
  unfolding CreateRHOperatorPullSecret_def CreateEmptyConfigMap_def
  by (assumption | rule assms confined vcg | simp add: within_sel [OF assms])+

subsection \<open>Status\<close>

lemma within_fold:
  assumes "within X P s" "\<And>a s. a \<in> set as \<Longrightarrow> within X P s \<Longrightarrow> within X P (f a s)"
  shows "within X P (fold f as s)"
  using assms by (induction as arbitrary: s) auto

lemma within_setStatus [confined]:
  assumes "within X P s"
  shows "within X P (setStatus X c field s)" "within X P (update_if X c g s)"
  unfolding setStatus_def update_if_def by (assumption | rule assms confined vcg)+

lemma within_setStatusFields [confined]: "within X P s \<Longrightarrow> within X P (setStatusFields X s)"
  unfolding setStatusFields_def by (assumption | rule confined vcg within_fold)+

lemma within_needsIngressStatusUpdate [confined]: "within X P s \<Longrightarrow> within_pair X P (needsIngressStatusUpdate X r s)"
  unfolding needsIngressStatusUpdate_def by (assumption | rule confined vcg)+

lemma within_checkDeployment [confined]: "within X P s \<Longrightarrow> within_state X P (checkDeployment X r s)"
  unfolding checkDeployment_def by (assumption | rule confined vcg)+

lemma within_startedResources [confined]: "within X P s \<Longrightarrow> within_pair X P (startedResources X rs s)"
proof (induction rs arbitrary: s)
  case Nil
  then show ?case by (simp add: within_return)
next
  case (Cons r rs)
  show ?case unfolding startedResources.simps by (assumption | rule Cons confined vcg)+
qed

lemma within_runAll [confined]: "within X P s \<Longrightarrow> within_state X P (runAll X rs s)"
proof (induction rs arbitrary: s)
  case Nil
  then show ?case by (simp add: within_return)
next
  case (Cons r rs)
  show ?case unfolding runAll.simps by (assumption | rule Cons confined vcg)+
qed

lemma within_Get_Pulp [confined]:
  assumes "within X P s"
  shows "within X P (Get_Pulp X s)"
proof -
  obtain r w where r: "x_GetPulp X (Pulp_Namespace (st_pulp s)) (Pulp_Name (st_pulp s)) (st_world s) = (r, w)"
    by (metis surj_pair)
  have w: "reaches X P w"
    using reaches.get_pulp [OF within_sel(3) [OF assms], of "Pulp_Namespace (st_pulp s)" "Pulp_Name (st_pulp s)"]
    unfolding r by simp
  have get: "Get_Pulp X s = s\<lparr>st_world := w, st_pulp := or_zero (st_pulp s) r\<rparr>"
    by (simp add: Get_Pulp_def call_def r)
  show ?thesis
  proof (cases r)
    case (Inr p)
    then have "Pulp_Namespace p = Pulp_Namespace (st_pulp s) \<and> Pulp_Name p = Pulp_Name (st_pulp s)"
      using get_pulp_key [of "Pulp_Namespace (st_pulp s)" "Pulp_Name (st_pulp s)" "st_world s" p] unfolding r by simp
    with Inr w assms show ?thesis by (simp add: get within_def)
  qed (use w assms in \<open>simp add: get within_def\<close>)
qed

lemma within_checkReady [confined]:
  assumes "within X P s"
  shows "within_pair X P (finishExecution X s)" "within_pair X P (checkReady X rs s)"
  unfolding checkReady_def finishExecution_def by (assumption | rule assms confined vcg)+

lemma within_pulpStatus [confined]: "within X P s \<Longrightarrow> within_opt X P (pulpStatus X s)"
  unfolding pulpStatus_def setStatusConditions_def by (assumption | rule confined vcg)+

subsection \<open>Jobs\<close>

lemma within_get_secret_or_zero [confined]: "within X P s \<Longrightarrow> within_pair X P (get_secret_or_zero X n s)"
  unfolding get_secret_or_zero_def by (assumption | rule confined vcg)+

lemma get_secret_or_zero_writable:
  assumes "get_secret_or_zero X n s = (secret, s')" "within X P s"
  shows "writable P (SecretObj secret)"
  using assms Get_Secret_writable [of n "Pulp_Namespace (st_pulp s)" s _ s' P]
  by (auto simp: get_secret_or_zero_def split_beta within_sel prod_eq_iff)

lemma within_update_hash_label [confined]:
  assumes "within X P s" "writable P (SecretObj secret)"
  shows "within X P (update_hash_label X secret s)"
proof -
  have "writable P (SecretObj (secret\<lparr>sec_Meta := SetHashLabel h (sec_Meta secret)\<rparr>))" for h
    using assms(2) by (simp add: writable_def placed_def SetHashLabel_def)
  then show ?thesis unfolding update_hash_label_def by - (assumption | rule assms confined vcg)+
qed

lemma within_commonJob [confined]: "within X P s \<Longrightarrow> within_pair X P (commonJob X c s)"
  unfolding commonJob_def by (assumption | rule confined vcg)+

lemma own_job_placed:
  assumes "commonJob X (job_config p n c t cs vs) s = (job, s')" "Pulp_Namespace p = sc_Namespace P"
  shows "placed P (own_job q (job_Template_update f job))"
    "placed P (own_job q job)"
  using assms by (auto simp: commonJob_def split_beta own_job_def job_config_def placed_def)

lemmas job_rules = own_job_placed get_secret_or_zero_writable within_sel(1)

lemma within_updateAdminPasswordJob [confined]: "within X P s \<Longrightarrow> within_state X P (updateAdminPasswordJob X s)"
  unfolding updateAdminPasswordJob_def by (assumption | rule confined vcg job_rules)+

lemma within_migrationJob [confined]: "within X P s \<Longrightarrow> within_state X P (migrationJob X s)"
  unfolding migrationJob_def by (assumption | rule confined vcg job_rules)+

lemma within_updateContentChecksumsJob [confined]: "within X P s \<Longrightarrow> within_state X P (updateContentChecksumsJob X s)"
  unfolding updateContentChecksumsJob_def by (assumption | rule confined vcg job_rules)+

lemma within_signingScriptContainer [confined]: "within X P s \<Longrightarrow> within_opt X P (signingScriptContainer X secret s)"
  unfolding signingScriptContainer_def GetSigningKeyFingerprint_def by (assumption | rule confined vcg)+

lemma within_signingScriptJob [confined]: "within X P s \<Longrightarrow> within_state X P (signingScriptJob X s)"
  unfolding signingScriptJob_def by (assumption | rule confined vcg job_rules)+

lemma within_job_lists [confined]:
  assumes "within X P s"
  shows "within_opt X P (migrationDone X s)" "within_pair X P (hasActiveJobRunning X s)"
  unfolding migrationDone_def hasActiveJobRunning_def getMigrationJobs_def by (assumption | rule assms confined vcg)+

lemma within_record_setting [confined]: "within X P s \<Longrightarrow> within X P (record_setting X f s)"
  unfolding record_setting_def by (assumption | rule confined vcg)+

lemma within_needsMigration [confined]: "within X P s \<Longrightarrow> within_opt X P (needsMigration X s)"
  unfolding needsMigration_def by (assumption | rule confined vcg within_fold)+

lemma within_job_tasks [confined]:
  assumes "within X P s"
  shows "within_state X P (runMigration X s)" "within_state X P (runSigningScriptJob X s)"
    "within_pair X P (runSigningSecretTasks X s)"
  unfolding runMigration_def runSigningScriptJob_def runSigningSecretTasks_def secretModified_def
  by (assumption | rule assms confined vcg job_rules)+

end

end
