(* ===== verification/Confinement.thy ===== *)
theory Confinement
  imports Confinement_Tasks
begin

text \<open>
  The controllers of the components, and the reconciliation as a whole, stay within the calls of the policy.
\<close>

subsection \<open>The pulpcore Deployments\<close>

context api_server
begin

lemma within_labels_annotations [confined]:
  assumes "within X P s"
  shows "within_pair X P (setLabels t d s)" "within_opt X P (setAnnotations t d s)"
  using assms
  by (auto simp: setLabels_def PulpcorePodLabels_def setAnnotations_def within_pair_def within_opt_def within_def Let_def
      split: option.splits bind_splits prod.splits)

lemma within_setters [confined]:
  assumes "within X P s"
  shows "within_opt X P (setEnvVars X t d s)" "within_opt X P (setVolumes X t d s)"
    "within_pair X P (setLDAPConfigs X d s)" "within_opt X P (setReadinessProbe X t d s)"
    "within_opt X P (setLivenessProbe X t d s)" "within_opt X P (setInitContainers X t d s)"
  unfolding setEnvVars_def signing_key_env_def GetSigningKeyFingerprint_def setVolumes_def signingMetadataVolumes_def
    setLDAPConfigs_def setReadinessProbe_def setLivenessProbe_def setInitContainers_def setGpgInitContainer_def
  by (assumption | rule assms confined vcg)+

lemma within_build [confined]: "within X P s \<Longrightarrow> within_opt X P (build X t d s)"
  unfolding build_def by (assumption | rule confined vcg)+

text \<open>The dry runs answer with the Deployment they were given, completed by the server.\<close>

lemma as_dep_namespace:
  "key_of obj = key_of (DeploymentObj d) \<Longrightarrow> meta_Namespace (dep_Meta (as_dep d obj)) = meta_Namespace (dep_Meta d)"
  by (cases obj) (simp_all add: key_of_def)

lemma HashFromMutated_namespace:
  "HashFromMutated X d s = ((h, d'), s') \<Longrightarrow> meta_Namespace (dep_Meta d') = meta_Namespace (dep_Meta d)"
  using as_dep_namespace [OF update_answer, of d "st_world s"]
  by (auto simp: HashFromMutated_def split_beta Let_def)

lemma AddHashLabel_namespace:
  assumes "AddHashLabel X d s = (d', s')"
  shows "meta_Namespace (dep_Meta d') = meta_Namespace (dep_Meta d)"
proof -
  obtain err obj s1 where c: "call (x_DryRunCreate X (DeploymentObj d)) s = ((err, obj), s1)" by (metis surj_pair)
  then have "meta_Namespace (dep_Meta (as_dep d obj)) = meta_Namespace (dep_Meta d)"
    using as_dep_namespace [OF create_answer, of d "st_world s"] call_sel(1) [of "x_DryRunCreate X (DeploymentObj d)" s]
    by (metis fst_conv snd_conv)
  moreover obtain h m s2 where m: "HashFromMutated X d s1 = ((h, m), s2)" by (metis surj_pair)
  ultimately show ?thesis
    using assms HashFromMutated_namespace [OF m]
    by (auto simp: AddHashLabel_def c m Let_def SetHashLabel_def split: if_splits)
qed

lemma within_AddHashLabel [confined]:
  "within X P s \<Longrightarrow> placed P (DeploymentObj d) \<Longrightarrow> within_pair X P (AddHashLabel X d s)"
  unfolding AddHashLabel_def by (assumption | rule confined vcg)+

lemma within_Deploy [confined]:
  assumes "within X P s"
  shows "within_opt X P (Deploy X t s)"
  unfolding Deploy_def
  by (assumption | rule assms confined vcg | simp add: deployment_of_def within_sel)+

lemma Deploy_namespace:
  assumes "Deploy X t s = Some (d, s')" "within X P s"
  shows "meta_Namespace (dep_Meta d) = sc_Namespace P"
proof -
  obtain c s1 where b: "build X t zero_CommonDeployment s = Some (c, s1)"
    and d: "d = own_deployment (st_pulp s1) (fst (AddHashLabel X (deployment_of (st_pulp s1) t c) s1)) "
    using assms(1) by (auto simp: Deploy_def split_beta Let_def split: bind_splits)
  have "within X P s1" using within_build [OF assms(2)] b by (rule within_opt_Some)
  then show ?thesis
    using AddHashLabel_namespace [of "deployment_of (st_pulp s1) t c" s1]
    by (cases "AddHashLabel X (deployment_of (st_pulp s1) t c) s1")
       (simp add: d own_deployment_def deployment_of_def within_sel)
qed

lemma within_Deploy_OCP [confined]:
  assumes "within X P s"
  shows "within_opt X P (Deploy_OCP X t s)"
  unfolding Deploy_OCP_def
  by (assumption | rule assms confined vcg | simp add: defaultsForOCPDeployment_def Deploy_namespace [OF _ assms])+

lemma Deploy_OCP_namespace:
  assumes "Deploy_OCP X t s = Some (d, s')" "within X P s"
  shows "meta_Namespace (dep_Meta d) = sc_Namespace P"
proof -
  obtain e s1 where e: "Deploy X t s = Some (e, s1)" "AddHashLabel X (defaultsForOCPDeployment e) s1 = (d, s')"
    using assms(1) by (auto simp: Deploy_OCP_def split: bind_splits)
  then show ?thesis
    using Deploy_namespace [OF e(1) assms(2)] AddHashLabel_namespace [OF e(2)] by (simp add: defaultsForOCPDeployment_def)
qed

lemma Deployer_places [confined]:
  assumes "within X P s"
  shows "places X P (Deployer_Deploy X deployer s)"
proof (cases deployer)
  case (DeploymentVanilla t)
  show ?thesis unfolding DeploymentVanilla Deployer_Deploy.simps
    by (assumption | rule assms confined vcg | simp add: Deploy_namespace [OF _ assms])+
next
  case (DeploymentOCP t)
  show ?thesis unfolding DeploymentOCP Deployer_Deploy.simps
    by (assumption | rule assms confined vcg | simp add: Deploy_OCP_namespace [OF _ assms])+
qed

lemma services_place [confined]:
  assumes "within X P s"
  shows "places X P (serviceForAPI s)" "places X P (serviceForContent s)" "places X P (OtelConfigMap s)"
    "places X P (ServiceOtel s)" "places X P (postgresConnectionConfigMap s)"
  unfolding serviceForAPI_def serviceForContent_def OtelConfigMap_def ServiceOtel_def postgresConnectionConfigMap_def
  by (assumption | rule assms confined vcg
     | simp add: within_sel [OF assms] own_service_def serviceAPIObject_def serviceContentObject_def)+

lemma within_RemoveTelemetryResources [confined]: "within X P s \<Longrightarrow> within X P (RemoveTelemetryResources X s)"
  unfolding RemoveTelemetryResources_def
  by (assumption | rule confined vcg within_delete_if_found | simp add: within_sel disposable_def)+

lemma within_get_or_zero [confined]: "within X P s \<Longrightarrow> within_pair X P (get_or_zero X zero n s)"
  unfolding get_or_zero_def by (assumption | rule confined vcg)+

lemma within_ensureObject:
  assumes "within X P s" "\<And>s. within X P s \<Longrightarrow> places X P (f s)"
  shows "within_opt X P (ensureObject X ct zero n f po s)"
  unfolding ensureObject_def by (assumption | rule assms confined vcg)+

lemma within_ensureAll:
  assumes "within X P s" "\<And>z n f po s. (z, n, f, po) \<in> set rs \<Longrightarrow> within X P s \<Longrightarrow> places X P (f s)"
  shows "within_opt X P (ensureAll X ct rs s)"
  using assms
proof (induction rs arbitrary: s)
  case Nil
  then show ?case by (simp add: within_return)
next
  case (Cons r rs)
  obtain z n f po where r: "r = (z, n, f, po)" by (metis surj_pair)
  have f: "\<And>s. within X P s \<Longrightarrow> places X P (f s)"
    using Cons.prems(2) [of z n f po] by (simp add: r)
  have rest: "\<And>s. within X P s \<Longrightarrow> within_opt X P (ensureAll X ct rs s)"
    by (rule Cons.IH) (assumption | rule Cons.prems(2) list.set_intros(2))+
  show ?case unfolding r ensureAll.simps
    by (assumption | rule Cons.prems(1) f rest within_ensureObject vcg)+
qed

lemma within_initDeployment [confined]: "within X P s \<Longrightarrow> within_pair X P (initDeployment X dt s)"
  unfolding initDeployment_def by (assumption | rule confined vcg)+

lemma pulpcore_resources_place:
  "(d, f) \<in> set (api_resources X p (Deployer_Deploy X g)) \<Longrightarrow> within X P s \<Longrightarrow> places X P (f s)"
  "(d, f) \<in> set (content_resources p (Deployer_Deploy X g)) \<Longrightarrow> within X P s \<Longrightarrow> places X P (f s)"
  "(z, n, f, po) \<in> set (api_objects p (Deployer_Deploy X g)) \<Longrightarrow> within X P s \<Longrightarrow> places X P (f s)"
  by (auto simp: api_resources_def content_resources_def api_objects_def Let_def intro: confined split: if_splits)

lemma content_objects_place:
  assumes "(z, n, f, po) \<in> set [(z1, n1, Deployer_Deploy X d, o1), (z2, n2, serviceForContent, o2)]" "within X P s"
  shows "places X P (f s)"
  using assms by (auto intro: confined)

lemma within_pulpcore_controllers [confined]:
  assumes "within X P s"
  shows "within_opt X P (pulpApiController X s)" "within_opt X P (pulpContentController X s)"
  unfolding pulpApiController_def pulpContentController_def
  by (assumption | rule assms confined vcg within_createAll within_ensureAll
     | erule (1) content_objects_place pulpcore_resources_place)+

lemma within_workers [confined]:
  assumes "within X P s"
  shows "within_opt X P (createProbeConfigMap X ct s)" "within_opt X P (workerDeployment X ct s)"
    "within_opt X P (pulpWorkerController X s)"
  unfolding pulpWorkerController_def createProbeConfigMap_def workerDeployment_def
  by (assumption | rule assms confined vcg within_createPulpResource within_ensureObject)+

subsection \<open>Disruption budgets, autoscalers, service account\<close>

lemma within_case_PDB:
  "(\<And>c. obj = PDBObj c \<Longrightarrow> within_pair X P (f c)) \<Longrightarrow> within_pair X P e \<Longrightarrow>
    within_pair X P (case obj of PDBObj c \<Rightarrow> f c | _ \<Rightarrow> e)"
  by (cases obj) simp_all

lemma within_case_HPA:
  "(\<And>c. obj = HPAObj c \<Longrightarrow> within_pair X P (f c)) \<Longrightarrow> within_pair X P e \<Longrightarrow>
    within_pair X P (case obj of HPAObj c \<Rightarrow> f c | _ \<Rightarrow> e)"
  by (cases obj) simp_all

lemma within_set_pulp:
  "within X P s \<Longrightarrow> Pulp_Meta p = Pulp_Meta (st_pulp s') \<Longrightarrow> within X P s' \<Longrightarrow> within X P (s\<lparr>st_pulp := p\<rparr>)"
  by (simp add: within_def)

lemma within_case_pair:
  "within_pair X P e \<Longrightarrow> (\<And>a s. within X P s \<Longrightarrow> within_pair X P (f a s)) \<Longrightarrow> within_pair X P (case_prod f e)"
  by (cases e) (simp add: within_pair_def)

lemma read_disposable:
  "call (x_Get X k ns n) s = (r, s') \<Longrightarrow> r = Inr obj \<Longrightarrow> ns = sc_Namespace P \<Longrightarrow> k \<in> {KPDB, KHPA, KIngress} \<Longrightarrow> deletable P obj"
  using read_deletable [of k ns n s obj s' P] by (simp add: disposable_def)

lemma within_reconcilePDB [confined]:
  assumes s: "within X P s"
  shows "within_pair X P (reconcilePDB X t s)"
proof -
  have e: "placed P (PDBObj (expectedPDB (st_pulp s) t pdb))"
    "placed P (PDBObj (expectedPDB (st_pulp s) t pdb\<lparr>pdb_Meta := pdb_Meta (expectedPDB (st_pulp s) t pdb)\<lparr>meta_ResourceVersion := v\<rparr>\<rparr>))" for pdb v
    using s by (simp_all add: expectedPDB_def within_sel)
  show ?thesis unfolding reconcilePDB_def
    by (assumption | rule s e confined vcg placed_writable within_case_PDB read_disposable within_sel(1) | erule within_set_pulp | simp)+
qed

lemma within_pdb_loop [confined]: "within X P s \<Longrightarrow> within_pair X P (pdb_loop X ts s)"
proof (induction ts arbitrary: s)
  case Nil
  then show ?case by (simp add: within_return)
next
  case (Cons t ts)
  show ?case unfolding pdb_loop.simps
    by (rule within_case_pair) (assumption | rule Cons confined vcg)+
qed

lemma within_pdbController [confined]: "within X P s \<Longrightarrow> within_pair X P (pdbController X s)"
  unfolding pdbController_def by (assumption | rule confined vcg)+

lemma own_hpa_placed: "within X P s \<Longrightarrow> placed P (HPAObj (own_hpa (st_pulp s) (buildHPA (st_pulp s) t c)))"
  by (simp add: own_hpa_def buildHPA_def within_sel Let_def)

lemma read_hpa_placed:
  "call (x_Get X k ns n) s = (r, s') \<Longrightarrow> r = Inr obj \<Longrightarrow> obj = HPAObj h \<Longrightarrow> ns = sc_Namespace P \<Longrightarrow>
    placed P (HPAObj (h\<lparr>hpa_Spec := sp\<rparr>))"
  using read_placed [of k ns n s obj s' P] by (simp add: placed_def)

lemma within_reconcileHPA [confined]: "within X P s \<Longrightarrow> within_pair X P (reconcileHPA X t s)"
  unfolding reconcileHPA_def
  by (assumption | rule confined vcg placed_writable within_case_HPA read_disposable read_hpa_placed own_hpa_placed within_sel(1) | simp)+

lemma within_hpa_loop [confined]: "within X P s \<Longrightarrow> within_pair X P (hpa_loop X ts s)"
proof (induction ts arbitrary: s)
  case Nil
  then show ?case by (simp add: within_return)
next
  case (Cons t ts)
  show ?case unfolding hpa_loop.simps by (assumption | rule Cons confined vcg)+
qed

lemma within_hpaController [confined]: "within X P s \<Longrightarrow> within_pair X P (hpaController X s)"
  unfolding hpaController_def by (assumption | rule confined vcg)+

lemma within_create_step [confined]:
  assumes "within X P s" "placed P obj"
  shows "within_pair X P (create_step X ct a b c d e obj s)" "within_pair X P (createRbac X k n m1 m2 obj s)"
  unfolding createRbac_def create_step_def by (assumption | rule assms confined vcg)+

lemma within_pulpSA [confined]: "within X P s \<Longrightarrow> within_pair X P (pulpSA s)"
  by (simp add: within_pair_def within_def pulpSA_def Let_def)

lemma pulpSA_placed: "pulpSA s = (sa, s') \<Longrightarrow> within X P s \<Longrightarrow> placed P (ServiceAccountObj sa)"
  by (auto simp: pulpSA_def Let_def within_sel)

lemma role_placed:
  assumes "within X P s"
  shows "placed P (RoleObj (pulpRole (st_pulp s)))" "placed P (RoleBindingObj (pulpRoleBinding (st_pulp s)))"
  using assms by (simp_all add: within_sel pulpRole_def pulpRoleBinding_def)

lemma within_rbac [confined]:
  assumes "within X P s"
  shows "within_pair X P (CreateRoleBinding X s)" "within_pair X P (CreateRole X s)"
  unfolding CreateRole_def CreateRoleBinding_def by (assumption | rule assms confined vcg role_placed)+

lemma within_CreateServiceAccount [confined]: "within X P s \<Longrightarrow> within_pair X P (CreateServiceAccount X s)"
  unfolding CreateServiceAccount_def getInternalRegistrySecret_def
  by (assumption | rule confined vcg pulpSA_placed)+

subsection \<open>Database and cache\<close>

lemma own_placed: "placed P obj \<Longrightarrow> placed P (own p obj)"
  by (cases obj) (simp_all add: own_def placed_def set_controller_def)

lemma within_update_step [confined]:
  assumes "within X P s" "placed P obj"
  shows "within_pair X P (update_step X ct a b c d e f g obj s)"
  unfolding update_step_def by (assumption | rule assms confined vcg placed_writable)+

lemma PodLabels_meta [simp]: "Pulp_Meta (snd (PulpcorePodLabels p t)) = Pulp_Meta p"
  by (simp add: PulpcorePodLabels_def Let_def split: option.split)

lemma within_pod_labels:
  "PulpcorePodLabels p t = (l, m) \<Longrightarrow> Pulp_Meta p = Pulp_Meta (st_pulp s') \<Longrightarrow> within X P s' \<Longrightarrow> within X P s \<Longrightarrow>
    within X P (s\<lparr>st_pulp := m\<rparr>)"
  using PodLabels_meta [of p t] by (simp add: within_def)

lemma within_statefulSetForDatabase [confined]: "within X P s \<Longrightarrow> within_opt X P (statefulSetForDatabase X s)"
  unfolding statefulSetForDatabase_def labelsForDatabasePods_def
  by (assumption | rule confined vcg within_pod_labels refl)+

lemma statefulSet_placed:
  "statefulSetForDatabase X s = Some (e, s') \<Longrightarrow> within X P s \<Longrightarrow> placed P (StatefulSetObj e)"
  by (auto simp: statefulSetForDatabase_def within_sel split_beta Let_def split: bind_splits)

lemma databaseConfigSecret_placed:
  "databaseConfigSecret X s = Some (e, s') \<Longrightarrow> within X P s \<Longrightarrow> placed P (SecretObj e)"
  by (auto simp: databaseConfigSecret_def within_sel split_beta Let_def split: bind_splits)

lemma serviceForDatabase_placed: "within X P s \<Longrightarrow> placed P (ServiceObj (serviceForDatabase (st_pulp s)))"
  by (simp add: serviceForDatabase_def within_sel)

lemma within_databaseConfigSecret [confined]: "within X P s \<Longrightarrow> within_opt X P (databaseConfigSecret X s)"
  unfolding databaseConfigSecret_def createPwd_def by (assumption | rule confined vcg)+

lemma within_database [confined]:
  assumes "within X P s"
  shows "within_pair X P (databaseService X ct s)" "within_opt X P (databaseStatefulSet X ct s)"
    "within_opt X P (databaseController X s)"
  unfolding databaseController_def databaseStatefulSet_def databaseService_def
  by (assumption | rule assms confined vcg own_placed statefulSet_placed databaseConfigSecret_placed serviceForDatabase_placed)+

lemma within_plain_steps [confined]:
  assumes "within X P s" "placed P obj"
  shows "within_pair X P (create_plain X a b obj s)" "within_pair X P (update_plain X c d e obj s)"
  unfolding create_plain_def update_plain_def by (assumption | rule assms confined vcg placed_writable)+

lemma redis_meta: "Pulp_Meta (redis_cr p) = Pulp_Meta p"
  by (simp add: redis_cr_def)

lemma redis_placed:
  assumes "within X P s"
  shows "placed P (ServiceObj (redisSvc (st_pulp s)))" "redisDataPVC X (st_pulp s) = Some pvc \<Longrightarrow> placed P (PVCObj pvc)"
    "placed P (DeploymentObj (redis_dep X (st_pulp s) storage b l))"
  using assms by (auto simp: redisSvc_def redisDataPVC_def redis_dep_def within_sel Let_def split: if_splits)

lemma within_redisDeployment [confined]: "within X P s \<Longrightarrow> within_opt X P (redisDeployment X s)"
  unfolding redisDeployment_def labelsForCachePods_def
  by (assumption | rule confined vcg within_pod_labels redis_meta redis_placed)+

lemma redisDeployment_placed:
  assumes "redisDeployment X s = Some (d, s')" "within X P s"
  shows "placed P (DeploymentObj d)"
proof -
  obtain storage b l p s1 where d: "d = own_deployment p (fst (AddHashLabel X (redis_dep X (st_pulp s) storage b l) s1))"
    using assms(1) by (auto simp: redisDeployment_def split_beta Let_def split: bind_splits)
  show ?thesis
    using AddHashLabel_namespace [OF surjective_pairing, of "redis_dep X (st_pulp s) storage b l" s1] assms(2)
    by (simp add: d own_deployment_def redis_dep_def within_sel Let_def)
qed

lemma within_cache_steps [confined]:
  assumes "within X P s"
  shows "within_opt X P (cacheClaim X s)" "within_pair X P (cacheService X s)" "within X P (set_managed_cache X s)"
    "within_opt X P (cacheDeployment X ct s)"
  unfolding cacheClaim_def cacheService_def cacheDeployment_def set_managed_cache_def
  by (assumption | rule assms confined vcg own_placed redis_placed redisDeployment_placed)+

lemma within_pulpCacheController [confined]: "within X P s \<Longrightarrow> within_opt X P (pulpCacheController X s)"
  unfolding pulpCacheController_def by (assumption | rule confined vcg)+

lemma read_unless_missing:
  "call (x_Get X k ns n) s = (r, s') \<Longrightarrow> r = Inr obj \<Longrightarrow> ns = sc_Namespace P \<Longrightarrow> disposable (sc_Name P) k n \<Longrightarrow> deletable P obj"
  using read_deletable [of k ns n s obj s' P] by simp

lemma within_delete_unless_missing:
  assumes "within X P s" "obj_Name zero = []" "disposable (sc_Name P) (obj_Kind zero) n"
  shows "within X P (delete_unless_missing X zero n s)"
proof -
  have "deletable P zero" using assms(2) by (simp add: deletable_def)
  then show ?thesis unfolding delete_unless_missing_def
    by - (assumption | rule assms confined vcg read_unless_missing within_sel(1))+
qed

lemma within_deprovisionCache [confined]: "within X P s \<Longrightarrow> within_pair X P (deprovisionCache X s)"
  unfolding deprovisionCache_def
  by (assumption | rule confined vcg within_delete_unless_missing
     | simp add: zero_Service_def zero_Deployment_def zero_Meta_nameless disposable_def within_sel)+

subsection \<open>Web, Ingresses and Routes\<close>

lemma within_web_parts [confined]:
  assumes "within X P s"
  shows "within_pair X P (pulpWebConfigMap X s)" "within_pair X P (web_readiness X s)"
  unfolding pulpWebConfigMap_def web_readiness_def by (assumption | rule assms confined vcg)+

lemma web_placed:
  assumes "within X P s"
  shows "pulpWebConfigMap X s = (cm, s') \<Longrightarrow> placed P (ConfigMapObj cm)"
    "serviceForPulpWeb (st_pulp s) = Some svc \<Longrightarrow> placed P (ServiceObj svc)"
    "placed P (DeploymentObj (web_dep X (st_pulp s) j b l))"
  using assms
  by (auto simp: pulpWebConfigMap_def serviceForPulpWeb_def web_dep_def within_sel split_beta Let_def split: bind_splits)

lemma own_service_placed: "placed P (ServiceObj svc) \<Longrightarrow> placed P (own_service p svc)"
  by (simp add: own_service_def placed_def set_controller_def)

lemma within_deploymentForPulpWeb [confined]: "within X P s \<Longrightarrow> within_pair X P (deploymentForPulpWeb X s)"
  unfolding deploymentForPulpWeb_def labelsForPulpWebPods_def
  by (assumption | rule confined vcg within_pod_labels refl web_placed)+

lemma deploymentForPulpWeb_placed:
  assumes "deploymentForPulpWeb X s = (d, s')" "within X P s"
  shows "placed P (DeploymentObj d)"
proof -
  obtain j b l p s1 where d: "d = own_deployment p (fst (AddHashLabel X (web_dep X (st_pulp s) j b l) s1))"
    using assms(1) by (auto simp: deploymentForPulpWeb_def split_beta Let_def)
  show ?thesis
    using AddHashLabel_namespace [OF surjective_pairing, of "web_dep X (st_pulp s) j b l" s1] assms(2)
    by (simp add: d own_deployment_def web_dep_def within_sel Let_def)
qed

lemma within_web [confined]:
  assumes "within X P s"
  shows "within_opt X P (webService X ct s)" "within_opt X P (webDeployment X ct s)" "within_opt X P (pulpWebController X s)"
  unfolding pulpWebController_def webDeployment_def webService_def
  by (assumption | rule assms confined vcg own_service_placed web_placed(1,2) deploymentForPulpWeb_placed)+

lemma within_defaultPlugins [confined]: "within X P s \<Longrightarrow> within_pair X P (defaultPlugins X s)"
  unfolding defaultPlugins_def by (assumption | rule confined vcg)+

lemma within_getOrCreateIngress [confined]:
  assumes "within X P s" "placed P (IngressObj e)"
  shows "within_pair X P (getOrCreateIngress X ct e b s)"
  unfolding getOrCreateIngress_def by (assumption | rule assms confined vcg)+

lemma ingress_placed:
  assumes "within X P s"
  shows "placed P (IngressObj (IngressDefaults (st_pulp s)))"
    "placed P (IngressObj (with_paths p a ps (IngressDefaults (st_pulp s)
      \<lparr>ing_Meta := ing_Meta (IngressDefaults (st_pulp s))\<lparr>meta_Name := n\<rparr>\<rparr>)))"
    "placed P (IngressObj (Deploy_IngressNginx (st_pulp s) plugins))"
    "placed P (IngressObj (Deploy_IngressOthers (st_pulp s) plugins))"
    "placed P (IngressObj (deployOCPIngress (st_pulp s) plugins))"
  using assms
  by (simp_all add: IngressDefaults_def with_paths_def Deploy_IngressNginx_def Deploy_IngressOthers_def deployOCPIngress_def
      within_sel Let_def split_beta)

lemma within_deployOCPIngressRedirect [confined]: "within X P s \<Longrightarrow> within_opt X P (deployOCPIngressRedirect X plugins s)"
  unfolding deployOCPIngressRedirect_def by (assumption | rule confined vcg ingress_placed(2))+

lemma within_initIngress [confined]: "within X P s \<Longrightarrow> within_pair X P (initIngress X s)"
  unfolding initIngress_def by (assumption | rule confined vcg)+

lemma within_Deploy_Ingress [confined]:
  assumes "within X P s"
  shows "within_opt X P (Deploy_Ingress X ingress plugins s)"
proof (cases ingress)
  case IngressOCP
  show ?thesis unfolding IngressOCP Deploy_Ingress.simps by (assumption | rule assms confined vcg)+
qed (simp_all add: assms within_return)

lemma Deploy_Ingress_placed:
  assumes "Deploy_Ingress X ingress plugins s = Some (r, s')" "r = Inr e" "within X P s"
  shows "placed P (IngressObj e)"
proof (cases ingress)
  case IngressOCP
  then obtain s1 where "deployOCPIngressRedirect X plugins s = Some (None, s1)" "e = deployOCPIngress (st_pulp s1) plugins"
    using assms(1,2) by (auto split: bind_splits option.splits)
  then show ?thesis
    using ingress_placed(5) [OF within_opt_Some [OF within_deployOCPIngressRedirect [OF assms(3)]]] by simp
qed (use assms in \<open>auto simp: ingress_placed\<close>)

lemma within_ContainerExec:
  assumes "within X P s" "ns = sc_Namespace P"
  shows "within_pair X P (call (ContainerExec X pod command container ns) s)"
proof (rule within_call [OF assms(1)])
  fix w assume "reaches X P w"
  from reaches.exec [OF this, of pod container command] show "reaches X P (snd (ContainerExec X pod command container ns w))"
    by (auto simp: ContainerExec_def assms(2) split_beta Let_def split: sum.split)
qed

lemma within_pod_plugins [confined]: "within X P s \<Longrightarrow> within_pair X P (pod_plugins X t c ct reason s)"
  unfolding pod_plugins_def by (assumption | rule confined vcg within_ContainerExec within_sel(1))+

lemma within_ingress [confined]:
  assumes "within X P s"
  shows "within_opt X P (ingressReady X ct e s)" "within_opt X P (pulpIngressController X s)"
    "placed P (IngressObj e) \<Longrightarrow> within_opt X P (reconcileIngress X ct e s)"
  unfolding pulpIngressController_def reconcileIngress_def ingressReady_def
  by (assumption | rule assms confined vcg Deploy_Ingress_placed)+

lemma within_PulpRouteObject [confined]: "within X P s \<Longrightarrow> within_pair X P (PulpRouteObject X p h s)"
  unfolding PulpRouteObject_def route_certificates_def by (assumption | rule confined vcg)+

lemma PulpRouteObject_placed: "PulpRouteObject X p h s = (r, s') \<Longrightarrow> within X P s \<Longrightarrow> placed P (RouteObj r)"
  by (auto simp: PulpRouteObject_def within_sel split_beta Let_def)

lemma within_reconcileRoute [confined]:
  assumes "within X P s" "placed P (RouteObj e)"
  shows "within_opt X P (reconcileRoute X ct e c s)"
  unfolding reconcileRoute_def by (assumption | rule assms confined vcg)+

lemma within_threads [confined]:
  assumes "within X P s"
  shows "within_opt X P (provisionRoute X p h s)" "within X P (routesStarted X s)" "within_opt X P (runThread X ps h i s)"
  unfolding runThread_def provisionRoute_def routesStarted_def
  by (assumption | rule assms confined vcg PulpRouteObject_placed)+

lemma within_runThreads [confined]: "within X P s \<Longrightarrow> within_opt X P (runThreads X ps h is s)"
proof (induction "is" arbitrary: s)
  case Nil
  then show ?case by (simp add: within_return)
next
  case (Cons i "is")
  show ?case unfolding runThreads.simps by (assumption | rule Cons confined vcg)+
qed

lemma within_PulpRouteController [confined]: "within X P s \<Longrightarrow> within_opt X P (PulpRouteController X s)"
  unfolding PulpRouteController_def by (assumption | rule confined vcg)+

subsection \<open>Reconcile\<close>

lemma within_requeueing:
  "(\<And>s. within X P s \<Longrightarrow> within_opt X P (f s)) \<Longrightarrow> within X P s \<Longrightarrow> within_opt X P (requeueing f s)"
  unfolding requeueing_def by (assumption | rule vcg | blast)+

lemma within_acting:
  "(\<And>s. within X P s \<Longrightarrow> within_state X P (f s)) \<Longrightarrow> within X P s \<Longrightarrow> within_opt X P (acting f s)"
  unfolding acting_def by (assumption | rule vcg | blast)+

lemma within_runTasks:
  assumes "list_all (\<lambda>task. \<forall>s. within X P s \<longrightarrow> within_opt X P (task s)) tasks" "within X P s"
  shows "within_opt X P (runTasks tasks s)"
  using assms
proof (induction tasks arbitrary: s)
  case Nil
  then show ?case by (simp add: within_return)
next
  case (Cons task tasks)
  then have task: "within_opt X P (task s)" and rest: "\<And>s. within X P s \<Longrightarrow> within_opt X P (runTasks tasks s)" by simp_all
  show ?case unfolding runTasks.simps by (assumption | rule task rest vcg)+
qed

lemma within_orReturn:
  "within_opt X P m \<Longrightarrow> (\<And>s. within X P s \<Longrightarrow> within_opt X P (f s)) \<Longrightarrow> within_opt X P (orReturn m f)"
  unfolding orReturn_def by (assumption | rule vcg | blast)+

lemma within_ocpTasks [confined]: "within X P s \<Longrightarrow> within_pair X P (ocpTasks X s)"
  unfolding ocpTasks_def createRHPullSecret_def injectCertificates_def by (assumption | rule confined vcg)+

lemma within_databaseTasks [confined]: "within X P s \<Longrightarrow> within_opt X P (databaseTasks X s)"
  unfolding databaseTasks_def by (assumption | rule confined vcg within_requeueing)+

lemma within_cacheTasks [confined]: "within X P s \<Longrightarrow> within_opt X P (cacheTasks X s)"
  unfolding cacheTasks_def Let_def
  by (rule within_runTasks) (auto intro!: within_requeueing confined within_return)

lemma within_expose_tasks [confined]:
  assumes "within X P s"
  shows "within_opt X P (exposeTasks X s)" "within_opt X P (ingressClassTasks X s)" "within_opt X P (telemetryTasks X s)"
  unfolding exposeTasks_def ingressClassTasks_def telemetryTasks_def
  by (assumption | rule assms confined vcg within_requeueing)+

lemma within_signing_task: "within X P s \<Longrightarrow>
    within_opt X P (case runSigningSecretTasks X s of (pulpController, s) \<Rightarrow> Some ((pulpController, None), s))"
  using within_job_tasks(3) [of P s] by (simp add: split_beta within_opt_def within_pair_def)

lemma within_pulpCoreTasks [confined]: "within X P s \<Longrightarrow> within_opt X P (pulpCoreTasks X s)"
  unfolding pulpCoreTasks_def pulpcore_tasks_def
  by (rule within_runTasks) (auto intro!: within_requeueing within_acting within_signing_task confined within_return)

lemma within_reconcileTasks [confined]: "within X P s \<Longrightarrow> within_opt X P (reconcileTasks X s)"
  unfolding reconcileTasks_def by (assumption | rule within_orReturn confined vcg)+

theorem Reconcile_reaches:
  assumes "Reconcile X ns name w = Some (answer, s')"
  shows "reaches X \<lparr>sc_Namespace = ns, sc_Name = name, sc_Start = w\<rparr> (st_world s')"
proof -
  let ?P = "\<lparr>sc_Namespace = ns, sc_Name = name, sc_Start = w\<rparr>"
  obtain r w1 where r: "x_GetPulp X ns name w = (r, w1)" by (metis surj_pair)
  have w1: "reaches X ?P w1" using reaches.get_pulp [OF reaches.start [of X ?P], of ns name] by (simp add: r)
  show ?thesis
  proof (cases r)
    case (Inr p)
    then have "Pulp_Namespace p = ns \<and> Pulp_Name p = name" using get_pulp_key [of ns name w p] r by simp
    with w1 have "within X ?P \<lparr>st_world = w1, st_pulp = p, st_events = []\<rparr>" by (simp add: within_def)
    from within_reconcileTasks [OF this] w1 show ?thesis
      using assms by (auto simp: Reconcile_def call_def r Inr within_opt_def within_pair_def within_def split: if_splits)
  qed (use w1 assms in \<open>auto simp: Reconcile_def call_def r split: if_splits\<close>)
qed

end

end
