(* ===== verification/Isolation.thy ===== *)
theory Isolation
  imports Confinement
begin

text \<open>
  What the policy of \<open>Effects\<close> means for the cluster: a reconciliation leaves other namespaces and other
  custom resources as they are, it removes only the parts that can be switched off, and over any number
  of runs the objects that hold the data of an instance stay.
\<close>

subsection \<open>An API server whose calls have only their own effect\<close>

text \<open>Between two worlds at most these objects and these custom resources differ.\<close>

definition changes_only ::
  "'w Externals \<Rightarrow> (Kind \<times> string \<times> string) set \<Rightarrow> (string \<times> string) set \<Rightarrow> 'w \<Rightarrow> 'w \<Rightarrow> bool" where
  "changes_only X objs pulps w w' \<longleftrightarrow>
    (\<forall>k ns n. (k, ns, n) \<notin> objs \<longrightarrow> fst (x_Get X k ns n w') = fst (x_Get X k ns n w)) \<and>
    (\<forall>ns n. (ns, n) \<notin> pulps \<longrightarrow> fst (x_GetPulp X ns n w') = fst (x_GetPulp X ns n w))"

lemma changes_only_refl: "changes_only X objs pulps w w"
  by (simp add: changes_only_def)

lemma changes_only_step:
  "changes_only X objs pulps w w' \<Longrightarrow> changes_only X objs' pulps' w' w'' \<Longrightarrow> objs' \<subseteq> objs \<Longrightarrow> pulps' \<subseteq> pulps \<Longrightarrow>
    changes_only X objs pulps w w''"
  unfolding changes_only_def by (metis subsetD)

lemma changes_only_found: "changes_only X objs pulps w w' \<Longrightarrow> (k, ns, n) \<notin> objs \<Longrightarrow> found X k ns n w' = found X k ns n w"
  by (simp add: changes_only_def found_def)

lemma changes_nothing_found: "changes_only X {} pulps w w' \<Longrightarrow> found X k ns n w' = found X k ns n w"
  by (simp add: changes_only_def found_def)

text \<open>What a reconciliation may remove.\<close>

definition removable :: "'w Scope \<Rightarrow> Kind \<Rightarrow> string \<Rightarrow> string \<Rightarrow> bool" where
  "removable P k ns n \<longleftrightarrow> ns = sc_Namespace P \<and> (k = KRoute \<or> disposable (sc_Name P) k n) \<or> n = []"

text \<open>
  Nobody else writes during the run, the garbage collector included; reading and running a command in a pod change no object, a write changes
  the object it names (a creation may choose the name), and a creation or an update removes nothing.
\<close>

locale isolated_server = api_server +
  assumes silent: "changes_only X {} {} w (snd (x_Get X k ns n w))"
      "changes_only X {} {} w (snd (x_GetPulp X ns n w))"
      "changes_only X {} {} w (snd (x_ListJobs X ns labels w))"
      "changes_only X {} {} w (snd (x_ListPods X ns labels w))"
      "changes_only X {} {} w (snd (x_Exec X ns pod container command w))"
      "changes_only X {} {} w (snd (x_GetConfig X w))"
      "changes_only X {} {} w (snd (x_NewDiscoveryClient X w))"
      "changes_only X {} {} w (snd (x_ServerResources X gv w))"
      "changes_only X {} {} w (snd (x_Now X w))"
      "changes_only X {} {} w (snd (x_Intn X i w))"
      "changes_only X {} {} w (snd (x_RandBytes X i w))"
      "changes_only X {} {} w (snd (x_GenKeyPEM X w))"
      "changes_only X {} {} w (snd (x_RangeOrder X m w))"
      "changes_only X {} {} w (snd (x_Schedule X i w))"
      "changes_only X {} {} w (snd (x_DryRunCreate X obj w))"
      "changes_only X {} {} w (snd (x_DryRunUpdate X obj w))"
    and create_changes: "changes_only X {(k, ns, n). ns = obj_Namespace obj} {} w (snd (x_Create X obj w))"
    and update_changes: "changes_only X {key_of obj} {} w (snd (x_Update X obj w))"
    and delete_changes: "changes_only X {key_of obj} {} w (snd (x_Delete X obj w))"
    and delete_all_changes: "changes_only X {(k', ns', n). k' = k \<and> ns' = ns} {} w (snd (x_DeleteAllOf X k ns labels w))"
    and status_changes: "changes_only X {} {(Pulp_Namespace p, Pulp_Name p)} w (snd (x_StatusUpdate X p w))"
    and patch_changes: "changes_only X {} {(Pulp_Namespace p, Pulp_Name p)} w (snd (x_PatchPulp X p base w))"
    and create_removes_nothing: "found X k ns n w \<Longrightarrow> found X k ns n (snd (x_Create X obj w))"
    and update_removes_nothing: "found X k ns n w \<Longrightarrow> found X k ns n (snd (x_Update X obj w))"
begin

lemmas silent_steps = silent [THEN [2] changes_only_step, OF _ empty_subsetI empty_subsetI]

lemmas silent_found = silent [THEN changes_nothing_found]

text \<open>By rule induction over the calls: they change only the namespace and the custom resource of the scope.\<close>

lemma reaches_changes_only:
  "reaches X P w \<Longrightarrow> changes_only X {(k, ns, n). ns = sc_Namespace P \<or> n = []} {(sc_Namespace P, sc_Name P)} (sc_Start P) w"
proof (induction rule: reaches.induct)
  case start
  show ?case by (rule changes_only_refl)
next
  case (create w obj)
  then show ?case by (auto simp: placed_def intro: changes_only_step [OF _ create_changes])
next
  case (update w obj)
  then show ?case by (auto simp: writable_def placed_def key_of_def intro: changes_only_step [OF _ update_changes])
next
  case (delete w obj)
  then show ?case by (auto simp: deletable_def key_of_def intro: changes_only_step [OF _ delete_changes])
next
  case (delete_all w k labels)
  then show ?case by (auto intro: changes_only_step [OF _ delete_all_changes])
next
  case (status w p)
  then show ?case by (auto intro: changes_only_step [OF _ status_changes])
next
  case (patch w p base)
  then show ?case by (auto intro: changes_only_step [OF _ patch_changes])
qed (auto intro: silent_steps)

text \<open>And they remove only what is disposable.\<close>

lemma reaches_keeps:
  assumes "reaches X P w" "found X k ns n (sc_Start P)" "\<not> removable P k ns n"
  shows "found X k ns n w"
  using assms(1)
proof (induction rule: reaches.induct)
  case start
  show ?case by (rule assms(2))
next
  case (create w obj)
  then show ?case by (simp add: create_removes_nothing)
next
  case (update w obj)
  then show ?case by (simp add: update_removes_nothing)
next
  case (delete w obj)
  then have "(k, ns, n) \<noteq> key_of obj"
    using assms(3) by (auto simp: deletable_def removable_def key_of_def)
  with delete show ?case using changes_only_found [OF delete_changes [of obj w], of k ns n] by simp
next
  case (delete_all w k' labels)
  then have "(k, ns, n) \<notin> {(j, ns', n). j = k' \<and> ns' = sc_Namespace P}"
    using assms(3) by (auto simp: removable_def disposable_def)
  with delete_all show ?case
    using changes_only_found [OF delete_all_changes [of k' "sc_Namespace P" w labels], of k ns n] by simp
next
  case (status w p)
  then show ?case using changes_only_found [OF status_changes [of p w], of k ns n] by simp
next
  case (patch w p base)
  then show ?case using changes_only_found [OF patch_changes [of p w base], of k ns n] by simp
qed (simp_all add: silent_found)

end

subsection \<open>The server in memory\<close>

lemma find_cong_other:
  "(\<And>x. P (f x) = P x) \<Longrightarrow> (\<And>x. P x \<Longrightarrow> f x = x) \<Longrightarrow> List.find P (map f xs) = List.find P xs"
  by (induction xs) auto

lemma find_filter_other: "(\<And>x. P x \<Longrightarrow> Q x) \<Longrightarrow> List.find P (filter Q xs) = List.find P xs"
  by (induction xs) auto

lemma key_of_normalise [simp]: "key_of (normalise x) = key_of x"
  by (simp add: key_of_def)

lemma named_namespace [simp]: "obj_Namespace (named w x) = obj_Namespace x" "obj_Kind (named w x) = obj_Kind x"
  by (cases x; simp add: named_def)+

lemma mem_changes_only:
  assumes "\<And>k ns n. (k, ns, n) \<notin> objs \<Longrightarrow> mem_lookup k ns n w' = mem_lookup k ns n w"
    and "\<And>ns n. (ns, n) \<notin> pulps \<Longrightarrow> List.find (same_pulp ns n) (mem_pulps w') = List.find (same_pulp ns n) (mem_pulps w)"
  shows "changes_only mem_ext objs pulps w w'"
  by (auto simp: changes_only_def mem_ext_def mem_get_def mem_get_pulp_def assms split: option.split)

lemma mem_found: "found mem_ext k ns n w \<longleftrightarrow> mem_lookup k ns n w \<noteq> None"
  by (simp add: found_def mem_ext_def mem_get_def split: option.split)

lemma mem_create_lookup:
  "(k, ns, n) \<noteq> key_of (named w x) \<Longrightarrow> mem_lookup k ns n (snd (mem_create x w)) = mem_lookup k ns n w"
  by (simp add: mem_create_def mem_lookup_def same_obj_key Let_def find_append_neq eq_commute)

lemma mem_update_lookup:
  "(k, ns, n) \<noteq> key_of x \<Longrightarrow> mem_lookup k ns n (snd (mem_update x w)) = mem_lookup k ns n w"
  by (simp add: mem_update_def mem_lookup_def find_map_replace)

lemma mem_delete_lookup:
  "(k, ns, n) \<noteq> key_of x \<Longrightarrow> mem_lookup k ns n (snd (mem_delete x w)) = mem_lookup k ns n w"
  by (simp add: mem_delete_def mem_lookup_def find_filter_key)

lemma mem_delete_all_lookup:
  "(k, ns) \<noteq> (k', ns') \<Longrightarrow> mem_lookup k ns n (snd (mem_delete_all k' ns' sel w)) = mem_lookup k ns n w"
  by (auto simp: mem_delete_all_def mem_lookup_def same_obj_def intro!: find_filter_other)

lemma mem_put_pulp_find:
  assumes "\<And>q. Pulp_Meta (f q) = Pulp_Meta q" "(ns, n) \<noteq> (Pulp_Namespace p, Pulp_Name p)"
  shows "List.find (same_pulp ns n) (mem_pulps (snd (mem_put_pulp f p w))) = List.find (same_pulp ns n) (mem_pulps w)"
  using assms by (auto simp: mem_put_pulp_def same_pulp_def intro!: find_cong_other)

lemma mem_put_pulp_lookup [simp]: "mem_lookup k ns n (snd (mem_put_pulp f p w)) = mem_lookup k ns n w"
  by (simp add: mem_put_pulp_def mem_lookup_def)

lemma mem_write_pulps [simp]:
  "mem_pulps (snd (mem_create x w)) = mem_pulps w" "mem_pulps (snd (mem_update x w)) = mem_pulps w"
  "mem_pulps (snd (mem_delete x w)) = mem_pulps w" "mem_pulps (snd (mem_delete_all k ns sel w)) = mem_pulps w"
  by (simp_all add: mem_create_def mem_update_def mem_delete_def mem_delete_all_def Let_def)

lemma mem_create_keeps: "mem_lookup k ns n w \<noteq> None \<Longrightarrow> mem_lookup k ns n (snd (mem_create x w)) \<noteq> None"
  by (auto simp: mem_create_def mem_lookup_def find_None_iff Let_def)

lemma mem_update_keeps: "mem_lookup k ns n w \<noteq> None \<Longrightarrow> mem_lookup k ns n (snd (mem_update x w)) \<noteq> None"
  by (auto simp: mem_update_def mem_lookup_def find_map_replace)

lemma mem_silent: "mem_objs w' = mem_objs w \<Longrightarrow> mem_pulps w' = mem_pulps w \<Longrightarrow> changes_only mem_ext {} {} w w'"
  by (rule mem_changes_only) (simp_all add: mem_lookup_def)

interpretation mem_calls: api_server mem_ext
proof unfold_locales
  show "fst (x_Get mem_ext k ns n w) = Inr obj \<Longrightarrow> key_of obj = (k, ns, n)" for k ns n w obj
    by (auto simp: mem_ext_def mem_get_def mem_lookup_def same_obj_key find_Some_iff split: option.splits)
  show "fst (x_GetPulp mem_ext ns n w) = Inr p \<Longrightarrow> Pulp_Namespace p = ns \<and> Pulp_Name p = n" for ns n w p
    by (auto simp: mem_ext_def mem_get_pulp_def same_pulp_def find_Some_iff split: option.splits)
qed (simp_all add: mem_ext_def)

interpretation mem_isolated: isolated_server mem_ext
proof unfold_locales
  show "changes_only mem_ext {(k, ns, n). ns = obj_Namespace obj} {} w (snd (x_Create mem_ext obj w))" for obj w
    by (rule mem_changes_only) (auto simp: mem_ext_def key_of_def intro!: mem_create_lookup)
  show "changes_only mem_ext {key_of obj} {} w (snd (x_Update mem_ext obj w))" for obj w
    by (rule mem_changes_only) (auto simp: mem_ext_def intro!: mem_update_lookup)
  show "changes_only mem_ext {key_of obj} {} w (snd (x_Delete mem_ext obj w))" for obj w
    by (rule mem_changes_only) (auto simp: mem_ext_def intro!: mem_delete_lookup)
  show "changes_only mem_ext {(k', ns', n). k' = k \<and> ns' = ns} {} w (snd (x_DeleteAllOf mem_ext k ns labels w))" for k ns labels w
    by (rule mem_changes_only) (auto simp: mem_ext_def intro!: mem_delete_all_lookup)
  show "changes_only mem_ext {} {(Pulp_Namespace p, Pulp_Name p)} w (snd (x_StatusUpdate mem_ext p w))" for p w
    by (rule mem_changes_only) (auto simp: mem_ext_def intro!: mem_put_pulp_find)
  show "changes_only mem_ext {} {(Pulp_Namespace p, Pulp_Name p)} w (snd (x_PatchPulp mem_ext p base w))" for p base w
    by (rule mem_changes_only) (auto simp: mem_ext_def intro!: mem_put_pulp_find)
  show "found mem_ext k ns n w \<Longrightarrow> found mem_ext k ns n (snd (x_Create mem_ext obj w))" for k ns n w obj
    unfolding mem_found by (simp add: mem_ext_def mem_create_keeps del: not_None_eq)
  show "found mem_ext k ns n w \<Longrightarrow> found mem_ext k ns n (snd (x_Update mem_ext obj w))" for k ns n w obj
    unfolding mem_found by (simp add: mem_ext_def mem_update_keeps del: not_None_eq)
qed (rule mem_silent; simp add: mem_ext_def mem_get_def mem_get_pulp_def mem_list_jobs_def split: option.split)+

subsection \<open>A first run\<close>

text \<open>A resource with a valid specification, and a Secret in its namespace and in another one.\<close>

definition ex_data :: "string \<Rightarrow> Object" where
  "ex_data ns = SecretObj \<lparr>sec_Meta = zero_ObjectMeta\<lparr>meta_Name := ''db'', meta_Namespace := ns\<rparr>, sec_Data = [], sec_StringData = []\<rparr>"

definition ex_world :: mem where
  "ex_world = mem_init ex_valid_pulp [ex_data ''ns'', ex_data ''other'']"

lemma ex_world_found: "found mem_ext KSecret ''ns'' ''db'' ex_world" "found mem_ext KSecret ''other'' ''db'' ex_world"
  by (simp_all add: mem_found mem_lookup_def ex_world_def mem_init_def ex_data_def same_obj_def)

lemma ex_world_init:
  fixes s :: "mem St"
  defines "s \<equiv> \<lparr>st_world = ex_world, st_pulp = ex_valid_pulp, st_events = []\<rparr>"
  shows "snd (fst (initializeStatusCondition mem_ext s)) = None"
    "Pulp_Spec (st_pulp (snd (initializeStatusCondition mem_ext s))) = Pulp_Spec ex_valid_pulp"
    "mem_openshift (st_world (snd (initializeStatusCondition mem_ext s))) = False"
  by (simp_all add: s_def ex_world_def initializeStatusCondition_def set_condition_now_def call_def mem_init_def
      mem_ext_def Status_Update_def set_Status_def mem_put_pulp_def same_pulp_def ex_valid_pulp_def zero_Pulp_def
      zero_PulpStatus_def Let_def zero_ObjectMeta_def)

lemma CreateServiceAccount_missing:
  assumes "fst (x_Get X KServiceAccount (Pulp_Namespace (st_pulp s)) (PulpServiceAccount (Pulp_Name (st_pulp s))) (st_world s)) = Inl err"
  shows "fst (CreateServiceAccount X s) \<noteq> (zero_Result, None)"
  using assms by (simp add: CreateServiceAccount_def split_beta Let_def call_def)

lemma ex_first_run: "\<exists>answer s'. Reconcile mem_ext ''ns'' ''p'' ex_world = Some (answer, s')"
proof -
  let ?P = "\<lparr>sc_Namespace = ''ns'', sc_Name = ''p'', sc_Start = ex_world\<rparr>"
  let ?s = "\<lparr>st_world = ex_world, st_pulp = ex_valid_pulp, st_events = []\<rparr>"
  have get: "x_GetPulp mem_ext ''ns'' ''p'' ex_world = (Inr ex_valid_pulp, ex_world)"
    by (simp add: mem_ext_def mem_get_pulp_def ex_world_def mem_init_def same_pulp_def ex_valid_pulp_def)
  have managed: "\<not> Spec_Unmanaged (Pulp_Spec ex_valid_pulp)"
    by (simp add: ex_valid_pulp_def zero_PulpSpec_def)
  have ocp: "ocpTasks mem_ext ?s = ((None, None), ?s)"
    by (simp add: ocpTasks_def IsOpenShift_def call_def mem_ext_def ex_world_def mem_init_def)
  have "fst (prechecks mem_ext ?s) = (None, None)"
    using prechecks_pass [OF mem_pulps.pulp_store_axioms, of ?s] ex_world_init ex_valid_spec ex_valid_cluster [OF ex_world_init(2,3)]
    by simp
  then obtain s1 where pre: "prechecks mem_ext ?s = ((None, None), s1)" by (metis prod.collapse)
  have "within mem_ext ?P ?s" by (simp add: within_def reaches.start [of mem_ext ?P, simplified] ex_valid_pulp_def)
  from mem_calls.within_prechecks [OF this] have "within mem_ext ?P s1" by (simp add: within_pair_def pre)
  then have "fst (x_Get mem_ext KServiceAccount (Pulp_Namespace (st_pulp s1)) (PulpServiceAccount (Pulp_Name (st_pulp s1))) (st_world s1))
      = fst (x_Get mem_ext KServiceAccount ''ns'' (PulpServiceAccount ''p'') ex_world)"
    using mem_reading.prechecks_objects [of ?s] by (simp add: within_def same_objects_def pre)
  then have "fst (CreateServiceAccount mem_ext s1) \<noteq> (zero_Result, None)"
    by (intro CreateServiceAccount_missing [where err = "NotFound (PulpServiceAccount ''p'')"])
       (simp add: mem_ext_def mem_get_def mem_lookup_def ex_world_def mem_init_def ex_data_def same_obj_def)
  moreover obtain r err s2 where sa: "CreateServiceAccount mem_ext s1 = ((r, err), s2)" by (metis surj_pair)
  ultimately have requeue: "needsRequeue err r" by (auto simp: needsRequeue_def)
  have "reconcileTasks mem_ext ?s = Some ((r, err), s2)"
    unfolding reconcileTasks_def ocp orReturn_def pre bind.bind_lunit prod.case by (simp add: sa requeue)
  then show ?thesis by (simp add: Reconcile_def get call_def managed)
qed

subsection \<open>Properties\<close>

text \<open>
  C4: a reconciliation keeps to its namespace and its custom resource. Whatever \<open>Reconcile\<close> did for the resource
  \<open>name\<close> in \<open>ns\<close>, every object of another namespace and every other custom resource is afterwards what it was
  before, on a server whose calls have no effect but their own.
\<close>

theorem reconcile_keeps_to_its_namespace:
  assumes "isolated_server X" "Reconcile X ns name w = Some (answer, s')"
  shows "(\<forall>k ns' n. ns' \<noteq> ns \<and> n \<noteq> [] \<longrightarrow> fst (x_Get X k ns' n (st_world s')) = fst (x_Get X k ns' n w)) \<and>
    (\<forall>ns' n. (ns', n) \<noteq> (ns, name) \<longrightarrow> fst (x_GetPulp X ns' n (st_world s')) = fst (x_GetPulp X ns' n w))"
proof -
  from assms(1) have "api_server X" by (rule isolated_server.axioms)
  from isolated_server.reaches_changes_only [OF assms(1) api_server.Reconcile_reaches [OF this assms(2)]]
  show ?thesis by (simp add: changes_only_def)
qed

theorem reconcile_keeps_to_its_namespace_witness:
  "\<exists>answer s'. Reconcile mem_ext ''ns'' ''p'' ex_world = Some (answer, s') \<and>
    fst (x_Get mem_ext KSecret ''other'' ''db'' (st_world s')) = Inr (ex_data ''other'')"
proof -
  obtain answer s' where run: "Reconcile mem_ext ''ns'' ''p'' ex_world = Some (answer, s')" using ex_first_run by blast
  from reconcile_keeps_to_its_namespace [OF mem_isolated.isolated_server_axioms run]
  have "fst (x_Get mem_ext KSecret ''other'' ''db'' (st_world s')) = fst (x_Get mem_ext KSecret ''other'' ''db'' ex_world)" by simp
  also have "\<dots> = Inr (ex_data ''other'')"
    by (simp add: mem_ext_def mem_get_def mem_lookup_def ex_world_def mem_init_def ex_data_def same_obj_def)
  finally show ?thesis using run by blast
qed

text \<open>
  C5: a reconciliation removes only the parts that can be switched off. An object that is there before and not after
  was in the namespace of the resource and is a Route, an Ingress, a disruption budget, an autoscaler, the Deployment or
  Service of pulp-web or of the managed cache, or the Service or ConfigMap of telemetry. In particular no
  Secret, claim, StatefulSet or Deployment of pulpcore is ever removed.
\<close>

theorem reconcile_removes_only_optional_parts:
  assumes "isolated_server X" "Reconcile X ns name w = Some (answer, s')" "n \<noteq> []"
    and "found X k ns' n w" "\<not> (ns' = ns \<and> (k = KRoute \<or> disposable name k n))"
  shows "found X k ns' n (st_world s')"
proof -
  from assms(1) have "api_server X" by (rule isolated_server.axioms)
  from isolated_server.reaches_keeps [OF assms(1) api_server.Reconcile_reaches [OF this assms(2)]] assms(3-5)
  show ?thesis by (simp add: removable_def)
qed

theorem reconcile_removes_only_optional_parts_witness:
  "\<exists>answer s'. Reconcile mem_ext ''ns'' ''p'' ex_world = Some (answer, s') \<and> found mem_ext KSecret ''ns'' ''db'' (st_world s')"
proof -
  obtain answer s' where run: "Reconcile mem_ext ''ns'' ''p'' ex_world = Some (answer, s')" using ex_first_run by blast
  from reconcile_removes_only_optional_parts [OF mem_isolated.isolated_server_axioms run _ ex_world_found(1)] run
  show ?thesis by (simp add: disposable_def)
qed

text \<open>
  The operator at work: reconciliations of any custom resources in any order, and between them changes by others that
  remove nothing.
\<close>

inductive operator_runs :: "'w Externals \<Rightarrow> 'w \<Rightarrow> 'w \<Rightarrow> bool" for X w where
  idle: "operator_runs X w w"
| reconciled: "operator_runs X w w' \<Longrightarrow> Reconcile X ns name w' = Some (answer, s) \<Longrightarrow> operator_runs X w (st_world s)"
| others: "operator_runs X w w' \<Longrightarrow> (\<And>k ns n. found X k ns n w' \<Longrightarrow> found X k ns n w'') \<Longrightarrow> operator_runs X w w''"

definition data_kinds :: "Kind set" where
  "data_kinds = {KSecret, KPVC, KStatefulSet, KServiceAccount, KRole, KRoleBinding, KJob, KCronJob}"

text \<open>
  C6: the operator never deletes data. Over any number of reconciliations, of any custom resources, an object that holds
  the state of an instance or access to it (Secrets, claims, StatefulSets, accounts, roles, jobs) and that was
  there at some time is still there.
\<close>

theorem operator_never_deletes_data:
  assumes "isolated_server X" "operator_runs X w w'" "k \<in> data_kinds" "n \<noteq> []" "found X k ns n w"
  shows "found X k ns n w'"
  using assms(2)
proof induction
  case (reconciled w' ns' name answer s)
  from assms(1) have "api_server X" by (rule isolated_server.axioms)
  from isolated_server.reaches_keeps [OF assms(1) api_server.Reconcile_reaches [OF this reconciled.hyps(2)]] reconciled.IH assms(3,4)
  show ?case by (auto simp: removable_def disposable_def data_kinds_def)
qed (use assms(5) in auto)

theorem operator_never_deletes_data_witness:
  "\<exists>w'. operator_runs mem_ext ex_world w' \<and> found mem_ext KSecret ''ns'' ''db'' w'"
proof -
  obtain answer s' where "Reconcile mem_ext ''ns'' ''p'' ex_world = Some (answer, s')" using ex_first_run by blast
  then have run: "operator_runs mem_ext ex_world (st_world s')" by (rule operator_runs.reconciled [OF operator_runs.idle])
  from operator_never_deletes_data [OF mem_isolated.isolated_server_axioms run _ _ ex_world_found(1)] run
  show ?thesis by (auto simp: data_kinds_def)
qed

end
