(* ===== verification/Backup_Types.thy ===== *)
theory Backup_Types
  imports Ingresses
begin

text \<open>
  What the backup and the restore controller share: the custom resources \<open>PulpBackup\<close> and
  \<open>PulpRestore\<close> (\<open>apis/.../pulp_backup_types.go\<close>, \<open>pulp_restore_types.go\<close>), the calls they make that
  the main controller does not, and the state of a run. Both controllers work through a manager pod
  that mounts the backup claim: they write and read files there by commands run in the pod, so
  the shell, the YAML and the JSON libraries are parameters of the model, with the laws the
  controllers rely on in the locales at the end.
\<close>

subsection \<open>Custom resources\<close>

record PulpBackupSpec =
  BSpec_DeploymentName :: string
  BSpec_BackupPVC :: string
  BSpec_BackupPVCNamespace :: string
  BSpec_BackupStorageReq :: string
  BSpec_BackupSC :: string
  BSpec_AdminPasswordSecret :: string
  BSpec_PostgresConfigurationSecret :: string
  BSpec_PulpSecretKey :: string
  BSpec_Affinity :: "json option"

record PulpBackupStatus =
  BStatus_Conditions :: "Condition list"
  BStatus_DeploymentName :: string
  BStatus_BackupClaim :: string
  BStatus_BackupNamespace :: string
  BStatus_BackupDirectory :: string
  BStatus_AdminPasswordSecret :: string

record PulpBackup =
  Backup_Meta :: ObjectMeta
  Backup_Spec :: PulpBackupSpec
  Backup_Status :: PulpBackupStatus

abbreviation Backup_Name :: "PulpBackup \<Rightarrow> string" where
  "Backup_Name b \<equiv> meta_Name (Backup_Meta b)"

abbreviation Backup_Namespace :: "PulpBackup \<Rightarrow> string" where
  "Backup_Namespace b \<equiv> meta_Namespace (Backup_Meta b)"

record PulpRestoreSpec =
  RSpec_DeploymentName :: string
  RSpec_BackupName :: string
  RSpec_BackupPVC :: string
  RSpec_BackupDir :: string
  RSpec_KeepBackupReplicasCount :: bool

record PulpRestoreStatus =
  RStatus_Conditions :: "Condition list"
  RStatus_PostgresSecret :: string

record PulpRestore =
  Restore_Meta :: ObjectMeta
  Restore_Spec :: PulpRestoreSpec
  Restore_Status :: PulpRestoreStatus

abbreviation Restore_Name :: "PulpRestore \<Rightarrow> string" where
  "Restore_Name r \<equiv> meta_Name (Restore_Meta r)"

abbreviation Restore_Namespace :: "PulpRestore \<Rightarrow> string" where
  "Restore_Namespace r \<equiv> meta_Namespace (Restore_Meta r)"

subsection \<open>Further externals\<close>

text \<open>
  The calls the main controller makes, and those on the two custom resources, on a Pulp that is
  created or updated as a whole, \<open>time.Format\<close> (layout and time), \<open>time.Sleep\<close> in seconds (the
  world goes on meanwhile), and the serialisers: \<open>yaml.v3\<close> on a map, \<open>k8s.io/.../yaml\<close> into a struct
  of strings (the tags of its fields, the text, and the value of the field with a tag), the YAML printer
  and the universal deserialiser on whole objects, and \<open>encoding/json\<close> on the specification of a Pulp.
\<close>

record 'w BackupExternals =
  bx_base :: "'w Externals"
  bx_GetBackup :: "string \<Rightarrow> string \<Rightarrow> 'w \<Rightarrow> (error + PulpBackup) \<times> 'w"
  bx_BackupStatusUpdate :: "PulpBackup \<Rightarrow> 'w \<Rightarrow> (error option \<times> PulpBackup) \<times> 'w"
  bx_GetRestore :: "string \<Rightarrow> string \<Rightarrow> 'w \<Rightarrow> (error + PulpRestore) \<times> 'w"
  bx_RestoreStatusUpdate :: "PulpRestore \<Rightarrow> 'w \<Rightarrow> (error option \<times> PulpRestore) \<times> 'w"
  bx_CreatePulp :: "Pulp \<Rightarrow> 'w \<Rightarrow> error option \<times> 'w"
  bx_UpdatePulp :: "Pulp \<Rightarrow> 'w \<Rightarrow> (error option \<times> Pulp) \<times> 'w"
  bx_Sleep :: "nat \<Rightarrow> 'w \<Rightarrow> 'w"
  bx_Format :: "string \<Rightarrow> string \<Rightarrow> string"
  bx_Marshal :: "gomap \<Rightarrow> string"
  bx_Unmarshal :: "string list \<Rightarrow> string \<Rightarrow> string \<Rightarrow> string"
  bx_PrintYAML :: "Object \<Rightarrow> string"
  bx_Decode :: "string \<Rightarrow> error + Object"
  bx_MarshalSpec :: "PulpSpec \<Rightarrow> string"
  bx_UnmarshalSpec :: "string \<Rightarrow> PulpSpec"

subsection \<open>The state of a run\<close>

text \<open>The world and the custom resource that the calls share by its address.\<close>

record ('w, 'c) Run =
  run_world :: 'w
  run_obj :: 'c

definition act :: "('w \<Rightarrow> 'a \<times> 'w) \<Rightarrow> ('w, 'c) Run \<Rightarrow> 'a \<times> ('w, 'c) Run" where
  "act f s = (let (r, w) = f (run_world s) in (r, s\<lparr>run_world := w\<rparr>))"

definition let_time_pass :: "'w BackupExternals \<Rightarrow> nat \<Rightarrow> ('w, 'c) Run \<Rightarrow> ('w, 'c) Run" where
  "let_time_pass B n s = s\<lparr>run_world := bx_Sleep B n (run_world s)\<rparr>"

lemma act_sel [simp]:
  "fst (act f s) = fst (f (run_world s))"
  "run_world (snd (act f s)) = snd (f (run_world s))"
  "run_obj (snd (act f s)) = run_obj s"
  by (simp_all add: act_def split_beta)

lemma let_time_pass_sel [simp]:
  "run_world (let_time_pass B n s) = bx_Sleep B n (run_world s)"
  "run_obj (let_time_pass B n s) = run_obj s"
  by (simp_all add: let_time_pass_def)

text \<open>\<open>if err := f(...); err != nil { return err }\<close>.\<close>

definition andThen :: "error option \<times> 's \<Rightarrow> ('s \<Rightarrow> error option \<times> 's) \<Rightarrow> error option \<times> 's" where
  "andThen r k = (case r of (Some err, s) \<Rightarrow> (Some err, s) | (None, s) \<Rightarrow> k s)"

lemma andThen_simps [simp]: "andThen (Some err, s) k = (Some err, s)" "andThen (None, s) k = k s"
  by (simp_all add: andThen_def)

lemma andThen_NoneE:
  assumes "andThen r k = (None, s')"
  obtains s where "r = (None, s)" "k s = (None, s')"
  using assms by (cases r; cases "fst r") auto

fun as_Pod :: "error + Object \<Rightarrow> error + Pod" where
  "as_Pod (Inr (PodObj x)) = Inr x"
| "as_Pod (Inl e) = Inl e"
| "as_Pod _ = Inl (Errorf ''unexpected kind'')"

subsection \<open>The manager pod\<close>

definition manager_name :: "string \<Rightarrow> string" where
  "manager_name name = name @ ''-backup-manager''"

definition manager_labels :: "string \<Rightarrow> gomap" where
  "manager_labels name =
    [(''app.kubernetes.io/name'', ''pulp-backup-storage''),
     (''app.kubernetes.io/instance'', ''pulp-backup-storage-'' @ name),
     (''app.kubernetes.io/component'', ''backup-storage''),
     (''app.kubernetes.io/part-of'', ''pulp''),
     (''app.kubernetes.io/managed-by'', ''pulp-operator'')]"

definition manager_probe :: "string \<Rightarrow> json" where
  "manager_probe backupDir = JObj
    [(''exec'', JObj [(''command'', JArr [JStr ''ls'', JStr backupDir])]),
     (''failureThreshold'', JNum 10), (''initialDelaySeconds'', JNum 3), (''periodSeconds'', JNum 10),
     (''successThreshold'', JNum 1), (''timeoutSeconds'', JNum 10)]"

definition manager_volume :: "string \<Rightarrow> string \<Rightarrow> Volume" where
  "manager_volume name claimName = \<lparr>vol_Name = name, vol_Source = PVCVolume claimName\<rparr>"

definition manager_mount :: "string \<Rightarrow> string \<Rightarrow> VolumeMount" where
  "manager_mount name path = \<lparr>vm_Name = name, vm_MountPath = path, vm_SubPath = [], vm_ReadOnly = False\<rparr>"

definition manager_pod ::
  "string \<Rightarrow> string \<Rightarrow> json option \<Rightarrow> string \<Rightarrow> VolumeMount list \<Rightarrow> Volume list \<Rightarrow> Pod" where
  "manager_pod name ns affinity backupDir volumeMounts volumes =
    \<lparr>po_Meta = zero_ObjectMeta\<lparr>meta_Name := manager_name name, meta_Namespace := ns, meta_Labels := manager_labels name\<rparr>,
     po_Spec = zero_PodSpec\<lparr>
       pod_Affinity := affinity,
       pod_Containers := [zero_Container\<lparr>
         ctr_Name := manager_name name, ctr_Image := ''docker.io/library/postgres:15'', ctr_ImagePullPolicy := ''Always'',
         ctr_Command := [''sleep'', ''infinity''], ctr_VolumeMounts := volumeMounts,
         ctr_ReadinessProbe := Some (manager_probe backupDir),
         ctr_SecurityContext := Some SetDefaultSecurityContext\<rparr>],
       pod_Volumes := volumes,
       pod_RestartPolicy := ''Never'',
       pod_SecurityContext := Some (JObj [(''runAsUser'', JNum 700), (''fsGroup'', JNum 700)])\<rparr>,
     po_Ready = []\<rparr>"

text \<open>
  The loop of \<open>waitPodReady\<close>: the pod is read up to the given number of times, a second apart, until
  its first container is ready. The error is that of the last \<open>Get\<close>, and a zero pod is
  returned when it never was.
\<close>

definition first_ready :: "Pod \<Rightarrow> bool" where
  "first_ready pod \<longleftrightarrow> 0 < length (po_Ready pod) \<and> po_Ready pod ! 0"

fun poll_pod :: "'w BackupExternals \<Rightarrow> string \<Rightarrow> string \<Rightarrow> nat \<Rightarrow> error option \<Rightarrow> 'w \<Rightarrow> (Pod \<times> error option) \<times> 'w" where
  "poll_pod B ns podName 0 err w = ((zero_Pod, err), w)"
| "poll_pod B ns podName (Suc n) err w =
    (let (r, w) = x_Get (bx_base B) KPod ns podName w;
         pod = or_zero zero_Pod (as_Pod r)
     in if first_ready pod then ((pod, None), w)
        else poll_pod B ns podName n (err_of r) (bx_Sleep B 1 w))"

text \<open>The loop of \<open>cleanup\<close>: until the pod is not found, five seconds apart.\<close>

fun poll_gone :: "'w BackupExternals \<Rightarrow> string \<Rightarrow> string \<Rightarrow> nat \<Rightarrow> 'w \<Rightarrow> 'w" where
  "poll_gone B ns podName 0 w = w"
| "poll_gone B ns podName (Suc n) w =
    (let (r, w) = x_Get (bx_base B) KPod ns podName w
     in case r of
          Inl err \<Rightarrow> if IsNotFound err then w else poll_gone B ns podName n (bx_Sleep B 5 w)
        | Inr _ \<Rightarrow> poll_gone B ns podName n (bx_Sleep B 5 w))"

definition remove_pod :: "'w BackupExternals \<Rightarrow> string \<Rightarrow> string \<Rightarrow> 'w \<Rightarrow> 'w" where
  "remove_pod B ns podName w =
    (let (r, w) = x_Get (bx_base B) KPod ns podName w;
         (_, w) = x_Delete (bx_base B) (PodObj (or_zero zero_Pod (as_Pod r))) w
     in poll_gone B ns podName 120 w)"

text \<open>\<open>ContainerExec\<close> in the manager, and whether it failed.\<close>

definition exec_in :: "'w BackupExternals \<Rightarrow> Pod \<Rightarrow> string list \<Rightarrow> string \<Rightarrow> ('w, 'c) Run \<Rightarrow> (error + string) \<times> ('w, 'c) Run" where
  "exec_in B pod command container s =
    act (ContainerExec (bx_base B) (meta_Name (po_Meta pod)) command container (meta_Namespace (po_Meta pod))) s"

lemma exec_in_obj [frame, simp]: "run_obj (snd (exec_in B pod command container s)) = run_obj s"
  by (simp add: exec_in_def)

text \<open>Connection string of a database secret.\<close>

definition database_url :: "gomap \<Rightarrow> string" where
  "database_url d = ''postgresql://'' @ gget d ''username'' @ '':'' @ gget d ''password'' @ ''@'' @ gget d ''host''
     @ '':'' @ gget d ''port'' @ ''/'' @ gget d ''database''"

text \<open>\<open>echo 'text' > path\<close>, given to bash.\<close>

definition echo_command :: "string \<Rightarrow> string \<Rightarrow> string list" where
  "echo_command t path = [''bash'', ''-c'', ''echo '' @ squote @ t @ squote @ '' > '' @ path]"

end
