(* ===== verification/Backup.thy ===== *)
theory Backup
  imports Backup_Types
begin

text \<open>
  The backup controller, \<open>controllers/backup\<close>: a claim and a manager pod are created, and one
  step after the other copies the settings ConfigMap, the database, the specification of the custom
  resource, the secrets and the files of the instance into a directory of the claim. The
  condition \<open>BackupComplete\<close> of the resource follows the steps.
\<close>

subsection \<open>Names\<close>

definition checkRequiredFields :: "PulpBackup \<Rightarrow> error option" where
  "checkRequiredFields pulpBackup =
    (if length (BSpec_DeploymentName (Backup_Spec pulpBackup)) = 0
     then Some (Errorf ''error! deployment_name not provided'') else None)"

definition getDeploymentName :: "PulpBackup \<Rightarrow> string" where
  "getDeploymentName pulpBackup = BSpec_DeploymentName (Backup_Spec pulpBackup)"

definition getAdminPasswordSecret :: "PulpBackup \<Rightarrow> string" where
  "getAdminPasswordSecret pulpBackup =
    (let adminPasswordSecret = BSpec_AdminPasswordSecret (Backup_Spec pulpBackup)
     in if length adminPasswordSecret = 0 then getDeploymentName pulpBackup @ ''-admin-password'' else adminPasswordSecret)"

definition getPulpSecretKey :: "PulpBackup \<Rightarrow> string" where
  "getPulpSecretKey pulpBackup =
    (let secretKey = BSpec_PulpSecretKey (Backup_Spec pulpBackup)
     in if length secretKey = 0 then getDeploymentName pulpBackup @ ''-secret-key'' else secretKey)"

definition getBackupPVC :: "PulpBackup \<Rightarrow> string" where
  "getBackupPVC pulpBackup =
    (let backupPVC = BSpec_BackupPVC (Backup_Spec pulpBackup)
     in if length backupPVC = 0 then Backup_Name pulpBackup @ ''-backup-claim'' else backupPVC)"

definition getBackupPVCNamespace :: "PulpBackup \<Rightarrow> string" where
  "getBackupPVCNamespace pulpBackup =
    (let backupPVCNamespace = BSpec_BackupPVCNamespace (Backup_Spec pulpBackup)
     in if length backupPVCNamespace = 0 then Backup_Namespace pulpBackup else backupPVCNamespace)"

definition getBackupDir :: "string \<Rightarrow> string" where
  "getBackupDir timestamp = ''/backups/openshift-backup-'' @ timestamp"

definition getPostgresCfgSecret :: "PulpBackup \<Rightarrow> string" where
  "getPostgresCfgSecret pulpBackup =
    (let postgresCfgSecret = BSpec_PostgresConfigurationSecret (Backup_Spec pulpBackup)
     in if length postgresCfgSecret = 0 then getDeploymentName pulpBackup @ ''-postgres-configuration''
        else postgresCfgSecret)"

definition getDBFieldsEncryption :: "Pulp \<Rightarrow> string" where
  "getDBFieldsEncryption pulp = Status_DBFieldsEncryptionSecret (Pulp_Status pulp)"

definition getContainerTokenSecret :: "Pulp \<Rightarrow> string" where
  "getContainerTokenSecret pulp = Status_ContainerTokenSecret (Pulp_Status pulp)"

subsection \<open>Status\<close>

text \<open>\<open>r.Status().Update(ctx, pulpBackup)\<close>: the answer is decoded into the resource.\<close>

definition Backup_Status_Update ::
  "'w BackupExternals \<Rightarrow> ('w, PulpBackup) Run \<Rightarrow> error option \<times> ('w, PulpBackup) Run" where
  "Backup_Status_Update B s =
    (let ((err, p), w) = bx_BackupStatusUpdate B (run_obj s) (run_world s)
     in (err, s\<lparr>run_world := w, run_obj := p\<rparr>))"

definition set_backup_condition ::
  "'w BackupExternals \<Rightarrow> Condition \<Rightarrow> ('w, PulpBackup) Run \<Rightarrow> ('w, PulpBackup) Run" where
  "set_backup_condition B c s =
    s\<lparr>run_obj := (run_obj s)\<lparr>Backup_Status := (Backup_Status (run_obj s))\<lparr>BStatus_Conditions :=
      x_SetStatusCondition (bx_base B) (BStatus_Conditions (Backup_Status (run_obj s))) c\<rparr>\<rparr>\<rparr>"

definition updateStatus ::
  "'w BackupExternals \<Rightarrow> ConditionStatus \<Rightarrow> string \<Rightarrow> string \<Rightarrow> string
    \<Rightarrow> ('w, PulpBackup) Run \<Rightarrow> ('w, PulpBackup) Run" where
  "updateStatus B conditionStatus conditionType conditionMessage conditionReason s =
    (let (now, s) = act (x_Now (bx_base B)) s;
         s = set_backup_condition B \<lparr>cond_Type = conditionType, cond_Status = conditionStatus, cond_Reason = conditionReason,
               cond_LastTransitionTime = now, cond_Message = conditionMessage\<rparr> s
     in snd (Backup_Status_Update B s))"

text \<open>Every call is for the condition \<open>BackupComplete\<close>.\<close>

definition progress :: "'w BackupExternals \<Rightarrow> string \<Rightarrow> string \<Rightarrow> ('w, PulpBackup) Run \<Rightarrow> ('w, PulpBackup) Run" where
  "progress B message reason s = updateStatus B ConditionFalse ''BackupComplete'' message reason s"

definition Backup_setStatusFields ::
  "'w BackupExternals \<Rightarrow> string \<Rightarrow> ('w, PulpBackup) Run \<Rightarrow> error option \<times> ('w, PulpBackup) Run" where
  "Backup_setStatusFields B timestamp s =
    (let b = run_obj s;
         status = (Backup_Status b)\<lparr>BStatus_AdminPasswordSecret := getAdminPasswordSecret b,
           BStatus_BackupClaim := getBackupPVC b, BStatus_BackupDirectory := getBackupDir timestamp,
           BStatus_BackupNamespace := getBackupPVCNamespace b, BStatus_DeploymentName := getDeploymentName b\<rparr>
     in Backup_Status_Update B (s\<lparr>run_obj := b\<lparr>Backup_Status := status\<rparr>\<rparr>))"

subsection \<open>The claim and the pod\<close>

text \<open>\<open>resource.MustParse\<close> panics on a text that is no quantity, also when the claim exists.\<close>

definition createBackupPVC ::
  "'w BackupExternals \<Rightarrow> ('w, PulpBackup) Run \<Rightarrow> (error option \<times> ('w, PulpBackup) Run) option" where
  "createBackupPVC B s =
    (let b = run_obj s; spec = Backup_Spec b;
         storageRequirements = (if BSpec_BackupStorageReq spec \<noteq> [] then BSpec_BackupStorageReq spec else ''5Gi'');
         (r, s) = act (x_Get (bx_base B) KPVC (getBackupPVCNamespace b) (getBackupPVC b)) s
     in if \<not> x_ParseQuantity (bx_base B) storageRequirements then None
        else Some (case r of
            Inl err \<Rightarrow>
              if IsNotFound err
              then act (x_Create (bx_base B) (PVCObj \<lparr>
                     pvc_Meta = zero_ObjectMeta\<lparr>meta_Name := getBackupPVC b, meta_Namespace := getBackupPVCNamespace b,
                       meta_Labels := manager_labels (Backup_Name b)\<rparr>,
                     pvc_Storage = storageRequirements, pvc_AccessModes = [''ReadWriteOnce''],
                     pvc_StorageClassName = Some (BSpec_BackupSC spec)\<rparr>)) s
              else (Some err, s)
          | Inr _ \<Rightarrow> (None, s)))"

definition waitPodReady :: "'w BackupExternals \<Rightarrow> string \<Rightarrow> string \<Rightarrow> 'w \<Rightarrow> (Pod \<times> error option) \<times> 'w" where
  "waitPodReady B namespace podName w = poll_pod B namespace podName 120 None w"

text \<open>The mounts and volumes; the storage type is indexed, and there may be none.\<close>

definition backup_volumes :: "PulpBackup \<Rightarrow> Pulp \<Rightarrow> string \<Rightarrow> (VolumeMount list \<times> Volume list) option" where
  "backup_volumes b pulp backupDir =
    (let name = Backup_Name b @ ''-backup'';
         mounts = [manager_mount name backupDir];
         volumes = [manager_volume name (getBackupPVC b)]
     in case index (snd (MultiStorageConfigured pulp ''Pulp'')) 0 of
          None \<Rightarrow> None
        | Some storage \<Rightarrow>
            Some (if storage = SCNameType
                  then (mounts @ [manager_mount ''file-storage'' ''/var/lib/pulp''],
                        volumes @ [manager_volume ''file-storage'' (Pulp_Name pulp @ ''-file-storage'')])
                  else if storage = PVCType
                  then (mounts @ [manager_mount ''file-storage'' ''/var/lib/pulp''],
                        volumes @ [manager_volume ''file-storage'' (Spec_PVC (Pulp_Spec pulp))])
                  else (mounts, volumes)))"

text \<open>The common end: create the pod when it is not found, then wait for it.\<close>

definition ensure_pod ::
  "'w BackupExternals \<Rightarrow> (string \<Rightarrow> string \<Rightarrow> 'w \<Rightarrow> (Pod \<times> error option) \<times> 'w) \<Rightarrow> string \<Rightarrow> Pod
    \<Rightarrow> ('w, 'c) Run \<Rightarrow> (error + Pod) \<times> ('w, 'c) Run" where
  "ensure_pod B wait owner pod s =
    (let ns = meta_Namespace (po_Meta pod); name = meta_Name (po_Meta pod);
         (r, s) = act (x_Get (bx_base B) KPod ns name) s;
         (err, s) = (case r of
             Inl err \<Rightarrow>
               if IsNotFound err
               then act (x_Create (bx_base B) (PodObj (pod\<lparr>po_Meta := set_controller owner (po_Meta pod)\<rparr>))) s
               else (Some err, s)
           | Inr _ \<Rightarrow> (None, s))
     in case err of
          Some err \<Rightarrow> (Inl err, s)
        | None \<Rightarrow>
            (let ((pod, err), s) = act (wait ns name) s
             in case err of Some err \<Rightarrow> (Inl err, s) | None \<Rightarrow> (Inr pod, s)))"

definition createBackupPod ::
  "'w BackupExternals \<Rightarrow> string \<Rightarrow> ('w, PulpBackup) Run \<Rightarrow> ((error + Pod) \<times> ('w, PulpBackup) Run) option" where
  "createBackupPod B backupDir s =
    (let b = run_obj s;
         (r, s) = act (x_GetPulp (bx_base B) (Backup_Namespace b) (getDeploymentName b)) s
     in case r of
          Inl err \<Rightarrow> Some (Inl err, s)
        | Inr pulp \<Rightarrow>
            (case backup_volumes b pulp backupDir of
               None \<Rightarrow> None
             | Some (volumeMounts, volumes) \<Rightarrow>
                 (let affinity = (case BSpec_Affinity (Backup_Spec b) of None \<Rightarrow> JObj [] | Some a \<Rightarrow> a)
                  in Some (ensure_pod B (waitPodReady B) (Backup_Name b)
                       (manager_pod (Backup_Name b) (Backup_Namespace b) (Some affinity) backupDir volumeMounts volumes) s))))"

definition cleanup :: "'w BackupExternals \<Rightarrow> ('w, PulpBackup) Run \<Rightarrow> ('w, PulpBackup) Run" where
  "cleanup B s =
    s\<lparr>run_world := remove_pod B (Backup_Namespace (run_obj s)) (manager_name (Backup_Name (run_obj s))) (run_world s)\<rparr>"

subsection \<open>Commands in the pod\<close>

definition run_in_manager ::
  "'w BackupExternals \<Rightarrow> Pod \<Rightarrow> string list \<Rightarrow> ('w, PulpBackup) Run \<Rightarrow> error option \<times> ('w, PulpBackup) Run" where
  "run_in_manager B pod execCmd s =
    (let (r, s) = exec_in B pod execCmd (manager_name (Backup_Name (run_obj s))) s in (err_of r, s))"

definition createBackupDir ::
  "'w BackupExternals \<Rightarrow> string \<Rightarrow> Pod \<Rightarrow> ('w, PulpBackup) Run \<Rightarrow> error option \<times> ('w, PulpBackup) Run" where
  "createBackupDir B backupDir pod s = run_in_manager B pod [''mkdir'', ''-p'', backupDir] s"

text \<open>
  \<open>configMapType\<close> and \<open>secretType\<close>, without the resource: it is the one of the run.
\<close>

record backupEntry =
  be_name :: string
  be_backupDir :: string
  be_backupFile :: string
  be_objName :: string
  be_pod :: Pod

definition createConfigMapBackupFile ::
  "'w BackupExternals \<Rightarrow> backupEntry \<Rightarrow> ('w, PulpBackup) Run \<Rightarrow> error option \<times> ('w, PulpBackup) Run" where
  "createConfigMapBackupFile B e s =
    (let (r, s) = act (x_Get (bx_base B) KConfigMap (Backup_Namespace (run_obj s)) (be_objName e)) s
     in case as_ConfigMap r of
          Inl err \<Rightarrow> (Some err, s)
        | Inr configMap \<Rightarrow>
            run_in_manager B (be_pod e)
              [''bash'', ''-c'', ''cat<<EOF> '' @ be_backupDir e @ ''/'' @ be_backupFile e @ '' '' @ newline
                 @ bx_PrintYAML B (ConfigMapObj configMap) @ ''EOF''] s)"

definition backupConfigMap ::
  "'w BackupExternals \<Rightarrow> string \<Rightarrow> Pod \<Rightarrow> ('w, PulpBackup) Run \<Rightarrow> error option \<times> ('w, PulpBackup) Run" where
  "backupConfigMap B backupDir pod s =
    (let b = run_obj s;
         (r, s) = act (x_GetPulp (bx_base B) (Backup_Namespace b) (getDeploymentName b)) s
     in case r of
          Inl err \<Rightarrow> (Some err, s)
        | Inr pulp \<Rightarrow>
            (let custom_pulp_settings = Spec_CustomPulpSettings (Pulp_Spec pulp)
             in if custom_pulp_settings = [] then (None, s)
                else createConfigMapBackupFile B \<lparr>be_name = ''custom_pulp_settings'', be_backupDir = backupDir,
                       be_backupFile = ''custom_pulp_settings.yaml'', be_objName = custom_pulp_settings, be_pod = pod\<rparr> s))"

definition backupDatabase ::
  "'w BackupExternals \<Rightarrow> string \<Rightarrow> Pod \<Rightarrow> ('w, PulpBackup) Run \<Rightarrow> error option \<times> ('w, PulpBackup) Run" where
  "backupDatabase B backupDir pod s =
    (let backupFile = backupDir @ ''/'' @ ''pulp.db'';
         postgresConfigurationSecret = getPostgresCfgSecret (run_obj s)
     in andThen (run_in_manager B pod [''touch'', backupFile] s) (\<lambda>s.
        andThen (run_in_manager B pod [''chmod'', ''0600'', backupFile] s) (\<lambda>s.
        (let (r, s) = act (x_Get (bx_base B) KSecret (Backup_Namespace (run_obj s)) postgresConfigurationSecret) s
         in case as_Secret r of
              Inl err \<Rightarrow> (Some err, s)
            | Inr pgConfig \<Rightarrow>
                run_in_manager B pod [''pg_dump'', ''--clean'', ''--create'', ''-Ft'',
                  ''-d'', database_url (sec_Data pgConfig), ''-f'', backupFile] s))))"

definition backupCR ::
  "'w BackupExternals \<Rightarrow> string \<Rightarrow> Pod \<Rightarrow> ('w, PulpBackup) Run \<Rightarrow> error option \<times> ('w, PulpBackup) Run" where
  "backupCR B backupDir pod s =
    (let b = run_obj s;
         (r, s) = act (x_GetPulp (bx_base B) (Backup_Namespace b) (getDeploymentName b)) s
     in case r of
          Inl err \<Rightarrow> (Some err, s)
        | Inr pulp \<Rightarrow> run_in_manager B pod (echo_command (bx_MarshalSpec B (Pulp_Spec pulp)) (backupDir @ ''/cr_object'')) s)"

definition backupPulpDir ::
  "'w BackupExternals \<Rightarrow> string \<Rightarrow> Pod \<Rightarrow> ('w, PulpBackup) Run \<Rightarrow> error option \<times> ('w, PulpBackup) Run" where
  "backupPulpDir B backupDir pod s =
    (let b = run_obj s;
         (r, s) = act (x_GetPulp (bx_base B) (Backup_Namespace b) (getDeploymentName b)) s
     in case r of
          Inl err \<Rightarrow> (Some err, s)
        | Inr pulp \<Rightarrow>
            (let spec = Pulp_Spec pulp
             in if length (Spec_ObjectStorageAzureSecret spec) = 0 \<and> length (Spec_ObjectStorageS3Secret spec) = 0
                   \<and> length (Spec_ObjectStorageGCSSecret spec) = 0
                then andThen (run_in_manager B pod [''mkdir'', ''-p'', backupDir @ ''/pulp''] s)
                       (run_in_manager B pod [''bash'', ''-c'', ''cp -fa /var/lib/pulp/. '' @ backupDir @ ''/pulp''])
                else (None, s)))"

subsection \<open>Secrets\<close>

text \<open>
  The name of the secret goes into the file under a key of its own, before the data: a key of
  the data with that name takes its place.
\<close>

definition backup_content :: "string \<Rightarrow> string \<Rightarrow> gomap \<Rightarrow> gomap" where
  "backup_content name secretName secret_data = gcopy [(name, secretName)] secret_data"

definition createBackupFile ::
  "'w BackupExternals \<Rightarrow> backupEntry \<Rightarrow> ('w, PulpBackup) Run \<Rightarrow> error option \<times> ('w, PulpBackup) Run" where
  "createBackupFile B e s =
    (let (r, s) = act (x_Get (bx_base B) KSecret (Backup_Namespace (run_obj s)) (be_objName e)) s
     in case as_Secret r of
          Inl err \<Rightarrow> (Some err, s)
        | Inr secret \<Rightarrow>
            run_in_manager B (be_pod e)
              (echo_command (bx_Marshal B (backup_content (be_name e) (be_objName e) (sec_Data secret)))
                 (be_backupDir e @ ''/'' @ be_backupFile e)) s)"

definition createSecretBackupFile ::
  "'w BackupExternals \<Rightarrow> backupEntry \<Rightarrow> ('w, PulpBackup) Run \<Rightarrow> error option \<times> ('w, PulpBackup) Run" where
  "createSecretBackupFile B e s =
    (let (r, s) = act (x_Get (bx_base B) KSecret (Backup_Namespace (run_obj s)) (be_objName e)) s
     in case as_Secret r of
          Inl err \<Rightarrow> (Some err, s)
        | Inr secret \<Rightarrow>
            run_in_manager B (be_pod e)
              (echo_command (bx_PrintYAML B (SecretObj secret)) (be_backupDir e @ ''/'' @ be_backupFile e)) s)"

text \<open>A step that is taken when the custom resource names the secret.\<close>

definition when_set ::
  "string \<Rightarrow> (('w, PulpBackup) Run \<Rightarrow> error option \<times> ('w, PulpBackup) Run)
    \<Rightarrow> ('w, PulpBackup) Run \<Rightarrow> error option \<times> ('w, PulpBackup) Run" where
  "when_set secretName f s = (if length secretName > 0 then f s else (None, s))"

text \<open>The files, once the custom resource was read.\<close>

definition backup_secret_files ::
  "'w BackupExternals \<Rightarrow> string \<Rightarrow> Pod \<Rightarrow> PulpBackup \<Rightarrow> Pulp \<Rightarrow> ('w, PulpBackup) Run \<Rightarrow> error option \<times> ('w, PulpBackup) Run" where
  "backup_secret_files B backupDir pod b pulp s =
    (let spec = Pulp_Spec pulp;
         entry = (\<lambda>name file secretName. \<lparr>be_name = name, be_backupDir = backupDir, be_backupFile = file,
                    be_objName = secretName, be_pod = pod\<rparr>)
     in
     andThen (createSecretBackupFile B (entry ''pulp_secret_key'' ''pulp_secret_key.yaml'' (getPulpSecretKey b)) s) (\<lambda>s.
     andThen (createBackupFile B (entry ''admin_password_secret'' ''admin_secret.yaml'' (getAdminPasswordSecret b)) s) (\<lambda>s.
     andThen (createBackupFile B (entry ''postgres_secret'' ''postgres_configuration_secret.yaml'' (getPostgresCfgSecret b)) s) (\<lambda>s.
     andThen (createBackupFile B (entry ''db_fields_encryption_secret'' ''db_fields_encryption_secret.yaml'' (getDBFieldsEncryption pulp)) s) (\<lambda>s.
     andThen (when_set (Spec_SigningSecret spec) (\<lambda>s.
                andThen (createBackupFile B (entry ''signing_secret'' ''signing_secret.yaml'' (Spec_SigningSecret spec)) s)
                  (createSecretBackupFile B (entry ''signing_scripts'' ''signing_scripts.yaml'' (Spec_SigningScripts spec)))) s) (\<lambda>s.
     andThen (createBackupFile B (entry ''container_token_secret'' ''container_token_secret.yaml'' (getContainerTokenSecret pulp)) s) (\<lambda>s.
     andThen (when_set (Spec_ObjectStorageS3Secret spec)
                (createBackupFile B (entry ''storage_secret'' ''objectstorage_secret.yaml'' (Spec_ObjectStorageS3Secret spec))) s) (\<lambda>s.
     andThen (when_set (Spec_ObjectStorageAzureSecret spec)
                (createBackupFile B (entry ''storage_secret'' ''objectstorage_secret.yaml'' (Spec_ObjectStorageAzureSecret spec))) s) (\<lambda>s.
     andThen (when_set (Spec_ObjectStorageGCSSecret spec)
                (createBackupFile B (entry ''storage_secret'' ''objectstorage_secret.yaml'' (Spec_ObjectStorageGCSSecret spec))) s) (\<lambda>s.
     andThen (when_set (Spec_SSOSecret spec)
                (createBackupFile B (entry ''sso_secret'' ''sso_secret.yaml'' (Spec_SSOSecret spec))) s) (\<lambda>s.
     andThen (when_set (LDAP_Config (Spec_LDAP spec))
                (createSecretBackupFile B (entry ''ldap_secret'' ''ldap_secret.yaml'' (LDAP_Config (Spec_LDAP spec)))) s) (\<lambda>s.
       when_set (LDAP_CA (Spec_LDAP spec))
                (createSecretBackupFile B (entry ''ldap_ca_secret'' ''ldap_ca_secret.yaml'' (LDAP_CA (Spec_LDAP spec)))) s))))))))))))"

definition backupSecret ::
  "'w BackupExternals \<Rightarrow> string \<Rightarrow> Pod \<Rightarrow> ('w, PulpBackup) Run \<Rightarrow> error option \<times> ('w, PulpBackup) Run" where
  "backupSecret B backupDir pod s =
    (let b = run_obj s;
         (r, s) = act (x_GetPulp (bx_base B) (Backup_Namespace b) (getDeploymentName b)) s
     in case r of
          Inl err \<Rightarrow> (Some err, s)
        | Inr pulp \<Rightarrow> backup_secret_files B backupDir pod b pulp s)"

subsection \<open>Reconcile\<close>

text \<open>
  \<open>if err != nil { r.updateStatus(...); return ctrl.Result{}, err }\<close>; \<open>None\<close> is a panic.
\<close>

type_synonym 'w backup_outcome = "((Result \<times> error option) \<times> ('w, PulpBackup) Run) option"

definition orReport ::
  "'w BackupExternals \<Rightarrow> string \<Rightarrow> string \<Rightarrow> error option \<times> ('w, PulpBackup) Run
    \<Rightarrow> (('w, PulpBackup) Run \<Rightarrow> 'w backup_outcome) \<Rightarrow> 'w backup_outcome" where
  "orReport B message reason r k =
    (case r of
       (Some err, s) \<Rightarrow> Some ((zero_Result, Some err), progress B message reason s)
     | (None, s) \<Rightarrow> k s)"

definition backup_finish :: "'w BackupExternals \<Rightarrow> string \<Rightarrow> ('w, PulpBackup) Run \<Rightarrow> 'w backup_outcome" where
  "backup_finish B formattedCurrentTime s =
    (let s = progress B ''Cleaning up backup resources ...'' ''DeletingBkpPod'' s;
         s = cleanup B s;
         (_, s) = Backup_setStatusFields B formattedCurrentTime s;
         s = updateStatus B ConditionTrue ''BackupComplete'' ''All backup tasks run!'' ''BackupTasksFinished'' s
     in Some ((zero_Result, None), s))"

definition backup_data ::
  "'w BackupExternals \<Rightarrow> string \<Rightarrow> string \<Rightarrow> Pod \<Rightarrow> ('w, PulpBackup) Run \<Rightarrow> 'w backup_outcome" where
  "backup_data B formattedCurrentTime backupDir pod s =
    orReport B ''Failed to create backup directory!'' ''FailedCreateBkpDir'' (createBackupDir B backupDir pod s) (\<lambda>s.
    orReport B ''Failed to backup configmaps!'' ''FailedBackupConfigMaps''
      (backupConfigMap B backupDir pod (progress B ''Running configmap backup ...'' ''BackupConfigMap'' s)) (\<lambda>s.
    orReport B ''Failed to backup database!'' ''FailedBackupDB''
      (backupDatabase B backupDir pod (progress B ''Running database backup ...'' ''BackupDB'' s)) (\<lambda>s.
    orReport B ''Failed to backup CR!'' ''FailedBackupCR''
      (backupCR B backupDir pod (progress B ''Running CR backup ...'' ''BackupCR'' s)) (\<lambda>s.
    orReport B ''Failed to backup secrets!'' ''FailedBackupSecrets''
      (backupSecret B backupDir pod (progress B ''Running secrets backup ...'' ''BackupSecrets'' s)) (\<lambda>s.
    orReport B ''Failed to backup Pulp dir!'' ''FailedBackupDir''
      (backupPulpDir B backupDir pod (progress B ''Running Pulp dir backup ...'' ''BackupDir'' s))
      (backup_finish B formattedCurrentTime))))))"

definition backup_run :: "'w BackupExternals \<Rightarrow> string \<Rightarrow> ('w, PulpBackup) Run \<Rightarrow> 'w backup_outcome" where
  "backup_run B formattedCurrentTime s =
    do { let s = progress B ''Backup process running ...'' ''StartingBackupProcess'' s;
         let s = cleanup B s;
         let s = progress B ''Creating backup pvc ...'' ''CreatingPVC'' s;
         r \<leftarrow> createBackupPVC B s;
         orReport B ''Failed to create backup pvc!'' ''FailedCreatingPVC'' r (\<lambda>s.
           do { let s = progress B ''Creating backup pod ...'' ''CreatingPod'' s;
                (pod, s) \<leftarrow> createBackupPod B ''/backups'' s;
                case pod of
                  Inl err \<Rightarrow> Some ((zero_Result, Some err), progress B ''Failed to create backup pod!'' ''FailedCreatingPod'' s)
                | Inr pod \<Rightarrow> backup_data B formattedCurrentTime (getBackupDir formattedCurrentTime) pod s }) }"

text \<open>The outcome of a call, with the world after it; there is no resource in memory when it was not found.\<close>

definition Reconcile_Backup ::
  "'w BackupExternals \<Rightarrow> string \<Rightarrow> string \<Rightarrow> 'w \<Rightarrow> ((Result \<times> error option) \<times> 'w) option" where
  "Reconcile_Backup B ns name w =
    (let (now, w) = x_Now (bx_base B) w;
         formattedCurrentTime = bx_Format B ''2006-01-02-150405'' now;
         (r, w) = bx_GetBackup B ns name w
     in case r of
          Inl err \<Rightarrow> Some ((zero_Result, if IsNotFound err then None else Some err), w)
        | Inr pulpBackup \<Rightarrow>
            if checkRequiredFields pulpBackup \<noteq> None then Some ((zero_Result, None), w)
            else map_option (\<lambda>(res, s). (res, run_world s))
                   (backup_run B formattedCurrentTime \<lparr>run_world = w, run_obj = pulpBackup\<rparr>))"

end
