(* ===== verification/Restore.thy ===== *)
theory Restore
  imports Backup
begin

text \<open>
  The restore controller, \<open>controllers/restore\<close>: from the directory that a backup left on a claim it
  recreates the settings ConfigMap, the secrets and the custom resource (with no replicas and
  without migrations), loads the database and the files, and scales the deployments up. A ConfigMap
  marks the namespace as restored; while it is there nothing is done again.
\<close>

subsection \<open>Status, claims and the lock\<close>

definition CMLock :: string where
  "CMLock = ''restore-lock''"

definition Restore_Status_Update ::
  "'w BackupExternals \<Rightarrow> ('w, PulpRestore) Run \<Rightarrow> error option \<times> ('w, PulpRestore) Run" where
  "Restore_Status_Update B s =
    (let ((err, p), w) = bx_RestoreStatusUpdate B (run_obj s) (run_world s)
     in (err, s\<lparr>run_world := w, run_obj := p\<rparr>))"

definition set_restore_condition ::
  "'w BackupExternals \<Rightarrow> Condition \<Rightarrow> ('w, PulpRestore) Run \<Rightarrow> ('w, PulpRestore) Run" where
  "set_restore_condition B c s =
    s\<lparr>run_obj := (run_obj s)\<lparr>Restore_Status := (Restore_Status (run_obj s))\<lparr>RStatus_Conditions :=
      x_SetStatusCondition (bx_base B) (RStatus_Conditions (Restore_Status (run_obj s))) c\<rparr>\<rparr>\<rparr>"

definition Restore_updateStatus ::
  "'w BackupExternals \<Rightarrow> ConditionStatus \<Rightarrow> string \<Rightarrow> string \<Rightarrow> string
    \<Rightarrow> ('w, PulpRestore) Run \<Rightarrow> ('w, PulpRestore) Run" where
  "Restore_updateStatus B conditionStatus conditionType conditionMessage conditionReason s =
    (let (now, s) = act (x_Now (bx_base B)) s;
         s = set_restore_condition B \<lparr>cond_Type = conditionType, cond_Status = conditionStatus, cond_Reason = conditionReason,
               cond_LastTransitionTime = now, cond_Message = conditionMessage\<rparr> s
     in snd (Restore_Status_Update B s))"

definition restoring :: "'w BackupExternals \<Rightarrow> string \<Rightarrow> string \<Rightarrow> ('w, PulpRestore) Run \<Rightarrow> ('w, PulpRestore) Run" where
  "restoring B message reason s = Restore_updateStatus B ConditionFalse ''RestoreComplete'' message reason s"

definition isFileStorage :: "'w BackupExternals \<Rightarrow> ('w, PulpRestore) Run \<Rightarrow> bool \<times> ('w, PulpRestore) Run" where
  "isFileStorage B s =
    (let (r, s) = act (x_Get (bx_base B) KPVC (Restore_Namespace (run_obj s))
                        (RSpec_DeploymentName (Restore_Spec (run_obj s)) @ ''-file-storage'')) s
     in (err_of r = None, s))"

definition backupPVCFound :: "'w BackupExternals \<Rightarrow> ('w, PulpRestore) Run \<Rightarrow> (string \<times> bool) \<times> ('w, PulpRestore) Run" where
  "backupPVCFound B s =
    (let spec = Restore_Spec (run_obj s);
         backupPVCName = (if RSpec_BackupPVC spec = [] then RSpec_BackupName spec @ ''-backup-claim'' else RSpec_BackupPVC spec);
         (r, s) = act (x_Get (bx_base B) KPVC (Restore_Namespace (run_obj s)) backupPVCName) s
     in (if err_of r \<noteq> None then ([], False) else (backupPVCName, True), s))"

definition Restore_cleanup :: "'w BackupExternals \<Rightarrow> ('w, PulpRestore) Run \<Rightarrow> ('w, PulpRestore) Run" where
  "Restore_cleanup B s =
    s\<lparr>run_world := remove_pod B (Restore_Namespace (run_obj s)) (manager_name (Restore_Name (run_obj s))) (run_world s)\<rparr>"

definition Restore_waitPodReady :: "'w BackupExternals \<Rightarrow> string \<Rightarrow> string \<Rightarrow> 'w \<Rightarrow> (Pod \<times> error option) \<times> 'w" where
  "Restore_waitPodReady B namespace podName w = poll_pod B namespace podName 120 None w"

definition createRestorePod ::
  "'w BackupExternals \<Rightarrow> string \<Rightarrow> string \<Rightarrow> ('w, PulpRestore) Run \<Rightarrow> (error + Pod) \<times> ('w, PulpRestore) Run" where
  "createRestorePod B backupPVCName backupDir s =
    (let b = run_obj s;
         name = Restore_Name b @ ''-backup'';
         (fileStorage, s) = isFileStorage B s;
         volumeMounts = append_if fileStorage (manager_mount ''file-storage'' ''/var/lib/pulp'') [manager_mount name backupDir];
         volumes = append_if fileStorage (manager_volume ''file-storage'' (RSpec_DeploymentName (Restore_Spec b) @ ''-file-storage''))
                     [manager_volume name backupPVCName]
     in ensure_pod B (Restore_waitPodReady B) (Restore_Name b)
          (manager_pod (Restore_Name b) (Restore_Namespace b) None backupDir volumeMounts volumes) s)"

definition createLockConfigMap :: "'w BackupExternals \<Rightarrow> ('w, PulpRestore) Run \<Rightarrow> ('w, PulpRestore) Run" where
  "createLockConfigMap B s =
    (let (_, s) = act (x_Get (bx_base B) KConfigMap (Restore_Namespace (run_obj s)) CMLock) s;
         (currentTime, s) = act (x_Now (bx_base B)) s;
         lockCM = \<lparr>cm_Meta = set_controller (Restore_Name (run_obj s)) (zero_ObjectMeta\<lparr>meta_Name := CMLock,
                     meta_Namespace := Restore_Namespace (run_obj s),
                     meta_Labels := [(''owner'', ''pulp-restore''), (''app'', ''pulp-restore''), (''pulp_cr'', Restore_Name (run_obj s))]\<rparr>),
                   cm_Data = [(''last-restore-execution'', bx_Format B ''2006-01-02 15:04:05'' currentTime)]\<rparr>;
         (_, s) = act (x_Create (bx_base B) (ConfigMapObj lockCM)) s
     in s)"

definition Restore_getBackupDir ::
  "'w BackupExternals \<Rightarrow> ('w, PulpRestore) Run \<Rightarrow> (error + string) \<times> ('w, PulpRestore) Run" where
  "Restore_getBackupDir B s =
    (let spec = Restore_Spec (run_obj s)
     in if length (RSpec_BackupDir spec) = 0
        then (let (r, s) = act (bx_GetBackup B (Restore_Namespace (run_obj s)) (RSpec_BackupName spec)) s
              in case r of Inl err \<Rightarrow> (Inl err, s) | Inr pulpBackup \<Rightarrow> (Inr (BStatus_BackupDirectory (Backup_Status pulpBackup)), s))
        else (Inr (RSpec_BackupDir spec), s))"

definition run_in_restore ::
  "'w BackupExternals \<Rightarrow> Pod \<Rightarrow> string list \<Rightarrow> ('w, PulpRestore) Run \<Rightarrow> (error + string) \<times> ('w, PulpRestore) Run" where
  "run_in_restore B pod execCmd s = exec_in B pod execCmd (manager_name (Restore_Name (run_obj s))) s"

subsection \<open>Restoring an object\<close>

text \<open>
  The outcome of restoring one object: whether its file was found and the error. \<open>None\<close> is a panic.
\<close>

type_synonym 'w restored = "((bool \<times> error option) \<times> ('w, PulpRestore) Run) option"

text \<open>
  The end that the three operations share: the object is created unless it is found (or looking for
  it fails in another way); \<open>kind\<close> is the word in the reasons, \<open>noun\<close> that in the messages.
\<close>

definition create_missing ::
  "'w BackupExternals \<Rightarrow> string \<Rightarrow> string \<Rightarrow> string \<Rightarrow> Object \<Rightarrow> ('w, PulpRestore) Run
    \<Rightarrow> (bool \<times> error option) \<times> ('w, PulpRestore) Run" where
  "create_missing B resourceType kind noun obj s =
    (let (r, s) = act (x_Get (bx_base B) (obj_Kind obj) (Restore_Namespace (run_obj s)) (obj_Name obj)) s
     in case r of
          Inr _ \<Rightarrow> ((True, None), s)
        | Inl err \<Rightarrow>
            if IsNotFound err
            then (let (err, s) = act (x_Create (bx_base B) obj) s
                  in case err of
                       Some err \<Rightarrow> ((True, Some err),
                         restoring B (''Error trying to restore '' @ resourceType @ '' '' @ noun @ ''!'')
                           (''FailedCreate'' @ resourceType @ kind) s)
                     | None \<Rightarrow> ((True, None),
                         restoring B (resourceType @ '' '' @ noun @ '' restored'') (resourceType @ kind @ ''Restored'') s))
            else ((True, None), s))"

text \<open>\<open>cat file\<close> and its error report.\<close>

definition read_backup ::
  "'w BackupExternals \<Rightarrow> string \<Rightarrow> string \<Rightarrow> string \<Rightarrow> string \<Rightarrow> Pod \<Rightarrow> ('w, PulpRestore) Run
    \<Rightarrow> (error + string) \<times> ('w, PulpRestore) Run" where
  "read_backup B resourceType kind backupDir backupFile pod s =
    (let (r, s) = run_in_restore B pod [''cat'', backupDir @ ''/'' @ backupFile] s
     in case r of
          Inl err \<Rightarrow> (Inl err, restoring B (''Failed to get '' @ backupFile) (''FailedGet'' @ resourceType @ kind) s)
        | Inr cmdOutput \<Rightarrow> (Inr cmdOutput, s))"

definition without_version :: "Object \<Rightarrow> Object" where
  "without_version obj = map_Meta (\<lambda>m. m\<lparr>meta_ResourceVersion := []\<rparr>) obj"

text \<open>
  Whole objects: a file that is not there is no error; what it holds is asserted to be of the kind, so
  that a text that cannot be decoded, or another object, is a panic.
\<close>

definition restoreFromYaml ::
  "'w BackupExternals \<Rightarrow> Kind \<Rightarrow> string \<Rightarrow> string \<Rightarrow> string \<Rightarrow> string \<Rightarrow> string \<Rightarrow> Pod \<Rightarrow> ('w, PulpRestore) Run \<Rightarrow> 'w restored" where
  "restoreFromYaml B k kind noun resourceType backupDir backupFile pod s =
    (let (r, s) = run_in_restore B pod [''test'', ''-f'', backupDir @ ''/'' @ backupFile] s
     in case r of
          Inl _ \<Rightarrow> Some ((False, None), s)
        | Inr _ \<Rightarrow>
            (let (out, s) = read_backup B resourceType kind backupDir backupFile pod s
             in case out of
                  Inl err \<Rightarrow> Some ((True, Some err), s)
                | Inr cmdOutput \<Rightarrow>
                    (case bx_Decode B cmdOutput of
                       Inl _ \<Rightarrow> None
                     | Inr obj \<Rightarrow>
                         if obj_Kind obj = k then Some (create_missing B resourceType kind noun (without_version obj) s)
                         else None)))"

definition restoreConfigMapFromYaml ::
  "'w BackupExternals \<Rightarrow> string \<Rightarrow> string \<Rightarrow> string \<Rightarrow> Pod \<Rightarrow> ('w, PulpRestore) Run \<Rightarrow> 'w restored" where
  "restoreConfigMapFromYaml B = restoreFromYaml B KConfigMap ''ConfigMap'' ''configmap''"

definition restoreSecretFromYaml ::
  "'w BackupExternals \<Rightarrow> string \<Rightarrow> string \<Rightarrow> string \<Rightarrow> Pod \<Rightarrow> ('w, PulpRestore) Run \<Rightarrow> 'w restored" where
  "restoreSecretFromYaml B = restoreFromYaml B KSecret ''Secret'' ''secret''"

definition restoreConfigMap ::
  "'w BackupExternals \<Rightarrow> string \<Rightarrow> Pod \<Rightarrow> ('w, PulpRestore) Run \<Rightarrow> (error option \<times> ('w, PulpRestore) Run) option" where
  "restoreConfigMap B backupDir pod s =
    do { ((_, err), s) \<leftarrow> restoreConfigMapFromYaml B ''CustomPulpSettings'' backupDir ''custom_pulp_settings.yaml'' pod s;
         Some (err, s) }"

subsection \<open>Restoring a secret from a map\<close>

text \<open>The structs the file is read into: the tags of their fields, in order.\<close>

definition adminPassword :: "string list" where
  "adminPassword = [''admin_password_secret'', ''password'']"

definition postgresSecret :: "string list" where
  "postgresSecret = [''database'', ''host'', ''password'', ''port'', ''postgres_secret'', ''sslmode'', ''type'', ''username'']"

definition containerTokenSecret :: "string list" where
  "containerTokenSecret = [''container_auth_public_key.pem'', ''container_auth_private_key.pem'', ''container_token_secret'']"

definition dbFieldsEncryptionSecret :: "string list" where
  "dbFieldsEncryptionSecret = [''database_fields.symmetric.key'', ''db_fields_encryption_secret'']"

definition storageObjectSecret :: "string list" where
  "storageObjectSecret = [''s3-access-key-id'', ''s3-bucket-name'', ''s3-region'', ''s3-endpoint'', ''s3-secret-access-key'',
     ''storage_secret'', ''azure-account-name'', ''azure-account-key'', ''azure-container'', ''azure-container-path'',
     ''azure-connection-string'', ''gcs-bucket-name'', ''gcs-iam-sign-blob'', ''gcs-querystring-auth'', ''gcs-file-overwrite'']"

definition signingSecret :: "string list" where
  "signingSecret = [''signing_secret'', ''signing_service.gpg'']"

definition ssoSecret :: "string list" where
  "ssoSecret = [''keycloak_admin_role'', ''keycloak_group_token_claim'', ''keycloak_host'', ''keycloak_port'',
     ''keycloak_protocol'', ''keycloak_realm'', ''social_auth_keycloak_key'', ''social_auth_keycloak_public_key'',
     ''social_auth_keycloak_secret'', ''sso_secret'']"

definition pulpSecretKey :: "string list" where
  "pulpSecretKey = [''pulp_secret_key'', ''secret_key'']"

text \<open>The switch; without a match the value stays invalid and asking for its fields panics.\<close>

definition struct_tags :: "string \<Rightarrow> string list option" where
  "struct_tags secretNameKey = map_of
    [(''signing_secret'', signingSecret), (''db_fields_encryption_secret'', dbFieldsEncryptionSecret),
     (''storage_secret'', storageObjectSecret), (''postgres_secret'', postgresSecret),
     (''admin_password_secret'', adminPassword), (''sso_secret'', ssoSecret),
     (''container_token_secret'', containerTokenSecret), (''pulp_secret_key'', pulpSecretKey)] secretNameKey"

text \<open>The fields of the status are \<open>conditions\<close>, which is no string, and \<open>postgres_secret\<close>.\<close>

definition setStatusField :: "string \<Rightarrow> string \<Rightarrow> PulpRestore \<Rightarrow> PulpRestore option" where
  "setStatusField fieldName fieldValue pulpRestore =
    (if fieldName = ''conditions'' then None
     else if fieldName = ''postgres_secret''
     then Some (pulpRestore\<lparr>Restore_Status := (Restore_Status pulpRestore)\<lparr>RStatus_PostgresSecret := fieldValue\<rparr>\<rparr>)
     else Some pulpRestore)"

text \<open>The loop over the fields: the name of the secret and its data.\<close>

fun read_fields ::
  "string \<Rightarrow> (string \<times> string) list \<Rightarrow> string \<Rightarrow> gomap \<Rightarrow> PulpRestore \<Rightarrow> ((string \<times> gomap) \<times> PulpRestore) option" where
  "read_fields secretNameKey [] secretNameData secretData pulpRestore = Some ((secretNameData, secretData), pulpRestore)"
| "read_fields secretNameKey ((tag, value) # fs) secretNameData secretData pulpRestore =
    (if tag = secretNameKey
     then do { pulpRestore \<leftarrow> setStatusField secretNameKey value pulpRestore;
               read_fields secretNameKey fs value secretData pulpRestore }
     else read_fields secretNameKey fs secretNameData (if value \<noteq> [] then gset tag value secretData else secretData) pulpRestore)"

text \<open>The object made from the text of the file, created if it is missing.\<close>

definition secret_from ::
  "'w BackupExternals \<Rightarrow> string \<Rightarrow> string \<Rightarrow> string \<Rightarrow> ('w, PulpRestore) Run \<Rightarrow> 'w restored" where
  "secret_from B resourceType secretNameKey cmdOutput s =
    do { tags \<leftarrow> struct_tags secretNameKey;
         ((secretNameData, secretData), b) \<leftarrow>
           read_fields secretNameKey (map (\<lambda>t. (t, bx_Unmarshal B tags cmdOutput t)) tags) [] [] (run_obj s);
         Some (create_missing B resourceType ''Secret'' ''secret''
           (SecretObj \<lparr>sec_Meta = zero_ObjectMeta\<lparr>meta_Name := secretNameData, meta_Namespace := Restore_Namespace b\<rparr>,
              sec_Data = [], sec_StringData = secretData\<rparr>) (s\<lparr>run_obj := b\<rparr>)) }"

definition secret ::
  "'w BackupExternals \<Rightarrow> string \<Rightarrow> string \<Rightarrow> string \<Rightarrow> string \<Rightarrow> Pod \<Rightarrow> ('w, PulpRestore) Run \<Rightarrow> 'w restored" where
  "secret B resourceType secretNameKey backupDir backupFile pod s =
    (let (r, s) = run_in_restore B pod [''test'', ''-f'', backupDir @ ''/'' @ backupFile] s
     in case r of
          Inl err \<Rightarrow> Some ((False, Some err), s)
        | Inr _ \<Rightarrow>
            (let s = restoring B (''Restoring '' @ resourceType @ '' secret'') (''Restoring'' @ resourceType @ ''Secret'') s;
                 (out, s) = read_backup B resourceType ''Secret'' backupDir backupFile pod s
             in case out of
                  Inl err \<Rightarrow> Some ((True, Some err), s)
                | Inr cmdOutput \<Rightarrow> secret_from B resourceType secretNameKey cmdOutput s))"

text \<open>
  \<open>if _, err := ...; err != nil { return err }\<close> and \<open>if found, err := ...; found && err != nil { return err }\<close>.
\<close>

type_synonym 'w restore_step = "(error option \<times> ('w, PulpRestore) Run) option"

definition mandatory :: "'w restored \<Rightarrow> (('w, PulpRestore) Run \<Rightarrow> 'w restore_step) \<Rightarrow> 'w restore_step" where
  "mandatory r k = do { ((found, err), s) \<leftarrow> r; if err \<noteq> None then Some (err, s) else k s }"

definition optional :: "'w restored \<Rightarrow> (('w, PulpRestore) Run \<Rightarrow> 'w restore_step) \<Rightarrow> 'w restore_step" where
  "optional r k = do { ((found, err), s) \<leftarrow> r; if found \<and> err \<noteq> None then Some (err, s) else k s }"

definition restoreSecret :: "'w BackupExternals \<Rightarrow> string \<Rightarrow> Pod \<Rightarrow> ('w, PulpRestore) Run \<Rightarrow> 'w restore_step" where
  "restoreSecret B dir pod s =
    mandatory (restoreSecretFromYaml B ''PulpSecreyKey'' dir ''pulp_secret_key.yaml'' pod s) (\<lambda>s.
    mandatory (secret B ''AdminPassword'' ''admin_password_secret'' dir ''admin_secret.yaml'' pod s) (\<lambda>s.
    mandatory (secret B ''Postgres'' ''postgres_secret'' dir ''postgres_configuration_secret.yaml'' pod s) (\<lambda>s.
    mandatory (secret B ''DBFieldsEncryption'' ''db_fields_encryption_secret'' dir ''db_fields_encryption_secret.yaml'' pod s) (\<lambda>s.
    optional (secret B ''ContainerToken'' ''container_token_secret'' dir ''container_token_secret.yaml'' pod s) (\<lambda>s.
    optional (secret B ''ObjectStorage'' ''storage_secret'' dir ''objectstorage_secret.yaml'' pod s) (\<lambda>s.
    optional (secret B ''Signing'' ''signing_secret'' dir ''signing_secret.yaml'' pod s) (\<lambda>s.
    optional (restoreSecretFromYaml B ''SigningScripts'' dir ''signing_scripts.yaml'' pod s) (\<lambda>s.
    optional (secret B ''SSO'' ''sso_secret'' dir ''sso_secret.yaml'' pod s) (\<lambda>s.
    optional (restoreSecretFromYaml B ''LDAPSecret'' dir ''ldap_secret.yaml'' pod s) (\<lambda>s.
    optional (restoreSecretFromYaml B ''LDAPSecret'' dir ''ldap_ca_secret.yaml'' pod s) (\<lambda>s.
      Some (None, s))))))))))))"

subsection \<open>The custom resource and the deployments\<close>

record PodReplicas =
  replicas_Api :: int
  replicas_Content :: int
  replicas_Worker :: int
  replicas_Web :: int

definition zero_PodReplicas :: PodReplicas where
  "zero_PodReplicas = \<lparr>replicas_Api = 0, replicas_Content = 0, replicas_Worker = 0, replicas_Web = 0\<rparr>"

definition replicas_of :: "PulpSpec \<Rightarrow> PodReplicas" where
  "replicas_of spec = \<lparr>replicas_Api = Api_Replicas (Spec_Api spec), replicas_Content = Content_Replicas (Spec_Content spec),
     replicas_Worker = Worker_Replicas (Spec_Worker spec), replicas_Web = Web_Replicas (Spec_Web spec)\<rparr>"

definition with_replicas :: "PodReplicas \<Rightarrow> PulpSpec \<Rightarrow> PulpSpec" where
  "with_replicas n spec = spec\<lparr>
     Spec_Api := (Spec_Api spec)\<lparr>Api_Replicas := replicas_Api n\<rparr>,
     Spec_Content := (Spec_Content spec)\<lparr>Content_Replicas := replicas_Content n\<rparr>,
     Spec_Worker := (Spec_Worker spec)\<lparr>Worker_Replicas := replicas_Worker n\<rparr>,
     Spec_Web := (Spec_Web spec)\<lparr>Web_Replicas := replicas_Web n\<rparr>\<rparr>"

definition restorePulpCR ::
  "'w BackupExternals \<Rightarrow> string \<Rightarrow> Pod \<Rightarrow> ('w, PulpRestore) Run \<Rightarrow> (PodReplicas \<times> error option) \<times> ('w, PulpRestore) Run" where
  "restorePulpCR B backupDir pod s =
    (let ns = Restore_Namespace (run_obj s);
         name = RSpec_DeploymentName (Restore_Spec (run_obj s));
         (r, s) = act (x_GetPulp (bx_base B) ns name) s
     in case r of
          Inr _ \<Rightarrow> ((zero_PodReplicas, None), s)
        | Inl err \<Rightarrow>
            if \<not> IsNotFound err then ((zero_PodReplicas, None), s)
            else
             (let s = restoring B (''Restoring '' @ name @ '' CR'') (''Restoring'' @ name @ ''CR'') s;
                  (out, s) = run_in_restore B pod [''cat'', backupDir @ ''/cr_object''] s
              in case out of
                   Inl err \<Rightarrow> ((zero_PodReplicas, Some err),
                     restoring B ''Failed to get cr_object backup file!'' (''FailedGet'' @ name @ ''CR'') s)
                 | Inr cmdOutput \<Rightarrow>
                     (let spec = bx_UnmarshalSpec B cmdOutput;
                          pulp = zero_Pulp\<lparr>Pulp_Meta := zero_ObjectMeta\<lparr>meta_Name := name, meta_Namespace := ns\<rparr>,
                            Pulp_Spec := (with_replicas zero_PodReplicas spec)\<lparr>Spec_DisableMigrations := True\<rparr>\<rparr>;
                          (err, s) = act (bx_CreatePulp B pulp) s
                      in case err of
                           Some err \<Rightarrow> ((zero_PodReplicas, Some err),
                             restoring B ''Failed to restore cr_object!'' (''FailedRestore'' @ name @ ''CR'') s)
                         | None \<Rightarrow> ((replicas_of spec, None), s))))"

text \<open>The replicas to scale to; \<open>isNginxIngress\<close> is what the code calls it.\<close>

definition scaled_spec :: "bool \<Rightarrow> PodReplicas \<Rightarrow> Pulp \<Rightarrow> PulpSpec" where
  "scaled_spec keep podReplicas pulp =
    (let spec = Pulp_Spec pulp;
         isNginxIngress = (ToLower (Spec_IngressType spec) = ''ingress'' \<and> \<not> IsNginxIngressSupported pulp);
         web = (if ToLower (Spec_IngressType spec) \<noteq> ''route'' \<and> \<not> isNginxIngress then 1 else Web_Replicas (Spec_Web spec))
     in (with_replicas
           (if keep then podReplicas
            else \<lparr>replicas_Api = 1, replicas_Content = 1, replicas_Worker = 1, replicas_Web = web\<rparr>) spec)
        \<lparr>Spec_DisableMigrations := False\<rparr>)"

definition settled :: "'w BackupExternals \<Rightarrow> string \<Rightarrow> string \<Rightarrow> 'w \<Rightarrow> bool \<times> 'w" where
  "settled B ns name w =
    (let (r, w) = x_Get (bx_base B) KDeployment ns name w;
         d = or_zero zero_Deployment (as_Deployment r)
     in (dep_ReadyReplicas d = dep_StatusReplicas d, w))"

fun wait_api :: "'w BackupExternals \<Rightarrow> string \<Rightarrow> string \<Rightarrow> nat \<Rightarrow> 'w \<Rightarrow> 'w" where
  "wait_api B ns name 0 w = w"
| "wait_api B ns name (Suc n) w =
    (let (done, w) = settled B ns name (bx_Sleep B 10 w) in if done then w else wait_api B ns name n w)"

fun wait_web :: "'w BackupExternals \<Rightarrow> string \<Rightarrow> string \<Rightarrow> nat \<Rightarrow> 'w \<Rightarrow> 'w" where
  "wait_web B ns name 0 w = w"
| "wait_web B ns name (Suc n) w =
    (let (done, w) = settled B ns name w in if done then w else wait_web B ns name n (bx_Sleep B 10 w))"

text \<open>After the resource was read: another error than not found leaves the zero value in its place.\<close>

definition scale_rest ::
  "'w BackupExternals \<Rightarrow> PulpRestoreSpec \<Rightarrow> PodReplicas \<Rightarrow> Pulp \<Rightarrow> ('w, PulpRestore) Run
    \<Rightarrow> error option \<times> ('w, PulpRestore) Run" where
  "scale_rest B spec podReplicas pulp s =
    (let ((err, pulp), s) =
           act (bx_UpdatePulp B (pulp\<lparr>Pulp_Spec := scaled_spec (RSpec_KeepBackupReplicasCount spec) podReplicas pulp\<rparr>)) s
     in case err of
          Some err \<Rightarrow> (Some err, s)
        | None \<Rightarrow>
            (let w = wait_api B (Pulp_Namespace pulp) (Pulp_Name pulp @ ''-api'') 18 (run_world s);
                 w = bx_Sleep B 60 w;
                 w = wait_web B (Pulp_Namespace pulp) (Pulp_Name pulp @ ''-web'') 18 w
             in (None, s\<lparr>run_world := w\<rparr>)))"

definition scaleDeployments ::
  "'w BackupExternals \<Rightarrow> PodReplicas \<Rightarrow> ('w, PulpRestore) Run \<Rightarrow> error option \<times> ('w, PulpRestore) Run" where
  "scaleDeployments B podReplicas s =
    (let spec = Restore_Spec (run_obj s);
         (r, s) = act (x_GetPulp (bx_base B) (Restore_Namespace (run_obj s)) (RSpec_DeploymentName spec)) s;
         pulp = or_zero zero_Pulp r
     in case r of
          Inl err \<Rightarrow> if IsNotFound err then (Some err, s) else scale_rest B spec podReplicas pulp s
        | Inr _ \<Rightarrow> scale_rest B spec podReplicas pulp s)"

subsection \<open>Database and files\<close>

fun as_StatefulSet :: "error + Object \<Rightarrow> error + StatefulSet" where
  "as_StatefulSet (Inr (StatefulSetObj x)) = Inr x"
| "as_StatefulSet (Inl e) = Inl e"
| "as_StatefulSet _ = Inl (Errorf ''unexpected kind'')"

fun poll_database :: "'w BackupExternals \<Rightarrow> string \<Rightarrow> string \<Rightarrow> nat \<Rightarrow> error option \<Rightarrow> 'w \<Rightarrow> error option \<times> 'w" where
  "poll_database B ns stsName 0 err w = (err, w)"
| "poll_database B ns stsName (Suc n) err w =
    (let (r, w) = x_Get (bx_base B) KStatefulSet ns stsName w;
         sts = or_zero zero_StatefulSet (as_StatefulSet r)
     in if sts_ReadyReplicas sts = sts_StatusReplicas sts then (None, w)
        else poll_database B ns stsName n (err_of r) (bx_Sleep B 1 w))"

definition waitDBReady :: "'w BackupExternals \<Rightarrow> string \<Rightarrow> string \<Rightarrow> 'w \<Rightarrow> error option \<times> 'w" where
  "waitDBReady B namespace stsName w = poll_database B namespace stsName 120 None w"

definition restoreDatabaseData ::
  "'w BackupExternals \<Rightarrow> string \<Rightarrow> Pod \<Rightarrow> ('w, PulpRestore) Run \<Rightarrow> error option \<times> ('w, PulpRestore) Run" where
  "restoreDatabaseData B backupDir pod s =
    (let s = let_time_pass B 5 s;
         b = run_obj s;
         (r, s) = act (x_Get (bx_base B) KSecret (Restore_Namespace b) (RStatus_PostgresSecret (Restore_Status b))) s
     in case as_Secret r of
          Inl err \<Rightarrow> (Some err, s)
        | Inr pgConfig \<Rightarrow>
            (let (_, s) = act (waitDBReady B (Restore_Namespace b) (RSpec_DeploymentName (Restore_Spec b) @ ''-database'')) s;
                 (r, s) = run_in_restore B pod
                   [''pg_restore'', ''-d'', database_url (sec_Data pgConfig), backupDir @ ''/'' @ ''pulp.db''] s
             in (err_of r, s)))"

definition restorePulpDir ::
  "'w BackupExternals \<Rightarrow> string \<Rightarrow> string \<Rightarrow> ('w, PulpRestore) Run \<Rightarrow> error option \<times> ('w, PulpRestore) Run" where
  "restorePulpDir B backupPVCName backupDir s =
    (let (fileStorage, s) = isFileStorage B s
     in if \<not> fileStorage then (None, s)
        else
         (let s = Restore_cleanup B s;
              (pod, s) = createRestorePod B backupPVCName ''/backups'' s
          in case pod of
               Inl err \<Rightarrow> (Some err, s)
             | Inr pod \<Rightarrow>
                 (let (r, s) = run_in_restore B pod [''bash'', ''-c'', ''cp -fa '' @ backupDir @ ''/pulp/ /var/lib/pulp''] s
                  in (err_of r, s))))"

subsection \<open>Reconcile\<close>

type_synonym 'w restore_outcome = "((Result \<times> error option) \<times> ('w, PulpRestore) Run) option"

definition restore_finish :: "'w BackupExternals \<Rightarrow> ('w, PulpRestore) Run \<Rightarrow> ('w, PulpRestore) Run" where
  "restore_finish B s =
    (let s = restoring B ''Cleaning up restore resources ...'' ''DeletingMgmtPod'' s;
         s = Restore_cleanup B s;
         s = createLockConfigMap B s
     in Restore_updateStatus B ConditionTrue ''RestoreComplete'' ''All restore tasks run!'' ''RestoreTasksFinished'' s)"

definition restore_deployment ::
  "'w BackupExternals \<Rightarrow> string \<Rightarrow> string \<Rightarrow> Pod \<Rightarrow> ('w, PulpRestore) Run \<Rightarrow> error option \<times> ('w, PulpRestore) Run" where
  "restore_deployment B backupPVCName backupDir pod s =
    (let ((podReplicas, err), s) = restorePulpCR B backupDir pod s
     in andThen (err, s) (\<lambda>s.
        andThen (restoreDatabaseData B backupDir pod s) (\<lambda>s.
        andThen (restorePulpDir B backupPVCName backupDir s) (\<lambda>s.
        andThen (scaleDeployments B podReplicas s) (\<lambda>s.
          (None, restore_finish B s))))))"

definition restore_data ::
  "'w BackupExternals \<Rightarrow> string \<Rightarrow> string \<Rightarrow> Pod \<Rightarrow> ('w, PulpRestore) Run \<Rightarrow> 'w restore_step" where
  "restore_data B backupPVCName backupDir pod s =
    (let (r, s) = run_in_restore B pod [''stat'', backupDir] s
     in case r of
          Inl err \<Rightarrow> Some (Some err, restoring B (''Failed to find '' @ backupDir @ '' dir!'') ''BackupDirNotFound'' s)
        | Inr _ \<Rightarrow>
            do { (err, s) \<leftarrow> restoreConfigMap B backupDir pod s;
                 if err \<noteq> None then Some (err, s)
                 else do { (err, s) \<leftarrow> restoreSecret B backupDir pod s;
                           if err \<noteq> None then Some (err, s)
                           else Some (restore_deployment B backupPVCName backupDir pod s) } })"

text \<open>
  From the lock on. When the claim is not found the error returned is the one of an earlier call, nil.
\<close>

definition restore_run :: "'w BackupExternals \<Rightarrow> string \<Rightarrow> ('w, PulpRestore) Run \<Rightarrow> 'w restore_step" where
  "restore_run B backupDir s =
    (let (lockCM, s) = act (x_Get (bx_base B) KConfigMap (Restore_Namespace (run_obj s)) CMLock) s
     in if err_of lockCM = None then Some (None, s)
        else
         (let s = restoring B ''Restore process running ...'' ''StartingRestoreProcess'' s;
              ((backupPVCName, PVCfound), s) = backupPVCFound B s
          in if \<not> PVCfound
             then Some (None, restoring B (''PVC '' @ backupPVCName @ '' not found!'') ''BackupPVCNotFound'' s)
             else
              (let s = restoring B ''Removing old manager pod ...'' ''RemovingOldPod'' s;
                   s = Restore_cleanup B s;
                   s = restoring B ''Creating manager pod ...'' ''CreatingPod'' s;
                   (pod, s) = createRestorePod B backupPVCName ''/backups'' s
               in case pod of
                    Inl err \<Rightarrow> Some (Some err, restoring B ''Failed to create manager pod!'' ''FailedCreatingPod'' s)
                  | Inr pod \<Rightarrow> restore_data B backupPVCName backupDir pod s)))"

definition Reconcile_Restore ::
  "'w BackupExternals \<Rightarrow> string \<Rightarrow> string \<Rightarrow> 'w \<Rightarrow> ((Result \<times> error option) \<times> 'w) option" where
  "Reconcile_Restore B ns name w =
    (let (r, w) = bx_GetRestore B ns name w
     in case r of
          Inl err \<Rightarrow> Some ((zero_Result, if IsNotFound err then None else Some err), w)
        | Inr pulpRestore \<Rightarrow>
            (let (backupDir, s) = Restore_getBackupDir B \<lparr>run_world = w, run_obj = pulpRestore\<rparr>
             in case backupDir of
                  Inl _ \<Rightarrow> Some ((zero_Result, None), run_world s)
                | Inr backupDir \<Rightarrow>
                    map_option (\<lambda>(err, s). ((zero_Result, err), run_world s)) (restore_run B backupDir s)))"

end
