(* ===== verification/Mem_Backup.thy ===== *)
theory Mem_Backup
  imports Restore
begin

text \<open>
  The in-memory API server with what the backup and restore controllers need besides: the two custom
  resources, pods that are ready a moment after they were created, and a shell in every pod that
  knows the files of the claim and the commands by which a text is written, tested and read. It is
  what the locales of \<open>Backup_Props\<close> and \<open>Backup_Restore\<close> are interpreted on.
\<close>

record bmem =
  bm_mem :: mem
  bm_files :: gomap
  bm_log :: "string list list"
  bm_backups :: "PulpBackup list"
  bm_restores :: "PulpRestore list"

definition on_mem :: "(mem \<Rightarrow> 'a \<times> mem) \<Rightarrow> bmem \<Rightarrow> 'a \<times> bmem" where
  "on_mem f w = (let (r, m) = f (bm_mem w) in (r, w\<lparr>bm_mem := m\<rparr>))"

lemma on_mem_sel [simp]:
  "fst (on_mem f w) = fst (f (bm_mem w))"
  "bm_mem (snd (on_mem f w)) = snd (f (bm_mem w))"
  "bm_files (snd (on_mem f w)) = bm_files w"
  "bm_log (snd (on_mem f w)) = bm_log w"
  "bm_backups (snd (on_mem f w)) = bm_backups w"
  "bm_restores (snd (on_mem f w)) = bm_restores w"
  by (simp_all add: on_mem_def split_beta)

subsection \<open>The shell\<close>

text \<open>\<open>echo 'text' > path\<close>: the text up to the next quote, and the path.\<close>

definition parse_echo :: "string \<Rightarrow> (string \<times> string) option" where
  "parse_echo script =
    (let body = drop 6 script;
         t = takeWhile (\<lambda>c. c \<noteq> CHR 0x27) body;
         tail = drop (length t) body
     in if take 6 script = ''echo '' @ squote \<and> take 4 tail = squote @ '' > '' then Some (t, drop 4 tail) else None)"

definition script_of :: "string list \<Rightarrow> string option" where
  "script_of command = (if length command = 3 \<and> take 2 command = [''bash'', ''-c''] then Some (command ! 2) else None)"

definition mem_files :: "string list \<Rightarrow> gomap \<Rightarrow> gomap" where
  "mem_files command files =
    (case Option.bind (script_of command) parse_echo of Some (t, path) \<Rightarrow> gset path (t @ newline) files | None \<Rightarrow> files)"

definition mem_output :: "string list \<Rightarrow> gomap \<Rightarrow> error + string \<times> string" where
  "mem_output command files =
    (if length command = 3 \<and> take 2 command = [''test'', ''-f'']
     then (if map_of files (command ! 2) = None then Inl (Errorf ''exit code 1'') else Inr ([], []))
     else if length command = 2 \<and> take 1 command = [''cat'']
     then (case map_of files (command ! 1) of None \<Rightarrow> Inl (Errorf ''exit code 1'') | Some t \<Rightarrow> Inr (t, []))
     else Inr ([], []))"

definition mem_exec :: "string list \<Rightarrow> bmem \<Rightarrow> (error + string \<times> string) \<times> bmem" where
  "mem_exec command w =
    (case mem_output command (bm_files w) of
       Inl err \<Rightarrow> (Inl err, w)
     | Inr out \<Rightarrow> (Inr out, w\<lparr>bm_files := mem_files command (bm_files w), bm_log := bm_log w @ [command]\<rparr>))"

subsection \<open>The server\<close>

definition mem_base :: "bmem Externals" where
  "mem_base = \<lparr>
     x_Get = (\<lambda>k ns n. on_mem (mem_get k ns n)),
     x_Create = (\<lambda>x. on_mem (mem_create x)),
     x_Update = (\<lambda>x. on_mem (mem_update x)),
     x_DryRunCreate = (\<lambda>x. on_mem (x_DryRunCreate mem_ext x)),
     x_DryRunUpdate = (\<lambda>x. on_mem (x_DryRunUpdate mem_ext x)),
     x_Delete = (\<lambda>x. on_mem (mem_delete x)),
     x_DeleteAllOf = (\<lambda>k ns sel. on_mem (mem_delete_all k ns sel)),
     x_ListJobs = (\<lambda>ns sel. on_mem (mem_list_jobs ns sel)),
     x_ListPods = (\<lambda>ns sel. on_mem (x_ListPods mem_ext ns sel)),
     x_Exec = (\<lambda>ns pod container command. mem_exec command),
     x_GetPulp = (\<lambda>ns n. on_mem (mem_get_pulp ns n)),
     x_ListPulps = (\<lambda>ns n. on_mem (x_ListPulps mem_ext ns n)),
     x_StatusUpdate = (\<lambda>p. on_mem (x_StatusUpdate mem_ext p)),
     x_PatchPulp = (\<lambda>p base. on_mem (x_PatchPulp mem_ext p base)),
     x_GetConfig = on_mem (x_GetConfig mem_ext),
     x_NewDiscoveryClient = on_mem (x_NewDiscoveryClient mem_ext),
     x_ServerResources = (\<lambda>gv. on_mem (x_ServerResources mem_ext gv)),
     x_Now = on_mem (x_Now mem_ext),
     x_Intn = (\<lambda>n. on_mem (x_Intn mem_ext n)),
     x_RandBytes = (\<lambda>n. on_mem (x_RandBytes mem_ext n)),
     x_GenKeyPEM = on_mem (x_GenKeyPEM mem_ext),
     x_RangeOrder = (\<lambda>m. on_mem (x_RangeOrder mem_ext m)),
     x_FindStatusCondition = find_condition,
     x_SetStatusCondition = set_condition,
     x_RemoveStatusCondition = remove_condition,
     x_IsStatusConditionPresentAndEqual = condition_equal,
     x_IsStatusConditionFalse = (\<lambda>cs t. condition_equal cs t ConditionFalse),
     x_Schedule = (\<lambda>n. on_mem (x_Schedule mem_ext n)),
     x_Getenv = x_Getenv mem_ext,
     x_ReadArmoredKeyRing = x_ReadArmoredKeyRing mem_ext,
     x_ParseQuantity = x_ParseQuantity mem_ext,
     x_QuantityIsZero = x_QuantityIsZero mem_ext,
     x_QuantityString = x_QuantityString mem_ext,
     x_Title = title,
     x_DumpSpec = dump_spec,
     x_DumpMap = dump_map,
     x_DeepDerivative = x_DeepDerivative mem_ext,
     x_DeepEqual = x_DeepEqual mem_ext\<rparr>"

text \<open>A map as text: every byte as two letters, so that the separators cannot occur in an entry.\<close>

definition spell :: "string \<Rightarrow> string" where
  "spell s = concat (map (\<lambda>c. [char_of (65 + of_char c div 16 :: nat), char_of (65 + of_char c mod 16 :: nat)]) s)"

fun unspell :: "string \<Rightarrow> string" where
  "unspell (a # b # s) = char_of (16 * (of_char a - 65) + (of_char b - 65) :: nat) # unspell s"
| "unspell _ = []"

definition mem_marshal :: "gomap \<Rightarrow> string" where
  "mem_marshal m = concat (map (\<lambda>(k, v). spell k @ '':'' @ spell v @ '','') m)"

definition mem_entry :: "string \<Rightarrow> string \<times> string" where
  "mem_entry s = (case Split (CHR '':'') s of [k, v] \<Rightarrow> (unspell k, unspell v) | _ \<Rightarrow> ([], []))"

definition mem_unmarshal :: "string \<Rightarrow> gomap" where
  "mem_unmarshal s = map mem_entry (butlast (Split (CHR '','') s))"

text \<open>Pods get ready while the controller sleeps.\<close>

fun ready_pod :: "Object \<Rightarrow> Object" where
  "ready_pod (PodObj p) = PodObj (p\<lparr>po_Ready := [True]\<rparr>)"
| "ready_pod x = x"

definition mem_sleep :: "bmem \<Rightarrow> bmem" where
  "mem_sleep w = w\<lparr>bm_mem := (bm_mem w)\<lparr>mem_objs := map ready_pod (mem_objs (bm_mem w))\<rparr>\<rparr>"

definition mem_create_pulp :: "Pulp \<Rightarrow> bmem \<Rightarrow> error option \<times> bmem" where
  "mem_create_pulp p w =
    (if \<exists>q \<in> set (mem_pulps (bm_mem w)). same_pulp (Pulp_Namespace p) (Pulp_Name p) q
     then (Some (Errorf ''already exists''), w)
     else (None, w\<lparr>bm_mem := (bm_mem w)\<lparr>mem_pulps := mem_pulps (bm_mem w) @ [p]\<rparr>\<rparr>))"

definition mem_find :: "('a \<Rightarrow> ObjectMeta) \<Rightarrow> 'a list \<Rightarrow> string \<Rightarrow> string \<Rightarrow> error + 'a" where
  "mem_find meta xs ns n =
    (case List.find (\<lambda>x. meta_Namespace (meta x) = ns \<and> meta_Name (meta x) = n) xs of
       None \<Rightarrow> Inl (NotFound n) | Some x \<Rightarrow> Inr x)"

text \<open>The specification whose JSON text the instance knows is a parameter.\<close>

definition mem_bext :: "PulpSpec \<Rightarrow> bmem BackupExternals" where
  "mem_bext spec = \<lparr>
     bx_base = mem_base,
     bx_GetBackup = (\<lambda>ns n w. (mem_find Backup_Meta (bm_backups w) ns n, w)),
     bx_BackupStatusUpdate = (\<lambda>b w. ((None, b), w)),
     bx_GetRestore = (\<lambda>ns n w. (mem_find Restore_Meta (bm_restores w) ns n, w)),
     bx_RestoreStatusUpdate = (\<lambda>b w. ((None, b), w)),
     bx_CreatePulp = mem_create_pulp,
     bx_UpdatePulp = (\<lambda>p. on_mem (mem_put_pulp (\<lambda>q. p) p)),
     bx_Sleep = (\<lambda>n. mem_sleep),
     bx_Format = (\<lambda>layout t. t),
     bx_Marshal = mem_marshal,
     bx_Unmarshal = (\<lambda>tags t. gget (mem_unmarshal t)),
     bx_PrintYAML = (\<lambda>obj. ''---''),
     bx_Decode = (\<lambda>t. Inl (Errorf ''no kind'')),
     bx_MarshalSpec = (\<lambda>s. ''{}''),
     bx_UnmarshalSpec = (\<lambda>t. spec)\<rparr>"

lemma mem_bext_base [simp]: "bx_base (mem_bext spec) = mem_base"
  by (simp add: mem_bext_def)

end
