(* ===== verification/Backup_Props.thy ===== *)
theory Backup_Props
  imports Mem_Backup
begin

text \<open>
  What a backup promises: its condition tells whether every step went through, a backup that
  succeeds has run exactly the commands of a plan that depends only on the custom resources and the
  secrets, and the loops that wait for the manager pod are bounded.
\<close>

subsection \<open>Waiting for the pod\<close>

lemma find_map: "List.find P (map f xs) = map_option f (List.find (P \<circ> f) xs)"
  by (induction xs) auto

lemma upt_Suc_shift: "[0..<Suc n] = 0 # map Suc [0..<n]"
  by (simp only: map_Suc_upt upt_conv_Cons [of 0 "Suc n"] zero_less_Suc)

text \<open>The world after some seconds, and the pod as it is read then.\<close>

definition seconds_later :: "'w BackupExternals \<Rightarrow> nat \<Rightarrow> 'w \<Rightarrow> 'w" where
  "seconds_later B i w = (bx_Sleep B 1 ^^ i) w"

definition pod_read :: "'w BackupExternals \<Rightarrow> string \<Rightarrow> string \<Rightarrow> nat \<Rightarrow> 'w \<Rightarrow> error + Object" where
  "pod_read B ns podName i w = fst (x_Get (bx_base B) KPod ns podName (seconds_later B i w))"

definition pod_seen :: "'w BackupExternals \<Rightarrow> string \<Rightarrow> string \<Rightarrow> nat \<Rightarrow> 'w \<Rightarrow> Pod" where
  "pod_seen B ns podName i w = or_zero zero_Pod (as_Pod (pod_read B ns podName i w))"

lemma seconds_later_simps [simp]:
  "seconds_later B 0 w = w"
  "seconds_later B (Suc 0) w = bx_Sleep B (Suc 0) w"
  "seconds_later B i (bx_Sleep B (Suc 0) w) = seconds_later B (Suc i) w"
  by (simp_all add: seconds_later_def funpow_swap1)

lemma pod_later [simp]:
  "pod_read B ns n i (bx_Sleep B (Suc 0) w) = pod_read B ns n (Suc i) w"
  "pod_seen B ns n i (bx_Sleep B (Suc 0) w) = pod_seen B ns n (Suc i) w"
  by (simp_all add: pod_read_def pod_seen_def)

definition first_seen :: "'w BackupExternals \<Rightarrow> string \<Rightarrow> string \<Rightarrow> nat \<Rightarrow> 'w \<Rightarrow> nat option" where
  "first_seen B ns podName n w = List.find (\<lambda>i. first_ready (pod_seen B ns podName i w)) [0..<n]"

lemma first_seen_Suc:
  "first_seen B ns podName (Suc n) w =
    (if first_ready (pod_seen B ns podName 0 w) then Some 0
     else map_option Suc (first_seen B ns podName n (bx_Sleep B (Suc 0) w)))"
  by (simp add: first_seen_def upt_Suc_shift find_map comp_def del: upt_Suc)

lemma poll_pod_first_seen:
  fixes B :: "'w BackupExternals"
  assumes pure: "\<And>w. snd (x_Get (bx_base B) KPod ns podName w) = w"
  shows "poll_pod B ns podName n err w =
    (case first_seen B ns podName n w of
       Some i \<Rightarrow> ((pod_seen B ns podName i w, None), seconds_later B i w)
     | None \<Rightarrow> ((zero_Pod, if n = 0 then err else err_of (pod_read B ns podName (n - 1) w)), seconds_later B n w))"
proof (induction n arbitrary: err w)
  case 0
  show ?case by (simp add: first_seen_def)
next
  case (Suc n)
  have get: "x_Get (bx_base B) KPod ns podName w = (pod_read B ns podName 0 w, w)"
    using pure [of w] by (simp add: pod_read_def prod_eq_iff)
  have step: "poll_pod B ns podName (Suc n) err w =
      (if first_ready (pod_seen B ns podName 0 w) then ((pod_seen B ns podName 0 w, None), w)
       else poll_pod B ns podName n (err_of (pod_read B ns podName 0 w)) (bx_Sleep B (Suc 0) w))"
    by (simp add: get pod_seen_def Let_def)
  have none: "first_seen B ns podName 0 w = None" for w :: 'w
    by (simp add: first_seen_def)
  show ?case
    unfolding step Suc.IH first_seen_Suc
    by (cases n) (auto simp: none split: option.splits)
qed

text \<open>
  C28: \<open>waitPodReady\<close> returns: it gives the pod as it is at the first of 120 seconds at which its first
  container is ready, and no later. When there is none it gives an empty pod with the error of the last
  \<open>Get\<close>, so that a pod that exists but never gets ready is reported as an empty pod without an error.
\<close>

theorem waitPodReady_first_ready:
  assumes "\<And>w. snd (x_Get (bx_base B) KPod ns podName w) = w"
  shows "waitPodReady B ns podName w =
    (case first_seen B ns podName 120 w of
       Some i \<Rightarrow> ((pod_seen B ns podName i w, None), seconds_later B i w)
     | None \<Rightarrow> ((zero_Pod, err_of (pod_read B ns podName 119 w)), seconds_later B 120 w))"
  unfolding waitPodReady_def by (subst poll_pod_first_seen [OF assms]) (simp split: option.split)

text \<open>A world with one pod, created but not ready yet.\<close>

definition ex_pod :: Pod where
  "ex_pod = manager_pod ''b'' ''ns'' None ''/backups'' [] []"

definition ex_bworld :: "Object list \<Rightarrow> bmem" where
  "ex_bworld objs = \<lparr>bm_mem = mem_init zero_Pulp objs, bm_files = [], bm_log = [], bm_backups = [], bm_restores = []\<rparr>"

lemma mem_base_get: "x_Get (bx_base (mem_bext spec)) = (\<lambda>k ns n. on_mem (mem_get k ns n))"
  by (simp add: mem_base_def)

lemma mem_get_pure: "snd (mem_get k ns n m) = m"
  by (simp add: mem_get_def split: option.splits)

lemma on_mem_get_pure: "snd (on_mem (mem_get k ns n) w) = w"
  using mem_get_pure [of k ns n "bm_mem w"] by (simp add: on_mem_def split_beta)

lemma mem_sleep_bext: "bx_Sleep (mem_bext spec) n = mem_sleep"
  by (simp add: mem_bext_def)

lemma ex_pod_sleep: "bx_Sleep (mem_bext spec) n (ex_bworld [PodObj ex_pod]) = ex_bworld [PodObj (ex_pod\<lparr>po_Ready := [True]\<rparr>)]"
  by (simp add: mem_sleep_bext mem_sleep_def ex_bworld_def mem_init_def)

lemma ex_pod_read:
  assumes "meta_Namespace (po_Meta p) = ''ns''" "meta_Name (po_Meta p) = ''b-backup-manager''"
  shows "x_Get (bx_base (mem_bext spec)) KPod ''ns'' ''b-backup-manager'' (ex_bworld [PodObj p]) =
    (Inr (PodObj p), ex_bworld [PodObj p])"
  using assms by (simp add: mem_base_def on_mem_def mem_get_def mem_lookup_def same_obj_def ex_bworld_def mem_init_def)

lemma ex_pod_sel:
  "po_Ready ex_pod = []" "meta_Namespace (po_Meta ex_pod) = ''ns''" "meta_Name (po_Meta ex_pod) = ''b-backup-manager''"
  by (simp_all add: ex_pod_def manager_pod_def manager_name_def)

lemma first_seen_second:
  assumes "\<not> first_ready (pod_seen B ns n 0 w)" "first_ready (pod_seen B ns n 1 w)"
  shows "first_seen B ns n 120 w = Some 1"
proof -
  have "first_seen B ns n (Suc (Suc m)) w = Some 1" for m
    using assms by (simp add: first_seen_Suc)
  from this [of 118] show ?thesis by simp
qed

lemma waitPodReady_first_ready_witness:
  "waitPodReady (mem_bext zero_PulpSpec) ''ns'' ''b-backup-manager'' (ex_bworld [PodObj ex_pod]) =
     ((ex_pod\<lparr>po_Ready := [True]\<rparr>, None), ex_bworld [PodObj (ex_pod\<lparr>po_Ready := [True]\<rparr>)])"
proof -
  let ?B = "mem_bext zero_PulpSpec" and ?w = "ex_bworld [PodObj ex_pod]"
  have pure: "snd (x_Get (bx_base ?B) KPod ''ns'' ''b-backup-manager'' w) = w" for w
    by (simp only: mem_base_get on_mem_get_pure)
  have later: "seconds_later ?B 1 ?w = ex_bworld [PodObj (ex_pod\<lparr>po_Ready := [True]\<rparr>)]"
    by (simp add: seconds_later_def ex_pod_sleep)
  have seen: "pod_seen ?B ''ns'' ''b-backup-manager'' 0 ?w = ex_pod"
    "pod_seen ?B ''ns'' ''b-backup-manager'' 1 ?w = ex_pod\<lparr>po_Ready := [True]\<rparr>"
    using ex_pod_read [of ex_pod zero_PulpSpec] ex_pod_read [of "ex_pod\<lparr>po_Ready := [True]\<rparr>" zero_PulpSpec] later
    by (simp_all add: pod_seen_def pod_read_def ex_pod_sel)
  have "first_seen ?B ''ns'' ''b-backup-manager'' 120 ?w = Some 1"
    by (rule first_seen_second) (simp_all only: seen, simp_all add: first_ready_def ex_pod_sel)
  with waitPodReady_first_ready [of ?B "''ns''" "''b-backup-manager''" ?w, OF pure] seen later
  show ?thesis by simp
qed

subsection \<open>The condition\<close>

text \<open>The resource on the server, as for the Pulp resource: an update of the status keeps the rest.\<close>

definition same_backup :: "PulpBackup \<Rightarrow> PulpBackup \<Rightarrow> bool" where
  "same_backup b b' \<longleftrightarrow> Backup_Spec b' = Backup_Spec b \<and> Backup_Name b' = Backup_Name b \<and> Backup_Namespace b' = Backup_Namespace b"

locale backup_store =
  fixes B :: "'w BackupExternals"
  assumes backup_status_keeps: "bx_BackupStatusUpdate B b w = ((err, b'), w') \<Longrightarrow>
      same_backup b b' \<and> Backup_Status b' = Backup_Status b"
begin

lemma Backup_Status_Update_obj:
  "same_backup (run_obj s) (run_obj (snd (Backup_Status_Update B s)))"
  "Backup_Status (run_obj (snd (Backup_Status_Update B s))) = Backup_Status (run_obj s)"
  using backup_status_keeps [of "run_obj s" "run_world s"]
  by (auto simp: Backup_Status_Update_def split_beta prod_eq_iff)

lemma updateStatus_obj:
  "same_backup (run_obj s) (run_obj (updateStatus B st ty msg reason s))"
  "\<exists>now. BStatus_Conditions (Backup_Status (run_obj (updateStatus B st ty msg reason s))) =
     x_SetStatusCondition (bx_base B) (BStatus_Conditions (Backup_Status (run_obj s)))
       \<lparr>cond_Type = ty, cond_Status = st, cond_Reason = reason, cond_LastTransitionTime = now, cond_Message = msg\<rparr>"
proof -
  obtain now w where n: "x_Now (bx_base B) (run_world s) = (now, w)" by (metis surj_pair)
  let ?c = "\<lparr>cond_Type = ty, cond_Status = st, cond_Reason = reason, cond_LastTransitionTime = now, cond_Message = msg\<rparr>"
  let ?s = "set_backup_condition B ?c (s\<lparr>run_world := w\<rparr>)"
  have u: "updateStatus B st ty msg reason s = snd (Backup_Status_Update B ?s)"
    by (simp add: updateStatus_def act_def n)
  show "same_backup (run_obj s) (run_obj (updateStatus B st ty msg reason s))"
    using Backup_Status_Update_obj(1) [of ?s] by (simp add: u set_backup_condition_def same_backup_def)
  show "\<exists>now. BStatus_Conditions (Backup_Status (run_obj (updateStatus B st ty msg reason s))) =
     x_SetStatusCondition (bx_base B) (BStatus_Conditions (Backup_Status (run_obj s)))
       \<lparr>cond_Type = ty, cond_Status = st, cond_Reason = reason, cond_LastTransitionTime = now, cond_Message = msg\<rparr>"
    using Backup_Status_Update_obj(2) [of ?s] by (auto simp: u set_backup_condition_def)
qed

end

definition backup_complete :: "'w BackupExternals \<Rightarrow> ConditionStatus \<Rightarrow> ('w, PulpBackup) Run \<Rightarrow> bool" where
  "backup_complete B st s \<longleftrightarrow> x_IsStatusConditionPresentAndEqual (bx_base B)
     (BStatus_Conditions (Backup_Status (run_obj s))) ''BackupComplete'' st"

definition reported :: "'w BackupExternals \<Rightarrow> error option \<Rightarrow> ('w, PulpBackup) Run \<Rightarrow> bool" where
  "reported B err s \<longleftrightarrow> backup_complete B (if err = None then ConditionTrue else ConditionFalse) s"

locale backup_reports = backup_store B + condition_lib "bx_base B" for B :: "'w BackupExternals"
begin

lemma complete_updateStatus: "backup_complete B st (updateStatus B st ''BackupComplete'' msg reason s)"
  using updateStatus_obj(2) [of st "''BackupComplete''" msg reason s]
  by (auto simp: backup_complete_def set_status_present)

lemma progress_reported: "reported B (Some err) (progress B msg reason s)"
  by (simp add: reported_def progress_def complete_updateStatus)

lemma orReport_complete:
  assumes "orReport B msg reason r k = Some ((res, err), s')"
    and "\<And>s. k s = Some ((res, err), s') \<Longrightarrow> reported B err s'"
  shows "reported B err s'"
  using assms progress_reported by (auto simp: orReport_def split: prod.splits option.splits)

lemma backup_finish_complete:
  "backup_finish B ts s = Some ((res, err), s') \<Longrightarrow> reported B err s'"
  using complete_updateStatus by (auto simp: reported_def backup_finish_def Let_def split_beta)

lemma backup_data_complete:
  assumes "backup_data B ts dir pod s = Some ((res, err), s')"
  shows "reported B err s'"
  using assms unfolding backup_data_def
  by (elim orReport_complete backup_finish_complete)

lemma backup_run_complete:
  assumes "backup_run B ts s = Some ((res, err), s')"
  shows "reported B err s'"
proof -
  let ?s = "progress B ''Creating backup pvc ...'' ''CreatingPVC'' (cleanup B (progress B ''Backup process running ...'' ''StartingBackupProcess'' s))"
  let ?k = "\<lambda>s. Option.bind (createBackupPod B ''/backups'' (progress B ''Creating backup pod ...'' ''CreatingPod'' s))
      (\<lambda>(pod, s). case pod of
         Inl err \<Rightarrow> Some ((zero_Result, Some err), progress B ''Failed to create backup pod!'' ''FailedCreatingPod'' s)
       | Inr pod \<Rightarrow> backup_data B ts (getBackupDir ts) pod s)"
  from assms obtain r where "orReport B ''Failed to create backup pvc!'' ''FailedCreatingPVC'' r ?k = Some ((res, err), s')"
    by (auto simp: backup_run_def Let_def bind_eq_Some_conv)
  then show ?thesis
  proof (rule orReport_complete)
    fix s
    assume "?k s = Some ((res, err), s')"
    then obtain pod t where "(case pod of
         Inl err \<Rightarrow> Some ((zero_Result, Some err), progress B ''Failed to create backup pod!'' ''FailedCreatingPod'' t)
       | Inr pod \<Rightarrow> backup_data B ts (getBackupDir ts) pod t) = Some ((res, err), s')"
      by (auto simp: bind_eq_Some_conv)
    then show "reported B err s'"
      using progress_reported backup_data_complete by (auto split: sum.splits)
  qed
qed

end

text \<open>
  C16: Whatever happens in a run of the backup, unless it panics, the condition \<open>BackupComplete\<close> of the
  resource ends up true exactly when the run returns no error, and false when one step failed:
  a resource that says its backup is complete is one whose last run went through all steps.
\<close>

theorem backup_condition_tells:
  assumes "backup_store B" "condition_lib (bx_base B)"
    and "backup_run B ts s = Some ((res, err), s')"
  shows "(backup_complete B ConditionTrue s' \<longleftrightarrow> err = None) \<and> (backup_complete B ConditionFalse s' \<longleftrightarrow> err \<noteq> None)"
proof -
  have r: "backup_reports B" using assms(1,2) by (simp add: backup_reports_def)
  have "reported B err s'" by (rule backup_reports.backup_run_complete [OF r assms(3)])
  then show ?thesis
    by (auto simp: reported_def backup_complete_def condition_lib.present_and_equal [OF assms(2)] split: if_splits)
qed

subsection \<open>The commands of a backup\<close>

text \<open>The plan: what is run in the manager pod, given the objects of the cluster.\<close>

definition plain_file ::
  "'w BackupExternals \<Rightarrow> (Kind \<Rightarrow> string \<Rightarrow> string \<Rightarrow> error + Object) \<Rightarrow> string \<Rightarrow> string \<Rightarrow> string \<Rightarrow> string \<Rightarrow> string
    \<Rightarrow> string list" where
  "plain_file B obj_at ns dir key file n =
    echo_command (bx_Marshal B (backup_content key n (sec_Data (or_zero zero_Secret (as_Secret (obj_at KSecret ns n))))))
      (dir @ ''/'' @ file)"

definition yaml_file ::
  "'w BackupExternals \<Rightarrow> (Kind \<Rightarrow> string \<Rightarrow> string \<Rightarrow> error + Object) \<Rightarrow> string \<Rightarrow> string \<Rightarrow> string \<Rightarrow> string
    \<Rightarrow> string list" where
  "yaml_file B obj_at ns dir file n =
    echo_command (bx_PrintYAML B (SecretObj (or_zero zero_Secret (as_Secret (obj_at KSecret ns n))))) (dir @ ''/'' @ file)"

definition if_named :: "string \<Rightarrow> 'a list \<Rightarrow> 'a list" where
  "if_named n xs = (if n = [] then [] else xs)"

definition secret_plan ::
  "'w BackupExternals \<Rightarrow> (Kind \<Rightarrow> string \<Rightarrow> string \<Rightarrow> error + Object) \<Rightarrow> Pulp \<Rightarrow> PulpBackup \<Rightarrow> string \<Rightarrow> string list list" where
  "secret_plan B obj_at pulp b dir =
    (let spec = Pulp_Spec pulp; f = plain_file B obj_at (Backup_Namespace b) dir; g = yaml_file B obj_at (Backup_Namespace b) dir
     in [g ''pulp_secret_key.yaml'' (getPulpSecretKey b)]
      @ [f ''admin_password_secret'' ''admin_secret.yaml'' (getAdminPasswordSecret b)]
      @ [f ''postgres_secret'' ''postgres_configuration_secret.yaml'' (getPostgresCfgSecret b)]
      @ [f ''db_fields_encryption_secret'' ''db_fields_encryption_secret.yaml'' (getDBFieldsEncryption pulp)]
      @ if_named (Spec_SigningSecret spec)
          ([f ''signing_secret'' ''signing_secret.yaml'' (Spec_SigningSecret spec)] @ [g ''signing_scripts.yaml'' (Spec_SigningScripts spec)])
      @ [f ''container_token_secret'' ''container_token_secret.yaml'' (getContainerTokenSecret pulp)]
      @ if_named (Spec_ObjectStorageS3Secret spec) [f ''storage_secret'' ''objectstorage_secret.yaml'' (Spec_ObjectStorageS3Secret spec)]
      @ if_named (Spec_ObjectStorageAzureSecret spec) [f ''storage_secret'' ''objectstorage_secret.yaml'' (Spec_ObjectStorageAzureSecret spec)]
      @ if_named (Spec_ObjectStorageGCSSecret spec) [f ''storage_secret'' ''objectstorage_secret.yaml'' (Spec_ObjectStorageGCSSecret spec)]
      @ if_named (Spec_SSOSecret spec) [f ''sso_secret'' ''sso_secret.yaml'' (Spec_SSOSecret spec)]
      @ if_named (LDAP_Config (Spec_LDAP spec)) [g ''ldap_secret.yaml'' (LDAP_Config (Spec_LDAP spec))]
      @ if_named (LDAP_CA (Spec_LDAP spec)) [g ''ldap_ca_secret.yaml'' (LDAP_CA (Spec_LDAP spec))])"

definition database_plan ::
  "(Kind \<Rightarrow> string \<Rightarrow> string \<Rightarrow> error + Object) \<Rightarrow> PulpBackup \<Rightarrow> string \<Rightarrow> string list list" where
  "database_plan obj_at b dir =
    [[''touch'', dir @ ''/pulp.db''], [''chmod'', ''0600'', dir @ ''/pulp.db''],
     [''pg_dump'', ''--clean'', ''--create'', ''-Ft'', ''-d'',
      database_url (sec_Data (or_zero zero_Secret (as_Secret (obj_at KSecret (Backup_Namespace b) (getPostgresCfgSecret b))))),
      ''-f'', dir @ ''/pulp.db'']]"

definition settings_plan ::
  "'w BackupExternals \<Rightarrow> (Kind \<Rightarrow> string \<Rightarrow> string \<Rightarrow> error + Object) \<Rightarrow> Pulp \<Rightarrow> PulpBackup \<Rightarrow> string \<Rightarrow> string list list" where
  "settings_plan B obj_at pulp b dir =
    (let n = Spec_CustomPulpSettings (Pulp_Spec pulp)
     in if_named n [[''bash'', ''-c'', ''cat<<EOF> '' @ dir @ ''/'' @ ''custom_pulp_settings.yaml'' @ '' '' @ newline
          @ bx_PrintYAML B (ConfigMapObj (or_zero zero_ConfigMap (as_ConfigMap (obj_at KConfigMap (Backup_Namespace b) n)))) @ ''EOF'']])"

definition files_plan :: "Pulp \<Rightarrow> string \<Rightarrow> string list list" where
  "files_plan pulp dir =
    (let spec = Pulp_Spec pulp
     in if Spec_ObjectStorageAzureSecret spec = [] \<and> Spec_ObjectStorageS3Secret spec = [] \<and> Spec_ObjectStorageGCSSecret spec = []
        then [[''mkdir'', ''-p'', dir @ ''/pulp''], [''bash'', ''-c'', ''cp -fa /var/lib/pulp/. '' @ dir @ ''/pulp'']] else [])"

definition backup_plan ::
  "'w BackupExternals \<Rightarrow> (Kind \<Rightarrow> string \<Rightarrow> string \<Rightarrow> error + Object) \<Rightarrow> Pulp \<Rightarrow> PulpBackup \<Rightarrow> string \<Rightarrow> string list list" where
  "backup_plan B obj_at pulp b dir =
    [[''mkdir'', ''-p'', dir]] @ settings_plan B obj_at pulp b dir @ database_plan obj_at b dir
    @ [echo_command (bx_MarshalSpec B (Pulp_Spec pulp)) (dir @ ''/cr_object'')]
    @ secret_plan B obj_at pulp b dir @ files_plan pulp dir"

text \<open>
  A cluster that leaves the objects of the instance alone during the backup, and the log of the commands
  that went through in its pods: \<open>Inv\<close> is what stays true of the world.
\<close>

definition silent :: "('w \<Rightarrow> bool) \<Rightarrow> ('w \<Rightarrow> 'l) \<Rightarrow> ('w \<Rightarrow> 'w) \<Rightarrow> bool" where
  "silent Inv log f \<longleftrightarrow> (\<forall>w. Inv w \<longrightarrow> Inv (f w) \<and> log (f w) = log w)"

text \<open>A stretch of a run that stays within \<open>Inv\<close>, on the same resource, and logs the given commands.\<close>

definition logged ::
  "('w \<Rightarrow> bool) \<Rightarrow> ('w \<Rightarrow> string list list) \<Rightarrow> ('w, PulpBackup) Run \<Rightarrow> string list list \<Rightarrow> ('w, PulpBackup) Run \<Rightarrow> bool" where
  "logged Inv log s cs s' \<longleftrightarrow> (Inv (run_world s) \<longrightarrow>
     Inv (run_world s') \<and> log (run_world s') = log (run_world s) @ cs \<and> same_backup (run_obj s) (run_obj s'))"

lemma logged_trans: "logged Inv log s cs t \<Longrightarrow> logged Inv log t ds u \<Longrightarrow> logged Inv log s (cs @ ds) u"
  by (auto simp: logged_def same_backup_def)

lemma logged_refl: "logged Inv log s [] s"
  by (simp add: logged_def same_backup_def)

lemma silent_comp: "silent Inv log f \<Longrightarrow> silent Inv log g \<Longrightarrow> silent Inv log (\<lambda>w. f (g w))"
  by (simp add: silent_def)

lemma silent_logged:
  "silent Inv log (\<lambda>w. snd (f w)) \<Longrightarrow> logged Inv log s [] (snd (act f s))"
  by (auto simp: silent_def logged_def same_backup_def)

lemma same_backup_names:
  assumes "same_backup b b'"
  shows "getPulpSecretKey b' = getPulpSecretKey b" "getAdminPasswordSecret b' = getAdminPasswordSecret b"
    "getPostgresCfgSecret b' = getPostgresCfgSecret b" "Backup_Namespace b' = Backup_Namespace b"
    "getDeploymentName b' = getDeploymentName b"
  using assms by (simp_all add: same_backup_def getPulpSecretKey_def getAdminPasswordSecret_def getPostgresCfgSecret_def
      getDeploymentName_def Let_def)

text \<open>A step for a resource in the given namespace that, when it succeeds, logs the given commands.\<close>

definition writes ::
  "('w \<Rightarrow> bool) \<Rightarrow> ('w \<Rightarrow> string list list) \<Rightarrow> string
    \<Rightarrow> (('w, PulpBackup) Run \<Rightarrow> error option \<times> ('w, PulpBackup) Run) \<Rightarrow> string list list \<Rightarrow> bool" where
  "writes Inv log ns f cs \<longleftrightarrow>
    (\<forall>s s'. f s = (None, s') \<longrightarrow> Backup_Namespace (run_obj s) = ns \<longrightarrow> logged Inv log s cs s' \<and> run_obj s' = run_obj s)"

lemma writesI:
  assumes "\<And>s s'. f s = (None, s') \<Longrightarrow> Backup_Namespace (run_obj s) = ns \<Longrightarrow> Inv (run_world s) \<Longrightarrow> logged Inv log s cs s'"
    and "\<And>s. run_obj (snd (f s)) = run_obj s"
  shows "writes Inv log ns f cs"
  using assms unfolding writes_def logged_def by (metis snd_conv)

lemma writesD:
  "writes Inv log ns f cs \<Longrightarrow> f s = (None, s') \<Longrightarrow> Backup_Namespace (run_obj s) = ns \<Longrightarrow> logged Inv log s cs s'"
  by (simp add: writes_def)

lemma writes_andThen:
  "writes Inv log ns f cs \<Longrightarrow> writes Inv log ns g ds \<Longrightarrow> writes Inv log ns (\<lambda>s. andThen (f s) g) (cs @ ds)"
  unfolding writes_def by (metis andThen_NoneE logged_trans)

lemma writes_when_set: "writes Inv log ns f cs \<Longrightarrow> writes Inv log ns (when_set n f) (if_named n cs)"
  by (auto simp: writes_def when_set_def if_named_def logged_refl)

text \<open>The same for the steps of the run and for its rest, with commands that depend on the resource up to its status.\<close>

definition records ::
  "('w \<Rightarrow> bool) \<Rightarrow> ('w \<Rightarrow> string list list) \<Rightarrow> (('w, PulpBackup) Run \<Rightarrow> error option \<times> ('w, PulpBackup) Run)
    \<Rightarrow> (PulpBackup \<Rightarrow> string list list) \<Rightarrow> bool" where
  "records Inv log f cs \<longleftrightarrow> (\<forall>s s'. f s = (None, s') \<longrightarrow> logged Inv log s (cs (run_obj s)) s')"

definition finishes ::
  "('w \<Rightarrow> bool) \<Rightarrow> ('w \<Rightarrow> string list list) \<Rightarrow> (('w, PulpBackup) Run \<Rightarrow> 'w backup_outcome)
    \<Rightarrow> (PulpBackup \<Rightarrow> string list list) \<Rightarrow> bool" where
  "finishes Inv log k cs \<longleftrightarrow> (\<forall>s res s'. k s = Some ((res, None), s') \<longrightarrow> logged Inv log s (cs (run_obj s)) s')"

definition steady :: "(PulpBackup \<Rightarrow> 'a) \<Rightarrow> bool" where
  "steady f \<longleftrightarrow> (\<forall>b b'. same_backup b b' \<longrightarrow> f b' = f b)"

lemma logged_steady:
  "logged Inv log s cs t \<Longrightarrow> logged Inv log t (f (run_obj t)) u \<Longrightarrow> steady f \<Longrightarrow> logged Inv log s (cs @ f (run_obj s)) u"
  using logged_trans [of Inv log s cs t "f (run_obj t)" u] by (auto simp: logged_def steady_def)

lemma recordsI: "(\<And>s s'. f s = (None, s') \<Longrightarrow> logged Inv log s (cs (run_obj s)) s') \<Longrightarrow> records Inv log f cs"
  by (simp add: records_def)

lemma orReport_NoneE:
  assumes "orReport B msg reason r k = Some ((res, None), s')"
  obtains s where "r = (None, s)" "k s = Some ((res, None), s')"
  using assms by (cases r; cases "fst r") (auto simp: orReport_def)

lemma finishes_orReport:
  assumes "records Inv log f cs" "finishes Inv log k ds" "steady ds"
  shows "finishes Inv log (\<lambda>s. orReport B msg reason (f s) k) (\<lambda>b. cs b @ ds b)"
  using assms unfolding records_def finishes_def by (metis orReport_NoneE logged_steady)

lemma steady_append: "steady f \<Longrightarrow> steady g \<Longrightarrow> steady (\<lambda>b. f b @ g b)"
  by (auto simp: steady_def)

lemma steady_const: "steady (\<lambda>b. c)"
  by (simp add: steady_def)

lemma steady_plans:
  "steady (\<lambda>b. settings_plan B obj_at pulp b dir)"
  "steady (\<lambda>b. database_plan obj_at b dir)"
  "steady (\<lambda>b. secret_plan B obj_at pulp b dir)"
  unfolding steady_def
  by (auto simp only: settings_plan_def database_plan_def secret_plan_def same_backup_names)

locale manager_log = backup_store B
  for B :: "'w BackupExternals" +
  fixes log :: "'w \<Rightarrow> string list list" and Inv :: "'w \<Rightarrow> bool"
    and obj_at :: "Kind \<Rightarrow> string \<Rightarrow> string \<Rightarrow> error + Object" and pulp :: Pulp
  assumes exec_logs: "x_Exec (bx_base B) ns pod c command w = (Inr out, w') \<Longrightarrow> Inv w \<Longrightarrow> Inv w' \<and> log w' = log w @ [command]"
    and get_silent: "silent Inv log (\<lambda>w. snd (x_Get (bx_base B) k ns n w))"
    and get_reads: "Inv w \<Longrightarrow> k \<in> {KSecret, KConfigMap} \<Longrightarrow> fst (x_Get (bx_base B) k ns n w) = obj_at k ns n"
    and pulp_silent: "silent Inv log (\<lambda>w. snd (x_GetPulp (bx_base B) ns n w))"
    and pulp_reads: "Inv w \<Longrightarrow> fst (x_GetPulp (bx_base B) ns n w) = Inr p \<Longrightarrow> p = pulp"
    and delete_silent: "silent Inv log (\<lambda>w. snd (x_Delete (bx_base B) (PodObj q) w))"
    and now_silent: "silent Inv log (\<lambda>w. snd (x_Now (bx_base B) w))"
    and status_silent: "silent Inv log (\<lambda>w. snd (bx_BackupStatusUpdate B b w))"
    and sleep_silent: "silent Inv log (bx_Sleep B i)"

begin

lemma run_in_manager_logged:
  assumes "run_in_manager B pod cmd s = (None, s')"
  shows "logged Inv log s [cmd] s'"
proof -
  let ?c = "manager_name (Backup_Name (run_obj s))"
  obtain r w where e: "x_Exec (bx_base B) (meta_Namespace (po_Meta pod)) (meta_Name (po_Meta pod)) ?c cmd (run_world s) = (r, w)"
    by (metis surj_pair)
  have "r \<noteq> Inl err" for err
    using assms e by (auto simp: run_in_manager_def exec_in_def act_def ContainerExec_def)
  then obtain out where r: "r = Inr out" by (cases r) auto
  have "s' = s\<lparr>run_world := w\<rparr>"
    using assms e r by (auto simp: run_in_manager_def exec_in_def act_def ContainerExec_def split: prod.splits)
  with exec_logs [OF e [unfolded r]] show ?thesis
    by (simp add: logged_def same_backup_def)
qed

lemma Backup_Status_Update_logged: "logged Inv log s [] (snd (Backup_Status_Update B s))"
proof -
  have "run_world (snd (Backup_Status_Update B s)) = snd (bx_BackupStatusUpdate B (run_obj s) (run_world s))"
    by (simp add: Backup_Status_Update_def split_beta)
  then show ?thesis
    using status_silent [of "run_obj s"] Backup_Status_Update_obj(1) [of s] by (auto simp: silent_def logged_def)
qed

lemma updateStatus_logged: "logged Inv log s [] (updateStatus B st ty msg reason s)"
proof -
  obtain now w where n: "x_Now (bx_base B) (run_world s) = (now, w)" by (metis surj_pair)
  let ?c = "\<lparr>cond_Type = ty, cond_Status = st, cond_Reason = reason, cond_LastTransitionTime = now, cond_Message = msg\<rparr>"
  let ?t = "set_backup_condition B ?c (s\<lparr>run_world := w\<rparr>)"
  have u: "updateStatus B st ty msg reason s = snd (Backup_Status_Update B ?t)"
    by (simp add: updateStatus_def act_def n)
  have "logged Inv log s [] ?t"
    using now_silent by (force simp: silent_def logged_def set_backup_condition_def same_backup_def n dest: spec [of _ "run_world s"])
  from logged_trans [OF this Backup_Status_Update_logged [of ?t]] show ?thesis
    by (simp add: u)
qed

lemma progress_logged: "logged Inv log s [] (progress B msg reason s)"
  by (simp add: progress_def updateStatus_logged)

lemma poll_gone_silent: "silent Inv log (poll_gone B ns n k)"
proof (induction k)
  case 0
  show ?case by (simp add: silent_def)
next
  case (Suc k)
  have get: "Inv w \<Longrightarrow> Inv (snd (x_Get (bx_base B) KPod ns n w)) \<and> log (snd (x_Get (bx_base B) KPod ns n w)) = log w" for w
    using get_silent [of KPod ns n] by (simp add: silent_def)
  have rest: "silent Inv log (\<lambda>w. poll_gone B ns n k (bx_Sleep B 5 w))"
    by (rule silent_comp [OF Suc.IH sleep_silent])
  show ?case
    using get rest by (simp add: silent_def split_beta Let_def split: sum.split)
qed

lemma cleanup_logged: "logged Inv log s [] (cleanup B s)"
proof -
  let ?ns = "Backup_Namespace (run_obj s)" and ?n = "manager_name (Backup_Name (run_obj s))"
  let ?w = "snd (x_Get (bx_base B) KPod ?ns ?n (run_world s))"
  let ?p = "or_zero zero_Pod (as_Pod (fst (x_Get (bx_base B) KPod ?ns ?n (run_world s))))"
  have w: "run_world (cleanup B s) = poll_gone B ?ns ?n 120 (snd (x_Delete (bx_base B) (PodObj ?p) ?w))"
    and o: "run_obj (cleanup B s) = run_obj s"
    by (simp_all add: cleanup_def remove_pod_def split_beta Let_def)
  show ?thesis
    using get_silent [of KPod ?ns ?n] delete_silent [of ?p] poll_gone_silent [of ?ns ?n 120]
    by (simp add: logged_def w o silent_def same_backup_def)
qed

lemma Backup_setStatusFields_logged: "logged Inv log s [] (snd (Backup_setStatusFields B ts s))"
proof -
  have "logged Inv log s [] (s\<lparr>run_obj := (run_obj s)\<lparr>Backup_Status := x\<rparr>\<rparr>)" for x
    by (simp add: logged_def same_backup_def)
  from logged_trans [OF this Backup_Status_Update_logged] show ?thesis
    by (simp add: Backup_setStatusFields_def Let_def)
qed

lemma backup_finish_logged:
  assumes "backup_finish B ts s = Some ((res, err), s')"
  shows "logged Inv log s [] s'"
proof -
  let ?t = "cleanup B (progress B ''Cleaning up backup resources ...'' ''DeletingBkpPod'' s)"
  have "s' = updateStatus B ConditionTrue ''BackupComplete'' ''All backup tasks run!'' ''BackupTasksFinished''
      (snd (Backup_setStatusFields B ts ?t))"
    using assms by (simp add: backup_finish_def Let_def split_beta)
  with logged_trans [OF logged_trans [OF logged_trans [OF progress_logged cleanup_logged] Backup_setStatusFields_logged] updateStatus_logged]
  show ?thesis by simp
qed

lemma run_in_manager_obj [simp]: "run_obj (snd (run_in_manager B pod cmd s)) = run_obj s"
  by (simp add: run_in_manager_def split_beta)

lemma run_in_manager_writes: "writes Inv log ns (run_in_manager B pod cmd) [cmd]"
  by (rule writesI) (auto intro: run_in_manager_logged)

lemma get_logged: "logged Inv log s [] (snd (act (x_Get (bx_base B) k ns n) s))"
  by (rule silent_logged [OF get_silent])

lemma get_value:
  "Inv (run_world s) \<Longrightarrow> k \<in> {KSecret, KConfigMap} \<Longrightarrow> fst (act (x_Get (bx_base B) k ns n) s) = obj_at k ns n"
  by (simp add: get_reads)

text \<open>A step that reads an object of the cluster and runs a command made from it.\<close>

lemma get_then_writes:
  assumes f: "\<And>s. f s = (let (r, s) = act (x_Get (bx_base B) k (Backup_Namespace (run_obj s)) n) s
      in case conv r of Inl err \<Rightarrow> (Some err, s) | Inr x \<Rightarrow> run_in_manager B pod (cmd x) s)"
    and k: "k \<in> {KSecret, KConfigMap}"
  shows "writes Inv log ns f [cmd (or_zero z (conv (obj_at k ns n)))]"
proof (rule writesI)
  fix s s'
  assume run: "f s = (None, s')" and ns: "Backup_Namespace (run_obj s) = ns" and inv: "Inv (run_world s)"
  let ?t = "snd (act (x_Get (bx_base B) k ns n) s)"
  have "fst (act (x_Get (bx_base B) k ns n) s) = obj_at k ns n"
    by (rule get_value [OF inv k])
  with run ns obtain x where "conv (obj_at k ns n) = Inr x" "run_in_manager B pod (cmd x) ?t = (None, s')"
    by (auto simp: f split_beta Let_def simp del: act_sel split: sum.splits)
  with logged_trans [OF get_logged run_in_manager_logged] show "logged Inv log s [cmd (or_zero z (conv (obj_at k ns n)))] s'"
    by fastforce
next
  fix s
  show "run_obj (snd (f s)) = run_obj s"
    by (simp add: f split_beta split: sum.split)
qed

lemma createBackupFile_writes:
  "writes Inv log ns (createBackupFile B \<lparr>be_name = key, be_backupDir = dir, be_backupFile = file, be_objName = n, be_pod = pod\<rparr>)
     [plain_file B obj_at ns dir key file n]"
  unfolding plain_file_def
  by (rule get_then_writes [where pod = pod and conv = as_Secret and k = KSecret and z = zero_Secret and
        cmd = "\<lambda>x. echo_command (bx_Marshal B (backup_content key n (sec_Data x))) (dir @ ''/'' @ file)"])
     (simp_all add: createBackupFile_def split_beta split: sum.split)

lemma createSecretBackupFile_writes:
  "writes Inv log ns (createSecretBackupFile B \<lparr>be_name = key, be_backupDir = dir, be_backupFile = file, be_objName = n, be_pod = pod\<rparr>)
     [yaml_file B obj_at ns dir file n]"
  unfolding yaml_file_def
  by (rule get_then_writes [where pod = pod and conv = as_Secret and k = KSecret and z = zero_Secret and
        cmd = "\<lambda>x. echo_command (bx_PrintYAML B (SecretObj x)) (dir @ ''/'' @ file)"])
     (simp_all add: createSecretBackupFile_def split_beta split: sum.split)

lemma createConfigMapBackupFile_writes:
  "writes Inv log ns (createConfigMapBackupFile B
       \<lparr>be_name = key, be_backupDir = dir, be_backupFile = file, be_objName = n, be_pod = pod\<rparr>)
     [[''bash'', ''-c'', ''cat<<EOF> '' @ dir @ ''/'' @ file @ '' '' @ newline
       @ bx_PrintYAML B (ConfigMapObj (or_zero zero_ConfigMap (as_ConfigMap (obj_at KConfigMap ns n)))) @ ''EOF'']]"
  by (rule get_then_writes [where pod = pod and conv = as_ConfigMap and k = KConfigMap and z = zero_ConfigMap and
        cmd = "\<lambda>x. [''bash'', ''-c'', ''cat<<EOF> '' @ dir @ ''/'' @ file @ '' '' @ newline @ bx_PrintYAML B (ConfigMapObj x) @ ''EOF'']"])
     (simp_all add: createConfigMapBackupFile_def split_beta split: sum.split)

text \<open>A step that reads the custom resource first.\<close>

lemma pulp_then_logged:
  assumes run: "(case fst (act (x_GetPulp (bx_base B) ns n) s) of
      Inl err \<Rightarrow> (Some err, snd (act (x_GetPulp (bx_base B) ns n) s))
    | Inr p \<Rightarrow> g p (snd (act (x_GetPulp (bx_base B) ns n) s))) = (None, s')"
    and g: "writes Inv log (Backup_Namespace (run_obj s)) (g pulp) cs"
  shows "logged Inv log s cs s'"
proof -
  let ?get = "act (x_GetPulp (bx_base B) ns n) s"
  from run obtain p where p: "fst ?get = Inr p" "g p (snd ?get) = (None, s')"
    by (auto simp del: act_sel split: sum.splits)
  have "logged Inv log s [] (snd ?get)"
    by (rule silent_logged [OF pulp_silent])
  moreover have "logged Inv log (snd ?get) cs s'" if "Inv (run_world s)"
  proof -
    have "p = pulp" using pulp_reads [OF that] p(1) by simp
    with p(2) show ?thesis using writesD [OF g] by simp
  qed
  ultimately show ?thesis
    using logged_trans unfolding logged_def by fastforce
qed

lemma backupConfigMap_logged:
  assumes "backupConfigMap B dir pod s = (None, s')"
  shows "logged Inv log s (settings_plan B obj_at pulp (run_obj s) dir) s'"
proof (rule pulp_then_logged)
  let ?n = "\<lambda>p. Spec_CustomPulpSettings (Pulp_Spec p)"
  let ?g = "\<lambda>p. when_set (?n p) (createConfigMapBackupFile B \<lparr>be_name = ''custom_pulp_settings'', be_backupDir = dir,
      be_backupFile = ''custom_pulp_settings.yaml'', be_objName = ?n p, be_pod = pod\<rparr>)"
  let ?get = "act (x_GetPulp (bx_base B) (Backup_Namespace (run_obj s)) (getDeploymentName (run_obj s))) s"
  show "(case fst ?get of Inl err \<Rightarrow> (Some err, snd ?get) | Inr p \<Rightarrow> ?g p (snd ?get)) = (None, s')"
    using assms by (auto simp: backupConfigMap_def when_set_def Let_def split_beta split: sum.splits if_splits)
  show "writes Inv log (Backup_Namespace (run_obj s)) (?g pulp) (settings_plan B obj_at pulp (run_obj s) dir)"
    unfolding settings_plan_def Let_def by (rule writes_when_set [OF createConfigMapBackupFile_writes])
qed

lemma backupCR_logged:
  assumes "backupCR B dir pod s = (None, s')"
  shows "logged Inv log s [echo_command (bx_MarshalSpec B (Pulp_Spec pulp)) (dir @ ''/cr_object'')] s'"
proof (rule pulp_then_logged)
  let ?get = "act (x_GetPulp (bx_base B) (Backup_Namespace (run_obj s)) (getDeploymentName (run_obj s))) s"
  show "(case fst ?get of Inl err \<Rightarrow> (Some err, snd ?get)
      | Inr p \<Rightarrow> run_in_manager B pod (echo_command (bx_MarshalSpec B (Pulp_Spec p)) (dir @ ''/cr_object'')) (snd ?get)) = (None, s')"
    using assms by (simp add: backupCR_def Let_def split_beta)
qed (rule run_in_manager_writes)

lemma backupPulpDir_logged:
  assumes "backupPulpDir B dir pod s = (None, s')"
  shows "logged Inv log s (files_plan pulp dir) s'"
proof (rule pulp_then_logged)
  let ?file = "\<lambda>p. Spec_ObjectStorageAzureSecret (Pulp_Spec p) = [] \<and> Spec_ObjectStorageS3Secret (Pulp_Spec p) = []
      \<and> Spec_ObjectStorageGCSSecret (Pulp_Spec p) = []"
  let ?copy = "\<lambda>t. andThen (run_in_manager B pod [''mkdir'', ''-p'', dir @ ''/pulp''] t)
      (run_in_manager B pod [''bash'', ''-c'', ''cp -fa /var/lib/pulp/. '' @ dir @ ''/pulp''])"
  let ?get = "act (x_GetPulp (bx_base B) (Backup_Namespace (run_obj s)) (getDeploymentName (run_obj s))) s"
  show "(case fst ?get of Inl err \<Rightarrow> (Some err, snd ?get)
      | Inr p \<Rightarrow> (\<lambda>t. if ?file p then ?copy t else (None, t)) (snd ?get)) = (None, s')"
    using assms by (auto simp: backupPulpDir_def Let_def split_beta split: sum.splits if_splits)
  show "writes Inv log (Backup_Namespace (run_obj s)) (\<lambda>t. if ?file pulp then ?copy t else (None, t)) (files_plan pulp dir)"
    using writes_andThen [OF run_in_manager_writes run_in_manager_writes]
    by (auto simp: files_plan_def Let_def writes_def logged_refl)
qed

lemma backupDatabase_logged:
  assumes "backupDatabase B dir pod s = (None, s')"
  shows "logged Inv log s (database_plan obj_at (run_obj s) dir) s'"
proof -
  let ?db = "dir @ ''/pulp.db''" and ?n = "getPostgresCfgSecret (run_obj s)" and ?ns = "Backup_Namespace (run_obj s)"
  let ?cmd = "\<lambda>x. [''pg_dump'', ''--clean'', ''--create'', ''-Ft'', ''-d'', database_url (sec_Data x), ''-f'', ?db]"
  let ?dump = "\<lambda>s. let (r, s) = act (x_Get (bx_base B) KSecret (Backup_Namespace (run_obj s)) ?n) s
      in case as_Secret r of Inl err \<Rightarrow> (Some err, s) | Inr x \<Rightarrow> run_in_manager B pod (?cmd x) s"
  have dump: "writes Inv log ?ns ?dump [?cmd (or_zero zero_Secret (as_Secret (obj_at KSecret ?ns ?n)))]"
    by (rule get_then_writes) simp_all
  have "writes Inv log ?ns (\<lambda>s. andThen (run_in_manager B pod [''touch'', ?db] s) (\<lambda>s.
      andThen (run_in_manager B pod [''chmod'', ''0600'', ?db] s) ?dump)) (database_plan obj_at (run_obj s) dir)"
    using writes_andThen [OF run_in_manager_writes writes_andThen [OF run_in_manager_writes dump]]
    by (simp add: database_plan_def)
  from writesD [OF this] assms show ?thesis
    by (simp add: backupDatabase_def Let_def)
qed

lemma backup_secret_files_writes:
  "writes Inv log (Backup_Namespace b) (backup_secret_files B dir pod b pulp) (secret_plan B obj_at pulp b dir)"
  unfolding secret_plan_def Let_def backup_secret_files_def
  by (intro writes_andThen writes_when_set createBackupFile_writes createSecretBackupFile_writes)

lemma backupSecret_logged:
  assumes "backupSecret B dir pod s = (None, s')"
  shows "logged Inv log s (secret_plan B obj_at pulp (run_obj s) dir) s'"
proof (rule pulp_then_logged [where g = "backup_secret_files B dir pod (run_obj s)"])
  let ?get = "act (x_GetPulp (bx_base B) (Backup_Namespace (run_obj s)) (getDeploymentName (run_obj s))) s"
  show "(case fst ?get of Inl err \<Rightarrow> (Some err, snd ?get)
      | Inr p \<Rightarrow> backup_secret_files B dir pod (run_obj s) p (snd ?get)) = (None, s')"
    using assms by (simp add: backupSecret_def Let_def split_beta)
qed (rule backup_secret_files_writes)

lemma records_progress:
  assumes "records Inv log f cs" "steady cs"
  shows "records Inv log (\<lambda>s. f (progress B msg reason s)) cs"
  using assms logged_steady [OF progress_logged] unfolding records_def by (metis append_Nil)

lemma step_records:
  "records Inv log (backupConfigMap B dir pod) (\<lambda>b. settings_plan B obj_at pulp b dir)"
  "records Inv log (backupDatabase B dir pod) (\<lambda>b. database_plan obj_at b dir)"
  "records Inv log (backupCR B dir pod) (\<lambda>b. [echo_command (bx_MarshalSpec B (Pulp_Spec pulp)) (dir @ ''/cr_object'')])"
  "records Inv log (backupSecret B dir pod) (\<lambda>b. secret_plan B obj_at pulp b dir)"
  "records Inv log (backupPulpDir B dir pod) (\<lambda>b. files_plan pulp dir)"
  "records Inv log (createBackupDir B dir pod) (\<lambda>b. [[''mkdir'', ''-p'', dir]])"
  unfolding createBackupDir_def
  by (rule recordsI, (erule backupConfigMap_logged | erule backupDatabase_logged | erule backupCR_logged
        | erule backupSecret_logged | erule backupPulpDir_logged | erule run_in_manager_logged))+

lemma backup_finish_finishes: "finishes Inv log (backup_finish B ts) (\<lambda>b. [])"
  unfolding finishes_def using backup_finish_logged by blast

lemma backup_data_finishes:
  "finishes Inv log (backup_data B ts dir pod) (\<lambda>b. backup_plan B obj_at pulp b dir @ [])"
  unfolding backup_data_def backup_plan_def append_assoc
  by (intro finishes_orReport records_progress step_records backup_finish_finishes steady_append steady_const steady_plans)

end

text \<open>
  C15: A backup that succeeds has run exactly the commands of the plan in the manager pod, in
  that order: the directory, the settings ConfigMap if there is one, the database dump, the
  specification of the custom resource, one file for each of the secrets the instance uses (with the
  signing, storage, single sign-on and LDAP ones only when the resource names them) and
  the files unless they are in an object storage.
\<close>

theorem backup_runs_the_plan:
  assumes "manager_log B log Inv obj_at pulp" "Inv (run_world s)"
    and "backup_data B ts dir pod s = Some ((res, None), s')"
  shows "log (run_world s') = log (run_world s) @ backup_plan B obj_at pulp (run_obj s) dir"
  using manager_log.backup_data_finishes [OF assms(1), of ts dir pod] assms(2,3)
  by (auto simp: finishes_def logged_def)

subsection \<open>The laws hold in memory\<close>

interpretation mem_backup_store: backup_store "mem_bext spec" for spec
  by unfold_locales (simp add: mem_bext_def same_backup_def)

interpretation mem_base_conditions: condition_lib mem_base
  using mem_conditions.condition_lib_axioms
  by (simp add: condition_lib_def mem_base_def mem_ext_def)

interpretation mem_reports: backup_reports "mem_bext spec" for spec
  using mem_backup_store.backup_store_axioms mem_base_conditions.condition_lib_axioms
  by (simp add: backup_reports_def mem_bext_def)

definition is_config :: "Object \<Rightarrow> bool" where
  "is_config x \<longleftrightarrow> obj_Kind x \<in> {KSecret, KConfigMap}"

definition config_at :: "Object list \<Rightarrow> Kind \<Rightarrow> string \<Rightarrow> string \<Rightarrow> error + Object" where
  "config_at objs k ns n = (case List.find (same_obj k ns n) objs of None \<Rightarrow> Inl (NotFound n) | Some x \<Rightarrow> Inr x)"

definition keeps_config :: "Object list \<Rightarrow> Pulp \<Rightarrow> bmem \<Rightarrow> bool" where
  "keeps_config objs pulp w \<longleftrightarrow> mem_pulps (bm_mem w) = [pulp] \<and> filter is_config (mem_objs (bm_mem w)) = objs"

lemma find_config: "k \<in> {KSecret, KConfigMap} \<Longrightarrow> List.find (same_obj k ns n) (filter is_config xs) = List.find (same_obj k ns n) xs"
  by (induction xs) (auto simp: is_config_def same_obj_def)

lemma filter_config_ready: "filter is_config (map ready_pod xs) = filter is_config xs"
proof (induction xs)
  case (Cons x xs)
  then show ?case by (cases x) (auto simp: is_config_def)
qed simp

lemma filter_config_delete:
  "filter (\<lambda>x. key_of x \<noteq> key_of (PodObj q) \<and> is_config x) xs = filter is_config xs"
  by (induction xs) (auto simp: is_config_def key_of_def)

interpretation mem_logs: manager_log "mem_bext spec" bm_log "keeps_config objs pulp" "config_at objs" pulp for spec objs pulp
proof unfold_locales
  fix ns pod c command w out w'
  assume "x_Exec (bx_base (mem_bext spec)) ns pod c command w = (Inr out, w')" "keeps_config objs pulp w"
  then show "keeps_config objs pulp w' \<and> bm_log w' = bm_log w @ [command]"
    by (auto simp: mem_base_def mem_exec_def keeps_config_def split: sum.splits)
next
  fix w k ns n
  assume "keeps_config objs pulp w" "k \<in> {KSecret, KConfigMap}"
  then show "fst (x_Get (bx_base (mem_bext spec)) k ns n w) = config_at objs k ns n"
    using find_config [of k ns n "mem_objs (bm_mem w)"]
    by (simp add: mem_base_def mem_get_def mem_lookup_def config_at_def keeps_config_def split: option.split)
next
  fix w ns n p
  assume "keeps_config objs pulp w" "fst (x_GetPulp (bx_base (mem_bext spec)) ns n w) = Inr p"
  then show "p = pulp"
    by (auto simp: mem_base_def mem_get_pulp_def keeps_config_def split: option.splits if_splits)
qed (auto simp: silent_def keeps_config_def mem_base_def mem_bext_def mem_get_pure mem_get_pulp_def mem_delete_def
     mem_ext_def mem_sleep_def filter_config_ready filter_config_delete split: option.splits)

subsection \<open>A backup in memory\<close>

text \<open>
  An instance whose secrets are all one, in a cluster where the commands go through: the steps that
  read nothing else succeed.
\<close>

definition succeeds ::
  "Object list \<Rightarrow> Pulp \<Rightarrow> string \<Rightarrow> ((bmem, PulpBackup) Run \<Rightarrow> error option \<times> (bmem, PulpBackup) Run) \<Rightarrow> bool" where
  "succeeds objs pulp ns f \<longleftrightarrow>
    (\<forall>s. keeps_config objs pulp (run_world s) \<longrightarrow> Backup_Namespace (run_obj s) = ns \<longrightarrow> fst (f s) = None)"

lemma succeeds_andThen:
  assumes "succeeds objs pulp ns f" "writes (keeps_config objs pulp) bm_log ns f cs" "succeeds objs pulp ns g"
  shows "succeeds objs pulp ns (\<lambda>s. andThen (f s) g)"
  unfolding succeeds_def
proof (intro allI impI)
  fix s :: "(bmem, PulpBackup) Run"
  assume s: "keeps_config objs pulp (run_world s)" "Backup_Namespace (run_obj s) = ns"
  with assms(1) obtain t where t: "f s = (None, t)" by (cases "f s") (auto simp: succeeds_def)
  with assms(2) s have "keeps_config objs pulp (run_world t)" "Backup_Namespace (run_obj t) = ns"
    by (auto simp: writes_def logged_def)
  with assms(3) t show "fst (andThen (f s) g) = None" by (simp add: succeeds_def)
qed

lemma succeeds_unset: "succeeds objs pulp ns (when_set [] f)"
  by (simp add: succeeds_def when_set_def)

lemma mem_runs:
  assumes "hd cmd \<notin> {''test'', ''cat''}"
  shows "fst (run_in_manager (mem_bext spec) pod cmd s) = None"
proof -
  have "take 2 cmd \<noteq> [''test'', ''-f'']" "take 1 cmd \<noteq> [''cat'']"
    using assms by (cases cmd; auto)+
  then show ?thesis
    by (auto simp: run_in_manager_def exec_in_def act_def ContainerExec_def mem_base_def mem_exec_def mem_output_def split_beta
        split: prod.split)
qed

lemma echo_succeeds: "fst (run_in_manager (mem_bext spec) pod (echo_command t path) s) = None"
  by (rule mem_runs) (simp add: echo_command_def)

lemma files_succeed:
  assumes "config_at objs KSecret ns n = Inr (SecretObj x)"
  shows "succeeds objs pulp ns (createBackupFile (mem_bext spec)
      \<lparr>be_name = key, be_backupDir = dir, be_backupFile = file, be_objName = n, be_pod = pod\<rparr>)"
    and "succeeds objs pulp ns (createSecretBackupFile (mem_bext spec)
      \<lparr>be_name = key, be_backupDir = dir, be_backupFile = file, be_objName = n, be_pod = pod\<rparr>)"
  using mem_logs.get_reads [of objs pulp _ KSecret spec ns n] assms echo_succeeds
  by (auto simp: succeeds_def createBackupFile_def createSecretBackupFile_def split_beta)

definition ex_backup_pulp :: Pulp where
  "ex_backup_pulp = zero_Pulp\<lparr>Pulp_Meta := zero_ObjectMeta\<lparr>meta_Name := ''p'', meta_Namespace := ''ns''\<rparr>,
     Pulp_Status := zero_PulpStatus\<lparr>Status_DBFieldsEncryptionSecret := ''s'', Status_ContainerTokenSecret := ''s''\<rparr>\<rparr>"

definition ex_backup :: PulpBackup where
  "ex_backup = \<lparr>Backup_Meta = zero_ObjectMeta\<lparr>meta_Name := ''b'', meta_Namespace := ''ns''\<rparr>,
     Backup_Spec = \<lparr>BSpec_DeploymentName = ''p'', BSpec_BackupPVC = [], BSpec_BackupPVCNamespace = [],
       BSpec_BackupStorageReq = [], BSpec_BackupSC = [], BSpec_AdminPasswordSecret = ''s'',
       BSpec_PostgresConfigurationSecret = ''s'', BSpec_PulpSecretKey = ''s'', BSpec_Affinity = None\<rparr>,
     Backup_Status = \<lparr>BStatus_Conditions = [], BStatus_DeploymentName = [], BStatus_BackupClaim = [],
       BStatus_BackupNamespace = [], BStatus_BackupDirectory = [], BStatus_AdminPasswordSecret = []\<rparr>\<rparr>"

definition ex_secret :: Secret where
  "ex_secret = \<lparr>sec_Meta = zero_ObjectMeta\<lparr>meta_Name := ''s'', meta_Namespace := ''ns''\<rparr>,
     sec_Data = [(''password'', ''pw'')], sec_StringData = []\<rparr>"

definition ex_backup_run :: "(bmem, PulpBackup) Run" where
  "ex_backup_run = \<lparr>run_world = \<lparr>bm_mem = mem_init ex_backup_pulp [SecretObj ex_secret], bm_files = [], bm_log = [],
     bm_backups = [], bm_restores = []\<rparr>, run_obj = ex_backup\<rparr>"

lemma ex_config: "config_at [SecretObj ex_secret] KSecret ''ns'' ''s'' = Inr (SecretObj ex_secret)"
  by (simp add: config_at_def same_obj_def ex_secret_def)

lemma ex_names:
  "getPulpSecretKey ex_backup = ''s''" "getAdminPasswordSecret ex_backup = ''s''" "getPostgresCfgSecret ex_backup = ''s''"
  "getDBFieldsEncryption ex_backup_pulp = ''s''" "getContainerTokenSecret ex_backup_pulp = ''s''"
  by (simp_all add: getPulpSecretKey_def getAdminPasswordSecret_def getPostgresCfgSecret_def getDBFieldsEncryption_def
      getContainerTokenSecret_def ex_backup_def ex_backup_pulp_def)

lemma ex_unset:
  "Spec_SigningSecret (Pulp_Spec ex_backup_pulp) = []" "Spec_ObjectStorageS3Secret (Pulp_Spec ex_backup_pulp) = []"
  "Spec_ObjectStorageAzureSecret (Pulp_Spec ex_backup_pulp) = []" "Spec_ObjectStorageGCSSecret (Pulp_Spec ex_backup_pulp) = []"
  "Spec_SSOSecret (Pulp_Spec ex_backup_pulp) = []" "LDAP_Config (Spec_LDAP (Pulp_Spec ex_backup_pulp)) = []"
  "LDAP_CA (Spec_LDAP (Pulp_Spec ex_backup_pulp)) = []" "Spec_CustomPulpSettings (Pulp_Spec ex_backup_pulp) = []"
  by (simp_all add: ex_backup_pulp_def zero_Pulp_def zero_PulpSpec_def zero_LDAP_def)

lemma ex_secret_files_succeed:
  "succeeds [SecretObj ex_secret] ex_backup_pulp ''ns'' (backup_secret_files (mem_bext spec) dir pod ex_backup ex_backup_pulp)"
  unfolding backup_secret_files_def Let_def ex_names ex_unset
  by (rule succeeds_andThen succeeds_unset files_succeed ex_config writes_andThen writes_when_set
      mem_logs.createBackupFile_writes mem_logs.createSecretBackupFile_writes)+

lemma ex_pulp_read:
  assumes "keeps_config objs ex_backup_pulp (run_world s)"
  shows "fst (act (x_GetPulp (bx_base (mem_bext spec)) ''ns'' ''p'') s) = Inr ex_backup_pulp"
  using assms by (simp add: mem_base_def mem_get_pulp_def keeps_config_def same_pulp_def ex_backup_pulp_def)

text \<open>All steps of the example, one after the other.\<close>

definition ex_good :: "(bmem, PulpBackup) Run \<Rightarrow> bool" where
  "ex_good s \<longleftrightarrow> keeps_config [SecretObj ex_secret] ex_backup_pulp (run_world s) \<and> same_backup ex_backup (run_obj s)"

lemma ex_good_step:
  assumes "ex_good s" "logged (keeps_config [SecretObj ex_secret] ex_backup_pulp) bm_log s cs s'"
  shows "ex_good s'"
  using assms by (auto simp: ex_good_def logged_def same_backup_def)

lemma ex_orReport:
  assumes "ex_good s" "fst (f s) = None" "records (keeps_config [SecretObj ex_secret] ex_backup_pulp) bm_log f cs"
    and "\<And>s. ex_good s \<Longrightarrow> \<exists>res s'. k s = Some ((res, None), s')"
  shows "\<exists>res s'. orReport B msg reason (f s) k = Some ((res, None), s')"
proof -
  obtain t where t: "f s = (None, t)" using assms(2) by (cases "f s") auto
  with assms(3) have "ex_good t" using ex_good_step [OF assms(1)] by (auto simp: records_def)
  from assms(4) [OF this] t show ?thesis by (simp add: orReport_def)
qed

lemma ex_steps_succeed:
  assumes "ex_good s"
  shows "fst (createBackupDir (mem_bext spec) dir pod s) = None"
    "fst (backupConfigMap (mem_bext spec) dir pod s) = None"
    "fst (backupDatabase (mem_bext spec) dir pod s) = None"
    "fst (backupCR (mem_bext spec) dir pod s) = None"
    "fst (backupSecret (mem_bext spec) dir pod s) = None"
    "fst (backupPulpDir (mem_bext spec) dir pod s) = None"
proof -
  let ?objs = "[SecretObj ex_secret]"
  have k: "keeps_config ?objs ex_backup_pulp (run_world s)" and b: "same_backup ex_backup (run_obj s)"
    using assms by (simp_all add: ex_good_def)
  have n: "Backup_Namespace (run_obj s) = ''ns''" "getDeploymentName (run_obj s) = ''p''" "getPostgresCfgSecret (run_obj s) = ''s''"
    using same_backup_names [OF b] by (simp_all add: ex_names) (simp_all add: ex_backup_def getDeploymentName_def)
  let ?get = "act (x_GetPulp (bx_base (mem_bext spec)) ''ns'' ''p'') s"
  have p: "fst ?get = Inr ex_backup_pulp" by (rule ex_pulp_read [OF k])
  have t: "keeps_config ?objs ex_backup_pulp (run_world (snd ?get))"
    using k by (simp add: mem_base_def keeps_config_def mem_get_pulp_def split: option.split)
  show "fst (createBackupDir (mem_bext spec) dir pod s) = None"
    unfolding createBackupDir_def by (rule mem_runs) simp
  show "fst (backupConfigMap (mem_bext spec) dir pod s) = None"
    using p by (simp add: backupConfigMap_def n ex_unset split_beta Let_def)
  show "fst (backupCR (mem_bext spec) dir pod s) = None"
    using p echo_succeeds by (simp add: backupCR_def n split_beta Let_def)
  have "fst (backup_secret_files (mem_bext spec) dir pod (run_obj s) ex_backup_pulp (snd ?get)) =
      fst (backup_secret_files (mem_bext spec) dir pod ex_backup ex_backup_pulp (snd ?get))"
    by (simp only: backup_secret_files_def same_backup_names [OF b])
  also have "\<dots> = None"
    using ex_secret_files_succeed t n(1) by (simp add: succeeds_def)
  finally show "fst (backupSecret (mem_bext spec) dir pod s) = None"
    using p by (simp add: backupSecret_def n split_beta Let_def)
  have runs: "succeeds ?objs ex_backup_pulp ''ns'' (run_in_manager (mem_bext spec) pod cmd)" if "hd cmd \<notin> {''test'', ''cat''}" for cmd
    using mem_runs [OF that] by (simp add: succeeds_def)
  have "succeeds ?objs ex_backup_pulp ''ns'' (\<lambda>s. andThen (run_in_manager (mem_bext spec) pod [''mkdir'', ''-p'', dir @ ''/pulp''] s)
      (run_in_manager (mem_bext spec) pod [''bash'', ''-c'', ''cp -fa /var/lib/pulp/. '' @ dir @ ''/pulp'']))"
    by (rule succeeds_andThen [OF runs mem_logs.run_in_manager_writes runs]) simp_all
  then show "fst (backupPulpDir (mem_bext spec) dir pod s) = None"
    using p t n(1) by (simp add: backupPulpDir_def n ex_unset split_beta Let_def succeeds_def)
  let ?dump = "\<lambda>s. let (r, s) = act (x_Get (bx_base (mem_bext spec)) KSecret (Backup_Namespace (run_obj s)) ''s'') s
      in case as_Secret r of Inl err \<Rightarrow> (Some err, s)
         | Inr x \<Rightarrow> run_in_manager (mem_bext spec) pod [''pg_dump'', ''--clean'', ''--create'', ''-Ft'', ''-d'',
             database_url (sec_Data x), ''-f'', dir @ ''/'' @ ''pulp.db''] s"
  have "succeeds ?objs ex_backup_pulp ''ns'' ?dump"
    using mem_logs.get_reads [of ?objs ex_backup_pulp _ KSecret spec "''ns''" "''s''"] mem_runs
    by (simp add: succeeds_def split_beta Let_def ex_config)
  then have "succeeds ?objs ex_backup_pulp ''ns'' (\<lambda>s. andThen (run_in_manager (mem_bext spec) pod [''touch'', dir @ ''/'' @ ''pulp.db''] s)
      (\<lambda>s. andThen (run_in_manager (mem_bext spec) pod [''chmod'', ''0600'', dir @ ''/'' @ ''pulp.db''] s) ?dump))"
    by (intro succeeds_andThen [OF runs mem_logs.run_in_manager_writes]) simp_all
  from this [unfolded succeeds_def, rule_format, OF k n(1)] show "fst (backupDatabase (mem_bext spec) dir pod s) = None"
    by (simp only: backupDatabase_def Let_def n)
qed

lemma ex_backup_succeeds:
  assumes "ex_good s"
  shows "\<exists>res s'. backup_data (mem_bext spec) ts dir pod s = Some ((res, None), s')"
proof -
  let ?objs = "[SecretObj ex_secret]"
  have prog: "ex_good (progress (mem_bext spec) msg reason s)" if "ex_good s" for s msg reason
    using ex_good_step [OF that mem_logs.progress_logged] .
  note records = mem_logs.records_progress [OF mem_logs.step_records(1) steady_plans(1)]
    mem_logs.records_progress [OF mem_logs.step_records(2) steady_plans(2)]
    mem_logs.records_progress [OF mem_logs.step_records(3) steady_const]
    mem_logs.records_progress [OF mem_logs.step_records(4) steady_plans(3)]
    mem_logs.records_progress [OF mem_logs.step_records(5) steady_const]
  have finish: "\<exists>res s'. backup_finish (mem_bext spec) ts s = Some ((res, None), s')" for s
    by (simp add: backup_finish_def Let_def split_beta)
  show ?thesis
    unfolding backup_data_def
    by (rule ex_orReport [OF assms ex_steps_succeed(1) [OF assms] mem_logs.step_records(6)],
        rule ex_orReport [OF _ _ records(1)], assumption, rule ex_steps_succeed(2) [OF prog], assumption,
        rule ex_orReport [OF _ _ records(2)], assumption, rule ex_steps_succeed(3) [OF prog], assumption,
        rule ex_orReport [OF _ _ records(3)], assumption, rule ex_steps_succeed(4) [OF prog], assumption,
        rule ex_orReport [OF _ _ records(4)], assumption, rule ex_steps_succeed(5) [OF prog], assumption,
        rule ex_orReport [OF _ _ records(5)], assumption, rule ex_steps_succeed(6) [OF prog], assumption,
        rule finish)
qed

lemma ex_backup_run_good: "ex_good ex_backup_run"
  by (simp add: ex_good_def ex_backup_run_def keeps_config_def mem_init_def is_config_def same_backup_def)

lemma backup_runs_the_plan_witness:
  "\<exists>res s'. backup_data (mem_bext zero_PulpSpec) ''0'' ''/backups/x'' ex_pod ex_backup_run = Some ((res, None), s') \<and>
     bm_log (run_world s') = backup_plan (mem_bext zero_PulpSpec) (config_at [SecretObj ex_secret]) ex_backup_pulp ex_backup ''/backups/x''"
proof -
  obtain res s' where run: "backup_data (mem_bext zero_PulpSpec) ''0'' ''/backups/x'' ex_pod ex_backup_run = Some ((res, None), s')"
    using ex_backup_succeeds [OF ex_backup_run_good] by blast
  have inv: "keeps_config [SecretObj ex_secret] ex_backup_pulp (run_world ex_backup_run)"
    using ex_backup_run_good by (simp add: ex_good_def)
  have start: "bm_log (run_world ex_backup_run) = []" "run_obj ex_backup_run = ex_backup"
    by (simp_all add: ex_backup_run_def)
  have "bm_log (run_world s') = bm_log (run_world ex_backup_run) @
      backup_plan (mem_bext zero_PulpSpec) (config_at [SecretObj ex_secret]) ex_backup_pulp (run_obj ex_backup_run) ''/backups/x''"
    by (rule backup_runs_the_plan [OF mem_logs.manager_log_axioms inv run])
  with run show ?thesis by (auto simp: start)
qed

text \<open>A run for an instance that is not there.\<close>

lemma mem_progress:
  "mem_objs (bm_mem (run_world (progress (mem_bext spec) msg reason s))) = mem_objs (bm_mem (run_world s))"
  "mem_pulps (bm_mem (run_world (progress (mem_bext spec) msg reason s))) = mem_pulps (bm_mem (run_world s))"
  "same_backup (run_obj s) (run_obj (progress (mem_bext spec) msg reason s))"
  by (simp_all add: progress_def updateStatus_def Let_def split_beta set_backup_condition_def Backup_Status_Update_def
      mem_bext_def mem_base_def mem_ext_def same_backup_def)

lemma mem_cleanup:
  assumes "mem_objs (bm_mem (run_world s)) = []"
  shows "cleanup (mem_bext spec) s = s"
proof -
  have get: "x_Get mem_base KPod ns n (run_world s) = (Inl (NotFound n), run_world s)" for ns n
    using assms by (simp add: mem_base_def on_mem_def mem_get_def mem_lookup_def)
  have delete: "x_Delete mem_base x (run_world s) = (Some (NotFound (obj_Name x)), run_world s)" for x
    using assms by (simp add: mem_base_def on_mem_def mem_delete_def)
  have "poll_gone (mem_bext spec) ns n (Suc k) (run_world s) = run_world s" for ns n k
    by (simp add: get)
  from this [of _ _ 119] show ?thesis
    by (simp add: cleanup_def remove_pod_def get delete)
qed

lemma ex_run_fails:
  "\<exists>s'. backup_run (mem_bext zero_PulpSpec) ''0'' \<lparr>run_world = ex_bworld [], run_obj = ex_backup\<rparr> =
     Some ((zero_Result, Some (NotFound ''p'')), s')"
proof -
  let ?B = "mem_bext zero_PulpSpec"
  let ?s = "progress ?B ''Creating backup pvc ...'' ''CreatingPVC''
      (cleanup ?B (progress ?B ''Backup process running ...'' ''StartingBackupProcess'' \<lparr>run_world = ex_bworld [], run_obj = ex_backup\<rparr>))"
  let ?r = "progress ?B ''Backup process running ...'' ''StartingBackupProcess'' \<lparr>run_world = ex_bworld [], run_obj = ex_backup\<rparr>"
  have r: "mem_objs (bm_mem (run_world ?r)) = []" "mem_pulps (bm_mem (run_world ?r)) = [zero_Pulp]" "same_backup ex_backup (run_obj ?r)"
    using mem_progress(3) [of "\<lparr>run_world = ex_bworld [], run_obj = ex_backup\<rparr>"]
    by (simp_all add: mem_progress ex_bworld_def mem_init_def)
  have s: "mem_objs (bm_mem (run_world ?s)) = []" "mem_pulps (bm_mem (run_world ?s)) = [zero_Pulp]"
    unfolding mem_cleanup [OF r(1)] mem_progress by (simp_all add: ex_bworld_def mem_init_def)
  have "same_backup ex_backup (run_obj ?s)"
    using r(3) mem_progress(3) [of ?r] unfolding mem_cleanup [OF r(1)] by (auto simp: same_backup_def)
  note s = s this
  have req: "BSpec_BackupStorageReq (Backup_Spec (run_obj ?s)) = []"
    using s(3) by (simp add: same_backup_def ex_backup_def)
  obtain t where t: "createBackupPVC ?B ?s = Some (None, t)" "mem_pulps (bm_mem (run_world t)) = [zero_Pulp]" "run_obj t = run_obj ?s"
    using s(1,2) req
    by (auto simp: createBackupPVC_def Let_def split_beta act_def mem_base_def mem_ext_def on_mem_def mem_get_def mem_lookup_def
        mem_create_def)
  let ?u = "progress ?B ''Creating backup pod ...'' ''CreatingPod'' t"
  have u: "same_backup ex_backup (run_obj ?u)" "mem_pulps (bm_mem (run_world ?u)) = [zero_Pulp]"
    using s(3) t(2,3) mem_progress(3) [of t] by (auto simp: mem_progress same_backup_def)
  have "Backup_Namespace (run_obj ?u) = ''ns''" "getDeploymentName (run_obj ?u) = ''p''"
    using same_backup_names [OF u(1)] by (simp_all add: ex_backup_def getDeploymentName_def)
  then have "\<exists>v. createBackupPod ?B ''/backups'' ?u = Some (Inl (NotFound ''p''), v)"
    using u(2) by (simp add: createBackupPod_def Let_def split_beta mem_base_def mem_get_pulp_def same_pulp_def zero_Pulp_def zero_ObjectMeta_def)
  with t(1) show ?thesis
    by (auto simp: backup_run_def Let_def orReport_def)
qed

lemma backup_condition_tells_witness:
  "\<exists>s'. backup_run (mem_bext zero_PulpSpec) ''0'' \<lparr>run_world = ex_bworld [], run_obj = ex_backup\<rparr> =
       Some ((zero_Result, Some (NotFound ''p'')), s') \<and>
     \<not> backup_complete (mem_bext zero_PulpSpec) ConditionTrue s' \<and> backup_complete (mem_bext zero_PulpSpec) ConditionFalse s'"
proof -
  have "condition_lib (bx_base (mem_bext zero_PulpSpec))"
    by (simp add: mem_base_conditions.condition_lib_axioms)
  with backup_condition_tells [OF mem_backup_store.backup_store_axioms this] ex_run_fails show ?thesis
    by blast
qed

end
