(* ===== verification/Backup_Restore.thy ===== *)
theory Backup_Restore
  imports Backup_Props
begin

text \<open>
  What backup and restore achieve together: a secret that went into a backup comes out of the restore
  with the same data as far as the struct it is read into has fields for it, the custom resource comes
  back with the replicas it had, and a namespace that was restored is not restored again.
\<close>

subsection \<open>Output of a command\<close>

lemma is_space_newline [simp]: "is_space (CHR 0x0A)"
  by (simp add: is_space_def Let_def)

lemma dropWhile_all: "\<forall>x \<in> set xs. P x \<Longrightarrow> dropWhile P xs = []"
  by (induction xs) auto

lemma TrimSpace_newline: "TrimSpace (t @ newline) = TrimSpace t"
  by (simp add: TrimSpace_def newline_def dropWhile_append dropWhile_all)

lemma dropWhile_idem: "dropWhile P (dropWhile P xs) = dropWhile P xs"
  by (induction xs) auto

lemma dropWhile_rev_dropWhile:
  "dropWhile P (rev (dropWhile P (rev xs))) = rev (dropWhile P (rev (dropWhile P xs)))"
proof (induction xs)
  case (Cons x xs)
  show ?case
  proof (cases "P x")
    case True
    then have "dropWhile P (rev (dropWhile P (rev (x # xs)))) = dropWhile P (rev (dropWhile P (rev xs)))"
      by (cases "\<forall>y \<in> set xs. P y") (auto simp: dropWhile_append dropWhile_all)
    with Cons True show ?thesis by simp
  next
    case False
    then have "dropWhile P (rev (x # xs)) = dropWhile P (rev xs) @ [x]"
      by (auto simp: dropWhile_append)
    with False show ?thesis by (simp add: dropWhile_append)
  qed
qed simp

lemma TrimSpace_idem [simp]: "TrimSpace (TrimSpace t) = TrimSpace t"
  by (simp add: TrimSpace_def dropWhile_rev_dropWhile dropWhile_idem)

lemma TrimSpace_Nil [simp]: "TrimSpace [] = []"
  by (simp add: TrimSpace_def)

lemma TrimSpace_plain:
  assumes "\<forall>c \<in> set t. \<not> is_space c"
  shows "TrimSpace t = t"
proof -
  have "dropWhile is_space u = u" if "set u \<subseteq> set t" for u
    using that assms by (cases u) auto
  from this [of t] this [of "rev t"] show ?thesis by (simp add: TrimSpace_def)
qed

lemma ContainerExec_output:
  assumes "x_Exec X ns pod c command w = (Inr (t @ newline, []), w')"
  shows "ContainerExec X pod command c ns w = (Inr (TrimSpace t), w')"
  using assms by (simp add: ContainerExec_def TrimSpace_newline)

subsection \<open>The fields of a struct\<close>

lemma read_fields_tags:
  assumes "key \<noteq> ''conditions''"
  shows "\<exists>n d b. read_fields key (map (\<lambda>t. (t, f t)) tags) n0 d0 b0 = Some ((n, d), b) \<and>
     n = (if key \<in> set tags then f key else n0) \<and>
     map_of d = (\<lambda>k. if k \<in> set tags \<and> k \<noteq> key \<and> f k \<noteq> [] then Some (f k) else map_of d0 k) \<and>
     (gmap_ok d0 \<longrightarrow> gmap_ok d) \<and> Restore_Meta b = Restore_Meta b0 \<and> Restore_Spec b = Restore_Spec b0"
proof (induction tags arbitrary: n0 d0 b0)
  case Nil
  show ?case by simp
next
  case (Cons t tags)
  show ?case
  proof (cases "t = key")
    case True
    obtain b1 where b1: "setStatusField key (f key) b0 = Some b1" "Restore_Meta b1 = Restore_Meta b0" "Restore_Spec b1 = Restore_Spec b0"
      using assms by (cases "key = ''postgres_secret''") (auto simp: setStatusField_def)
    from Cons.IH [of "f key" d0 b1] b1 True show ?thesis by (auto simp: fun_eq_iff)
  next
    case False
    from Cons.IH [of n0 "if f t \<noteq> [] then gset t (f t) d0 else d0" b0] False show ?thesis
      by (auto simp: fun_eq_iff)
  qed
qed

lemma struct_tags_key: "struct_tags key = Some tags \<Longrightarrow> key \<in> set tags \<and> key \<noteq> ''conditions''"
  by (auto simp: struct_tags_def signingSecret_def dbFieldsEncryptionSecret_def storageObjectSecret_def postgresSecret_def
      adminPassword_def ssoSecret_def containerTokenSecret_def pulpSecretKey_def split: if_splits)

lemma map_of_backup_content:
  "gmap_ok d \<Longrightarrow> map_of (backup_content key n d) = (map_of [(key, n)]) ++ map_of d"
  by (simp add: backup_content_def map_of_gcopy)

subsection \<open>What the round trip relies on\<close>

text \<open>
  Texts that bash takes literally between single quotes and \<open>echo\<close> prints as they are, paths that are one
  word of the shell, and texts that YAML carries unchanged even when the white space around the whole
  document is cut off.
\<close>

definition shell_text :: "string \<Rightarrow> bool" where
  "shell_text t \<longleftrightarrow> t \<noteq> [] \<and> hd t \<noteq> CHR ''-'' \<and> CHR 0x27 \<notin> set t \<and> CHR 0x00 \<notin> set t"

definition shell_word :: "string \<Rightarrow> bool" where
  "shell_word p \<longleftrightarrow> p \<noteq> [] \<and> (\<forall>c \<in> set p. char_between (CHR ''a'') (CHR ''z'') c \<or> char_between (CHR ''A'') (CHR ''Z'') c
     \<or> is_digit c \<or> c \<in> {CHR ''/'', CHR ''.'', CHR ''-'', CHR ''_''})"

definition yaml_text :: "string \<Rightarrow> bool" where
  "yaml_text t \<longleftrightarrow> TrimSpace t = t \<and> (\<forall>c \<in> set t. char_between (CHR '' '') (CHR ''~'') c \<or> c = CHR 0x0A)"

definition yaml_map :: "gomap \<Rightarrow> bool" where
  "yaml_map m \<longleftrightarrow> gmap_ok m \<and> (\<forall>(k, v) \<in> set m. yaml_text k \<and> yaml_text v)"

text \<open>JSON matches the names of fields without regard to case.\<close>

definition told_apart :: "gomap \<Rightarrow> string list \<Rightarrow> bool" where
  "told_apart m tags \<longleftrightarrow> (\<forall>k \<in> gkeys m. \<forall>t \<in> set tags. EqualFold k t \<longrightarrow> k = t)"

definition only_reads :: "string list \<Rightarrow> bool" where
  "only_reads command \<longleftrightarrow> (\<exists>p. command = [''test'', ''-f'', p] \<or> command = [''cat'', p])"

lemma only_reads_simps [simp]: "only_reads [''test'', ''-f'', p]" "only_reads [''cat'', p]"
  by (simp_all add: only_reads_def)

definition same_restore :: "PulpRestore \<Rightarrow> PulpRestore \<Rightarrow> bool" where
  "same_restore b b' \<longleftrightarrow> Restore_Spec b' = Restore_Spec b \<and> Restore_Name b' = Restore_Name b \<and> Restore_Namespace b' = Restore_Namespace b"

text \<open>The restore resource on the server; the time and the status are written without touching another object.\<close>

locale restore_store =
  fixes B :: "'w BackupExternals"
  assumes restore_status_keeps: "bx_RestoreStatusUpdate B b w = ((err, b'), w') \<Longrightarrow>
      same_restore b b' \<and> Restore_Status b' = Restore_Status b"
    and restore_status_get: "fst (x_Get (bx_base B) k ns n (snd (bx_RestoreStatusUpdate B b w))) = fst (x_Get (bx_base B) k ns n w)"
    and now_get: "fst (x_Get (bx_base B) k ns n (snd (x_Now (bx_base B) w))) = fst (x_Get (bx_base B) k ns n w)"
begin

lemma Restore_Status_Update_obj:
  "same_restore (run_obj s) (run_obj (snd (Restore_Status_Update B s)))"
  "Restore_Status (run_obj (snd (Restore_Status_Update B s))) = Restore_Status (run_obj s)"
  using restore_status_keeps [of "run_obj s" "run_world s"]
  by (auto simp: Restore_Status_Update_def split_beta prod_eq_iff)

lemma Restore_updateStatus_obj: "same_restore (run_obj s) (run_obj (Restore_updateStatus B st ty msg reason s))"
  using Restore_Status_Update_obj(1)
  by (auto simp: Restore_updateStatus_def Let_def split_beta set_restore_condition_def same_restore_def)

lemma Restore_updateStatus_world:
  "\<exists>b. run_world (Restore_updateStatus B st ty msg reason s) =
     snd (bx_RestoreStatusUpdate B b (snd (x_Now (bx_base B) (run_world s))))"
  by (auto simp: Restore_updateStatus_def Let_def split_beta set_restore_condition_def Restore_Status_Update_def)

lemma Restore_updateStatus_get:
  "fst (x_Get (bx_base B) k ns n (run_world (Restore_updateStatus B st ty msg reason s))) =
   fst (x_Get (bx_base B) k ns n (run_world s))"
proof -
  obtain b where "run_world (Restore_updateStatus B st ty msg reason s) =
      snd (bx_RestoreStatusUpdate B b (snd (x_Now (bx_base B) (run_world s))))"
    using Restore_updateStatus_world by blast
  then show ?thesis by (simp add: restore_status_get now_get)
qed

end

text \<open>
  The claim that both manager pods mount, the YAML library and the API server for secrets: \<open>content\<close> is the
  content of a file. Whatever else happens between a backup and a restore is left open.
\<close>

locale backup_medium = restore_store B for B :: "'w BackupExternals" +
  fixes content :: "'w \<Rightarrow> string \<Rightarrow> string option"
  assumes echo_writes: "x_Exec (bx_base B) ns pod c (echo_command t path) w = (Inr res, w') \<Longrightarrow> shell_text t \<Longrightarrow> shell_word path \<Longrightarrow>
      content w' path = Some (t @ newline)"
    and cat_reads: "x_Exec (bx_base B) ns pod c [''cat'', path] w = (Inr (out, errors), w') \<Longrightarrow> content w path = Some t \<Longrightarrow>
      out = t \<and> errors = []"
    and read_file: "only_reads command \<Longrightarrow> content (snd (x_Exec (bx_base B) ns pod c command w)) = content w"
    and read_get: "only_reads command \<Longrightarrow>
      fst (x_Get (bx_base B) k ns' n (snd (x_Exec (bx_base B) ns pod c command w))) = fst (x_Get (bx_base B) k ns' n w)"
    and now_file: "content (snd (x_Now (bx_base B) w)) = content w"
    and restore_status_file: "content (snd (bx_RestoreStatusUpdate B b w)) = content w"
    and yaml_round_trip: "yaml_map m \<Longrightarrow> told_apart m tags \<Longrightarrow> tag \<in> set tags \<Longrightarrow>
      bx_Unmarshal B tags (TrimSpace (bx_Marshal B m)) tag = gget m tag"
    and create_secret: "x_Create (bx_base B) (SecretObj x) w = (None, w') \<Longrightarrow> meta_Name (sec_Meta x) \<noteq> [] \<Longrightarrow> gmap_ok (sec_StringData x) \<Longrightarrow>
      \<exists>y. fst (x_Get (bx_base B) KSecret (meta_Namespace (sec_Meta x)) (meta_Name (sec_Meta x)) w') = Inr (SecretObj y) \<and>
        map_of (sec_Data y) = map_of (sec_Data x) ++ map_of (sec_StringData x)"
begin

lemma Restore_updateStatus_file: "content (run_world (Restore_updateStatus B st ty msg reason s)) = content (run_world s)"
proof -
  obtain b where "run_world (Restore_updateStatus B st ty msg reason s) =
      snd (bx_RestoreStatusUpdate B b (snd (x_Now (bx_base B) (run_world s))))"
    using Restore_updateStatus_world by blast
  then show ?thesis by (simp add: restore_status_file now_file)
qed

lemmas restoring_keeps = Restore_updateStatus_file Restore_updateStatus_get Restore_updateStatus_obj

lemma run_in_restore_obj [simp]: "run_obj (snd (run_in_restore B pod command s)) = run_obj s"
  by (simp add: run_in_restore_def)

text \<open>What a successful \<open>echo\<close> leaves.\<close>

lemma echo_written:
  assumes "run_in_manager B pod (echo_command t path) s = (None, s')" "shell_text t" "shell_word path"
  shows "content (run_world s') path = Some (t @ newline)"
proof -
  let ?e = "x_Exec (bx_base B) (meta_Namespace (po_Meta pod)) (meta_Name (po_Meta pod)) (manager_name (Backup_Name (run_obj s)))
      (echo_command t path) (run_world s)"
  obtain r w where e: "?e = (r, w)" by (metis surj_pair)
  from assms(1) e obtain out where "r = Inr out" "run_world s' = w"
    by (auto simp: run_in_manager_def exec_in_def act_def ContainerExec_def split_beta split: sum.splits)
  with e echo_writes [OF _ assms(2,3)] show ?thesis by metis
qed

text \<open>A command that only reads, and what \<open>cat\<close> then prints.\<close>

lemma run_in_restore_world:
  "run_world (snd (run_in_restore B pod command s)) =
     snd (x_Exec (bx_base B) (meta_Namespace (po_Meta pod)) (meta_Name (po_Meta pod)) (manager_name (Restore_Name (run_obj s)))
       command (run_world s))"
  by (auto simp: run_in_restore_def exec_in_def act_def ContainerExec_def split_beta split: sum.split)

lemma run_in_restore_keeps:
  assumes "only_reads command"
  shows "content (run_world (snd (run_in_restore B pod command s))) = content (run_world s)"
    and "fst (x_Get (bx_base B) k ns n (run_world (snd (run_in_restore B pod command s)))) = fst (x_Get (bx_base B) k ns n (run_world s))"
  using assms by (simp_all add: run_in_restore_world read_file read_get)

lemma cat_output:
  assumes "run_in_restore B pod [''cat'', path] s = (Inr out, s')" "content (run_world s) path = Some (t @ newline)"
  shows "out = TrimSpace t"
proof -
  let ?e = "x_Exec (bx_base B) (meta_Namespace (po_Meta pod)) (meta_Name (po_Meta pod)) (manager_name (Restore_Name (run_obj s)))
      [''cat'', path] (run_world s)"
  obtain r w where e: "?e = (r, w)" by (metis surj_pair)
  from assms(1) e obtain o1 o2 where r: "r = Inr (o1, o2)"
    by (auto simp: run_in_restore_def exec_in_def act_def ContainerExec_def split: sum.splits prod.splits)
  with e cat_reads [of _ _ _ path _ o1 o2] assms(2) have "?e = (Inr (t @ newline, []), w)" by metis
  from ContainerExec_output [OF this] assms(1) show ?thesis
    by (auto simp: run_in_restore_def exec_in_def act_def)
qed

lemma create_missing_secret:
  assumes run: "create_missing B rt kind noun (SecretObj x) s = ((True, None), s')"
    and missing: "fst (x_Get (bx_base B) KSecret (Restore_Namespace (run_obj s)) (meta_Name (sec_Meta x)) (run_world s)) = Inl (NotFound e)"
    and x: "sec_Data x = []" "gmap_ok (sec_StringData x)" "meta_Name (sec_Meta x) \<noteq> []"
      "meta_Namespace (sec_Meta x) = Restore_Namespace (run_obj s)"
  shows "\<exists>y. fst (x_Get (bx_base B) KSecret (Restore_Namespace (run_obj s)) (meta_Name (sec_Meta x)) (run_world s')) = Inr (SecretObj y) \<and>
     map_of (sec_Data y) = map_of (sec_StringData x)"
proof -
  let ?t = "snd (act (x_Get (bx_base B) KSecret (Restore_Namespace (run_obj s)) (meta_Name (sec_Meta x))) s)"
  obtain w where w: "x_Create (bx_base B) (SecretObj x) (run_world ?t) = (None, w)"
    and s': "s' = restoring B (rt @ '' '' @ noun @ '' restored'') (rt @ kind @ ''Restored'') (?t\<lparr>run_world := w\<rparr>)"
    using run missing
    by (cases "x_Create (bx_base B) (SecretObj x) (run_world ?t)")
       (auto simp: create_missing_def split_beta Let_def act_def split: option.splits)
  from create_secret [OF w x(3,2)] x(1,4) show ?thesis
    by (simp add: s' restoring_def restoring_keeps)
qed

lemma secret_restored:
  assumes run: "secret B rt key dir fn pod s = Some ((True, None), s')"
    and tags: "struct_tags key = Some tags"
    and written: "content (run_world s) (dir @ ''/'' @ fn) = Some (bx_Marshal B (backup_content key n d) @ newline)"
    and missing: "fst (x_Get (bx_base B) KSecret (Restore_Namespace (run_obj s)) n (run_world s)) = Inl (NotFound e)"
    and ok: "yaml_map (backup_content key n d)" "told_apart (backup_content key n d) tags" "gmap_ok d" "key \<notin> gkeys d" "n \<noteq> []"
  shows "\<exists>y. fst (x_Get (bx_base B) KSecret (Restore_Namespace (run_obj s)) n (run_world s')) = Inr (SecretObj y) \<and>
     map_of (sec_Data y) = (\<lambda>k. if k \<in> set tags \<and> map_of d k \<noteq> Some [] then map_of d k else None)"
proof -
  let ?path = "dir @ ''/'' @ fn" and ?m = "backup_content key n d"
  let ?test = "[''test'', ''-f'', ?path]" and ?cat = "[''cat'', ?path]"
  let ?s1 = "snd (run_in_restore B pod ?test s)"
  let ?s2 = "restoring B (''Restoring '' @ rt @ '' secret'') (''Restoring'' @ rt @ ''Secret'') ?s1"
  let ?s3 = "snd (run_in_restore B pod ?cat ?s2)"
  have same: "same_restore (run_obj s) (run_obj ?s2)"
    using restoring_keeps(3) [of ?s1] by (simp add: restoring_def)
  have written2: "content (run_world ?s2) ?path = Some (bx_Marshal B ?m @ newline)"
    using written by (simp add: restoring_def restoring_keeps run_in_restore_keeps)
  have missing3: "fst (x_Get (bx_base B) KSecret (Restore_Namespace (run_obj s)) n (run_world ?s3)) = Inl (NotFound e)"
    using missing by (simp add: restoring_def restoring_keeps run_in_restore_keeps)
  from run obtain out where out: "run_in_restore B pod ?cat ?s2 = (Inr out, ?s3)"
    and made: "secret_from B rt key out ?s3 = Some ((True, None), s')"
    by (auto simp: secret_def read_backup_def split_beta Let_def prod_eq_iff split: sum.splits)
  let ?f = "bx_Unmarshal B tags out"
  have f: "?f t = gget ?m t" if "t \<in> set tags" for t
    using cat_output [OF out written2] yaml_round_trip [OF ok(1,2) that] by simp
  have key: "key \<in> set tags" "key \<noteq> ''conditions''" using struct_tags_key [OF tags] by simp_all
  obtain n' d' b where fields: "read_fields key (map (\<lambda>t. (t, ?f t)) tags) [] [] (run_obj ?s3) = Some ((n', d'), b)"
    and n': "n' = ?f key" and d': "map_of d' = (\<lambda>k. if k \<in> set tags \<and> k \<noteq> key \<and> ?f k \<noteq> [] then Some (?f k) else map_of [] k)"
    and dok: "gmap_ok d'" and b: "Restore_Meta b = Restore_Meta (run_obj ?s3)"
    using read_fields_tags [OF key(2), of ?f tags "[]" "[]" "run_obj ?s3"] key(1) by (auto simp: gmap_ok_def)
  have m: "map_of ?m = (\<lambda>k. if k = key then Some n else map_of d k)"
    using ok(3,4) by (auto simp: map_of_backup_content map_add_def fun_eq_iff gkeys_dom split: option.splits)
  have n: "n' = n" using f [OF key(1)] by (simp add: n' gget_def m)
  have ns: "Restore_Namespace b = Restore_Namespace (run_obj s)"
    using same b by (simp add: same_restore_def)
  let ?x = "\<lparr>sec_Meta = zero_ObjectMeta\<lparr>meta_Name := n, meta_Namespace := Restore_Namespace b\<rparr>, sec_Data = [], sec_StringData = d'\<rparr>"
  have create: "create_missing B rt ''Secret'' ''secret'' (SecretObj ?x) (?s3\<lparr>run_obj := b\<rparr>) = ((True, None), s')"
    using made fields tags n by (simp add: secret_from_def)
  have "map_of d' = (\<lambda>k. if k \<in> set tags \<and> map_of d k \<noteq> Some [] then map_of d k else None)"
    using ok(4) by (auto simp: d' f gget_def m fun_eq_iff gkeys_dom split: option.splits)
  with create_missing_secret [OF create] missing3 dok ok(5) ns show ?thesis by simp
qed

end


subsection \<open>The round trip in memory\<close>

text \<open>The spelling of bytes is read back and has neither separators nor white space.\<close>

lemma unspell_spell [simp]: "unspell (spell s) = s"
proof (induction s)
  case (Cons c s)
  have "of_char c div 16 < (16 :: nat)" "of_char c mod 16 < (16 :: nat)"
    using nat_of_char_less_256 [of c] by (simp_all add: less_mult_imp_div_less)
  then have "char_of (16 * ((65 + of_char c div 16) mod 256 - 65) + ((65 + of_char c mod 16) mod 256 - 65) :: nat) = c"
    by simp
  with Cons show ?case by (simp add: spell_def)
qed (simp add: spell_def)

lemma spell_chars: "c \<in> set (spell s) \<Longrightarrow> 65 \<le> (of_char c :: nat) \<and> (of_char c :: nat) \<le> 80"
proof -
  assume "c \<in> set (spell s)"
  then obtain d where "c = char_of (65 + of_char d div 16 :: nat) \<or> c = char_of (65 + of_char d mod 16 :: nat)"
    by (auto simp: spell_def)
  moreover have "of_char d div 16 < (16 :: nat)" "of_char d mod 16 < (16 :: nat)"
    using nat_of_char_less_256 [of d] by (simp_all add: less_mult_imp_div_less)
  ultimately show ?thesis by auto
qed

lemma spell_plain [simp]: "CHR '','' \<notin> set (spell s)" "CHR '':'' \<notin> set (spell s)" "CHR 0x27 \<notin> set (spell s)" "CHR 0x00 \<notin> set (spell s)"
  using spell_chars [of "CHR '',''" s] spell_chars [of "CHR '':''" s] spell_chars [of "CHR 0x27" s] spell_chars [of "CHR 0x00" s] by auto

lemma mem_entry_spell: "mem_entry (spell k @ CHR '':'' # spell v) = (k, v)"
  by (simp add: mem_entry_def Split_append Split_plain)

lemma mem_marshal_Cons: "mem_marshal ((k, v) # m) = (spell k @ CHR '':'' # spell v) @ CHR '','' # mem_marshal m"
  by (simp add: mem_marshal_def)

lemma mem_unmarshal_marshal [simp]: "mem_unmarshal (mem_marshal m) = m"
proof (induction m)
  case Nil
  show ?case by (simp add: mem_marshal_def mem_unmarshal_def)
next
  case (Cons e m)
  obtain k v where e: "e = (k, v)" by (cases e)
  have "Split (CHR '','') (mem_marshal (e # m)) = (spell k @ CHR '':'' # spell v) # Split (CHR '','') (mem_marshal m)"
    unfolding e mem_marshal_Cons by (rule Split_append) simp
  with Cons show ?case by (simp add: e mem_unmarshal_def mem_entry_spell)
qed

lemma mem_marshal_chars:
  "c \<in> set (mem_marshal m) \<Longrightarrow> 65 \<le> (of_char c :: nat) \<and> (of_char c :: nat) \<le> 80 \<or> c = CHR '':'' \<or> c = CHR '',''"
  by (induction m) (auto simp: mem_marshal_def dest: spell_chars)

lemma TrimSpace_mem_marshal [simp]: "TrimSpace (mem_marshal m) = mem_marshal m"
  by (rule TrimSpace_plain) (auto simp: is_space_def Let_def dest!: mem_marshal_chars)

lemma parse_echo_command:
  assumes "CHR 0x27 \<notin> set t"
  shows "parse_echo (''echo '' @ squote @ t @ squote @ '' > '' @ path) = Some (t, path)"
proof -
  have "takeWhile (\<lambda>c. c \<noteq> CHR 0x27) (t @ CHR 0x27 # u) = t" for u
    using assms by (induction t) auto
  then show ?thesis by (simp add: parse_echo_def squote_def)
qed

lemma mem_exec_keeps: "bm_mem (snd (mem_exec command w)) = bm_mem w"
  by (simp add: mem_exec_def split: sum.split)

lemma mem_exec_reads: "only_reads command \<Longrightarrow> bm_files (snd (mem_exec command w)) = bm_files w"
  by (auto simp: only_reads_def mem_exec_def mem_files_def script_of_def split: sum.split)

lemma find_append_new: "List.find P xs = None \<Longrightarrow> List.find P (xs @ ys) = List.find P ys"
  by (induction xs) (auto split: if_splits)

lemma mem_create_secret:
  assumes "mem_create (SecretObj x) m = (None, m')" "meta_Name (sec_Meta x) \<noteq> []"
  shows "fst (mem_get KSecret (meta_Namespace (sec_Meta x)) (meta_Name (sec_Meta x)) m') =
    Inr (SecretObj (x\<lparr>sec_Data := gcopy (sec_Data x) (sec_StringData x), sec_StringData := []\<rparr>))"
proof -
  let ?P = "same_obj KSecret (meta_Namespace (sec_Meta x)) (meta_Name (sec_Meta x))"
  from assms have "List.find ?P (mem_objs m) = None"
    and m': "m' = m\<lparr>mem_objs := mem_objs m @ [normalise (SecretObj x)]\<rparr>"
    by (auto simp: mem_create_def named_def Let_def key_of_def same_obj_def find_None_iff split: if_splits)
  then show ?thesis
    by (simp add: mem_get_def mem_lookup_def find_append_new same_obj_def)
qed

interpretation mem_medium: backup_medium "mem_bext spec" "\<lambda>w. map_of (bm_files w)" for spec
proof unfold_locales
  fix ns pod c t path w res w'
  assume "x_Exec (bx_base (mem_bext spec)) ns pod c (echo_command t path) w = (Inr res, w')" "shell_text t"
  then show "map_of (bm_files w') path = Some (t @ newline)"
    using parse_echo_command [of t path]
    by (auto simp: mem_base_def mem_exec_def mem_output_def mem_files_def script_of_def echo_command_def shell_text_def split: sum.splits)
next
  fix ns pod c path w out errors w' t
  assume "x_Exec (bx_base (mem_bext spec)) ns pod c [''cat'', path] w = (Inr (out, errors), w')" "map_of (bm_files w) path = Some t"
  then show "out = t \<and> errors = []"
    by (auto simp: mem_base_def mem_exec_def mem_output_def split: sum.splits option.splits)
next
  fix x w w'
  assume "x_Create (bx_base (mem_bext spec)) (SecretObj x) w = (None, w')" "meta_Name (sec_Meta x) \<noteq> []" "gmap_ok (sec_StringData x)"
  moreover then obtain m where "mem_create (SecretObj x) (bm_mem w) = (None, m)" "bm_mem w' = m"
    by (auto simp: mem_base_def on_mem_def split: prod.splits)
  ultimately show "\<exists>y. fst (x_Get (bx_base (mem_bext spec)) KSecret (meta_Namespace (sec_Meta x)) (meta_Name (sec_Meta x)) w') = Inr (SecretObj y) \<and>
      map_of (sec_Data y) = map_of (sec_Data x) ++ map_of (sec_StringData x)"
    using mem_create_secret [of x "bm_mem w" m] by (simp add: mem_base_def map_of_gcopy)
next
  fix m tags tag
  show "bx_Unmarshal (mem_bext spec) tags (TrimSpace (bx_Marshal (mem_bext spec) m)) tag = gget m tag"
    by (simp add: mem_bext_def)
qed (auto simp: mem_bext_def mem_base_def mem_exec_keeps mem_exec_reads same_restore_def mem_ext_def mem_get_def mem_lookup_def
     split: option.split)

lemma mem_echo:
  assumes "CHR 0x27 \<notin> set t"
  shows "run_in_manager (mem_bext spec) pod (echo_command t path) s =
    (None, s\<lparr>run_world := (run_world s)\<lparr>bm_files := gset path (t @ newline) (bm_files (run_world s)),
       bm_log := bm_log (run_world s) @ [echo_command t path]\<rparr>\<rparr>)"
  using parse_echo_command [OF assms, of path]
  by (simp add: run_in_manager_def exec_in_def act_def ContainerExec_def mem_base_def mem_exec_def mem_output_def mem_files_def
      script_of_def echo_command_def)

text \<open>The admin secret of the example, and the cluster after it was lost.\<close>

definition ex_content :: gomap where
  "ex_content = backup_content ''admin_password_secret'' ''s'' [(''password'', ''pw'')]"

definition ex_restore :: PulpRestore where
  "ex_restore = \<lparr>Restore_Meta = zero_ObjectMeta\<lparr>meta_Name := ''r'', meta_Namespace := ''new''\<rparr>,
     Restore_Spec = \<lparr>RSpec_DeploymentName = ''p'', RSpec_BackupName = ''b'', RSpec_BackupPVC = [], RSpec_BackupDir = ''/backups/x'',
       RSpec_KeepBackupReplicasCount = True\<rparr>,
     Restore_Status = \<lparr>RStatus_Conditions = [], RStatus_PostgresSecret = []\<rparr>\<rparr>"

definition ex_restore_run :: "gomap \<Rightarrow> (bmem, PulpRestore) Run" where
  "ex_restore_run files = \<lparr>run_world = \<lparr>bm_mem = \<lparr>mem_objs = [], mem_pulps = [], mem_clock = 0, mem_seed = 0, mem_openshift = False,
     mem_conflict = False\<rparr>, bm_files = files, bm_log = [], bm_backups = [], bm_restores = []\<rparr>, run_obj = ex_restore\<rparr>"

definition ex_files :: gomap where
  "ex_files = [(''/backups/x/admin_secret.yaml'', mem_marshal ex_content @ newline)]"

lemma mem_marshal_quotable: "CHR 0x27 \<notin> set (mem_marshal m)" "CHR 0x00 \<notin> set (mem_marshal m)" "CHR ''-'' \<notin> set (mem_marshal m)"
  using mem_marshal_chars [of "CHR 0x27" m] mem_marshal_chars [of "CHR 0x00" m] mem_marshal_chars [of "CHR ''-''" m] by auto

lemma mem_marshal_shell_text:
  assumes "m \<noteq> []"
  shows "shell_text (mem_marshal m)"
proof -
  obtain k v n where "m = (k, v) # n" using assms by (cases m) auto
  then have "mem_marshal m \<noteq> []" by (simp add: mem_marshal_Cons)
  moreover then have "hd (mem_marshal m) \<in> set (mem_marshal m)" by (rule hd_in_set)
  ultimately show ?thesis
    using mem_marshal_quotable [of m] unfolding shell_text_def by metis
qed

lemma ex_content_simp: "ex_content = [(''admin_password_secret'', ''s''), (''password'', ''pw'')]"
  by (simp add: ex_content_def backup_content_def gset_def)

lemma ex_backup_file:
  "\<exists>s1. createBackupFile (mem_bext zero_PulpSpec) \<lparr>be_name = ''admin_password_secret'', be_backupDir = ''/backups/x'',
     be_backupFile = ''admin_secret.yaml'', be_objName = ''s'', be_pod = ex_pod\<rparr> ex_backup_run = (None, s1) \<and>
     map_of (bm_files (run_world s1)) ''/backups/x/admin_secret.yaml'' = Some (mem_marshal ex_content @ newline)"
proof -
  have "act (x_Get mem_base KSecret ''ns'' ''s'') ex_backup_run = (Inr (SecretObj ex_secret), ex_backup_run)"
    by (simp add: act_def mem_base_def on_mem_def mem_get_def mem_lookup_def ex_backup_run_def mem_init_def same_obj_def ex_secret_def)
  moreover have "run_obj ex_backup_run = ex_backup" "Backup_Namespace ex_backup = ''ns''" "sec_Data ex_secret = [(''password'', ''pw'')]"
    "bx_Marshal (mem_bext zero_PulpSpec) = mem_marshal"
    by (simp_all add: ex_backup_run_def ex_backup_def ex_secret_def mem_bext_def)
  ultimately show ?thesis
    by (simp add: createBackupFile_def mem_echo mem_marshal_quotable ex_content_def)
qed

lemma mem_restoring:
  "bm_files (run_world (restoring (mem_bext spec) msg reason s)) = bm_files (run_world s)"
  "mem_objs (bm_mem (run_world (restoring (mem_bext spec) msg reason s))) = mem_objs (bm_mem (run_world s))"
  by (simp_all add: restoring_def Restore_updateStatus_def Let_def split_beta set_restore_condition_def Restore_Status_Update_def
      mem_bext_def mem_base_def mem_ext_def)

lemma mem_reads:
  assumes "map_of (bm_files (run_world s)) p = Some t" "only_reads cmd" "last cmd = p"
  shows "\<exists>out. fst (run_in_restore (mem_bext spec) pod cmd s) = Inr out"
    and "bm_files (run_world (snd (run_in_restore (mem_bext spec) pod cmd s))) = bm_files (run_world s)"
    and "bm_mem (run_world (snd (run_in_restore (mem_bext spec) pod cmd s))) = bm_mem (run_world s)"
  using assms
  by (auto simp: only_reads_def run_in_restore_def exec_in_def act_def ContainerExec_def mem_base_def mem_exec_def mem_output_def
      mem_files_def script_of_def)

lemma ex_secret_from:
  assumes "mem_objs (bm_mem (run_world s)) = []"
  shows "\<exists>t'. secret_from (mem_bext spec) rt ''admin_password_secret'' (mem_marshal ex_content) s = Some ((True, None), t')"
proof -
  let ?x = "\<lparr>sec_Meta = zero_ObjectMeta\<lparr>meta_Name := ''s'', meta_Namespace := Restore_Namespace (run_obj s)\<rparr>,
      sec_Data = [], sec_StringData = [(''password'', ''pw'')]\<rparr>"
  have "struct_tags ''admin_password_secret'' = Some [''admin_password_secret'', ''password'']"
    by (simp add: struct_tags_def adminPassword_def)
  moreover have "bx_Unmarshal (mem_bext spec) tags (mem_marshal ex_content) t = gget ex_content t" for tags t
    by (simp add: mem_bext_def)
  ultimately have "secret_from (mem_bext spec) rt ''admin_password_secret'' (mem_marshal ex_content) s =
      Some (create_missing (mem_bext spec) rt ''Secret'' ''secret'' (SecretObj ?x) s)"
    by (simp add: secret_from_def setStatusField_def ex_content_simp gget_def gset_def)
  moreover have "\<exists>t'. create_missing (mem_bext spec) rt ''Secret'' ''secret'' (SecretObj ?x) s = ((True, None), t')"
    using assms by (simp add: create_missing_def act_def mem_base_def on_mem_def mem_get_def mem_lookup_def mem_create_def named_def)
  ultimately show ?thesis by simp
qed

lemma ex_restored:
  "\<exists>t'. secret (mem_bext zero_PulpSpec) ''AdminPassword'' ''admin_password_secret'' ''/backups/x'' ''admin_secret.yaml'' ex_pod
     (ex_restore_run ex_files) = Some ((True, None), t')"
proof -
  let ?B = "mem_bext zero_PulpSpec" and ?p = "''/backups/x/admin_secret.yaml''"
  let ?s1 = "snd (run_in_restore ?B ex_pod [''test'', ''-f'', ?p] (ex_restore_run ex_files))"
  let ?s2 = "restoring ?B ''Restoring AdminPassword secret'' ''RestoringAdminPasswordSecret'' ?s1"
  have start: "map_of (bm_files (run_world (ex_restore_run ex_files))) ?p = Some (mem_marshal ex_content @ newline)"
    "mem_objs (bm_mem (run_world (ex_restore_run ex_files))) = []"
    by (simp_all add: ex_restore_run_def ex_files_def)
  note test = mem_reads [OF start(1), of "[''test'', ''-f'', ?p]" zero_PulpSpec ex_pod, simplified]
  have s2: "map_of (bm_files (run_world ?s2)) ?p = Some (mem_marshal ex_content @ newline)" "mem_objs (bm_mem (run_world ?s2)) = []"
    using start by (simp_all add: mem_restoring test)
  note cat = mem_reads [OF s2(1), of "[''cat'', ?p]" zero_PulpSpec ex_pod, simplified]
  obtain out s3 where out: "run_in_restore ?B ex_pod [''cat'', ?p] ?s2 = (Inr out, s3)"
    using cat(1) by (metis prod.collapse)
  have "out = mem_marshal ex_content"
    using mem_medium.cat_output [OF out s2(1)] by simp
  moreover have "mem_objs (bm_mem (run_world s3)) = []"
    using cat(3) s2(2) out by (metis snd_conv)
  ultimately have "\<exists>t'. secret_from ?B ''AdminPassword'' ''admin_password_secret'' out s3 = Some ((True, None), t')"
    using ex_secret_from by simp
  with test(1) out show ?thesis
    by (auto simp: secret_def read_backup_def split_beta)
qed


end
