(* ===== verification/Restore_Props.thy ===== *)
theory Restore_Props
  imports Backup_Restore
begin

text \<open>
  The restore as a whole: the lock it leaves makes it final for the namespace, and the custom resource
  comes back with the specification that was backed up. A restore that is run again after an error does
  not know the replicas any more.
\<close>

subsection \<open>What a restore leaves of its resource\<close>

lemma act_obj: "act f s = (r, t) \<Longrightarrow> run_obj t = run_obj s"
  by (auto simp: act_def split_beta)

lemma same_restore_refl [simp]: "same_restore b b"
  by (simp add: same_restore_def)

lemma same_restore_trans: "same_restore a b \<Longrightarrow> same_restore b c \<Longrightarrow> same_restore a c"
  by (simp add: same_restore_def)

lemma restore_frames [simp]:
  "run_obj (snd (isFileStorage B s)) = run_obj s"
  "run_obj (Restore_cleanup B s) = run_obj s"
  "run_obj (createLockConfigMap B s) = run_obj s"
  "run_obj (snd (exec_in B pod cmd c s)) = run_obj s"
  "run_obj (snd (ensure_pod B wait owner pod s)) = run_obj s"
  by (simp_all add: isFileStorage_def Restore_cleanup_def createLockConfigMap_def ensure_pod_def split_beta Let_def
      split: sum.split option.split)

lemma createRestorePod_obj [simp]: "run_obj (snd (createRestorePod B pvc dir s)) = run_obj s"
  by (simp add: createRestorePod_def split_beta Let_def)

lemma restore_steps_obj [simp]:
  "run_obj (snd (restoreDatabaseData B dir pod s)) = run_obj s"
  "run_obj (snd (restorePulpDir B pvc dir s)) = run_obj s"
  "run_obj (snd (scale_rest B spec n pulp s)) = run_obj s"
  "run_obj (snd (scaleDeployments B n s)) = run_obj s"
  by (simp_all add: restoreDatabaseData_def restorePulpDir_def scaleDeployments_def scale_rest_def run_in_restore_def
      split_beta Let_def split: sum.split option.split)

context restore_store
begin

lemma restoring_obj: "same_restore (run_obj s) (run_obj (restoring B msg reason s))"
  by (simp add: restoring_def Restore_updateStatus_obj)

lemma restorePulpCR_obj: "same_restore (run_obj s) (run_obj (snd (restorePulpCR B dir pod s)))"
proof -
  have "same_restore b (run_obj (restoring B m r u))" if "same_restore b (run_obj u)" for b m r u
    using that restoring_obj [of u m r] by (rule same_restore_trans)
  then show ?thesis
    by (auto simp: restorePulpCR_def run_in_restore_def split_beta Let_def restoring_obj split: sum.split option.split)
qed

end

subsection \<open>The lock\<close>

text \<open>
  Reading has no effect on the cluster, a resource is found under its namespace, and the server refuses to
  create an object only when one of that name is there.
\<close>

locale quiet_restore = restore_store B for B :: "'w BackupExternals" +
  assumes get_pure: "snd (x_Get (bx_base B) k ns n w) = w"
    and get_restore_pure: "snd (bx_GetRestore B ns n w) = w"
    and get_backup_pure: "snd (bx_GetBackup B ns n w) = w"
    and get_restore_namespace: "fst (bx_GetRestore B ns n w) = Inr b \<Longrightarrow> Restore_Namespace b = ns"
    and created_found: "obj_Name obj \<noteq> [] \<Longrightarrow> \<exists>x. fst (x_Get (bx_base B) (obj_Kind obj) (obj_Namespace obj) (obj_Name obj)
        (snd (x_Create (bx_base B) obj w))) = Inr x"
begin

lemma createLockConfigMap_found:
  "\<exists>x. fst (x_Get (bx_base B) KConfigMap (Restore_Namespace (run_obj s)) CMLock (run_world (createLockConfigMap B s))) = Inr x"
proof -
  let ?t = "snd (act (x_Now (bx_base B)) (snd (act (x_Get (bx_base B) KConfigMap (Restore_Namespace (run_obj s)) CMLock) s)))"
  obtain cm where "run_world (createLockConfigMap B s) = snd (x_Create (bx_base B) (ConfigMapObj cm) (run_world ?t))"
    "meta_Name (cm_Meta cm) = CMLock" "meta_Namespace (cm_Meta cm) = Restore_Namespace (run_obj s)"
    by (simp add: createLockConfigMap_def split_beta Let_def)
  with created_found [of "ConfigMapObj cm" "run_world ?t"] show ?thesis
    by (simp add: CMLock_def)
qed

lemma restore_finish_locks:
  "\<exists>x. fst (x_Get (bx_base B) KConfigMap (Restore_Namespace (run_obj s)) CMLock (run_world (restore_finish B s))) = Inr x"
proof -
  let ?t = "Restore_cleanup B (restoring B ''Cleaning up restore resources ...'' ''DeletingMgmtPod'' s)"
  have "same_restore (run_obj s) (run_obj ?t)" by (simp add: restoring_obj)
  then show ?thesis
    using createLockConfigMap_found [of ?t]
    by (simp add: restore_finish_def Let_def Restore_updateStatus_get same_restore_def)
qed

lemma restore_deployment_locks:
  assumes "restore_deployment B pvc dir pod s = (None, s')"
  shows "\<exists>x. fst (x_Get (bx_base B) KConfigMap (Restore_Namespace (run_obj s)) CMLock (run_world s')) = Inr x"
proof -
  obtain n err s1 where r: "restorePulpCR B dir pod s = ((n, err), s1)" by (metis prod.collapse)
  with assms obtain s2 s3 s4 where
    "restoreDatabaseData B dir pod s1 = (None, s2)" "restorePulpDir B pvc dir s2 = (None, s3)"
    "scaleDeployments B n s3 = (None, s4)" and s': "s' = restore_finish B s4"
    by (auto simp: restore_deployment_def elim!: andThen_NoneE)
  then have "run_obj s4 = run_obj s1"
    using restore_steps_obj by (metis snd_conv)
  moreover have "same_restore (run_obj s) (run_obj s1)"
    using restorePulpCR_obj [of s dir pod] r by simp
  ultimately show ?thesis
    using restore_finish_locks [of s4] s' by (simp add: same_restore_def)
qed

lemma locked_restore:
  assumes lock: "fst (x_Get (bx_base B) KConfigMap ns CMLock w) = Inr x" and b: "fst (bx_GetRestore B ns name w) = Inr b"
  shows "Reconcile_Restore B ns name w = Some ((zero_Result, None), w)"
proof -
  have get: "bx_GetRestore B ns name w = (Inr b, w)"
    using b get_restore_pure by (simp add: prod_eq_iff)
  have "run_world (snd (Restore_getBackupDir B \<lparr>run_world = w, run_obj = b\<rparr>)) = w"
    "run_obj (snd (Restore_getBackupDir B \<lparr>run_world = w, run_obj = b\<rparr>)) = b"
    by (simp_all add: Restore_getBackupDir_def split_beta Let_def get_backup_pure split: sum.split)
  then have dir: "snd (Restore_getBackupDir B \<lparr>run_world = w, run_obj = b\<rparr>) = \<lparr>run_world = w, run_obj = b\<rparr>"
    by simp
  have "restore_run B d \<lparr>run_world = w, run_obj = b\<rparr> = Some (None, \<lparr>run_world = w, run_obj = b\<rparr>)" for d
    using lock get_restore_namespace [OF b] by (simp add: restore_run_def act_def split_beta get_pure)
  with get dir show ?thesis
    by (simp add: Reconcile_Restore_def split_beta split: sum.split)
qed

end


subsection \<open>The custom resource\<close>

text \<open>The Pulp resources on the server: what was created or updated is read as it was sent.\<close>

locale pulp_objects =
  fixes B :: "'w BackupExternals"
  assumes created_pulp: "bx_CreatePulp B p w = (None, w') \<Longrightarrow>
      \<exists>q. fst (x_GetPulp (bx_base B) (Pulp_Namespace p) (Pulp_Name p) w') = Inr q \<and> Pulp_Spec q = Pulp_Spec p"
    and updated_pulp: "bx_UpdatePulp B p w = ((None, p'), w') \<Longrightarrow>
      \<exists>q. fst (x_GetPulp (bx_base B) (Pulp_Namespace p) (Pulp_Name p) w') = Inr q \<and> Pulp_Spec q = Pulp_Spec p"
    and pulp_name: "fst (x_GetPulp (bx_base B) ns n w) = Inr q \<Longrightarrow> Pulp_Namespace q = ns \<and> Pulp_Name q = n"
    and get_keeps_pulp: "fst (x_GetPulp (bx_base B) ns n (snd (x_Get (bx_base B) k ns' n' w))) = fst (x_GetPulp (bx_base B) ns n w)"
    and sleep_keeps_pulp: "fst (x_GetPulp (bx_base B) ns n (bx_Sleep B i w)) = fst (x_GetPulp (bx_base B) ns n w)"
    and pulp_pure: "snd (x_GetPulp (bx_base B) ns n w) = w"
begin

lemma settled_keeps_pulp: "fst (x_GetPulp (bx_base B) ns n (snd (settled B ns' n' w))) = fst (x_GetPulp (bx_base B) ns n w)"
  by (simp add: settled_def split_beta Let_def get_keeps_pulp)

lemma waits_keep_pulp:
  "fst (x_GetPulp (bx_base B) ns n (wait_api B ns' n' k w)) = fst (x_GetPulp (bx_base B) ns n w)"
  "fst (x_GetPulp (bx_base B) ns n (wait_web B ns' n' k w)) = fst (x_GetPulp (bx_base B) ns n w)"
  by (induction k arbitrary: w) (simp_all add: split_beta settled_keeps_pulp sleep_keeps_pulp)

lemma scaleDeployments_pulp:
  assumes "scaleDeployments B n s = (None, s')"
    and q: "fst (x_GetPulp (bx_base B) (Restore_Namespace (run_obj s)) (RSpec_DeploymentName (Restore_Spec (run_obj s))) (run_world s)) = Inr q"
  shows "\<exists>p. fst (x_GetPulp (bx_base B) (Restore_Namespace (run_obj s)) (RSpec_DeploymentName (Restore_Spec (run_obj s))) (run_world s')) = Inr p \<and>
     Pulp_Spec p = scaled_spec (RSpec_KeepBackupReplicasCount (Restore_Spec (run_obj s))) n q"
proof -
  let ?q = "q\<lparr>Pulp_Spec := scaled_spec (RSpec_KeepBackupReplicasCount (Restore_Spec (run_obj s))) n q\<rparr>"
  have name: "Pulp_Namespace q = Restore_Namespace (run_obj s)" "Pulp_Name q = RSpec_DeploymentName (Restore_Spec (run_obj s))"
    using pulp_name [OF q] by simp_all
  obtain err p' w where u: "bx_UpdatePulp B ?q (run_world s) = ((err, p'), w)" by (metis prod.collapse)
  have "err = None" and s': "run_world s' = wait_web B (Pulp_Namespace p') (Pulp_Name p' @ ''-web'') 18
      (bx_Sleep B 60 (wait_api B (Pulp_Namespace p') (Pulp_Name p' @ ''-api'') 18 w))"
    using assms(1) q u
    by (auto simp: scaleDeployments_def scale_rest_def act_def split_beta Let_def pulp_pure split: option.splits)
  with updated_pulp [of ?q "run_world s" p' w] u name show ?thesis
    by (simp add: s' waits_keep_pulp sleep_keeps_pulp)
qed

end

lemma with_replicas_back:
  "(with_replicas (replicas_of spec) ((with_replicas n spec)\<lparr>Spec_DisableMigrations := b\<rparr>))\<lparr>Spec_DisableMigrations := c\<rparr> =
   spec\<lparr>Spec_DisableMigrations := c\<rparr>"
  by (simp add: with_replicas_def replicas_of_def)

text \<open>The specification with which the resource is created: nothing runs yet.\<close>

definition stopped_spec :: "PulpSpec \<Rightarrow> PulpSpec" where
  "stopped_spec spec = (with_replicas zero_PodReplicas spec)\<lparr>Spec_DisableMigrations := True\<rparr>"

lemma scaled_stopped:
  "Pulp_Spec q = stopped_spec spec \<Longrightarrow> scaled_spec True (replicas_of spec) q = spec\<lparr>Spec_DisableMigrations := False\<rparr>"
  by (simp add: scaled_spec_def stopped_spec_def with_replicas_back Let_def)

locale pulp_medium = backup_medium B content + pulp_objects B
  for B :: "'w BackupExternals" and content
begin

lemma restorePulpCR_missing:
  assumes run: "restorePulpCR B dir pod s = ((n, None), s')"
    and missing: "fst (x_GetPulp (bx_base B) (Restore_Namespace (run_obj s)) (RSpec_DeploymentName (Restore_Spec (run_obj s))) (run_world s)) =
      Inl (NotFound e)"
    and written: "content (run_world s) (dir @ ''/cr_object'') = Some (t @ newline)"
  shows "n = replicas_of (bx_UnmarshalSpec B (TrimSpace t)) \<and>
     (\<exists>q. fst (x_GetPulp (bx_base B) (Restore_Namespace (run_obj s)) (RSpec_DeploymentName (Restore_Spec (run_obj s))) (run_world s')) = Inr q \<and>
        Pulp_Spec q = stopped_spec (bx_UnmarshalSpec B (TrimSpace t)))"
proof -
  let ?ns = "Restore_Namespace (run_obj s)" and ?name = "RSpec_DeploymentName (Restore_Spec (run_obj s))"
  let ?s1 = "snd (act (x_GetPulp (bx_base B) ?ns ?name) s)"
  let ?s2 = "restoring B (''Restoring '' @ ?name @ '' CR'') (''Restoring'' @ ?name @ ''CR'') ?s1"
  let ?p = "\<lambda>out. zero_Pulp\<lparr>Pulp_Meta := zero_ObjectMeta\<lparr>meta_Name := ?name, meta_Namespace := ?ns\<rparr>,
      Pulp_Spec := stopped_spec (bx_UnmarshalSpec B out)\<rparr>"
  have s2: "content (run_world ?s2) (dir @ ''/cr_object'') = Some (t @ newline)"
    using written by (simp add: restoring_def restoring_keeps pulp_pure)
  from run missing obtain out s3 where cat: "run_in_restore B pod [''cat'', dir @ ''/cr_object''] ?s2 = (Inr out, s3)"
    and c: "bx_CreatePulp B (?p out) (run_world s3) = (None, run_world s')" and n: "n = replicas_of (bx_UnmarshalSpec B out)"
    by (auto simp: restorePulpCR_def act_def split_beta Let_def stopped_spec_def prod_eq_iff split: sum.splits option.splits)
  have "out = TrimSpace t" by (rule cat_output [OF cat s2])
  with created_pulp [OF c] n show ?thesis by simp
qed

end


text \<open>
  C29: A restore that is reconciled again after an error finds the custom resource it created itself and
  forgets the replicas: with \<open>keep_replicas\<close> every component is then scaled to zero, and the restore succeeds.
\<close>

theorem retried_restore_scales_to_zero:
  assumes "pulp_objects B"
    and there: "fst (x_GetPulp (bx_base B) (Restore_Namespace (run_obj s)) (RSpec_DeploymentName (Restore_Spec (run_obj s))) (run_world s)) = Inr q"
    and keep: "RSpec_KeepBackupReplicasCount (Restore_Spec (run_obj s))"
    and restore: "restorePulpCR B dir pod s = ((n, err), s1)" and scale: "scaleDeployments B n s1 = (None, s2)"
  shows "err = None \<and>
     (\<exists>p. fst (x_GetPulp (bx_base B) (Restore_Namespace (run_obj s)) (RSpec_DeploymentName (Restore_Spec (run_obj s))) (run_world s2)) = Inr p \<and>
        replicas_of (Pulp_Spec p) = zero_PodReplicas)"
proof -
  have s1: "n = zero_PodReplicas" "err = None" "s1 = s"
    using restore there pulp_objects.pulp_pure [OF assms(1)]
    by (auto simp: restorePulpCR_def act_def split_beta Let_def)
  have "replicas_of (scaled_spec True zero_PodReplicas q) = zero_PodReplicas"
    by (simp add: scaled_spec_def replicas_of_def with_replicas_def zero_PodReplicas_def Let_def)
  with pulp_objects.scaleDeployments_pulp [OF assms(1) scale, of q] there keep show ?thesis
    by (auto simp: s1)
qed

subsection \<open>The laws hold in memory\<close>

lemma find_map_same:
  assumes "\<exists>q \<in> set xs. P q" "P p"
  shows "List.find P (map (\<lambda>q. if P q then p else q) xs) = Some p"
  using assms by (induction xs) auto

lemma same_pulp_self [simp]: "same_pulp (Pulp_Namespace p) (Pulp_Name p) p"
  by (simp add: same_pulp_def)

lemma mem_bext_pulp:
  "x_GetPulp (bx_base (mem_bext spec)) = (\<lambda>ns n. on_mem (mem_get_pulp ns n))"
  "bx_CreatePulp (mem_bext spec) = mem_create_pulp"
  "bx_UpdatePulp (mem_bext spec) = (\<lambda>p. on_mem (mem_put_pulp (\<lambda>q. p) p))"
  by (simp_all add: mem_bext_def mem_base_def)

lemma mem_get_pulp_pure: "snd (mem_get_pulp ns n m) = m"
  by (simp add: mem_get_pulp_def split: option.split)

interpretation mem_pulp_objects: pulp_objects "mem_bext spec" for spec
proof unfold_locales
  fix p w w'
  assume "bx_CreatePulp (mem_bext spec) p w = (None, w')"
  then have "List.find (same_pulp (Pulp_Namespace p) (Pulp_Name p)) (mem_pulps (bm_mem w)) = None"
    "mem_pulps (bm_mem w') = mem_pulps (bm_mem w) @ [p]"
    by (auto simp: mem_bext_pulp mem_create_pulp_def find_None_iff split: if_splits)
  then show "\<exists>q. fst (x_GetPulp (bx_base (mem_bext spec)) (Pulp_Namespace p) (Pulp_Name p) w') = Inr q \<and> Pulp_Spec q = Pulp_Spec p"
    by (simp only: mem_bext_pulp on_mem_sel) (simp add: mem_get_pulp_def find_append_new)
next
  fix p w p' w'
  assume "bx_UpdatePulp (mem_bext spec) p w = ((None, p'), w')"
  then have "\<exists>q \<in> set (mem_pulps (bm_mem w)). same_pulp (Pulp_Namespace p) (Pulp_Name p) q"
    "mem_pulps (bm_mem w') = map (\<lambda>q. if same_pulp (Pulp_Namespace p) (Pulp_Name p) q then p else q) (mem_pulps (bm_mem w))"
    by (auto simp: mem_bext_pulp on_mem_def mem_put_pulp_def split: if_splits prod.splits)
  then show "\<exists>q. fst (x_GetPulp (bx_base (mem_bext spec)) (Pulp_Namespace p) (Pulp_Name p) w') = Inr q \<and> Pulp_Spec q = Pulp_Spec p"
    using find_map_same [of "mem_pulps (bm_mem w)" "same_pulp (Pulp_Namespace p) (Pulp_Name p)" p]
    by (simp only: mem_bext_pulp on_mem_sel) (simp add: mem_get_pulp_def)
next
  fix ns n w q
  assume "fst (x_GetPulp (bx_base (mem_bext spec)) ns n w) = Inr q"
  then show "Pulp_Namespace q = ns \<and> Pulp_Name q = n"
    by (auto simp: mem_bext_pulp mem_get_pulp_def same_pulp_def mem_base_def find_Some_iff split: option.splits)
next
  fix ns n w
  show "snd (x_GetPulp (bx_base (mem_bext spec)) ns n w) = w"
    by (simp only: mem_bext_pulp) (simp add: on_mem_def mem_get_pulp_def split: option.split)
qed (auto simp: mem_base_def mem_get_pure mem_sleep_bext mem_sleep_def mem_get_pulp_def split: option.split)

interpretation mem_pulp_medium: pulp_medium "mem_bext spec" "\<lambda>w. map_of (bm_files w)" for spec
  by unfold_locales

lemma mem_find_namespace: "mem_find Restore_Meta rs ns n = Inr b \<Longrightarrow> Restore_Namespace b = ns"
  by (auto simp: mem_find_def find_Some_iff split: option.splits)

lemma mem_create_found:
  assumes "obj_Name obj \<noteq> []"
  shows "\<exists>x. fst (mem_get (obj_Kind obj) (obj_Namespace obj) (obj_Name obj) (snd (mem_create obj m))) = Inr x"
proof -
  let ?P = "same_obj (obj_Kind obj) (obj_Namespace obj) (obj_Name obj)"
  have "\<exists>y \<in> set (mem_objs (snd (mem_create obj m))). ?P y"
  proof (cases "\<exists>y \<in> set (mem_objs m). key_of y = key_of obj")
    case True
    then show ?thesis using assms by (auto simp: mem_create_def named_def Let_def key_of_def same_obj_def)
  next
    case False
    then have "mem_objs (snd (mem_create obj m)) = mem_objs m @ [normalise obj]"
      using assms by (simp add: mem_create_def named_def Let_def)
    then show ?thesis by (auto simp: same_obj_def)
  qed
  then have "List.find ?P (mem_objs (snd (mem_create obj m))) \<noteq> None" by (auto simp: find_None_iff)
  then show ?thesis by (auto simp: mem_get_def mem_lookup_def split: option.split)
qed

interpretation mem_quiet_restore: quiet_restore "mem_bext spec" for spec
proof unfold_locales
  fix obj :: Object and w
  assume "obj_Name obj \<noteq> []"
  then show "\<exists>x. fst (x_Get (bx_base (mem_bext spec)) (obj_Kind obj) (obj_Namespace obj) (obj_Name obj)
      (snd (x_Create (bx_base (mem_bext spec)) obj w))) = Inr x"
    using mem_create_found [of obj "bm_mem w"] by (simp add: mem_base_def)
next
  fix k ns n w
  show "snd (x_Get (bx_base (mem_bext spec)) k ns n w) = w"
    by (simp only: mem_base_get on_mem_get_pure)
qed (auto simp: mem_bext_def dest: mem_find_namespace)

subsection \<open>A restore in memory\<close>

definition ex_final :: PulpRestore where
  "ex_final = ex_restore\<lparr>Restore_Status := \<lparr>RStatus_Conditions = [], RStatus_PostgresSecret = ''s''\<rparr>\<rparr>"

definition ex_final_good :: "PulpRestore \<Rightarrow> bool" where
  "ex_final_good b \<longleftrightarrow> same_restore ex_final b \<and> RStatus_PostgresSecret (Restore_Status b) = ''s''"

definition ex_state :: "Object list \<Rightarrow> Pulp list \<Rightarrow> nat \<Rightarrow> string list list \<Rightarrow> PulpRestore \<Rightarrow> (bmem, PulpRestore) Run" where
  "ex_state objs pulps k l b = \<lparr>run_world = \<lparr>bm_mem = \<lparr>mem_objs = objs, mem_pulps = pulps, mem_clock = k, mem_seed = 0, mem_openshift = False,
     mem_conflict = False\<rparr>, bm_files = [(''/backups/x/cr_object'', ''{}'' @ newline)], bm_log = l, bm_backups = [], bm_restores = [ex_final]\<rparr>,
     run_obj = b\<rparr>"

definition ex_pg :: Secret where
  "ex_pg = ex_secret\<lparr>sec_Meta := zero_ObjectMeta\<lparr>meta_Name := ''s'', meta_Namespace := ''new''\<rparr>\<rparr>"

definition ex_stopped :: "PulpSpec \<Rightarrow> Pulp" where
  "ex_stopped spec = zero_Pulp\<lparr>Pulp_Meta := zero_ObjectMeta\<lparr>meta_Name := ''p'', meta_Namespace := ''new''\<rparr>,
     Pulp_Spec := stopped_spec spec\<rparr>"

lemma ex_state_obj [simp]: "run_obj (ex_state objs pulps k l b) = b"
  by (simp add: ex_state_def)

lemma ex_final_sel:
  assumes "ex_final_good b"
  shows "Restore_Namespace b = ''new''" "Restore_Name b = ''r''" "RSpec_DeploymentName (Restore_Spec b) = ''p''"
    "RSpec_KeepBackupReplicasCount (Restore_Spec b)" "RStatus_PostgresSecret (Restore_Status b) = ''s''"
  using assms by (simp_all add: ex_final_good_def same_restore_def ex_final_def ex_restore_def)

lemma ex_restoring:
  assumes "ex_final_good b"
  shows "\<exists>b'. Restore_updateStatus (mem_bext spec) st ty msg reason (ex_state objs pulps k l b) = ex_state objs pulps (Suc k) l b' \<and> ex_final_good b'"
  using assms
  by (simp add: Restore_updateStatus_def act_def mem_base_def mem_ext_def on_mem_def set_restore_condition_def Restore_Status_Update_def
      mem_bext_def ex_state_def ex_final_good_def same_restore_def)

lemma ex_run:
  assumes "hd cmd \<notin> {''test'', ''cat'', ''bash''}"
  shows "run_in_restore (mem_bext spec) pod cmd (ex_state objs pulps k l b) = (Inr [], ex_state objs pulps k (l @ [cmd]) b)"
proof -
  have "take 2 cmd \<noteq> [''test'', ''-f'']" "take 1 cmd \<noteq> [''cat'']" "take 2 cmd \<noteq> [''bash'', ''-c'']"
    using assms by (cases cmd; auto)+
  then show ?thesis
    by (auto simp: run_in_restore_def exec_in_def act_def ContainerExec_def mem_base_def mem_exec_def mem_output_def mem_files_def
        script_of_def ex_state_def TrimSpace_def newline_def)
qed

lemma ex_get:
  "act (x_Get mem_base k ns n) (ex_state objs pulps c l b) = (fst (mem_get k ns n (mem_init zero_Pulp objs)), ex_state objs pulps c l b)"
  by (simp add: act_def mem_base_def on_mem_def mem_get_def mem_lookup_def ex_state_def mem_init_def split: option.split)

lemma ex_get_pulp:
  "act (x_GetPulp mem_base ns n) (ex_state objs pulps c l b) = (mem_find Pulp_Meta pulps ns n, ex_state objs pulps c l b)"
  by (simp add: act_def mem_base_def on_mem_def mem_get_pulp_def ex_state_def mem_find_def same_pulp_def [abs_def] split: option.split)

lemma ex_cat:
  "run_in_restore (mem_bext spec) pod [''cat'', ''/backups/x/cr_object''] (ex_state objs pulps k l b) =
     (Inr ''{}'', ex_state objs pulps k (l @ [[''cat'', ''/backups/x/cr_object'']]) b)"
  by (simp add: run_in_restore_def exec_in_def act_def ContainerExec_def mem_base_def mem_exec_def mem_output_def mem_files_def
      script_of_def ex_state_def TrimSpace_def newline_def is_space_def Let_def)

lemma ex_restorePulpCR:
  assumes "ex_final_good b"
  shows "\<exists>k' l' b'. restorePulpCR (mem_bext spec) ''/backups/x'' pod (ex_state objs [] k l b) =
     ((replicas_of spec, None), ex_state objs [ex_stopped spec] k' l' b') \<and> ex_final_good b'"
proof -
  obtain b' where b': "restoring (mem_bext spec) ''Restoring p CR'' ''RestoringpCR'' (ex_state objs [] k l b) = ex_state objs [] (Suc k) l b'"
    "ex_final_good b'"
    using ex_restoring [OF assms] unfolding restoring_def by blast
  have find: "mem_find Pulp_Meta [] ns n = Inl (NotFound n)" for ns n by (simp add: mem_find_def)
  have create: "act (bx_CreatePulp (mem_bext spec) p) (ex_state objs [] k l b) = (None, ex_state objs [p] k l b)" for p k l b
    by (simp add: mem_bext_pulp mem_create_pulp_def act_def ex_state_def)
  have unmarshal: "bx_UnmarshalSpec (mem_bext spec) t = spec" for t by (simp add: mem_bext_def)
  have "restorePulpCR (mem_bext spec) ''/backups/x'' pod (ex_state objs [] k l b) =
      ((replicas_of spec, None), ex_state objs [ex_stopped spec] (Suc k) (l @ [[''cat'', ''/backups/x/cr_object'']]) b')"
    by (simp add: restorePulpCR_def ex_get_pulp find ex_cat create unmarshal ex_stopped_def stopped_spec_def b'(1) ex_final_sel [OF assms] Let_def)
  with b'(2) show ?thesis by blast
qed

lemma mem_get_none: "\<forall>x \<in> set objs. obj_Kind x \<noteq> k \<Longrightarrow> fst (mem_get k ns n (mem_init zero_Pulp objs)) = Inl (NotFound n)"
  by (auto simp: mem_get_def mem_lookup_def mem_init_def same_obj_def find_None_iff split: option.split)

lemma ex_sleep: "let_time_pass (mem_bext spec) i (ex_state objs pulps k l b) = ex_state (map ready_pod objs) pulps k l b"
  by (simp add: let_time_pass_def mem_sleep_bext mem_sleep_def ex_state_def)

lemma ex_restoreDatabaseData:
  assumes "ex_final_good b"
  shows "\<exists>l'. restoreDatabaseData (mem_bext spec) dir pod (ex_state [SecretObj ex_pg] pulps k l b) = (None, ex_state [SecretObj ex_pg] pulps k l' b)"
proof -
  have sec: "fst (mem_get KSecret ''new'' ''s'' (mem_init zero_Pulp [SecretObj ex_pg])) = Inr (SecretObj ex_pg)"
    by (simp add: mem_get_def mem_lookup_def mem_init_def same_obj_def ex_pg_def)
  have "poll_database (mem_bext spec) ns n (Suc m) None (run_world (ex_state [SecretObj ex_pg] pulps k l b)) =
      (None, run_world (ex_state [SecretObj ex_pg] pulps k l b))" for ns n m
    by (simp add: mem_base_def on_mem_def mem_get_def mem_lookup_def ex_state_def same_obj_def zero_StatefulSet_def)
  from this [of _ _ 119] have db: "act (waitDBReady (mem_bext spec) ns n) (ex_state [SecretObj ex_pg] pulps k l b) =
      (None, ex_state [SecretObj ex_pg] pulps k l b)" for ns n
    by (simp add: waitDBReady_def act_def)
  show ?thesis
    by (simp add: restoreDatabaseData_def ex_sleep ex_get sec db ex_run ex_final_sel [OF assms] Let_def) blast
qed

lemma ex_restorePulpDir:
  "ex_final_good b \<Longrightarrow> restorePulpDir (mem_bext spec) pvc dir (ex_state [SecretObj ex_pg] pulps k l b) = (None, ex_state [SecretObj ex_pg] pulps k l b)"
  by (simp add: restorePulpDir_def isFileStorage_def ex_get mem_get_none)

lemma ex_settled:
  "settled (mem_bext spec) ns n (run_world (ex_state [SecretObj ex_pg] pulps k l b)) = (True, run_world (ex_state [SecretObj ex_pg] pulps k l b))"
  by (simp add: settled_def mem_base_def on_mem_def mem_get_def mem_lookup_def ex_state_def same_obj_def zero_Deployment_def)

lemma ex_scale:
  assumes "ex_final_good b"
  shows "\<exists>p. scaleDeployments (mem_bext spec) n (ex_state [SecretObj ex_pg] [ex_stopped spec0] k l b) = (None, ex_state [SecretObj ex_pg] [p] k l b)"
proof -
  have sleep: "bx_Sleep (mem_bext spec) i (run_world (ex_state [SecretObj ex_pg] pulps k l b)) = run_world (ex_state [SecretObj ex_pg] pulps k l b)" for i pulps k l b
    by (simp add: mem_sleep_bext mem_sleep_def ex_state_def)
  have "wait_api (mem_bext spec) ns m (Suc j) (run_world (ex_state [SecretObj ex_pg] pulps k l b)) = run_world (ex_state [SecretObj ex_pg] pulps k l b)"
    "wait_web (mem_bext spec) ns m (Suc j) (run_world (ex_state [SecretObj ex_pg] pulps k l b)) = run_world (ex_state [SecretObj ex_pg] pulps k l b)" for ns m j pulps k l b
    by (simp_all add: sleep ex_settled)
  from this [of _ _ 17] have waits:
    "wait_api (mem_bext spec) ns m 18 (run_world (ex_state [SecretObj ex_pg] pulps k l b)) = run_world (ex_state [SecretObj ex_pg] pulps k l b)"
    "wait_web (mem_bext spec) ns m 18 (run_world (ex_state [SecretObj ex_pg] pulps k l b)) = run_world (ex_state [SecretObj ex_pg] pulps k l b)" for ns m pulps k l b
    by simp_all
  have find: "mem_find Pulp_Meta [ex_stopped spec0] ''new'' ''p'' = Inr (ex_stopped spec0)"
    by (simp add: mem_find_def ex_stopped_def)
  have update: "act (bx_UpdatePulp (mem_bext spec) ((ex_stopped spec0)\<lparr>Pulp_Spec := x\<rparr>)) (ex_state objs [ex_stopped spec0] k l b) =
      ((None, (ex_stopped spec0)\<lparr>Pulp_Spec := x\<rparr>), ex_state objs [(ex_stopped spec0)\<lparr>Pulp_Spec := x\<rparr>] k l b)" for x objs k l b
    by (simp add: mem_bext_pulp mem_put_pulp_def on_mem_def act_def ex_state_def same_pulp_def)
  have same: "(ex_state objs pulps k l b)\<lparr>run_world := run_world (ex_state objs pulps k l b)\<rparr> = ex_state objs pulps k l b" for objs pulps k l b
    by simp
  show ?thesis
    by (simp add: scaleDeployments_def scale_rest_def ex_get_pulp find update ex_final_sel [OF assms] waits sleep same Let_def) blast
qed

lemma ex_cleanup: "Restore_cleanup (mem_bext spec) (ex_state [SecretObj ex_pg] pulps k l b) = ex_state [SecretObj ex_pg] pulps k l b"
proof -
  let ?w = "run_world (ex_state [SecretObj ex_pg] pulps k l b)"
  have get: "x_Get mem_base KPod ns n ?w = (Inl (NotFound n), ?w)" for ns n
    by (simp add: mem_base_def on_mem_def mem_get_def mem_lookup_def ex_state_def same_obj_def)
  have delete: "x_Delete mem_base (PodObj p) ?w = (Some (NotFound (obj_Name (PodObj p))), ?w)" for p
    by (simp add: mem_base_def on_mem_def mem_delete_def ex_state_def key_of_def)
  have "poll_gone (mem_bext spec) ns n (Suc m) ?w = ?w" for ns n m
    by (simp add: get)
  from this [of _ _ 119] show ?thesis
    by (simp add: Restore_cleanup_def remove_pod_def get delete)
qed

lemma ex_restore_finish:
  assumes "ex_final_good b"
  shows "\<exists>objs k' b'. restore_finish (mem_bext spec) (ex_state [SecretObj ex_pg] pulps k l b) = ex_state objs pulps k' l b'"
proof -
  obtain b1 where b1: "restoring (mem_bext spec) ''Cleaning up restore resources ...'' ''DeletingMgmtPod'' (ex_state [SecretObj ex_pg] pulps k l b) =
      ex_state [SecretObj ex_pg] pulps (Suc k) l b1" "ex_final_good b1"
    using ex_restoring [OF assms] unfolding restoring_def by blast
  have now: "act (x_Now mem_base) (ex_state objs pulps k l b) = (digits_of k, ex_state objs pulps (Suc k) l b)" for objs pulps k l b
    by (simp add: act_def mem_base_def mem_ext_def on_mem_def ex_state_def)
  have create: "\<exists>objs'. snd (act (x_Create mem_base x) (ex_state objs pulps k l b)) = ex_state objs' pulps k l b" for x objs pulps k l b
    by (simp add: act_def mem_base_def on_mem_def mem_create_def ex_state_def Let_def)
  obtain objs where "createLockConfigMap (mem_bext spec) (ex_state [SecretObj ex_pg] pulps (Suc k) l b1) = ex_state objs pulps (Suc (Suc k)) l b1"
    using create by (simp add: createLockConfigMap_def ex_get now split_beta Let_def) metis
  with ex_restoring [OF b1(2)] show ?thesis
    by (simp add: restore_finish_def b1(1) ex_cleanup Let_def) metis
qed

lemma ex_restore_succeeds:
  "\<exists>objs p k l b. restore_deployment (mem_bext zero_PulpSpec) ''c'' ''/backups/x'' ex_pod (ex_state [SecretObj ex_pg] [] 0 [] ex_final) =
     (None, ex_state objs [p] k l b)"
proof -
  have "ex_final_good ex_final" by (simp add: ex_final_good_def) (simp add: ex_final_def)
  from ex_restorePulpCR [OF this, of zero_PulpSpec ex_pod "[SecretObj ex_pg]" 0 "[]"] obtain k1 l1 b where
    1: "restorePulpCR (mem_bext zero_PulpSpec) ''/backups/x'' ex_pod (ex_state [SecretObj ex_pg] [] 0 [] ex_final) =
      ((replicas_of zero_PulpSpec, None), ex_state [SecretObj ex_pg] [ex_stopped zero_PulpSpec] k1 l1 b)" and b: "ex_final_good b"
    by blast
  obtain l2 where 2: "restoreDatabaseData (mem_bext zero_PulpSpec) ''/backups/x'' ex_pod (ex_state [SecretObj ex_pg] [ex_stopped zero_PulpSpec] k1 l1 b) =
      (None, ex_state [SecretObj ex_pg] [ex_stopped zero_PulpSpec] k1 l2 b)"
    using ex_restoreDatabaseData [OF b] by blast
  obtain p where 3: "scaleDeployments (mem_bext zero_PulpSpec) (replicas_of zero_PulpSpec) (ex_state [SecretObj ex_pg] [ex_stopped zero_PulpSpec] k1 l2 b) =
      (None, ex_state [SecretObj ex_pg] [p] k1 l2 b)"
    using ex_scale [OF b] by blast
  obtain objs k4 b4 where 4: "restore_finish (mem_bext zero_PulpSpec) (ex_state [SecretObj ex_pg] [p] k1 l2 b) = ex_state objs [p] k4 l2 b4"
    using ex_restore_finish [OF b] by blast
  have "restore_deployment (mem_bext zero_PulpSpec) ''c'' ''/backups/x'' ex_pod (ex_state [SecretObj ex_pg] [] 0 [] ex_final) =
      (None, ex_state objs [p] k4 l2 b4)"
    by (simp add: restore_deployment_def 1 2 3 4 ex_restorePulpDir [OF b])
  then show ?thesis by blast
qed


lemma ex_found: "mem_find Pulp_Meta [ex_stopped spec] ''new'' ''p'' = Inr (ex_stopped spec)"
  by (simp add: mem_find_def ex_stopped_def)

lemma ex_final_good_final: "ex_final_good ex_final"
  by (simp add: ex_final_good_def) (simp add: ex_final_def)

lemma fst_act: "fst (x_GetPulp (bx_base B) ns n (run_world s)) = fst (act (x_GetPulp (bx_base B) ns n) s)"
  by simp

lemma retried_restore_scales_to_zero_witness:
  "\<exists>s2 p. scaleDeployments (mem_bext zero_PulpSpec) zero_PodReplicas (ex_state [SecretObj ex_pg] [ex_stopped zero_PulpSpec] 0 [] ex_final) = (None, s2) \<and>
     fst (x_GetPulp mem_base ''new'' ''p'' (run_world s2)) = Inr p \<and> replicas_of (Pulp_Spec p) = zero_PodReplicas"
proof -
  let ?s = "ex_state [SecretObj ex_pg] [ex_stopped zero_PulpSpec] 0 [] ex_final"
  note sel = ex_final_sel [OF ex_final_good_final]
  have there: "fst (x_GetPulp (bx_base (mem_bext zero_PulpSpec)) (Restore_Namespace (run_obj ?s)) (RSpec_DeploymentName (Restore_Spec (run_obj ?s)))
      (run_world ?s)) = Inr (ex_stopped zero_PulpSpec)"
    unfolding fst_act by (simp del: act_sel add: sel ex_get_pulp ex_found)
  have restore: "restorePulpCR (mem_bext zero_PulpSpec) [] ex_pod ?s = ((zero_PodReplicas, None), ?s)"
    by (simp add: restorePulpCR_def sel ex_get_pulp ex_found Let_def)
  obtain s2 where scale: "scaleDeployments (mem_bext zero_PulpSpec) zero_PodReplicas ?s = (None, s2)"
    using ex_scale [OF ex_final_good_final] by blast
  have keep: "RSpec_KeepBackupReplicasCount (Restore_Spec (run_obj ?s))" by (simp add: sel)
  from retried_restore_scales_to_zero [OF mem_pulp_objects.pulp_objects_axioms there keep restore scale] scale sel show ?thesis
    by auto
qed

text \<open>The specification of the example has three API servers.\<close>

definition ex_spec :: PulpSpec where
  "ex_spec = zero_PulpSpec\<lparr>Spec_Api := zero_Api\<lparr>Api_Replicas := 3\<rparr>\<rparr>"

definition ex_cr_run :: "(bmem, PulpBackup) Run" where
  "ex_cr_run = \<lparr>run_world = \<lparr>bm_mem = mem_init (ex_backup_pulp\<lparr>Pulp_Spec := ex_spec\<rparr>) [], bm_files = [], bm_log = [],
     bm_backups = [], bm_restores = []\<rparr>, run_obj = ex_backup\<rparr>"


end
