(* ===== verification/Watches.thy ===== *)
theory Watches
  imports Controller Restore
begin

text \<open>
  What makes the operator run: the registrations of the three controllers (\<open>SetupWithManager\<close>), the
  predicates that filter their events, and the start of the manager in \<open>main.go\<close>. The dispatch of
  events to handlers is controller-runtime's; it is a parameter, and the locale
  \<open>controller_runtime\<close> states what its documentation promises.
\<close>

subsection \<open>Events and registrations\<close>

datatype WKind = WPulp | WPulpBackup | WPulpRestore | WObject Kind

text \<open>
  An object as the handlers see it: its kind, its metadata, the kind of the controller that
  the metadata name, and its status.
\<close>

record Watched =
  w_Kind :: WKind
  w_Meta :: ObjectMeta
  w_OwnerKind :: WKind
  w_Status :: json

datatype Event =
    CreateEvent Watched
  | UpdateEvent Watched Watched
  | DeleteEvent Watched
  | GenericEvent Watched

fun versions :: "Event \<Rightarrow> Watched list" where
  "versions (CreateEvent x) = [x]"
| "versions (UpdateEvent x y) = [x, y]"
| "versions (DeleteEvent x) = [x]"
| "versions (GenericEvent x) = [x]"

definition subject :: "Event \<Rightarrow> Watched" where
  "subject ev = last (versions ev)"

fun updates :: "(Watched \<Rightarrow> Watched \<Rightarrow> bool) \<Rightarrow> Event \<Rightarrow> bool" where
  "updates f (UpdateEvent x y) \<longleftrightarrow> f x y"
| "updates f _ \<longleftrightarrow> True"

definition generation_changed :: "Watched \<Rightarrow> Watched \<Rightarrow> bool" where
  "generation_changed x y \<longleftrightarrow> meta_Generation (w_Meta x) \<noteq> meta_Generation (w_Meta y)"

definition version_changed :: "Watched \<Rightarrow> Watched \<Rightarrow> bool" where
  "version_changed x y \<longleftrightarrow> meta_ResourceVersion (w_Meta x) \<noteq> meta_ResourceVersion (w_Meta y)"

text \<open>Namespace and name of the resource to reconcile.\<close>

type_synonym request = "string \<times> string"

definition request_for :: "Watched \<Rightarrow> request" where
  "request_for x = (meta_Namespace (w_Meta x), meta_Name (w_Meta x))"

definition owner_request :: "WKind \<Rightarrow> Watched \<Rightarrow> request option" where
  "owner_request k x =
    (case meta_Controller (w_Meta x) of
       Some name \<Rightarrow> if w_OwnerKind x = k then Some (meta_Namespace (w_Meta x), name) else None
     | None \<Rightarrow> None)"

text \<open>\<open>predicate.Funcs\<close> with an \<open>UpdateFunc\<close> only, and the two predicates of the library that are used.\<close>

datatype Predicate =
    UpdateFunc "Watched \<Rightarrow> Watched \<Rightarrow> bool"
  | GenerationChangedPredicate
  | ResourceVersionChangedPredicate

datatype 'w Registration =
    For WKind "Predicate list"
  | Owns WKind "Predicate list"
  | Watches WKind "ObjectMeta \<Rightarrow> 'w \<Rightarrow> request list \<times> 'w" "Predicate list"

record 'w Setup =
  setup_For :: WKind
  setup_Registrations :: "'w Registration list"

subsection \<open>The three controllers\<close>

definition IgnoreUpdateCRStatusPredicate :: Predicate where
  "IgnoreUpdateCRStatusPredicate = UpdateFunc (\<lambda>old new. meta_Generation (w_Meta old) \<noteq> meta_Generation (w_Meta new))"

definition ignore_cronjob_status :: Predicate where
  "ignore_cronjob_status = UpdateFunc (\<lambda>old new. ignoreCronjobStatus (w_Status old) (w_Status new))"

definition pulp_registrations :: "'w Externals \<Rightarrow> 'w Registration list" where
  "pulp_registrations X =
    [For WPulp [GenerationChangedPredicate],
     Owns (WObject KStatefulSet) [], Owns (WObject KDeployment) [], Owns (WObject KService) [],
     Owns (WObject KSecret) [], Owns (WObject KConfigMap) [], Owns (WObject KPDB) [],
     Owns (WObject KServiceAccount) [], Owns (WObject KHPA) [],
     Owns (WObject KCronJob) [ignore_cronjob_status], Owns (WObject KIngress) [],
     Watches (WObject KSecret) (findPulpDependentObjects X) [ResourceVersionChangedPredicate],
     Watches (WObject KConfigMap) (findPulpDependentObjects X) [ResourceVersionChangedPredicate]]"

definition on_openshift :: "'w Externals \<Rightarrow> 'w \<Rightarrow> bool \<times> 'w" where
  "on_openshift X w =
    (let ((isOpenShift, _), s) = IsOpenShift X \<lparr>st_world = w, st_pulp = zero_Pulp, st_events = []\<rparr>
     in (isOpenShift, st_world s))"

text \<open>\<open>IndexField\<close> is the registration of \<open>indexerFunc\<close> with the cache of the manager.\<close>

definition SetupWithManager :: "'w Externals \<Rightarrow> ('w \<Rightarrow> error option \<times> 'w) \<Rightarrow> 'w \<Rightarrow> (error + 'w Setup) \<times> 'w" where
  "SetupWithManager X IndexField w =
    (let (err, w) = IndexField w
     in case err of
          Some err \<Rightarrow> (Inl err, w)
        | None \<Rightarrow>
            (let (isOpenShift, w) = on_openshift X w
             in (Inr \<lparr>setup_For = WPulp,
                   setup_Registrations = pulp_registrations X @ (if isOpenShift then [Owns (WObject KRoute) []] else [])\<rparr>, w)))"

definition Backup_SetupWithManager :: "'w Setup" where
  "Backup_SetupWithManager = \<lparr>setup_For = WPulpBackup,
     setup_Registrations = [For WPulpBackup [IgnoreUpdateCRStatusPredicate]]\<rparr>"

text \<open>An event filter applies to every registration of the controller.\<close>

definition Restore_SetupWithManager :: "'w Setup" where
  "Restore_SetupWithManager = \<lparr>setup_For = WPulpRestore,
     setup_Registrations = [For WPulpRestore [IgnoreUpdateCRStatusPredicate],
       Owns (WObject KConfigMap) [IgnoreUpdateCRStatusPredicate]]\<rparr>"

subsection \<open>Dispatch\<close>

text \<open>
  Of controller-runtime: whether a predicate lets an event pass, and the requests of one
  registration for an event, given the kind the controller is for.
\<close>

record 'w Runtime =
  cr_passes :: "Predicate \<Rightarrow> Event \<Rightarrow> bool"
  cr_handle :: "WKind \<Rightarrow> 'w Registration \<Rightarrow> Event \<Rightarrow> 'w \<Rightarrow> request list \<times> 'w"

fun handle_all :: "'w Runtime \<Rightarrow> WKind \<Rightarrow> 'w Registration list \<Rightarrow> Event \<Rightarrow> 'w \<Rightarrow> request list \<times> 'w" where
  "handle_all R k [] ev w = ([], w)"
| "handle_all R k (reg # regs) ev w =
    (let (rs, w) = cr_handle R k reg ev w; (rs', w) = handle_all R k regs ev w in (rs @ rs', w))"

definition requests :: "'w Runtime \<Rightarrow> 'w Setup \<Rightarrow> Event \<Rightarrow> 'w \<Rightarrow> request set" where
  "requests R setup ev w = set (fst (handle_all R (setup_For setup) (setup_Registrations setup) ev w))"

abbreviation passes_all :: "'w Runtime \<Rightarrow> Predicate list \<Rightarrow> Event \<Rightarrow> bool" where
  "passes_all R ps ev \<equiv> \<forall>p \<in> set ps. cr_passes R p ev"

text \<open>
  The documentation: a function that is left out of \<open>predicate.Funcs\<close> lets every event pass, the two
  predicates look at updates only; \<open>EnqueueRequestForObject\<close> takes the new object,
  \<open>EnqueueRequestForOwner\<close> the owners of both versions and \<open>EnqueueRequestsFromMapFunc\<close> maps both.
\<close>

locale controller_runtime =
  fixes R :: "'w Runtime"
  assumes passes_UpdateFunc: "cr_passes R (UpdateFunc p) ev \<longleftrightarrow> updates p ev"
    and passes_Generation: "cr_passes R GenerationChangedPredicate ev \<longleftrightarrow> updates generation_changed ev"
    and passes_Version: "cr_passes R ResourceVersionChangedPredicate ev \<longleftrightarrow> updates version_changed ev"
    and handle_For: "set (fst (cr_handle R k (For k' ps) ev w)) =
      (if w_Kind (subject ev) = k' \<and> passes_all R ps ev then {request_for (subject ev)} else {})"
    and handle_Owns: "set (fst (cr_handle R k (Owns k' ps) ev w)) =
      {r. w_Kind (subject ev) = k' \<and> passes_all R ps ev \<and> (\<exists>x \<in> set (versions ev). owner_request k x = Some r)}"
    and handle_Watches: "(\<And>m. snd (f m w) = w) \<Longrightarrow> set (fst (cr_handle R k (Watches k' f ps) ev w)) =
      {r. w_Kind (subject ev) = k' \<and> passes_all R ps ev \<and> (\<exists>x \<in> set (versions ev). r \<in> set (fst (f (w_Meta x) w)))}"
    and quiet_For: "snd (cr_handle R k (For k' ps) ev w) = w"
    and quiet_Owns: "snd (cr_handle R k (Owns k' ps) ev w) = w"
    and quiet_Watches: "(\<And>m. snd (f m w) = w) \<Longrightarrow> snd (cr_handle R k (Watches k' f ps) ev w) = w"
begin

lemmas handle = handle_For handle_Owns handle_Watches
lemmas quiet = quiet_For quiet_Owns quiet_Watches

lemma passes_IgnoreUpdate: "cr_passes R IgnoreUpdateCRStatusPredicate ev \<longleftrightarrow> updates generation_changed ev"
  by (simp add: IgnoreUpdateCRStatusPredicate_def passes_UpdateFunc generation_changed_def [abs_def])

lemmas passes = passes_UpdateFunc passes_Generation passes_Version passes_IgnoreUpdate

lemma handle_all_append:
  "set (fst (handle_all R k (regs @ regs') ev w)) =
     set (fst (handle_all R k regs ev w)) \<union> set (fst (handle_all R k regs' ev (snd (handle_all R k regs ev w))))"
  by (induction regs arbitrary: w) (auto simp: split_beta)

text \<open>The requests of the backup and of the restore controller.\<close>

lemma backup_requests:
  "r \<in> requests R Backup_SetupWithManager ev w \<longleftrightarrow>
     w_Kind (subject ev) = WPulpBackup \<and> r = request_for (subject ev) \<and> updates generation_changed ev"
  by (auto simp: requests_def Backup_SetupWithManager_def handle quiet passes split_beta)

lemma restore_requests:
  "r \<in> requests R Restore_SetupWithManager ev w \<longleftrightarrow>
     updates generation_changed ev \<and>
     (w_Kind (subject ev) = WPulpRestore \<and> r = request_for (subject ev) \<or>
      w_Kind (subject ev) = WObject KConfigMap \<and> (\<exists>x \<in> set (versions ev). owner_request WPulpRestore x = Some r))"
  by (auto simp: requests_def Restore_SetupWithManager_def handle quiet passes split_beta)

text \<open>
  Removing the lock, as the controller's log advises, asks for the restore again; writing the data of
  the lock does not, as only specifications have a generation.
\<close>

lemma deleted_lock_reruns:
  assumes "w_Kind lock = WObject KConfigMap" "owner_request WPulpRestore lock = Some r"
  shows "requests R Restore_SetupWithManager (DeleteEvent lock) w = {r}"
  using assms by (auto simp: restore_requests subject_def)

lemma edited_lock_ignored:
  "meta_Generation (w_Meta lock) = meta_Generation (w_Meta lock') \<Longrightarrow>
    requests R Restore_SetupWithManager (UpdateEvent lock lock') w = {}"
  by (auto simp: restore_requests generation_changed_def)

end

subsection \<open>The index of referenced objects\<close>

definition refers_to :: "Pulp \<Rightarrow> string \<Rightarrow> bool" where
  "refers_to p n \<longleftrightarrow> (case indexerFunc p of Some keys \<Rightarrow> n \<in> set keys | None \<Rightarrow> False)"

text \<open>
  \<open>List\<close> with the field selector reads the cache: the resources of the namespace that \<open>indexerFunc\<close>
  files under the name.
\<close>

locale indexed_client =
  fixes X :: "'w Externals" and pulps :: "'w \<Rightarrow> Pulp list"
  assumes list: "x_ListPulps X ns n w = (Inr (filter (\<lambda>p. Pulp_Namespace p = ns \<and> refers_to p n) (pulps w)), w)"
begin

lemma dependents:
  "findPulpDependentObjects X m w =
    ((case filter (\<lambda>p. Pulp_Namespace p = meta_Namespace m \<and> refers_to p (meta_Name m)) (pulps w) of
        [] \<Rightarrow> [] | p # _ \<Rightarrow> [(Pulp_Namespace p, Pulp_Name p)]), w)"
  by (simp add: findPulpDependentObjects_def list split: list.split)

lemma dependents_quiet [simp]: "snd (findPulpDependentObjects X m w) = w"
  by (simp add: dependents)

lemma dependent_refers:
  assumes "r \<in> set (fst (findPulpDependentObjects X m w))"
  shows "\<exists>q \<in> set (pulps w). refers_to q (meta_Name m) \<and> Pulp_Namespace q = meta_Namespace m \<and> r = (Pulp_Namespace q, Pulp_Name q)"
  using assms by (auto simp: dependents split: list.splits dest!: Cons_eq_filterD)

lemma dependent_found:
  assumes "p \<in> set (pulps w)" "refers_to p (meta_Name m)" "Pulp_Namespace p = meta_Namespace m"
  obtains r where "r \<in> set (fst (findPulpDependentObjects X m w))"
proof -
  have "p \<in> set (filter (\<lambda>p. Pulp_Namespace p = meta_Namespace m \<and> refers_to p (meta_Name m)) (pulps w))"
    using assms by simp
  then show ?thesis using that [of "(_, _)"] by (cases "filter (\<lambda>p. Pulp_Namespace p = meta_Namespace m \<and> refers_to p (meta_Name m)) (pulps w)") (auto simp: dependents)
qed

end

subsection \<open>The requests of the Pulp controller\<close>

definition owned_kinds :: "bool \<Rightarrow> Kind set" where
  "owned_kinds openshift = {KStatefulSet, KDeployment, KService, KSecret, KConfigMap, KPDB, KServiceAccount, KHPA, KCronJob, KIngress}
     \<union> (if openshift then {KRoute} else {})"

text \<open>When an event asks for the reconciliation of a custom resource.\<close>

definition pulp_trigger :: "'w Externals \<Rightarrow> bool \<Rightarrow> Event \<Rightarrow> 'w \<Rightarrow> request \<Rightarrow> bool" where
  "pulp_trigger X openshift ev w r \<longleftrightarrow>
    (let k = w_Kind (subject ev)
     in k = WPulp \<and> r = request_for (subject ev) \<and> updates generation_changed ev
      \<or> k \<in> WObject ` owned_kinds openshift \<and> (\<exists>x \<in> set (versions ev). owner_request WPulp x = Some r)
          \<and> (k = WObject KCronJob \<longrightarrow> updates (\<lambda>x y. w_Status x = w_Status y) ev)
      \<or> k \<in> {WObject KSecret, WObject KConfigMap} \<and> updates version_changed ev
          \<and> (\<exists>x \<in> set (versions ev). r \<in> set (fst (findPulpDependentObjects X (w_Meta x) w))))"

lemma SetupWithManager_Inr:
  assumes "SetupWithManager X IndexField w = (Inr setup, w')"
  shows "setup = \<lparr>setup_For = WPulp, setup_Registrations =
    pulp_registrations X @ (if fst (on_openshift X (snd (IndexField w))) then [Owns (WObject KRoute) []] else [])\<rparr>"
  using assms by (auto simp: SetupWithManager_def split_beta Let_def split: option.splits)

locale watching = controller_runtime R + indexed_client X pulps
  for R :: "'w Runtime" and X :: "'w Externals" and pulps :: "'w \<Rightarrow> Pulp list"
begin

lemma handle_all_quiet: "snd (handle_all R k (pulp_registrations X) ev w) = w"
  by (simp add: pulp_registrations_def quiet split_beta)

lemma pulp_registrations_requests:
  "r \<in> set (fst (handle_all R WPulp (pulp_registrations X) ev w)) \<longleftrightarrow> pulp_trigger X False ev w r"
proof -
  note defs = pulp_registrations_def handle quiet passes split_beta ignore_cronjob_status_def
    ignoreCronjobStatus_def [abs_def] pulp_trigger_def owned_kinds_def Let_def
  show ?thesis
  proof (cases "w_Kind (subject ev)")
    case (WObject k)
    then show ?thesis by (cases k) (auto simp: defs)
  qed (auto simp: defs)
qed

lemma pulp_requests:
  assumes "SetupWithManager X IndexField w0 = (Inr setup, w1)"
  shows "r \<in> requests R setup ev w \<longleftrightarrow> pulp_trigger X (fst (on_openshift X (snd (IndexField w0)))) ev w r"
proof (cases "fst (on_openshift X (snd (IndexField w0)))")
  case True
  have "pulp_trigger X True ev w r \<longleftrightarrow> pulp_trigger X False ev w r \<or>
      w_Kind (subject ev) = WObject KRoute \<and> (\<exists>x \<in> set (versions ev). owner_request WPulp x = Some r)"
    by (auto simp: pulp_trigger_def owned_kinds_def Let_def)
  with True show ?thesis
    by (simp add: SetupWithManager_Inr [OF assms] requests_def handle_all_append pulp_registrations_requests
        handle_all_quiet handle split_beta)
next
  case False
  then show ?thesis by (simp add: SetupWithManager_Inr [OF assms] requests_def pulp_registrations_requests)
qed

end



subsection \<open>A manager that does what is documented\<close>

fun mem_passes :: "Predicate \<Rightarrow> Event \<Rightarrow> bool" where
  "mem_passes (UpdateFunc f) ev \<longleftrightarrow> updates f ev"
| "mem_passes GenerationChangedPredicate ev \<longleftrightarrow> updates generation_changed ev"
| "mem_passes ResourceVersionChangedPredicate ev \<longleftrightarrow> updates version_changed ev"

fun map_versions :: "(ObjectMeta \<Rightarrow> 'w \<Rightarrow> request list \<times> 'w) \<Rightarrow> Watched list \<Rightarrow> 'w \<Rightarrow> request list \<times> 'w" where
  "map_versions f [] w = ([], w)"
| "map_versions f (x # xs) w = (let (rs, w) = f (w_Meta x) w; (rs', w) = map_versions f xs w in (rs @ rs', w))"

lemma map_versions_quiet:
  assumes "\<And>m. snd (f m w) = w"
  shows "map_versions f xs w = (concat (map (\<lambda>x. fst (f (w_Meta x) w)) xs), w)"
  using assms by (induction xs) (simp_all add: split_beta)

fun mem_handle :: "WKind \<Rightarrow> 'w Registration \<Rightarrow> Event \<Rightarrow> 'w \<Rightarrow> request list \<times> 'w" where
  "mem_handle k (For k' ps) ev w =
    (if w_Kind (subject ev) = k' \<and> list_all (\<lambda>p. mem_passes p ev) ps then [request_for (subject ev)] else [], w)"
| "mem_handle k (Owns k' ps) ev w =
    (if w_Kind (subject ev) = k' \<and> list_all (\<lambda>p. mem_passes p ev) ps
     then concat (map (\<lambda>x. case owner_request k x of Some r \<Rightarrow> [r] | None \<Rightarrow> []) (versions ev)) else [], w)"
| "mem_handle k (Watches k' f ps) ev w =
    (if w_Kind (subject ev) = k' \<and> list_all (\<lambda>p. mem_passes p ev) ps
     then map_versions f (versions ev) w else ([], w))"

definition mem_manager :: "'w Runtime" where
  "mem_manager = \<lparr>cr_passes = mem_passes, cr_handle = mem_handle\<rparr>"

definition indexed_ext :: "mem Externals" where
  "indexed_ext = mem_ext\<lparr>x_ListPulps := \<lambda>ns n w.
     (Inr (filter (\<lambda>p. Pulp_Namespace p = ns \<and> refers_to p n) (mem_pulps w)), w)\<rparr>"

interpretation mem_manager: controller_runtime mem_manager
  by unfold_locales
     (force simp: mem_manager_def map_versions_quiet list_all_iff split: option.splits)+

interpretation indexed_ext: indexed_client indexed_ext mem_pulps
  by unfold_locales (simp add: indexed_ext_def)

interpretation mem_watching: watching mem_manager indexed_ext mem_pulps ..

text \<open>A resource that refers to a Secret by its name, and the event of a new version of it.\<close>

definition ex_referring_pulp :: Pulp where
  "ex_referring_pulp = zero_Pulp\<lparr>
     Pulp_Meta := zero_ObjectMeta\<lparr>meta_Name := ''p'', meta_Namespace := ''ns''\<rparr>,
     Pulp_Spec := zero_PulpSpec\<lparr>Spec_SSOSecret := ''sso''\<rparr>\<rparr>"

definition ex_watched :: "string \<Rightarrow> Watched" where
  "ex_watched version = \<lparr>w_Kind = WObject KSecret,
     w_Meta = zero_ObjectMeta\<lparr>meta_Name := ''sso'', meta_Namespace := ''ns'', meta_ResourceVersion := version\<rparr>,
     w_OwnerKind = WPulp, w_Status = JNull\<rparr>"

definition ex_setup :: "mem Setup" where
  "ex_setup = \<lparr>setup_For = WPulp, setup_Registrations = pulp_registrations indexed_ext\<rparr>"

lemma ex_SetupWithManager:
  "SetupWithManager indexed_ext (\<lambda>w. (None, w)) (mem_init p []) = (Inr ex_setup, mem_init p [])"
  by (simp add: SetupWithManager_def on_openshift_def IsOpenShift_def call_def indexed_ext_def mem_ext_def mem_init_def
      ex_setup_def Let_def)

lemma ex_refers: "refers_to ex_referring_pulp ''sso''"
  by (simp add: refers_to_def indexerFunc_def ex_referring_pulp_def zero_PulpSpec_def)


definition ex_written :: "int \<Rightarrow> json \<Rightarrow> Watched" where
  "ex_written generation status = \<lparr>w_Kind = WPulp,
     w_Meta = zero_ObjectMeta\<lparr>meta_Name := ''p'', meta_Namespace := ''ns'', meta_Generation := generation\<rparr>,
     w_OwnerKind = WPulp, w_Status = status\<rparr>"


subsection \<open>The manager\<close>

text \<open>
  \<open>main\<close>: the flags after parsing, the options of the manager, and the calls of the start; a
  call that fails ends the program with the code 1, but for the construction of the REST client.
\<close>

record Flags =
  metricsAddr :: string
  probeAddr :: string
  enableLeaderElection :: bool

definition default_Flags :: Flags where
  "default_Flags = \<lparr>metricsAddr = '':8080'', probeAddr = '':8081'', enableLeaderElection = False\<rparr>"

definition getWatchNamespace :: "(string \<Rightarrow> string option) \<Rightarrow> string" where
  "getWatchNamespace LookupEnv = (case LookupEnv ''WATCH_NAMESPACE'' of None \<Rightarrow> ''pulp-operator-system'' | Some ns \<Rightarrow> ns)"

record ManagerOptions =
  mo_MetricsBindAddress :: string
  mo_SecureServing :: bool
  mo_NextProtos :: "string list"
  mo_HealthProbeBindAddress :: string
  mo_LeaderElection :: bool
  mo_LeaderElectionID :: string
  mo_DefaultNamespaces :: "string list"

text \<open>No flag sets \<open>enableHTTP2\<close> or \<open>secureMetrics\<close>: they keep their zero value.\<close>

definition manager_options :: "(string \<Rightarrow> string option) \<Rightarrow> Flags \<Rightarrow> ManagerOptions" where
  "manager_options LookupEnv flags =
    (let enableHTTP2 = False; secureMetrics = False
     in \<lparr>mo_MetricsBindAddress = metricsAddr flags, mo_SecureServing = secureMetrics,
         mo_NextProtos = (if \<not> enableHTTP2 then [''http/1.1''] else []),
         mo_HealthProbeBindAddress = probeAddr flags, mo_LeaderElection = enableLeaderElection flags,
         mo_LeaderElectionID = ''3b5210cd.pulpproject.org'', mo_DefaultNamespaces = [getWatchNamespace LookupEnv]\<rparr>)"

record 'w StartUp =
  su_GetConfig :: "'w \<Rightarrow> error option \<times> 'w"
  su_NewManager :: "ManagerOptions \<Rightarrow> 'w \<Rightarrow> error option \<times> 'w"
  su_RESTClient :: "'w \<Rightarrow> error option \<times> 'w"
  su_IndexField :: "'w \<Rightarrow> error option \<times> 'w"
  su_Complete :: "'w Setup \<Rightarrow> 'w \<Rightarrow> error option \<times> 'w"
  su_AddHealthzCheck :: "'w \<Rightarrow> error option \<times> 'w"
  su_AddReadyzCheck :: "'w \<Rightarrow> error option \<times> 'w"
  su_Start :: "'w \<Rightarrow> error option \<times> 'w"

definition or_exit :: "error option \<times> 'w \<Rightarrow> ('w \<Rightarrow> nat \<times> 'w) \<Rightarrow> nat \<times> 'w" where
  "or_exit r k = (case r of (Some _, w) \<Rightarrow> (1, w) | (None, w) \<Rightarrow> k w)"

definition setup_pulp :: "'w Externals \<Rightarrow> 'w StartUp \<Rightarrow> 'w \<Rightarrow> error option \<times> 'w" where
  "setup_pulp X S w =
    (let (r, w) = SetupWithManager X (su_IndexField S) w
     in case r of Inl err \<Rightarrow> (Some err, w) | Inr setup \<Rightarrow> su_Complete S setup w)"

definition main :: "'w Externals \<Rightarrow> 'w StartUp \<Rightarrow> (string \<Rightarrow> string option) \<Rightarrow> Flags \<Rightarrow> 'w \<Rightarrow> nat \<times> 'w" where
  "main X S LookupEnv flags w =
    or_exit (su_GetConfig S w) (\<lambda>w.
    or_exit (su_NewManager S (manager_options LookupEnv flags) w) (\<lambda>w.
      (let (_, w) = su_RESTClient S w
       in or_exit (setup_pulp X S w) (\<lambda>w.
          or_exit (su_Complete S Backup_SetupWithManager w) (\<lambda>w.
          or_exit (su_Complete S Restore_SetupWithManager w) (\<lambda>w.
          or_exit (su_AddHealthzCheck S w) (\<lambda>w.
          or_exit (su_AddReadyzCheck S w) (\<lambda>w.
          or_exit (su_Start S w) (\<lambda>w. (0, w))))))))))"

lemma setup_pulp_rest_client [simp]: "setup_pulp X (S\<lparr>su_RESTClient := client\<rparr>) = setup_pulp X S"
  by (rule ext) (simp add: setup_pulp_def split_beta split: sum.split)

text \<open>A REST client that cannot be built goes unnoticed: the program starts without one.\<close>

lemma main_ignores_rest_client:
  assumes "\<And>w. snd (client w) = snd (su_RESTClient S w)"
  shows "main X (S\<lparr>su_RESTClient := client\<rparr>) LookupEnv flags w = main X S LookupEnv flags w"
  using assms by (simp add: main_def split_beta)

end
