(* ===== verification/Spec2Isabelle.thy ===== *)
theory Spec2Isabelle
  imports Isolation Restore_Props Watches
begin

text \<open>
  \<^bold>\<open>A model of the Pulp operator\<close>

  The Pulp operator is a Kubernetes controller. A user writes a custom resource of kind \<open>Pulp\<close>;
  \<open>RepoManagerReconciler.Reconcile\<close> reads it, validates it and creates or updates the objects that
  make up an instance: Secrets, ConfigMaps, volume claims, Deployments, Services, Jobs, an Ingress or
  Routes. It then writes what it found into the status of the resource. Each run is stateless: all state is
  in the cluster, and a run that could not finish is started again.

  \<^bold>\<open>State and effects.\<close> A run is a function on the state \<open>St\<close> (\<open>Kube_Client\<close>): the custom resource in memory,
  which Go code changes through a pointer, the events it recorded, and the world, an arbitrary type
  that only the functions of \<open>Externals\<close> read and change. \<open>Externals\<close> is the record of everything the
  operator calls and does not contain: the Kubernetes client (get, create, update, patch, delete,
  list), the condition helpers of apimachinery, random numbers, the clock, OpenPGP keys, the
  iteration order of Go maps (\<open>x_Schedule\<close>), the environment. A fallible call gives \<open>error + 'a\<close>, a Go pair of result and
  error gives a pair, and a function that may panic (index out of range, nil dereference, \<open>MustParse\<close>)
  gives an \<open>option\<close>, \<open>None\<close> being the panic.

  The backup and the restore controller (\<open>Backup_Types\<close>) run on a state \<open>Run\<close> of the same shape, with
  their own resource in memory and the record \<open>BackupExternals\<close>: the client calls on their resources, the clock's
  \<open>Sleep\<close>, and the YAML and JSON libraries.

  \<^bold>\<open>Assumptions on the outside.\<close> What a proof needs of \<open>Externals\<close> is a locale. On the cluster: \<open>condition_lib\<close> (setting, removing
  and testing conditions), \<open>pulp_store\<close> (an update of the status returns the custom resource that was
  sent), \<open>status_server\<close> (both), \<open>object_store\<close> (create, then get), \<open>quiet_cluster\<close> and \<open>quiet_status\<close> (nobody else changes the
  Deployments), \<open>go_runtime\<close> (random numbers are in range, a map is visited once per key), \<open>cluster\<close>, \<open>stable_cluster\<close>,
  \<open>reading_cluster\<close> and \<open>hpa_store\<close> (their combinations for creation, repetition, validation and autoscalers), \<open>api_server\<close> and \<open>isolated_server\<close> (a read gives the object
  asked for, a call has no effect but its own). On the parts of
  the operator: \<open>pulp_object\<close> (what \<open>ReconcileObject\<close> asks of a kind, interpreted on all seven), \<open>provisioners\<close> (constructors that make the
  object they are named for), \<open>answering\<close> (an error comes with a result, interpreted on every task of \<open>Reconcile\<close>), \<open>migrating\<close>. On the
  backups: \<open>backup_store\<close>, \<open>backup_reports\<close>, \<open>restore_store\<close>, \<open>pulp_objects\<close> (the calls on the resources), \<open>manager_log\<close> (the pod runs
  the commands it is given), \<open>backup_medium\<close> and \<open>pulp_medium\<close> (what the shell and the
  serialisers keep of a text), \<open>quiet_restore\<close> (nobody else works in the namespace). On events: \<open>controller_runtime\<close>,
  \<open>indexed_client\<close>, \<open>watching\<close>. \<open>Mem_Server\<close> and \<open>Mem_Backup\<close> are executable in-memory servers, the second with a small shell
  and file system, and \<open>mem_manager\<close> dispatches events; every locale is interpreted, and the witnesses of the theorems run on these.

  \<^bold>\<open>Theories.\<close>
  \<^item> \<open>Prelude\<close>: Go strings, maps (association lists with distinct keys), slices, panics.
  \<^item> \<open>K8s_Types\<close>, \<open>Kube_Client\<close>, \<open>Mem_Server\<close>: the objects of the cluster, the client, the example server.
  \<^item> \<open>Pulp_Types\<close>: \<open>apis/repo-manager.pulpproject.org/v1/pulp_types.go\<close>, one record per struct.
  \<^item> \<open>Settings\<close>: \<open>controllers/settings\<close>, the names and labels of the objects.
  \<^item> \<open>CR_Utils\<close>, \<open>Pod_Utils\<close>, \<open>Hashing\<close>, \<open>Reconcile_Object\<close>: \<open>controllers/utils.go\<close>. Names never collide, hashes
    (FNV-32a on words of 32 bits) survive the trip through a label, \<open>ReconcileObject\<close> answers every case
    without panic and treats a conflict as a retry, and the replicas of an autoscaled Deployment are ignored.
  \<^item> \<open>Provision\<close>, \<open>Ingress_Update\<close>: \<open>createPulpResource\<close>, \<open>UpdateCRField\<close>, \<open>updateIngressType\<close> and
    \<open>updateIngressClass\<close> of \<open>controllers/repo_manager/utils.go\<close>.
  \<^item> \<open>Prechecks\<close>: \<open>precheck.go\<close>. The checks pass exactly for the specifications that \<open>spec_valid\<close>
    describes on a cluster that \<open>cluster_valid\<close> describes.
  \<^item> \<open>Server_Settings\<close>: \<open>secret.go\<close>, \<open>sso.go\<close>, \<open>ldap.go\<close>. settings.py is a list of chunks, a variable
    name and the text that assigns it; the secret holds their concatenation. The theorems say whose assignment of a variable wins.
  \<^item> \<open>Secrets\<close>: the other secrets of \<open>secret.go\<close>, \<open>pvc.go\<close>, \<open>configmap.go\<close>, \<open>ocp/utils.go\<close>. A secret is looked
    up under the key it is created with; generated credentials have their shape.
  \<^item> \<open>Status\<close>: \<open>status.go\<close>. The status follows the specification, and the goroutines may run in any order.
  \<^item> \<open>Jobs\<close>: \<open>job.go\<close> and the migration part of \<open>utils.go\<close>. Mounts have volumes, a user cannot redirect a Job
    to another database, a change starts one migration.
  \<^item> \<open>Deployment_Builder\<close>, \<open>Deployment_Facts\<close>, \<open>Deployment_Props\<close>: \<open>controllers/deployment.go\<close>, \<open>telemetry.go\<close> and
    \<open>ocp/deployment.go\<close>. The builder is a state record and one definition per setter, run in the order of
    \<open>Deploy\<close>; mounts have volumes, selectors match, the operator's variables win, and when it panics.
  \<^item> \<open>Pulpcore_Controllers\<close>, \<open>Convergence\<close>: \<open>api.go\<close>, \<open>content.go\<close>, \<open>worker.go\<close>. Repeating the creation part ends with every object there.
  \<^item> \<open>Autoscaling\<close> (\<open>pdb.go\<close>, \<open>hpa.go\<close>), \<open>Rbac\<close> (\<open>rbac.go\<close>), \<open>Database\<close> (\<open>database.go\<close>), \<open>Redis\<close> (\<open>redis.go\<close>): the controllers of these objects. The one for
    autoscalers refines the map from components to the autoscalers asked for.
  \<^item> \<open>Web\<close> (\<open>web.go\<close>), \<open>Ingresses\<close> (both \<open>ingress.go\<close>, \<open>ocp/ingress.go\<close>), \<open>Routes\<close> (\<open>ocp/route.go\<close>): how an instance is reached. The plugins
    are parsed from the JSON a pod prints; the paths lead to ports that exist.
  \<^item> \<open>Controller\<close>: \<open>repo_manager/controller.go\<close>. \<open>Reconcile\<close> is the sequence of its tasks up to the first that answers.
  \<^item> \<open>Effects\<close>, \<open>Confinement_Tasks\<close>, \<open>Confinement\<close>, \<open>Isolation\<close>: what a reconciliation may do to the cluster. \<open>reaches\<close> is a policy,
    the worlds that come about by the calls allowed for one resource; one lemma for every operation shows that it stays \<open>within\<close> it, with
    a rule for each construct of the program text (\<open>vcg\<close>). From it follows by rule induction that other namespaces and other resources
    stay as they are, that only optional parts are removed, and that data is never deleted over any number of runs.
  \<^item> \<open>Backup_Types\<close>, \<open>Backup\<close>, \<open>Restore\<close>: \<open>controllers/backup\<close>, \<open>controllers/restore\<close> and the types of their resources. \<open>Backup_Props\<close>
    proves what a backup runs and reports, \<open>Backup_Restore\<close> that a secret, \<open>Restore_Props\<close> that the specification comes back, what a finished
    and what a repeated restore does.
  \<^item> \<open>Watches\<close>: \<open>SetupWithManager\<close> of the three controllers, the predicates, \<open>main.go\<close>: which events make a controller run.

  \<^bold>\<open>Bounds.\<close> \<open>json_elements\<close> is the only function with fuel; it is given the length of its input, and every
  element consumes at least two characters, so the fuel does not run out (\<open>json_elements_join\<close>). The waiting loops count
  down from the number of polls the code has (120 for pods and the database, 18 for the Deployments). The
  lexer of JSON ends by a measure on the rest of the text and its mode, the parser is a machine with a stack that
  consumes a token per step. All other loops are structural recursion over the list the code ranges over. Integers of the
  custom resource are \<open>int\<close>: the operator compares and prints them, and where it converts to a narrower type (ports of Services) the
  conversion is \<open>int32_of\<close>, with the wrap-around. Hashes are \<open>32 word\<close>.

  \<^bold>\<open>Concurrency.\<close> Goroutines that are waited for are modelled as a sequence in an arbitrary order; the data race on the status that the
  code allows between them is not. Those of \<open>Routes\<close>, which nobody waits for, are interleaved by the schedule \<open>x_Schedule\<close> with the rest of the
  controller as a whole. Other writers are part of the world: no law
  but those of the quiet locales says that it stays the same between two calls.

  \<^bold>\<open>Not modelled.\<close> Log output and the construction of loggers; the parsing of flags and the scheme
  of types, which are library calls without logic of their own; generated deep copies (values are immutable here); the half second
  \<open>ContainerExec\<close> sleeps; \<open>ManagedFields\<close>, which the client drops. Controller-runtime, the API server, the shell
  in the manager pod and the serialisers are parameters.
\<close>

end
